(* ===== verification/Go_Prelude.thy ===== *)
theory Go_Prelude
  imports Main "HOL-Library.Finite_Map"
begin

text \<open>
  What the components share: the fragment of Go and of its standard library that the operator
  uses, and generic lemmas about it.

  \<^item> \<open>GoErr\<close>: error values. The Kubernetes API classifies its errors by a status reason;
    \<^verbatim>\<open>fmt.Errorf("...: %w", ..., err)\<close> wraps one; a run-time panic (an index out of range)
    is an error of its own, so that \<open>no panic\<close> is a statement about results.
  \<^item> \<open>io\<close>: a computation that reads and writes a state and may return an error, with
    \<open>ret\<close>, \<open>throw\<close>, \<open>bindE\<close> (stop at the first error) and \<open>attempt\<close> (inspect the
    error, as \<^verbatim>\<open>if err := f(); err != nil\<close> does).
  \<^item> \<open>gomap\<close>: \<^verbatim>\<open>map[string]string\<close>, \<open>None\<close> being the nil map.
  \<^item> \<open>wrap32\<close>, \<open>wrap64\<close>: two's complement wrap-around of \<^verbatim>\<open>int32\<close> and
    \<^verbatim>\<open>int\<close>/\<^verbatim>\<open>int64\<close> arithmetic.
  \<^item> \<open>FormatInt\<close>, \<open>ParseInt\<close>: \<^verbatim>\<open>strconv.FormatInt(i, 10)\<close> and
    \<^verbatim>\<open>strconv.ParseInt(s, 10, 64)\<close>.
\<close>

section \<open>Errors and effectful computations\<close>

datatype StatusReason = NotFound | AlreadyExists | Conflict | OtherReason string

datatype GoErr = ApiStatus StatusReason string | Wrapped string GoErr | Panic string

fun ReasonForError :: "GoErr \<Rightarrow> StatusReason option" where
  "ReasonForError (ApiStatus r _) = Some r"
| "ReasonForError (Wrapped _ e) = ReasonForError e"
| "ReasonForError (Panic _) = None"

definition IsNotFound :: "GoErr \<Rightarrow> bool" where
  "IsNotFound e \<longleftrightarrow> ReasonForError e = Some NotFound"

definition IsAlreadyExists :: "GoErr \<Rightarrow> bool" where
  "IsAlreadyExists e \<longleftrightarrow> ReasonForError e = Some AlreadyExists"

definition IsConflict :: "GoErr \<Rightarrow> bool" where
  "IsConflict e \<longleftrightarrow> ReasonForError e = Some Conflict"

type_synonym ('s, 'a) io = "'s \<Rightarrow> (GoErr + 'a) \<times> 's"

definition ret :: "'a \<Rightarrow> ('s, 'a) io" where
  "ret x s = (Inr x, s)"

definition throw :: "GoErr \<Rightarrow> ('s, 'a) io" where
  "throw e s = (Inl e, s)"

definition attempt :: "('s, 'a) io \<Rightarrow> (GoErr + 'a \<Rightarrow> ('s, 'b) io) \<Rightarrow> ('s, 'b) io" where
  "attempt m f s = (case m s of (r, s') \<Rightarrow> f r s')"

definition bindE :: "('s, 'a) io \<Rightarrow> ('a \<Rightarrow> ('s, 'b) io) \<Rightarrow> ('s, 'b) io" where
  "bindE m f s = (case m s of (Inl e, s') \<Rightarrow> (Inl e, s') | (Inr x, s') \<Rightarrow> f x s')"

section \<open>Maps, integers and decimal strings\<close>

type_synonym gomap = "(string, string) fmap option"

definition entries :: "gomap \<Rightarrow> (string, string) fmap" where
  "entries m = (case m of None \<Rightarrow> fmempty | Some f \<Rightarrow> f)"

abbreviation mget :: "gomap \<Rightarrow> string \<Rightarrow> string option" where
  "mget m k \<equiv> fmlookup (entries m) k"

definition mempty :: "gomap \<Rightarrow> bool" where
  "mempty m \<longleftrightarrow> entries m = fmempty"

definition wrap32 :: "int \<Rightarrow> int" where
  "wrap32 x = (x + 2 ^ 31) mod 2 ^ 32 - 2 ^ 31"

definition wrap64 :: "int \<Rightarrow> int" where
  "wrap64 x = (x + 2 ^ 63) mod 2 ^ 64 - 2 ^ 63"

definition in_int32 :: "int \<Rightarrow> bool" where
  "in_int32 x \<longleftrightarrow> - (2 ^ 31) \<le> x \<and> x < 2 ^ 31"

definition in_int64 :: "int \<Rightarrow> bool" where
  "in_int64 x \<longleftrightarrow> - (2 ^ 63) \<le> x \<and> x < 2 ^ 63"

definition digit_char :: "nat \<Rightarrow> char" where
  "digit_char d = char_of (48 + d)"

definition char_digit :: "char \<Rightarrow> nat option" where
  "char_digit c = (let n = of_char c in if 48 \<le> n \<and> n \<le> (57 :: nat) then Some (n - 48) else None)"

fun nat_digits :: "nat \<Rightarrow> string" where
  "nat_digits n = (if n < 10 then [digit_char n] else nat_digits (n div 10) @ [digit_char (n mod 10)])"

declare nat_digits.simps [simp del]

definition FormatInt :: "int \<Rightarrow> string" where
  "FormatInt i = (if i < 0 then ''-'' @ nat_digits (nat (- i)) else nat_digits (nat i))"

fun digits_value :: "nat \<Rightarrow> string \<Rightarrow> nat option" where
  "digits_value acc [] = Some acc"
| "digits_value acc (c # cs) =
     (case char_digit c of None \<Rightarrow> None | Some d \<Rightarrow> digits_value (10 * acc + d) cs)"

definition ParseUint :: "string \<Rightarrow> nat option" where
  "ParseUint s = (if s = [] then None else digits_value 0 s)"

definition ParseInt :: "string \<Rightarrow> int option" where
  "ParseInt s =
     (case s of
        [] \<Rightarrow> None
      | c # cs \<Rightarrow>
          let neg = (c = CHR ''-'');
              body = (if c = CHR ''-'' \<or> c = CHR ''+'' then cs else s)
          in case ParseUint body of
               None \<Rightarrow> None
             | Some un \<Rightarrow>
                 if \<not> neg \<and> un \<ge> 2 ^ 63 then None
                 else if neg \<and> un > 2 ^ 63 then None
                 else Some (if neg then - int un else int un))"

section \<open>Lemmas\<close>

named_theorems io_simps \<open>unfolding of the effectful combinators\<close>

lemma ret_eq [simp, io_simps]: "ret x s = (Inr x, s)"
  by (simp add: ret_def)

lemma throw_eq [simp, io_simps]: "throw e s = (Inl e, s)"
  by (simp add: throw_def)

lemma bindE_eq [io_simps]:
  "bindE m f s = (case m s of (Inl e, s') \<Rightarrow> (Inl e, s') | (Inr x, s') \<Rightarrow> f x s')"
  by (simp add: bindE_def)

lemma attempt_eq [io_simps]: "attempt m f s = (case m s of (r, s') \<Rightarrow> f r s')"
  by (simp add: attempt_def)

lemma bindE_InrE [consumes 1, case_names bind]:
  assumes "bindE m f s = (Inr y, t)"
  obtains x s' where "m s = (Inr x, s')" and "f x s' = (Inr y, t)"
  using assms by (auto simp: bindE_def split: prod.splits sum.splits)

lemma bindE_InlE [consumes 1, case_names first second]:
  assumes "bindE m f s = (Inl e, t)"
  obtains "m s = (Inl e, t)" | x s' where "m s = (Inr x, s')" and "f x s' = (Inl e, t)"
  using assms by (auto simp: bindE_def split: prod.splits sum.splits)

lemma find_SomeD: "find P xs = Some x \<Longrightarrow> x \<in> set xs \<and> P x"
  by (auto simp: find_Some_iff)

lemma entries_simps [simp]: "entries None = fmempty" "entries (Some f) = f"
  by (simp_all add: entries_def)

lemma mempty_simps [simp]: "mempty None" "mempty (Some f) \<longleftrightarrow> f = fmempty"
  by (simp_all add: mempty_def)

lemma wrap32_id: "in_int32 x \<Longrightarrow> wrap32 x = x"
  by (simp add: wrap32_def in_int32_def)

lemma wrap32_range: "in_int32 (wrap32 x)"
  by (simp add: wrap32_def in_int32_def)

lemma wrap64_id: "in_int64 x \<Longrightarrow> wrap64 x = x"
  by (simp add: wrap64_def in_int64_def)

lemma char_digit_digit_char: "d < 10 \<Longrightarrow> char_digit (digit_char d) = Some d"
  by (simp add: char_digit_def digit_char_def)

lemma digit_char_not_sign: "d < 10 \<Longrightarrow> digit_char d \<noteq> CHR ''-'' \<and> digit_char d \<noteq> CHR ''+''"
proof -
  assume d: "d < 10"
  have "char_digit (CHR ''-'') = None" "char_digit (CHR ''+'') = None"
    by (simp_all add: char_digit_def)
  with char_digit_digit_char [OF d] show ?thesis by auto
qed

lemma nat_digits_nonempty [simp]: "nat_digits n \<noteq> []"
  by (subst nat_digits.simps) simp

lemma nat_digits_no_sign: "CHR ''-'' \<notin> set (nat_digits n) \<and> CHR ''+'' \<notin> set (nat_digits n)"
proof (induction n rule: nat_digits.induct)
  case (1 n)
  have "digit_char (n mod 10) \<noteq> CHR ''-'' \<and> digit_char (n mod 10) \<noteq> CHR ''+''"
    by (rule digit_char_not_sign) simp
  with 1 digit_char_not_sign [of n] show ?case
    by (auto simp: nat_digits.simps [of n])
qed

lemma digits_value_append:
  "digits_value acc (xs @ ys) = Option.bind (digits_value acc xs) (\<lambda>a. digits_value a ys)"
  by (induction acc xs rule: digits_value.induct) (auto split: option.splits)

lemma digits_value_nat_digits: "digits_value 0 (nat_digits n) = Some n"
proof (induction n rule: nat_digits.induct)
  case (1 n)
  show ?case
  proof (cases "n < 10")
    case True
    then show ?thesis
      by (simp add: nat_digits.simps [of n] char_digit_digit_char)
  next
    case False
    with 1 have "digits_value 0 (nat_digits (n div 10)) = Some (n div 10)" by simp
    with False show ?thesis
      by (simp add: nat_digits.simps [of n] digits_value_append char_digit_digit_char)
  qed
qed

lemma nat_digits_inject: "nat_digits m = nat_digits n \<longleftrightarrow> m = n"
  by (metis digits_value_nat_digits option.inject)

lemma ParseUint_nat_digits: "ParseUint (nat_digits n) = Some n"
  by (simp add: ParseUint_def digits_value_nat_digits)

lemma ParseInt_nat_digits: "n < 2 ^ 63 \<Longrightarrow> ParseInt (nat_digits n) = Some (int n)"
proof -
  assume n: "n < 2 ^ 63"
  obtain c cs where eq: "nat_digits n = c # cs"
    using nat_digits_nonempty [of n] by (cases "nat_digits n") auto
  then have "c \<noteq> CHR ''-''" "c \<noteq> CHR ''+''"
    using nat_digits_no_sign [of n] by auto
  with n eq ParseUint_nat_digits [of n] show ?thesis
    by (simp add: ParseInt_def)
qed

lemma ParseInt_neg: "0 < n \<Longrightarrow> n \<le> 2 ^ 63 \<Longrightarrow> ParseInt (CHR ''-'' # nat_digits n) = Some (- int n)"
  by (simp add: ParseInt_def ParseUint_nat_digits)

lemma ParseInt_FormatInt: "in_int64 i \<Longrightarrow> ParseInt (FormatInt i) = Some i"
  by (auto simp: FormatInt_def in_int64_def ParseInt_neg ParseInt_nat_digits nat_less_iff)

lemma FormatInt_nonempty [simp]: "FormatInt i \<noteq> []"
  by (simp add: FormatInt_def)

end
