(* ===== verification/Kube_Types.thy ===== *)
theory Kube_Types
  imports Go_Prelude
begin

text \<open>
  The Kubernetes API types that occur in the operator's own types and objects
  (\<^verbatim>\<open>metav1.ObjectMeta\<close>, \<^verbatim>\<open>metav1.Condition\<close>, \<^verbatim>\<open>corev1.Container\<close>,
  \<^verbatim>\<open>rbacv1.Role\<close>, \<^verbatim>\<open>appsv1.Deployment\<close>, ...), with the fields the operator reads or
  writes. A field whose value the operator only copies has type \<open>k8s\<close>, an opaque value; the
  remaining fields of a pod or container, which the API server or a user may fill in and the
  operator never looks at, are collected in one \<open>Other\<close> field. Pointers are options, slices
  are lists (the operator never distinguishes a nil slice from an empty one), times are
  nanoseconds as \<open>int\<close>.
\<close>

datatype k8s = K8sValue string

type_synonym time = int
type_synonym duration = int

record NamespacedName =
  nn_Namespace :: string
  nn_Name :: string

record OwnerReference =
  or_Name :: string
  or_UID :: string
  or_Controller :: bool

record ObjectMeta =
  om_Name :: string
  om_Namespace :: string
  om_UID :: string
  om_ResourceVersion :: string
  om_Generation :: int
  om_CreationTimestamp :: time
  om_Labels :: gomap
  om_Annotations :: gomap
  om_OwnerReferences :: "OwnerReference list"

record Condition =
  cd_Type :: string
  cd_Status :: string
  cd_ObservedGeneration :: int
  cd_LastTransitionTime :: time
  cd_Reason :: string
  cd_Message :: string

datatype IntOrString = IntVal int | StrVal string

record ResourceRequirements =
  rr_Limits :: "k8s option"
  rr_Requests :: "k8s option"
  rr_Claims :: "k8s list"

record EnvVar =
  ev_Name :: string
  ev_Value :: string
  ev_ValueFrom :: "k8s option"

record ContainerPort =
  cp_Name :: string
  cp_ContainerPort :: int
  cp_Protocol :: string

record Container =
  c_Name :: string
  c_Image :: string
  c_Args :: "string list"
  c_Env :: "EnvVar list"
  c_EnvFrom :: "k8s list"
  c_Ports :: "ContainerPort list"
  c_Resources :: ResourceRequirements
  c_VolumeMounts :: "k8s list"
  c_SecurityContext :: "k8s option"
  c_Other :: "k8s option"

record PodSpec =
  ps_ServiceAccountName :: string
  ps_Containers :: "Container list"
  ps_NodeSelector :: gomap
  ps_Tolerations :: "k8s list"
  ps_Affinity :: "k8s option"
  ps_SecurityContext :: "k8s option"
  ps_ImagePullSecrets :: "k8s list"
  ps_PriorityClassName :: string
  ps_TopologySpreadConstraints :: "k8s list"
  ps_Volumes :: "k8s list"
  ps_Other :: "k8s option"

record PodTemplateSpec =
  pt_Labels :: gomap
  pt_Annotations :: gomap
  pt_Spec :: PodSpec

record Deployment =
  dp_Meta :: ObjectMeta
  dp_Replicas :: "int option"
  dp_MatchLabels :: gomap
  dp_Template :: PodTemplateSpec

record ServiceAccount =
  sa_Meta :: ObjectMeta

record PolicyRule =
  pr_APIGroups :: "string list"
  pr_Resources :: "string list"
  pr_Verbs :: "string list"

record Role =
  ro_Meta :: ObjectMeta
  ro_Rules :: "PolicyRule list"

record Subject =
  su_Kind :: string
  su_Name :: string
  su_Namespace :: string

record RoleRef =
  rf_APIGroup :: string
  rf_Kind :: string
  rf_Name :: string

record RoleBinding =
  rb_Meta :: ObjectMeta
  rb_Subjects :: "Subject list"
  rb_RoleRef :: RoleRef

text \<open>Go's zero values, and the metadata literal \<^verbatim>\<open>metav1.ObjectMeta{Name: ..., Namespace: ...,
  Labels: ..., Annotations: ...}\<close> the operator builds its objects from.\<close>

definition zero_Resources :: ResourceRequirements where
  "zero_Resources = \<lparr>rr_Limits = None, rr_Requests = None, rr_Claims = []\<rparr>"

definition mk_meta :: "string \<Rightarrow> string \<Rightarrow> gomap \<Rightarrow> gomap \<Rightarrow> ObjectMeta" where
  "mk_meta name ns labels annotations =
     \<lparr>om_Name = name, om_Namespace = ns, om_UID = [], om_ResourceVersion = [], om_Generation = 0,
      om_CreationTimestamp = 0, om_Labels = labels, om_Annotations = annotations,
      om_OwnerReferences = []\<rparr>"

definition meta_key :: "ObjectMeta \<Rightarrow> NamespacedName" where
  "meta_key m = \<lparr>nn_Namespace = om_Namespace m, nn_Name = om_Name m\<rparr>"

definition ConditionTrue :: string where "ConditionTrue = ''True''"
definition ConditionFalse :: string where "ConditionFalse = ''False''"
definition ConditionUnknown :: string where "ConditionUnknown = ''Unknown''"

lemma mk_meta_sel [simp]:
  "om_Name (mk_meta n ns l a) = n" "om_Namespace (mk_meta n ns l a) = ns"
  "om_Labels (mk_meta n ns l a) = l" "om_Annotations (mk_meta n ns l a) = a"
  "om_OwnerReferences (mk_meta n ns l a) = []"
  "meta_key (mk_meta n ns l a) = \<lparr>nn_Namespace = ns, nn_Name = n\<rparr>"
  by (simp_all add: mk_meta_def meta_key_def)

lemma ConditionStatus_distinct [simp]:
  "ConditionTrue \<noteq> ConditionFalse" "ConditionFalse \<noteq> ConditionTrue"
  "ConditionUnknown \<noteq> ConditionTrue" "ConditionUnknown \<noteq> ConditionFalse"
  "ConditionTrue \<noteq> ConditionUnknown" "ConditionFalse \<noteq> ConditionUnknown"
  by (simp_all add: ConditionTrue_def ConditionFalse_def ConditionUnknown_def)

end
