(* ===== verification/Api_Types.thy ===== *)
theory Api_Types
  imports Kube_Types
begin

text \<open>
  The custom resources of \<^verbatim>\<open>api/v1beta1\<close>: \<^verbatim>\<open>Redkey\<close> (the user's desired state and the
  aggregated status) and \<^verbatim>\<open>RedkeyConfig\<close> (one sequenced snapshot of it, whose status Robin
  writes), their constants and methods, and the validation rules the \<^verbatim>\<open>+kubebuilder\<close> markers
  declare on them, which the API server evaluates on create and update.
\<close>

section \<open>RedkeyConfig and Redkey\<close>

record RedkeySubstatus =
  ss_Status :: string
  ss_UpgradingPartition :: int

record RedisNode =
  no_Role :: string
  no_IP :: string
  no_ReplicationStatus :: string

type_synonym nodes = "(string, RedisNode option) fmap option"

record RedisAuth =
  au_SecretName :: string

record Pdb =
  pd_Enabled :: bool
  pd_PdbSizeUnavailable :: IntOrString
  pd_PdbSizeAvailable :: IntOrString

record RobinConfigReconciler =
  rcr_IntervalSeconds :: "int option"
  rcr_IntervalOnErrorSeconds :: "int option"
  rcr_IntervalOnWaitSeconds :: "int option"

record RobinConfigCluster =
  rcc_ConnectionMaxRetries :: "int option"
  rcc_ConnectionBackOffSeconds :: "int option"
  rcc_ClusterCommandTimeoutSeconds :: "int option"
  rcc_ClusterMeetWaitSeconds :: "int option"
  rcc_RebalanceTimeoutSeconds :: "int option"

record RobinConfigMetrics =
  rcm_CollectionIntervalSeconds :: "int option"
  rcm_RedisInfoKeys :: "string list"
  rcm_MetricsLabels :: gomap

record RobinConfigProfiling =
  rcp_Enabled :: "bool option"

record RobinConfig =
  rc_Reconciler :: "RobinConfigReconciler option"
  rc_Cluster :: "RobinConfigCluster option"
  rc_Metrics :: "RobinConfigMetrics option"
  rc_Profiling :: "RobinConfigProfiling option"

record PartialPodSpec =
  pp_Containers :: "Container list"
  pp_InitContainers :: "k8s list"
  pp_EphemeralContainers :: "k8s list"
  pp_RestartPolicy :: string
  pp_TerminationGracePeriodSeconds :: "int option"
  pp_DNSPolicy :: string
  pp_NodeSelector :: gomap
  pp_ServiceAccountName :: string
  pp_SecurityContext :: "k8s option"
  pp_ImagePullSecrets :: "k8s list"
  pp_Affinity :: "k8s option"
  pp_Tolerations :: "k8s list"
  pp_PriorityClassName :: string
  pp_TopologySpreadConstraints :: "k8s list"
  pp_Volumes :: "k8s list"

record PartialPodTemplateSpec =
  ppt_Metadata :: ObjectMeta
  ppt_Spec :: PartialPodSpec

record PartialStatefulSetSpec =
  pss_MinReadySeconds :: "int option"
  pss_Replicas :: "int option"
  pss_Selector :: "k8s option"
  pss_ServiceName :: string
  pss_Template :: "PartialPodTemplateSpec option"
  pss_UpdateStrategy :: "k8s option"
  pss_RevisionHistoryLimit :: "int option"
  pss_PodManagementPolicy :: string
  pss_VolumeClaimTemplates :: "k8s list"
  pss_PersistentVolumeClaimRetentionPolicy :: "k8s option"
  pss_Ordinals :: "k8s option"

record PartialStatefulSet =
  pst_APIVersion :: string
  pst_Kind :: string
  pst_Metadata :: ObjectMeta
  pst_Spec :: "PartialStatefulSetSpec option"

record PartialServiceSpec =
  psv_Ports :: "k8s list"
  psv_Selector :: gomap
  psv_ClusterIP :: string
  psv_Type :: string
  psv_PublishNotReadyAddresses :: bool

record PartialService =
  psr_APIVersion :: string
  psr_Kind :: string
  psr_Metadata :: ObjectMeta
  psr_Spec :: "PartialServiceSpec option"

record RedkeyOverrideSpec =
  ov_StatefulSet :: "PartialStatefulSet option"
  ov_Service :: "PartialService option"

record RobinSpec =
  rs_Image :: string
  rs_Resources :: "ResourceRequirements option"
  rs_Template :: "PartialPodTemplateSpec option"
  rs_Config :: "RobinConfig option"

record RedkeySpec =
  sp_Auth :: RedisAuth
  sp_Version :: string
  sp_Mode :: string
  sp_Primaries :: int
  sp_ReplicasPerPrimary :: int
  sp_Image :: string
  sp_DeletePVC :: "bool option"
  sp_Backup :: bool
  sp_Robin :: RobinSpec
  sp_SkipIfSuperseded :: bool
  sp_PurgeKeysOnRebalance :: "bool option"
  sp_Config :: string
  sp_Resources :: "ResourceRequirements option"
  sp_Labels :: "gomap option"
  sp_Annotations :: "gomap option"
  sp_Pdb :: Pdb
  sp_Override :: "RedkeyOverrideSpec option"
  sp_Ephemeral :: bool
  sp_Storage :: string
  sp_StorageClassName :: string
  sp_AccessModes :: "string list"

record RedkeyStatus =
  st_Replicas :: int
  st_Phase :: string
  st_Status :: string
  st_Substatus :: RedkeySubstatus
  st_Nodes :: nodes
  st_Conditions :: "Condition list"
  st_LastUpdatedAt :: "time option"
  st_ObservedGeneration :: int
  st_LastAppliedPrimaries :: int
  st_LastAppliedReplicasPerPrimary :: int

record Redkey =
  rk_Meta :: ObjectMeta
  rk_Spec :: RedkeySpec
  rk_Status :: RedkeyStatus

record RedkeyConfigSpec =
  cs_Sequence :: int
  cs_SkipIfSuperseded :: bool
  cs_Mode :: string
  cs_Primaries :: int
  cs_ReplicasPerPrimary :: int
  cs_Ephemeral :: bool
  cs_Storage :: string
  cs_StorageClassName :: string
  cs_Image :: string
  cs_Version :: string
  cs_RedisConfig :: string
  cs_Resources :: "ResourceRequirements option"
  cs_Auth :: RedisAuth
  cs_Labels :: "gomap option"
  cs_Annotations :: "gomap option"
  cs_DeletePVC :: "bool option"
  cs_PurgeKeysOnRebalance :: "bool option"
  cs_Override :: "RedkeyOverrideSpec option"
  cs_Pdb :: Pdb
  cs_RobinConfig :: "RobinConfig option"

record RedkeyConfigStatus =
  ct_ConfigPhase :: string
  ct_Status :: string
  ct_Substatus :: RedkeySubstatus
  ct_Nodes :: nodes
  ct_Conditions :: "Condition list"
  ct_LastUpdatedAt :: "time option"
  ct_ObservedGeneration :: int

record RedkeyConfig =
  cf_Meta :: ObjectMeta
  cf_Spec :: RedkeyConfigSpec
  cf_Status :: RedkeyConfigStatus

section \<open>Constants\<close>

definition ModeCluster :: string where "ModeCluster = ''cluster''"
definition ModeStandalone :: string where "ModeStandalone = ''standalone''"

definition PhaseReady :: string where "PhaseReady = ''Ready''"
definition PhaseConfiguring :: string where "PhaseConfiguring = ''Configuring''"
definition PhaseError :: string where "PhaseError = ''Error''"

definition ConfigPhasePending :: string where "ConfigPhasePending = ''Pending''"
definition ConfigPhaseInProgress :: string where "ConfigPhaseInProgress = ''InProgress''"
definition ConfigPhaseSuperseded :: string where "ConfigPhaseSuperseded = ''Superseded''"
definition ConfigPhaseApplied :: string where "ConfigPhaseApplied = ''Applied''"

definition ClusterStatusInitializing :: string where "ClusterStatusInitializing = ''Initializing''"
definition ClusterStatusConfiguring :: string where "ClusterStatusConfiguring = ''Configuring''"
definition ClusterStatusReady :: string where "ClusterStatusReady = ''Ready''"
definition ClusterStatusScalingUp :: string where "ClusterStatusScalingUp = ''ScalingUp''"
definition ClusterStatusScalingDown :: string where "ClusterStatusScalingDown = ''ScalingDown''"
definition ClusterStatusScalingToZero :: string where "ClusterStatusScalingToZero = ''ScalingToZero''"
definition ClusterStatusUpgrading :: string where "ClusterStatusUpgrading = ''Upgrading''"
definition ClusterStatusMaintenance :: string where "ClusterStatusMaintenance = ''Maintenance''"
definition ClusterPhaseRebalancing :: string where "ClusterPhaseRebalancing = ''Rebalancing''"
definition ClusterPhaseError :: string where "ClusterPhaseError = ''Error''"

definition ConditionHealthy :: string where "ConditionHealthy = ''Healthy''"
definition ConditionMembershipHealthy :: string where "ConditionMembershipHealthy = ''MembershipHealthy''"
definition ConditionSlotsCovered :: string where "ConditionSlotsCovered = ''SlotsCovered''"
definition ConditionSlotsBalanced :: string where "ConditionSlotsBalanced = ''SlotsBalanced''"
definition ConditionReplicasBalanced :: string where "ConditionReplicasBalanced = ''ReplicasBalanced''"
definition ConditionClusterCheckPassing :: string where "ConditionClusterCheckPassing = ''ClusterCheckPassing''"

definition zero_Substatus :: RedkeySubstatus where
  "zero_Substatus = \<lparr>ss_Status = [], ss_UpgradingPartition = 0\<rparr>"

definition zero_ConfigStatus :: RedkeyConfigStatus where
  "zero_ConfigStatus = \<lparr>ct_ConfigPhase = [], ct_Status = [], ct_Substatus = zero_Substatus,
     ct_Nodes = None, ct_Conditions = [], ct_LastUpdatedAt = None, ct_ObservedGeneration = 0\<rparr>"

section \<open>Methods\<close>

text \<open>\<^verbatim>\<open>int(s.Primaries + (s.Primaries * s.ReplicasPerPrimary))\<close>: the arithmetic is done in
  \<^verbatim>\<open>int32\<close> and wraps there; only the result is widened.\<close>

definition NodesNeeded :: "RedkeySpec \<Rightarrow> int" where
  "NodesNeeded s = wrap32 (sp_Primaries s + wrap32 (sp_Primaries s * sp_ReplicasPerPrimary s))"

definition IsStandalone :: "RedkeySpec \<Rightarrow> bool" where
  "IsStandalone s \<longleftrightarrow> sp_Mode s = ModeStandalone"

definition config_IsStandalone :: "RedkeyConfigSpec \<Rightarrow> bool" where
  "config_IsStandalone s \<longleftrightarrow> cs_Mode s = ModeStandalone"

definition redkey_NamespacedName :: "Redkey \<Rightarrow> NamespacedName" where
  "redkey_NamespacedName r =
     \<lparr>nn_Namespace = om_Namespace (rk_Meta r), nn_Name = om_Name (rk_Meta r)\<rparr>"

definition GetLabels :: "Redkey \<Rightarrow> gomap" where
  "GetLabels r = (case sp_Labels (rk_Spec r) of Some m \<Rightarrow> m | None \<Rightarrow> Some fmempty)"

section \<open>Validation rules\<close>

text \<open>
  \<open>has(x)\<close> on an optional field is its presence in the JSON object, which Go's
  \<^verbatim>\<open>omitempty\<close> encoding gives exactly to non-zero values.
\<close>

definition spec_rules :: "RedkeySpec \<Rightarrow> bool" where
  "spec_rules s \<longleftrightarrow>
     (sp_Ephemeral s \<or> sp_Storage s \<noteq> []) \<and>
     \<not> (sp_Ephemeral s \<and> sp_Storage s \<noteq> []) \<and>
     \<not> (\<not> sp_Ephemeral s \<and> sp_PurgeKeysOnRebalance s = Some True) \<and>
     (sp_Mode s \<noteq> ModeStandalone \<or> sp_Primaries s \<le> 1) \<and>
     (sp_Mode s \<noteq> ModeStandalone \<or> sp_ReplicasPerPrimary s = 0) \<and>
     sp_Mode s \<in> {ModeCluster, ModeStandalone} \<and>
     0 \<le> sp_Primaries s"

definition spec_transition_rules :: "RedkeySpec \<Rightarrow> RedkeySpec \<Rightarrow> bool" where
  "spec_transition_rules old s \<longleftrightarrow>
     sp_Mode s = sp_Mode old \<and>
     sp_Ephemeral s = sp_Ephemeral old \<and>
     (sp_Storage s \<noteq> [] \<and> sp_Storage old \<noteq> [] \<longrightarrow> sp_Storage s = sp_Storage old) \<and>
     sp_StorageClassName s = sp_StorageClassName old \<and>
     (sp_AccessModes s \<noteq> [] \<and> sp_AccessModes old \<noteq> [] \<longrightarrow> sp_AccessModes s = sp_AccessModes old)"

definition scale_from_zero_primaries_rule :: "Redkey \<Rightarrow> Redkey \<Rightarrow> bool" where
  "scale_from_zero_primaries_rule old self \<longleftrightarrow>
     sp_Ephemeral (rk_Spec self) \<or> sp_Primaries (rk_Spec old) \<noteq> 0 \<or> sp_Primaries (rk_Spec self) = 0 \<or>
     \<not> st_LastAppliedPrimaries (rk_Status self) \<noteq> 0 \<or>
     sp_Primaries (rk_Spec self) = st_LastAppliedPrimaries (rk_Status self)"

definition scale_from_zero_replicas_rule :: "Redkey \<Rightarrow> Redkey \<Rightarrow> bool" where
  "scale_from_zero_replicas_rule old self \<longleftrightarrow>
     sp_Ephemeral (rk_Spec self) \<or> sp_Primaries (rk_Spec old) \<noteq> 0 \<or> sp_Primaries (rk_Spec self) = 0 \<or>
     \<not> st_LastAppliedPrimaries (rk_Status self) \<noteq> 0 \<or>
     sp_ReplicasPerPrimary (rk_Spec self) =
       (if st_LastAppliedReplicasPerPrimary (rk_Status self) \<noteq> 0
        then st_LastAppliedReplicasPerPrimary (rk_Status self) else 0)"

definition admit_create :: "Redkey \<Rightarrow> bool" where
  "admit_create r \<longleftrightarrow> spec_rules (rk_Spec r)"

definition admit_update :: "Redkey \<Rightarrow> Redkey \<Rightarrow> bool" where
  "admit_update old self \<longleftrightarrow>
     spec_rules (rk_Spec self) \<and> spec_transition_rules (rk_Spec old) (rk_Spec self) \<and>
     scale_from_zero_primaries_rule old self \<and> scale_from_zero_replicas_rule old self"

section \<open>Lemmas\<close>

lemmas constant_defs =
  ModeCluster_def ModeStandalone_def PhaseReady_def PhaseConfiguring_def PhaseError_def
  ConfigPhasePending_def ConfigPhaseInProgress_def ConfigPhaseSuperseded_def ConfigPhaseApplied_def
  ClusterStatusReady_def ClusterPhaseError_def ClusterStatusInitializing_def ClusterStatusConfiguring_def
  ClusterStatusScalingUp_def ClusterStatusScalingDown_def ClusterStatusScalingToZero_def
  ClusterStatusUpgrading_def ClusterStatusMaintenance_def ClusterPhaseRebalancing_def
  ConditionHealthy_def ConditionMembershipHealthy_def ConditionSlotsCovered_def
  ConditionSlotsBalanced_def ConditionReplicasBalanced_def ConditionClusterCheckPassing_def

lemma wrap32_cong: "(x - y) mod 2 ^ 32 = 0 \<Longrightarrow> wrap32 x = wrap32 y"
proof -
  assume "(x - y) mod 2 ^ 32 = 0"
  then have "x mod 2 ^ 32 = y mod 2 ^ 32"
    by (simp add: mod_eq_dvd_iff dvd_eq_mod_eq_0)
  then have "(x + 2 ^ 31) mod 2 ^ 32 = (y + 2 ^ 31) mod 2 ^ 32"
    by (rule mod_add_cong) simp
  then show ?thesis by (simp add: wrap32_def)
qed

lemma NodesNeeded_eq: "NodesNeeded s = wrap32 (sp_Primaries s * (1 + sp_ReplicasPerPrimary s))"
proof -
  define p r where pr: "p = sp_Primaries s" "r = sp_ReplicasPerPrimary s"
  have "p + wrap32 (p * r) - p * (1 + r) = (p * r + 2 ^ 31) mod 2 ^ 32 - (p * r + 2 ^ 31)"
    by (simp add: wrap32_def algebra_simps)
  then have "(p + wrap32 (p * r) - p * (1 + r)) mod 2 ^ 32 = 0"
    by (simp only: mod_diff_left_eq) simp
  then show ?thesis
    unfolding NodesNeeded_def pr by (rule wrap32_cong)
qed

end
