(* ===== verification/Kube_Env.thy ===== *)
theory Kube_Env
  imports Api_Types
begin

text \<open>
  What the operator calls but does not implement, as parameters: the controller-runtime client
  (one \<open>resource_client\<close> per kind of object, the label-selecting list, the status
  sub-resource), \<^verbatim>\<open>controllerutil.SetControllerReference\<close>, \<^verbatim>\<open>retry.RetryOnConflict\<close>,
  \<^verbatim>\<open>meta.SetStatusCondition\<close>/\<^verbatim>\<open>FindStatusCondition\<close>, \<^verbatim>\<open>equality.Semantic\<close> and the
  clock. They form one record \<open>env\<close> over an arbitrary type \<open>'w\<close> of worlds, an argument of
  every definition that uses them; calls to the Prometheus library are appended to a log.

  The locales state what their documentation promises, interface by interface. Properties that
  need a promise name the locale as a hypothesis; properties of control flow hold for every
  \<open>env\<close>. The theory of the in-memory API server interprets all of them.
\<close>

section \<open>The parameters\<close>

record ('a, 'w) resource_client =
  rc_get :: "NamespacedName \<Rightarrow> ('w, 'a) io"
  rc_create :: "'a \<Rightarrow> ('w, unit) io"
  rc_patch :: "'a \<Rightarrow> 'a \<Rightarrow> ('w, unit) io"
  rc_delete :: "NamespacedName \<Rightarrow> ('w, unit) io"

record 'w env =
  e_serviceaccounts :: "(ServiceAccount, 'w) resource_client"
  e_roles :: "(Role, 'w) resource_client"
  e_rolebindings :: "(RoleBinding, 'w) resource_client"
  e_deployments :: "(Deployment, 'w) resource_client"
  e_configs :: "(RedkeyConfig, 'w) resource_client"
  e_get_redkey :: "NamespacedName \<Rightarrow> ('w, Redkey) io"
  e_status_update :: "Redkey \<Rightarrow> ('w, Redkey) io"
  e_list_configs :: "string \<Rightarrow> string \<times> string \<Rightarrow> ('w, RedkeyConfig list) io"
  e_now :: "'w \<Rightarrow> time \<times> 'w"
  e_set_controller_reference :: "Redkey \<Rightarrow> ObjectMeta \<Rightarrow> GoErr + ObjectMeta"
  e_retry_on_conflict :: "('w, RedkeyStatus) io \<Rightarrow> ('w, RedkeyStatus) io"
  e_set_status_condition :: "Condition list \<Rightarrow> Condition \<Rightarrow> 'w \<Rightarrow> Condition list \<times> 'w"
  e_find_status_condition :: "Condition list \<Rightarrow> string \<Rightarrow> Condition option"
  e_equal_map :: "gomap \<Rightarrow> gomap \<Rightarrow> bool"
  e_equal_rules :: "PolicyRule list \<Rightarrow> PolicyRule list \<Rightarrow> bool"
  e_equal_subjects :: "Subject list \<Rightarrow> Subject list \<Rightarrow> bool"
  e_derivative_podspec :: "PodSpec \<Rightarrow> PodSpec \<Rightarrow> bool"

text \<open>The operator's own state beside the world: the calls made to the Prometheus vectors, in
  order, and the two in-memory trackers of \<^verbatim>\<open>metrics.go\<close>.\<close>

datatype metric_call =
    GaugeSet string "string list" int
  | GaugeDeletePartialMatch string "(string \<times> string) list"
  | CounterInc string "string list"
  | HistogramObserve string "string list" duration

record activeOperation =
  ao_operation :: string
  ao_startedAt :: time

record 'w opstate =
  world :: 'w
  metric_log :: "metric_call list"
  opTracker_active :: "NamespacedName \<Rightarrow> activeOperation option"
  readyTracker_lastPhase :: "NamespacedName \<Rightarrow> string option"

definition liftW :: "('w, 'a) io \<Rightarrow> ('w opstate, 'a) io" where
  "liftW m s = (case m (world s) of (r, w') \<Rightarrow> (r, s\<lparr>world := w'\<rparr>))"

definition liftP :: "('w \<Rightarrow> 'a \<times> 'w) \<Rightarrow> ('w, 'a) io" where
  "liftP m w = (case m w of (x, w') \<Rightarrow> (Inr x, w'))"

definition liftR :: "GoErr + 'a \<Rightarrow> ('s, 'a) io" where
  "liftR r s = (r, s)"

definition emit :: "metric_call \<Rightarrow> ('w opstate, unit) io" where
  "emit c s = (Inr (), s\<lparr>metric_log := metric_log s @ [c]\<rparr>)"

section \<open>Status conditions\<close>

definition cond_core :: "Condition \<Rightarrow> string \<times> string \<times> string \<times> string" where
  "cond_core c = (cd_Type c, cd_Status c, cd_Reason c, cd_Message c)"

definition cond_of :: "'w env \<Rightarrow> Condition list \<Rightarrow> string \<Rightarrow> (string \<times> string \<times> string \<times> string) option" where
  "cond_of e cs t = map_option cond_core (e_find_status_condition e cs t)"

locale status_conditions =
  fixes e :: "'w env"
  assumes find_set_same:
      "map_option cond_core (e_find_status_condition e (fst (e_set_status_condition e cs c w)) (cd_Type c))
         = Some (cond_core c)"
    and find_set_other:
      "t \<noteq> cd_Type c \<Longrightarrow>
         e_find_status_condition e (fst (e_set_status_condition e cs c w)) t
           = e_find_status_condition e cs t"
    and find_type:
      "e_find_status_condition e cs t = Some c' \<Longrightarrow> cd_Type c' = t"
begin

lemma cond_of_set:
  "e_set_status_condition e cs c w = (cs', w') \<Longrightarrow>
     cond_of e cs' t = (if t = cd_Type c then Some (cond_core c) else cond_of e cs t)"
  using find_set_same [of cs c w] find_set_other [of t c cs w] by (auto simp: cond_of_def)

end

section \<open>Semantic equality\<close>

text \<open>\<^verbatim>\<open>equality.Semantic.DeepEqual\<close> identifies nil and empty maps and is otherwise structural;
  \<^verbatim>\<open>DeepDerivative(a, b)\<close> ignores what \<open>a\<close> leaves unset, so it holds of equal values.\<close>

locale semantic_equality =
  fixes e :: "'w env"
  assumes equal_map [simp]: "e_equal_map e a b \<longleftrightarrow> entries a = entries b"
    and equal_rules [simp]: "e_equal_rules e rs rs' \<longleftrightarrow> rs = rs'"
    and equal_subjects [simp]: "e_equal_subjects e ss ss' \<longleftrightarrow> ss = ss'"
    and derivative_refl: "e_derivative_podspec e p p"

section \<open>Retrying on conflicts\<close>

text \<open>\<^verbatim>\<open>retry.RetryOnConflict\<close> runs the function, runs it again only after a conflict, and
  returns what its last run returned.\<close>

inductive retry_run :: "('w, 'a) io \<Rightarrow> 'w \<Rightarrow> (GoErr + 'a) \<times> 'w \<Rightarrow> bool" for f where
  last_run: "retry_run f w (f w)"
| again: "f w = (Inl err, w') \<Longrightarrow> IsConflict err \<Longrightarrow> retry_run f w' res \<Longrightarrow> retry_run f w res"

locale retry_contract =
  fixes e :: "'w env"
  assumes retry_runs: "retry_run f w (e_retry_on_conflict e f w)"
    and retry_no_conflict:
      "(\<nexists>err w'. f w = (Inl err, w') \<and> IsConflict err) \<Longrightarrow> e_retry_on_conflict e f w = f w"

section \<open>The object store\<close>

datatype Kind = KRedkey | KConfig | KServiceAccount | KRole | KRoleBinding | KDeployment

datatype Object =
    ORedkey Redkey | OConfig RedkeyConfig | OServiceAccount ServiceAccount | ORole Role
  | ORoleBinding RoleBinding | ODeployment Deployment

type_synonym okey = "Kind \<times> NamespacedName"

text \<open>
  \<open>look w (kind, key)\<close> is the object stored in world \<open>w\<close>. A client of one kind promises that
  reads return what is stored, that a valid object is created when the name is free, that a
  patch of the stored object by an object that respects the immutable fields stores it, and that
  a delete removes it; nothing else changes. \<open>agrees x y\<close> relates a submitted object to the
  stored one, which the server completes (uid, resource version, defaulted fields).
\<close>

locale resource_store =
  fixes rc :: "('a, 'w) resource_client"
    and kd :: Kind
    and inj :: "'a \<Rightarrow> Object"
    and key :: "'a \<Rightarrow> NamespacedName"
    and look :: "'w \<Rightarrow> okey \<Rightarrow> Object option"
    and valid :: "'a \<Rightarrow> bool"
    and immutable_eq :: "'a \<Rightarrow> 'a \<Rightarrow> bool"
    and agrees :: "'a \<Rightarrow> 'a \<Rightarrow> bool"
  assumes inj_eq [simp]: "inj x = inj y \<longleftrightarrow> x = y"
    and stored: "look w (kd, k) = Some ob \<Longrightarrow> \<exists>x. ob = inj x \<and> key x = k"
    and get_some: "look w (kd, k) = Some (inj x) \<Longrightarrow> rc_get rc k w = (Inr x, w)"
    and get_none: "look w (kd, k) = None \<Longrightarrow> \<exists>err. rc_get rc k w = (Inl err, w) \<and> IsNotFound err"
    and create_free: "look w (kd, key x) = None \<Longrightarrow> valid x \<Longrightarrow>
          \<exists>w' y. rc_create rc x w = (Inr (), w') \<and> look w' = (look w)((kd, key x) \<mapsto> inj y) \<and> agrees x y"
    and create_taken: "look w (kd, key x) \<noteq> None \<Longrightarrow>
          \<exists>err. rc_create rc x w = (Inl err, w) \<and> IsAlreadyExists err"
    and patch_stored: "look w (kd, key x) = Some (inj base) \<Longrightarrow> valid x \<Longrightarrow> immutable_eq base x \<Longrightarrow>
          \<exists>w' y. rc_patch rc x base w = (Inr (), w') \<and> look w' = (look w)((kd, key x) \<mapsto> inj y) \<and> agrees x y"
    and delete_some: "look w (kd, k) \<noteq> None \<Longrightarrow>
          \<exists>w'. rc_delete rc k w = (Inr (), w') \<and> look w' = (look w)((kd, k) := None)"
    and delete_none: "look w (kd, k) = None \<Longrightarrow>
          \<exists>err. rc_delete rc k w = (Inl err, w) \<and> IsNotFound err"
begin

lemma get_cases:
  obtains (found) x where "look w (kd, k) = Some (inj x)" "key x = k" "rc_get rc k w = (Inr x, w)"
    | (missing) err where "look w (kd, k) = None" "rc_get rc k w = (Inl err, w)" "IsNotFound err"
proof (cases "look w (kd, k)")
  case None
  with get_none [OF None] that(2) show thesis by blast
next
  case (Some ob)
  with stored [OF Some] that(1) get_some show thesis by blast
qed

lemma delete_cases:
  obtains (deleted) w' where "rc_delete rc k w = (Inr (), w')" "look w' = (look w)((kd, k) := None)"
    | (absent) err where "rc_delete rc k w = (Inl err, w)" "IsNotFound err" "look w (kd, k) = None"
  using delete_some [of w k] delete_none [of w k] by blast

text \<open>\<open>reaches w m k ok\<close>: run from \<open>w\<close>, \<open>m\<close> succeeds, leaves an object with property \<open>ok\<close>
  under \<open>k\<close>, and changes no other object.\<close>

definition reaches :: "'w \<Rightarrow> ('w, unit) io \<Rightarrow> NamespacedName \<Rightarrow> ('a \<Rightarrow> bool) \<Rightarrow> bool" where
  "reaches w m k ok \<longleftrightarrow>
     (\<exists>w'. m w = (Inr (), w') \<and> (\<exists>y. look w' (kd, k) = Some (inj y) \<and> ok y) \<and>
           (\<forall>q. q \<noteq> (kd, k) \<longrightarrow> look w' q = look w q))"

lemma reaches_ret: "look w (kd, k) = Some (inj x) \<Longrightarrow> ok x \<Longrightarrow> reaches w (ret ()) k ok"
  by (auto simp: reaches_def)

lemma reaches_create:
  assumes "look w (kd, k) = None" "key d = k" "valid d" "\<And>y. agrees d y \<Longrightarrow> ok y"
  shows "reaches w (rc_create rc d) k ok"
  using create_free [of w d] assms by (auto simp: reaches_def)

lemma reaches_patch:
  assumes "look w (kd, k) = Some (inj x)" "key x' = k" "valid x'" "immutable_eq x x'"
    "\<And>y. agrees x' y \<Longrightarrow> ok y"
  shows "reaches w (rc_patch rc x' x) k ok"
  using patch_stored [of w x' x] assms by (auto simp: reaches_def)

lemma reaches_recreate:
  assumes "look w (kd, k) = Some (inj x)" "key d = k" "valid d" "\<And>y. agrees d y \<Longrightarrow> ok y"
  shows "reaches w (bindE (rc_delete rc k) (\<lambda>_. rc_create rc d)) k ok"
proof -
  obtain w1 where del: "rc_delete rc k w = (Inr (), w1)" "look w1 = (look w)((kd, k) := None)"
    using delete_some [of w k] assms(1) by auto
  have "reaches w1 (rc_create rc d) k ok"
    using del assms by (intro reaches_create) auto
  with del show ?thesis by (auto simp: reaches_def bindE_def)
qed

lemma reaches_ensure:
  assumes "key d = k" "valid d" "\<And>y. agrees d y \<Longrightarrow> ok y"
    and "\<And>x. look w (kd, k) = Some (inj x) \<Longrightarrow> key x = k \<Longrightarrow> reaches w (act x) k ok"
  shows "reaches w
    (attempt (rc_get rc k) (\<lambda>r. case r of
        Inl err \<Rightarrow> if IsNotFound err then rc_create rc d else throw err
      | Inr x \<Rightarrow> act x)) k ok"
proof (cases rule: get_cases [of w k, case_names found missing])
  case (found x)
  with assms(4) [OF found(1,2)] show ?thesis by (simp add: reaches_def attempt_def)
next
  case (missing err)
  with reaches_create [OF missing(1) assms(1-3)] show ?thesis by (simp add: reaches_def attempt_def)
qed

end

text \<open>What a stored object keeps of a submitted one, and what the API server refuses to create
  or to change.\<close>

definition meta_agrees :: "ObjectMeta \<Rightarrow> ObjectMeta \<Rightarrow> bool" where
  "meta_agrees m n \<longleftrightarrow> om_Name n = om_Name m \<and> om_Namespace n = om_Namespace m \<and>
     entries (om_Labels n) = entries (om_Labels m) \<and>
     entries (om_Annotations n) = entries (om_Annotations m)"

definition sa_agrees :: "ServiceAccount \<Rightarrow> ServiceAccount \<Rightarrow> bool" where
  "sa_agrees x y \<longleftrightarrow> meta_agrees (sa_Meta x) (sa_Meta y)"

definition role_agrees :: "Role \<Rightarrow> Role \<Rightarrow> bool" where
  "role_agrees x y \<longleftrightarrow> meta_agrees (ro_Meta x) (ro_Meta y) \<and> ro_Rules y = ro_Rules x"

definition rb_agrees :: "RoleBinding \<Rightarrow> RoleBinding \<Rightarrow> bool" where
  "rb_agrees x y \<longleftrightarrow> meta_agrees (rb_Meta x) (rb_Meta y) \<and> rb_Subjects y = rb_Subjects x \<and>
     rb_RoleRef y = rb_RoleRef x"

definition rb_immutable :: "RoleBinding \<Rightarrow> RoleBinding \<Rightarrow> bool" where
  "rb_immutable x y \<longleftrightarrow> rb_RoleRef x = rb_RoleRef y"

definition selector_matches :: "Deployment \<Rightarrow> bool" where
  "selector_matches d \<longleftrightarrow>
     fmlookup (entries (dp_MatchLabels d)) \<subseteq>\<^sub>m fmlookup (entries (pt_Labels (dp_Template d)))"

definition dp_immutable :: "Deployment \<Rightarrow> Deployment \<Rightarrow> bool" where
  "dp_immutable x y \<longleftrightarrow> dp_MatchLabels x = dp_MatchLabels y"

definition dp_agrees :: "'w env \<Rightarrow> Deployment \<Rightarrow> Deployment \<Rightarrow> bool" where
  "dp_agrees e x y \<longleftrightarrow> meta_agrees (dp_Meta x) (dp_Meta y) \<and> dp_Replicas y = dp_Replicas x \<and>
     dp_MatchLabels y = dp_MatchLabels x \<and>
     entries (pt_Labels (dp_Template y)) = entries (pt_Labels (dp_Template x)) \<and>
     entries (pt_Annotations (dp_Template y)) = entries (pt_Annotations (dp_Template x)) \<and>
     e_derivative_podspec e (pt_Spec (dp_Template x)) (pt_Spec (dp_Template y))"

definition config_agrees :: "RedkeyConfig \<Rightarrow> RedkeyConfig \<Rightarrow> bool" where
  "config_agrees x y \<longleftrightarrow> meta_agrees (cf_Meta x) (cf_Meta y) \<and> cf_Spec y = cf_Spec x \<and>
     cf_Status y = zero_ConfigStatus"

abbreviation sa_key :: "ServiceAccount \<Rightarrow> NamespacedName" where
  "sa_key x \<equiv> meta_key (sa_Meta x)"

abbreviation role_key :: "Role \<Rightarrow> NamespacedName" where
  "role_key x \<equiv> meta_key (ro_Meta x)"

abbreviation rb_key :: "RoleBinding \<Rightarrow> NamespacedName" where
  "rb_key x \<equiv> meta_key (rb_Meta x)"

abbreviation dp_key :: "Deployment \<Rightarrow> NamespacedName" where
  "dp_key x \<equiv> meta_key (dp_Meta x)"

abbreviation config_key :: "RedkeyConfig \<Rightarrow> NamespacedName" where
  "config_key x \<equiv> meta_key (cf_Meta x)"

text \<open>The API server as the operator sees it when no request fails: \<open>kube_objects\<close> is all of it but
  the list, which controller-runtime serves from an informer cache; \<open>kube_api\<close> adds that the list is
  up to date.\<close>

locale kube_objects =
  status_conditions e + semantic_equality e + retry_contract e +
  sa: resource_store "e_serviceaccounts e" KServiceAccount OServiceAccount sa_key look
        "\<lambda>_. True" "\<lambda>_ _. True" sa_agrees +
  role: resource_store "e_roles e" KRole ORole role_key look "\<lambda>_. True" "\<lambda>_ _. True" role_agrees +
  rb: resource_store "e_rolebindings e" KRoleBinding ORoleBinding rb_key look
        "\<lambda>_. True" rb_immutable rb_agrees +
  dp: resource_store "e_deployments e" KDeployment ODeployment dp_key look
        selector_matches dp_immutable "dp_agrees e" +
  cf: resource_store "e_configs e" KConfig OConfig config_key look
        "\<lambda>_. True" "\<lambda>_ _. False" config_agrees
  for e :: "'w env" and look :: "'w \<Rightarrow> okey \<Rightarrow> Object option" +
  assumes owner_reference:
      "om_OwnerReferences m = [] \<Longrightarrow> om_Namespace m = om_Namespace (rk_Meta owner) \<Longrightarrow>
       \<exists>refs. e_set_controller_reference e owner m = Inr (m\<lparr>om_OwnerReferences := refs\<rparr>)"
    and now_look: "look (snd (e_now e w)) = look w"
    and set_cond_look: "look (snd (e_set_status_condition e cs c w)) = look w"
    and get_redkey_some: "look w (KRedkey, k) = Some (ORedkey r) \<Longrightarrow> e_get_redkey e k w = (Inr r, w)"
    and get_redkey_none: "look w (KRedkey, k) = None \<Longrightarrow>
          \<exists>err. e_get_redkey e k w = (Inl err, w) \<and> IsNotFound err"
    and redkey_stored: "look w (KRedkey, k) = Some ob \<Longrightarrow>
          \<exists>r. ob = ORedkey r \<and> redkey_NamespacedName r = k"
    and status_update_ok:
      "look w (KRedkey, redkey_NamespacedName r) = Some (ORedkey old) \<Longrightarrow>
       om_ResourceVersion (rk_Meta r) = om_ResourceVersion (rk_Meta old) \<Longrightarrow>
       \<exists>w' rv. let r' = old\<lparr>rk_Meta := (rk_Meta old)\<lparr>om_ResourceVersion := rv\<rparr>, rk_Status := rk_Status r\<rparr>
         in e_status_update e r w = (Inr r', w') \<and>
            look w' = (look w)((KRedkey, redkey_NamespacedName r) \<mapsto> ORedkey r')"
    and status_update_conflict:
      "look w (KRedkey, redkey_NamespacedName r) = Some (ORedkey old) \<Longrightarrow>
       om_ResourceVersion (rk_Meta r) \<noteq> om_ResourceVersion (rk_Meta old) \<Longrightarrow>
       \<exists>err. e_status_update e r w = (Inl err, w) \<and> IsConflict err"

locale kube_api = kube_objects +
  assumes list_configs_ok:
      "\<exists>cfs. e_list_configs e ns (label, val) w = (Inr cfs, w) \<and> distinct (map config_key cfs) \<and>
         set cfs = {c. look w (KConfig, config_key c) = Some (OConfig c) \<and>
                      om_Namespace (cf_Meta c) = ns \<and> mget (om_Labels (cf_Meta c)) label = Some val}"

section \<open>Lemmas\<close>

declare Let_def [io_simps]

lemma liftW_eq [io_simps]: "liftW m s = (case m (world s) of (r, w') \<Rightarrow> (r, s\<lparr>world := w'\<rparr>))"
  by (simp add: liftW_def)

lemma emit_eq [simp, io_simps]: "emit c s = (Inr (), s\<lparr>metric_log := metric_log s @ [c]\<rparr>)"
  by (simp add: emit_def)

lemma liftP_eq [io_simps]: "liftP m w = (case m w of (x, w') \<Rightarrow> (Inr x, w'))"
  by (simp add: liftP_def)

lemma liftR_eq [simp, io_simps]: "liftR r s = (r, s)"
  by (simp add: liftR_def)

lemma bindE_liftR [simp]: "bindE (liftR (Inr x)) f = f x" "bindE (liftR (Inl err)) f = throw err"
  by (simp_all add: bindE_def fun_eq_iff)

lemma retry_run_invariant:
  assumes "retry_run f w res" and "P w"
    and "\<And>w err w'. P w \<Longrightarrow> f w = (Inl err, w') \<Longrightarrow> IsConflict err \<Longrightarrow> P w'"
  shows "\<exists>v. P v \<and> res = f v"
  using assms by (induction rule: retry_run.induct) auto

end
