(* ===== verification/Meta_Merge.thy ===== *)
theory Meta_Merge
  imports Kube_Env
begin

text \<open>
  The pure helpers of \<^verbatim>\<open>internal/controller/redkey_robin.go\<close>: merging of labels and
  annotations, the Kubernetes-managed revision annotation, and merging of environment variables.
  The lemmas give the lookup semantics of each merge and show that the operator's own entries
  win over user input.
\<close>

section \<open>Labels and annotations\<close>

definition derefMap :: "gomap option \<Rightarrow> gomap" where
  "derefMap m = (case m of None \<Rightarrow> None | Some x \<Rightarrow> x)"

definition mergeMeta :: "gomap \<Rightarrow> gomap \<Rightarrow> gomap \<Rightarrow> gomap" where
  "mergeMeta spec override base =
     (let out = (if \<not> mempty override then entries override else entries spec);
          out = fmadd out (entries base)
      in if out = fmempty then None else Some out)"

definition deploymentRevisionAnnotation :: string where
  "deploymentRevisionAnnotation = ''deployment.kubernetes.io/revision''"

definition stripManagedAnnotations :: "gomap \<Rightarrow> gomap" where
  "stripManagedAnnotations annotations =
     (case mget annotations deploymentRevisionAnnotation of
        None \<Rightarrow> annotations
      | Some _ \<Rightarrow>
          let out = fmfilter (\<lambda>k. k \<noteq> deploymentRevisionAnnotation) (entries annotations)
          in if out = fmempty then None else Some out)"

definition preserveManagedAnnotations :: "gomap \<Rightarrow> gomap \<Rightarrow> gomap" where
  "preserveManagedAnnotations existing desired =
     (case mget existing deploymentRevisionAnnotation of
        None \<Rightarrow> desired
      | Some rv \<Rightarrow> Some (fmupd deploymentRevisionAnnotation rv (entries desired)))"

section \<open>Environment variables\<close>

fun index_env :: "nat \<Rightarrow> EnvVar list \<Rightarrow> (string \<Rightarrow> nat option) \<Rightarrow> (string \<Rightarrow> nat option)" where
  "index_env i [] idx = idx"
| "index_env i (ev # evs) idx = index_env (Suc i) evs (idx(ev_Name ev \<mapsto> i))"

text \<open>The second loop. The index map always points into \<open>merged\<close>
  (lemma \<open>env_index_merge_step\<close>), so the slice assignment never panics.\<close>

fun merge_env_loop :: "EnvVar list \<Rightarrow> (string \<Rightarrow> nat option) \<Rightarrow> EnvVar list \<Rightarrow> EnvVar list" where
  "merge_env_loop merged idx [] = merged"
| "merge_env_loop merged idx (ev # evs) =
     (case idx (ev_Name ev) of
        Some i \<Rightarrow> merge_env_loop (merged[i := ev]) idx evs
      | None \<Rightarrow> merge_env_loop (merged @ [ev]) (idx(ev_Name ev \<mapsto> length merged)) evs)"

definition mergeEnvVars :: "EnvVar list \<Rightarrow> EnvVar list \<Rightarrow> EnvVar list" where
  "mergeEnvVars base overrides = merge_env_loop base (index_env 0 base Map.empty) overrides"

text \<open>The effective value of a variable: the last entry of that name.\<close>

fun env_last :: "EnvVar list \<Rightarrow> string \<Rightarrow> EnvVar option" where
  "env_last [] n = None"
| "env_last (ev # evs) n =
     (case env_last evs n of Some x \<Rightarrow> Some x | None \<Rightarrow> if ev_Name ev = n then Some ev else None)"

definition env_index :: "EnvVar list \<Rightarrow> (string \<Rightarrow> nat option) \<Rightarrow> bool" where
  "env_index merged idx \<longleftrightarrow>
     (\<forall>n. case idx n of
        None \<Rightarrow> n \<notin> ev_Name ` set merged
      | Some i \<Rightarrow> i < length merged \<and> ev_Name (merged ! i) = n \<and>
                  (\<forall>j < length merged. i < j \<longrightarrow> ev_Name (merged ! j) \<noteq> n))"

section \<open>Lemmas on labels and annotations\<close>

lemma derefMap_simps [simp]: "derefMap None = None" "derefMap (Some m) = m"
  by (simp_all add: derefMap_def)

lemma entries_mergeMeta:
  "entries (mergeMeta spec override base) =
     fmadd (if mempty override then entries spec else entries override) (entries base)"
  by (simp add: mergeMeta_def Let_def)

lemma mget_mergeMeta:
  "mget (mergeMeta spec override base) k =
     (case mget base k of
        Some v \<Rightarrow> Some v
      | None \<Rightarrow> if mempty override then mget spec k else mget override k)"
  by (cases "mget base k") (simp_all add: entries_mergeMeta fmdom_notI fmdomI)

lemma mergeMeta_base_wins: "mget base k = Some v \<Longrightarrow> mget (mergeMeta spec override base) k = Some v"
  by (simp add: mget_mergeMeta)

lemma fmadd_eq_empty_iff: "fmadd m n = fmempty \<longleftrightarrow> m = fmempty \<and> n = fmempty"
proof
  assume eq: "fmadd m n = fmempty"
  have none: "fmlookup m k = None \<and> fmlookup n k = None" for k
  proof -
    have "fmlookup (fmadd m n) k = None" by (simp add: eq)
    then show ?thesis by (auto simp: fmdom_notD split: if_splits)
  qed
  then show "m = fmempty \<and> n = fmempty"
    by (auto intro: fmap_ext)
qed simp

lemma mergeMeta_nil_iff:
  "mergeMeta spec override base = None \<longleftrightarrow> mempty spec \<and> mempty override \<and> mempty base"
  by (auto simp: mergeMeta_def Let_def mempty_def fmadd_eq_empty_iff)

lemma entries_strip:
  "entries (stripManagedAnnotations a) = fmdrop deploymentRevisionAnnotation (entries a)"
proof -
  have "entries (stripManagedAnnotations a) =
      (if mget a deploymentRevisionAnnotation = None then entries a
       else fmfilter (\<lambda>k. k \<noteq> deploymentRevisionAnnotation) (entries a))"
    by (auto simp: stripManagedAnnotations_def Let_def)
  then show ?thesis
    by (auto intro!: fmap_ext)
qed

lemma entries_preserve:
  "entries (preserveManagedAnnotations existing desired) =
     (case mget existing deploymentRevisionAnnotation of
        None \<Rightarrow> entries desired
      | Some rv \<Rightarrow> fmupd deploymentRevisionAnnotation rv (entries desired))"
  by (simp add: preserveManagedAnnotations_def split: option.splits)

lemma strip_preserve:
  assumes "mget desired deploymentRevisionAnnotation = None"
  shows "entries (stripManagedAnnotations (preserveManagedAnnotations existing desired)) = entries desired"
  using assms
  by (auto simp: entries_strip entries_preserve split: option.splits intro!: fmap_ext)

section \<open>Lemmas on environment variables\<close>

lemma env_last_append:
  "env_last (xs @ ys) n = (case env_last ys n of Some x \<Rightarrow> Some x | None \<Rightarrow> env_last xs n)"
  by (induction xs) (auto split: option.splits)

lemma env_last_None_iff: "env_last xs n = None \<longleftrightarrow> n \<notin> ev_Name ` set xs"
  by (induction xs) (auto split: option.splits)

lemma env_last_at:
  "i < length xs \<Longrightarrow> ev_Name (xs ! i) = n \<Longrightarrow>
     (\<forall>j < length xs. i < j \<longrightarrow> ev_Name (xs ! j) \<noteq> n) \<Longrightarrow> env_last xs n = Some (xs ! i)"
proof (induction xs rule: rev_induct)
  case Nil
  then show ?case by simp
next
  case (snoc x xs)
  show ?case
  proof (cases "i = length xs")
    case True
    with snoc.prems show ?thesis by (simp add: env_last_append)
  next
    case False
    with snoc.prems(1) have i: "i < length xs" by simp
    have x: "ev_Name x \<noteq> n"
      using snoc.prems(3) [rule_format, of "length xs"] i by simp
    have "env_last xs n = Some (xs ! i)"
    proof (rule snoc.IH [OF i])
      show "ev_Name (xs ! i) = n" using snoc.prems(2) i by (simp add: nth_append)
      show "\<forall>j < length xs. i < j \<longrightarrow> ev_Name (xs ! j) \<noteq> n"
      proof (intro allI impI)
        fix j assume "j < length xs" "i < j"
        with snoc.prems(3) [rule_format, of j] show "ev_Name (xs ! j) \<noteq> n"
          by (simp add: nth_append)
      qed
    qed
    with x i show ?thesis by (simp add: env_last_append nth_append)
  qed
qed

lemma env_indexD:
  assumes "env_index merged idx"
  shows "idx n = None \<Longrightarrow> n \<notin> ev_Name ` set merged"
    and "idx n = Some i \<Longrightarrow> i < length merged"
    and "idx n = Some i \<Longrightarrow> ev_Name (merged ! i) = n"
    and "idx n = Some i \<Longrightarrow> \<forall>j < length merged. i < j \<longrightarrow> ev_Name (merged ! j) \<noteq> n"
proof -
  from assms have "case idx n of None \<Rightarrow> n \<notin> ev_Name ` set merged
      | Some i \<Rightarrow> i < length merged \<and> ev_Name (merged ! i) = n \<and>
                  (\<forall>j < length merged. i < j \<longrightarrow> ev_Name (merged ! j) \<noteq> n)"
    unfolding env_index_def by (rule spec)
  then show "idx n = None \<Longrightarrow> n \<notin> ev_Name ` set merged"
    and "idx n = Some i \<Longrightarrow> i < length merged"
    and "idx n = Some i \<Longrightarrow> ev_Name (merged ! i) = n"
    and "idx n = Some i \<Longrightarrow> \<forall>j < length merged. i < j \<longrightarrow> ev_Name (merged ! j) \<noteq> n"
    by simp_all
qed

lemma env_last_index: "env_index merged idx \<Longrightarrow> env_last merged n = map_option ((!) merged) (idx n)"
proof (cases "idx n")
  case None
  assume "env_index merged idx"
  with None show ?thesis using env_indexD(1) by (simp add: env_last_None_iff)
next
  case (Some i)
  assume ix: "env_index merged idx"
  from env_last_at [OF env_indexD(2,3,4) [OF ix Some]] Some show ?thesis by simp
qed

lemma env_index_snoc:
  assumes "env_index merged idx"
  shows "env_index (merged @ [ev]) (idx(ev_Name ev \<mapsto> length merged))"
  unfolding env_index_def
proof
  fix n
  from assms have "case idx n of None \<Rightarrow> n \<notin> ev_Name ` set merged
      | Some i \<Rightarrow> i < length merged \<and> ev_Name (merged ! i) = n \<and>
                  (\<forall>j < length merged. i < j \<longrightarrow> ev_Name (merged ! j) \<noteq> n)"
    by (simp add: env_index_def)
  then show "case (idx(ev_Name ev \<mapsto> length merged)) n of
        None \<Rightarrow> n \<notin> ev_Name ` set (merged @ [ev])
      | Some i \<Rightarrow> i < length (merged @ [ev]) \<and> ev_Name ((merged @ [ev]) ! i) = n \<and>
                  (\<forall>j < length (merged @ [ev]). i < j \<longrightarrow> ev_Name ((merged @ [ev]) ! j) \<noteq> n)"
    by (auto simp: nth_append less_Suc_eq split: option.splits)
qed

lemma index_env_ok: "env_index pre idx \<Longrightarrow> env_index (pre @ evs) (index_env (length pre) evs idx)"
proof (induction evs arbitrary: pre idx)
  case Nil
  then show ?case by simp
next
  case (Cons ev evs)
  from Cons.IH [OF env_index_snoc [OF Cons.prems, of ev]] show ?case by (simp add: fun_upd_def)
qed

lemma env_index_base: "env_index base (index_env 0 base Map.empty)"
  using index_env_ok [of "[]" Map.empty base] by (simp add: env_index_def)

lemma env_index_update:
  assumes "env_index merged idx" and "idx (ev_Name ev) = Some i"
  shows "env_index (merged[i := ev]) idx"
  unfolding env_index_def
proof
  fix n
  have i: "i < length merged" "ev_Name (merged ! i) = ev_Name ev"
    using env_indexD(2,3) [OF assms] by auto
  have names: "ev_Name (merged[i := ev] ! j) = ev_Name (merged ! j)" if "j < length merged" for j
    using i that by (cases "j = i") auto
  have "map ev_Name (merged[i := ev]) = map ev_Name merged"
    by (rule nth_equalityI) (simp_all add: names)
  then have set: "ev_Name ` set (merged[i := ev]) = ev_Name ` set merged"
    by (metis set_map)
  from assms(1) have "case idx n of None \<Rightarrow> n \<notin> ev_Name ` set merged
      | Some i \<Rightarrow> i < length merged \<and> ev_Name (merged ! i) = n \<and>
                  (\<forall>j < length merged. i < j \<longrightarrow> ev_Name (merged ! j) \<noteq> n)"
    by (simp add: env_index_def)
  then show "case idx n of None \<Rightarrow> n \<notin> ev_Name ` set (merged[i := ev])
      | Some k \<Rightarrow> k < length (merged[i := ev]) \<and> ev_Name (merged[i := ev] ! k) = n \<and>
                  (\<forall>j < length (merged[i := ev]). k < j \<longrightarrow> ev_Name (merged[i := ev] ! j) \<noteq> n)"
    using names set by (auto split: option.splits)
qed

lemmas env_index_merge_step = env_index_update env_index_snoc

lemma env_last_update:
  assumes "env_index merged idx" and "idx (ev_Name ev) = Some i"
  shows "env_last (merged[i := ev]) n = (if n = ev_Name ev then Some ev else env_last merged n)"
proof -
  have new: "env_last (merged[i := ev]) n = map_option ((!) (merged[i := ev])) (idx n)"
    using env_index_update [OF assms] by (rule env_last_index)
  have i: "i < length merged" "ev_Name (merged ! i) = ev_Name ev"
    using env_indexD(2,3) [OF assms] by auto
  have other: "j \<noteq> i" if "idx n = Some j" "n \<noteq> ev_Name ev" for j
    using env_indexD(3) [OF assms(1) that(1)] that(2) i by auto
  show ?thesis
    using new other i assms env_last_index [OF assms(1), of n] by (cases "idx n") auto
qed

lemma env_last_merge_env_loop:
  "env_index merged idx \<Longrightarrow>
     env_last (merge_env_loop merged idx evs) n =
       (case env_last evs n of Some x \<Rightarrow> Some x | None \<Rightarrow> env_last merged n)"
proof (induction evs arbitrary: merged idx)
  case Nil
  then show ?case by simp
next
  case (Cons ev evs)
  show ?case
  proof (cases "idx (ev_Name ev)")
    case None
    with Cons.IH [OF env_index_snoc [OF Cons.prems, of ev]] show ?thesis
      by (auto simp: env_last_append fun_upd_def split: option.splits)
  next
    case (Some i)
    with Cons.IH [OF env_index_update [OF Cons.prems Some]] env_last_update [OF Cons.prems Some]
    show ?thesis by (auto split: option.splits)
  qed
qed

lemma env_last_mergeEnvVars:
  "env_last (mergeEnvVars base overrides) n =
     (case env_last overrides n of Some x \<Rightarrow> Some x | None \<Rightarrow> env_last base n)"
  by (simp add: mergeEnvVars_def env_last_merge_env_loop [OF env_index_base])

end
