(* ===== verification/Robin_Manager.thy ===== *)
theory Robin_Manager
  imports Meta_Merge
begin

text \<open>
  The objects of Robin the operator owns (\<^verbatim>\<open>internal/controller/redkey_robin.go\<close>): its
  ServiceAccount, Role and RoleBinding, and its Deployment. \<open>ensureRBAC\<close> and
  \<open>ensureRobinDeployment\<close> create what is missing and patch what has drifted. In the locale
  \<open>kube_objects\<close> they are shown to converge in one run to the desired objects, touching nothing
  else, and to write nothing once converged.
\<close>

section \<open>Role-based access control\<close>

definition ClusterLabel :: string where
  "ClusterLabel = ''redkey.inditex.dev/cluster''"

definition ComponentLabel :: string where
  "ComponentLabel = ''redkey.inditex.dev/component''"

definition all_verbs :: "string list" where
  "all_verbs = [''get'', ''list'', ''watch'', ''create'', ''update'', ''patch'', ''delete'']"

definition DesiredRobinRules :: "PolicyRule list" where
  "DesiredRobinRules =
    [\<lparr>pr_APIGroups = [''apps''], pr_Resources = [''statefulsets''], pr_Verbs = all_verbs\<rparr>,
     \<lparr>pr_APIGroups = [''''], pr_Resources = [''services'', ''configmaps''], pr_Verbs = all_verbs\<rparr>,
     \<lparr>pr_APIGroups = [''''], pr_Resources = [''pods''],
      pr_Verbs = [''get'', ''list'', ''watch'', ''delete'']\<rparr>,
     \<lparr>pr_APIGroups = [''''], pr_Resources = [''persistentvolumeclaims''],
      pr_Verbs = [''list'', ''delete'']\<rparr>,
     \<lparr>pr_APIGroups = [''policy''], pr_Resources = [''poddisruptionbudgets''], pr_Verbs = all_verbs\<rparr>,
     \<lparr>pr_APIGroups = [''''], pr_Resources = [''secrets''], pr_Verbs = [''get'']\<rparr>,
     \<lparr>pr_APIGroups = [''redkey.inditex.dev''], pr_Resources = [''redkeys''], pr_Verbs = [''get'']\<rparr>,
     \<lparr>pr_APIGroups = [''redkey.inditex.dev''], pr_Resources = [''redkeyconfigs''],
      pr_Verbs = [''get'', ''list'', ''watch'']\<rparr>,
     \<lparr>pr_APIGroups = [''redkey.inditex.dev''], pr_Resources = [''redkeyconfigs/status''],
      pr_Verbs = [''update'', ''patch'']\<rparr>]"

text \<open>The operator's own permissions, from the \<^verbatim>\<open>+kubebuilder:rbac\<close> markers on
  \<^verbatim>\<open>Reconcile\<close>.\<close>

definition operator_rules :: "PolicyRule list" where
  "operator_rules =
    [\<lparr>pr_APIGroups = [''redkey.inditex.dev''], pr_Resources = [''redkeys''], pr_Verbs = all_verbs\<rparr>,
     \<lparr>pr_APIGroups = [''redkey.inditex.dev''], pr_Resources = [''redkeys/status''],
      pr_Verbs = [''get'', ''update'', ''patch'']\<rparr>,
     \<lparr>pr_APIGroups = [''redkey.inditex.dev''], pr_Resources = [''redkeys/scale''],
      pr_Verbs = [''get'', ''update'', ''patch'']\<rparr>,
     \<lparr>pr_APIGroups = [''redkey.inditex.dev''], pr_Resources = [''redkeys/finalizers''],
      pr_Verbs = [''update'']\<rparr>,
     \<lparr>pr_APIGroups = [''redkey.inditex.dev''], pr_Resources = [''redkeyconfigs''],
      pr_Verbs = [''get'', ''list'', ''watch'', ''create'', ''delete'']\<rparr>,
     \<lparr>pr_APIGroups = [''redkey.inditex.dev''], pr_Resources = [''redkeyconfigs/status''],
      pr_Verbs = [''get'', ''update'', ''patch'']\<rparr>,
     \<lparr>pr_APIGroups = [''''], pr_Resources = [''configmaps'', ''services''], pr_Verbs = all_verbs\<rparr>,
     \<lparr>pr_APIGroups = [''''], pr_Resources = [''pods''],
      pr_Verbs = [''get'', ''list'', ''watch'', ''delete'']\<rparr>,
     \<lparr>pr_APIGroups = [''''], pr_Resources = [''secrets''], pr_Verbs = [''get'']\<rparr>,
     \<lparr>pr_APIGroups = [''''], pr_Resources = [''persistentvolumeclaims''],
      pr_Verbs = [''list'', ''delete'']\<rparr>,
     \<lparr>pr_APIGroups = [''apps''], pr_Resources = [''statefulsets''], pr_Verbs = all_verbs\<rparr>,
     \<lparr>pr_APIGroups = [''policy''], pr_Resources = [''poddisruptionbudgets''], pr_Verbs = all_verbs\<rparr>,
     \<lparr>pr_APIGroups = [''apps''], pr_Resources = [''deployments''], pr_Verbs = all_verbs\<rparr>,
     \<lparr>pr_APIGroups = [''''], pr_Resources = [''serviceaccounts''], pr_Verbs = all_verbs\<rparr>,
     \<lparr>pr_APIGroups = [''rbac.authorization.k8s.io''], pr_Resources = [''roles'', ''rolebindings''],
      pr_Verbs = all_verbs\<rparr>]"

definition rule_allows :: "PolicyRule list \<Rightarrow> string \<Rightarrow> string \<Rightarrow> string \<Rightarrow> bool" where
  "rule_allows rules grp res verb \<longleftrightarrow>
     list_ex (\<lambda>r. grp \<in> set (pr_APIGroups r) \<and> res \<in> set (pr_Resources r) \<and> verb \<in> set (pr_Verbs r)) rules"

text \<open>The cluster's \<^verbatim>\<open>name-robin\<close> and the internal labels of everything that belongs to it.\<close>

definition robin_name :: "Redkey \<Rightarrow> string" where
  "robin_name cluster = om_Name (rk_Meta cluster) @ ''-robin''"

definition robin_key :: "Redkey \<Rightarrow> NamespacedName" where
  "robin_key cluster = \<lparr>nn_Namespace = om_Namespace (rk_Meta cluster), nn_Name = robin_name cluster\<rparr>"

definition robin_base_labels :: "Redkey \<Rightarrow> gomap" where
  "robin_base_labels cluster =
     Some (fmap_of_list [(ClusterLabel, om_Name (rk_Meta cluster)), (ComponentLabel, ''robin'')])"

definition rbac_labels :: "Redkey \<Rightarrow> gomap" where
  "rbac_labels cluster = mergeMeta (derefMap (sp_Labels (rk_Spec cluster))) None (robin_base_labels cluster)"

definition rbac_annotations :: "Redkey \<Rightarrow> gomap" where
  "rbac_annotations cluster = mergeMeta (derefMap (sp_Annotations (rk_Spec cluster))) None None"

definition rbac_meta :: "Redkey \<Rightarrow> ObjectMeta" where
  "rbac_meta cluster =
     mk_meta (robin_name cluster) (om_Namespace (rk_Meta cluster)) (rbac_labels cluster) (rbac_annotations cluster)"

definition set_meta_maps :: "ObjectMeta \<Rightarrow> ObjectMeta \<Rightarrow> ObjectMeta" where
  "set_meta_maps existing desired =
     existing\<lparr>om_Labels := om_Labels desired, om_Annotations := om_Annotations desired\<rparr>"

definition meta_drift :: "'w env \<Rightarrow> ObjectMeta \<Rightarrow> ObjectMeta \<Rightarrow> bool" where
  "meta_drift e existing desired \<longleftrightarrow>
     \<not> e_equal_map e (om_Labels existing) (om_Labels desired) \<or>
     \<not> e_equal_map e (om_Annotations existing) (om_Annotations desired)"

definition ensureServiceAccount :: "'w env \<Rightarrow> Redkey \<Rightarrow> ('w, unit) io" where
  "ensureServiceAccount e cluster =
     bindE (liftR (e_set_controller_reference e cluster (rbac_meta cluster))) (\<lambda>m.
       let desired = \<lparr>sa_Meta = m\<rparr> in
       attempt (rc_get (e_serviceaccounts e) (robin_key cluster)) (\<lambda>r.
         case r of
           Inl err \<Rightarrow> if IsNotFound err then rc_create (e_serviceaccounts e) desired else throw err
         | Inr existing \<Rightarrow>
             if meta_drift e (sa_Meta existing) (sa_Meta desired)
             then rc_patch (e_serviceaccounts e)
                    (existing\<lparr>sa_Meta := set_meta_maps (sa_Meta existing) (sa_Meta desired)\<rparr>) existing
             else ret ()))"

definition ensureRole :: "'w env \<Rightarrow> Redkey \<Rightarrow> ('w, unit) io" where
  "ensureRole e cluster =
     bindE (liftR (e_set_controller_reference e cluster (rbac_meta cluster))) (\<lambda>m.
       let desired = \<lparr>ro_Meta = m, ro_Rules = DesiredRobinRules\<rparr> in
       attempt (rc_get (e_roles e) (robin_key cluster)) (\<lambda>r.
         case r of
           Inl err \<Rightarrow> if IsNotFound err then rc_create (e_roles e) desired else throw err
         | Inr existing \<Rightarrow>
             if \<not> e_equal_rules e (ro_Rules existing) (ro_Rules desired) \<or>
                meta_drift e (ro_Meta existing) (ro_Meta desired)
             then rc_patch (e_roles e)
                    (existing\<lparr>ro_Meta := set_meta_maps (ro_Meta existing) (ro_Meta desired),
                              ro_Rules := ro_Rules desired\<rparr>) existing
             else ret ()))"

definition desired_subjects :: "Redkey \<Rightarrow> Subject list" where
  "desired_subjects cluster =
     [\<lparr>su_Kind = ''ServiceAccount'', su_Name = robin_name cluster,
       su_Namespace = om_Namespace (rk_Meta cluster)\<rparr>]"

definition desired_roleref :: "Redkey \<Rightarrow> RoleRef" where
  "desired_roleref cluster =
     \<lparr>rf_APIGroup = ''rbac.authorization.k8s.io'', rf_Kind = ''Role'', rf_Name = robin_name cluster\<rparr>"

definition ensureRoleBinding :: "'w env \<Rightarrow> Redkey \<Rightarrow> ('w, unit) io" where
  "ensureRoleBinding e cluster =
     bindE (liftR (e_set_controller_reference e cluster (rbac_meta cluster))) (\<lambda>m.
       let desired = \<lparr>rb_Meta = m, rb_Subjects = desired_subjects cluster,
                      rb_RoleRef = desired_roleref cluster\<rparr> in
       attempt (rc_get (e_rolebindings e) (robin_key cluster)) (\<lambda>r.
         case r of
           Inl err \<Rightarrow> if IsNotFound err then rc_create (e_rolebindings e) desired else throw err
         | Inr existing \<Rightarrow>
             let needsRecreate = (rb_RoleRef existing \<noteq> rb_RoleRef desired);
                 needsPatch = (\<not> e_equal_subjects e (rb_Subjects existing) (rb_Subjects desired) \<or>
                               meta_drift e (rb_Meta existing) (rb_Meta desired))
             in if needsRecreate
                then bindE (rc_delete (e_rolebindings e) (rb_key existing)) (\<lambda>_.
                       rc_create (e_rolebindings e) desired)
                else if needsPatch
                then rc_patch (e_rolebindings e)
                       (existing\<lparr>rb_Meta := set_meta_maps (rb_Meta existing) (rb_Meta desired),
                                 rb_Subjects := rb_Subjects desired\<rparr>) existing
                else ret ()))"

definition ensureRBAC :: "'w env \<Rightarrow> Redkey \<Rightarrow> ('w opstate, unit) io" where
  "ensureRBAC e cluster =
     liftW (bindE (ensureServiceAccount e cluster) (\<lambda>_.
            bindE (ensureRole e cluster) (\<lambda>_.
            ensureRoleBinding e cluster)))"

section \<open>The Robin Deployment\<close>

definition robinDefaultEnvVars :: "Redkey \<Rightarrow> EnvVar list" where
  "robinDefaultEnvVars cluster =
     [\<lparr>ev_Name = ''CLUSTER_NAME'', ev_Value = om_Name (rk_Meta cluster), ev_ValueFrom = None\<rparr>,
      \<lparr>ev_Name = ''NAMESPACE'', ev_Value = om_Namespace (rk_Meta cluster), ev_ValueFrom = None\<rparr>]"

definition base_container :: "Redkey \<Rightarrow> Container" where
  "base_container cluster =
     \<lparr>c_Name = ''robin'', c_Image = rs_Image (sp_Robin (rk_Spec cluster)),
      c_Args = [''--cluster-name=$(CLUSTER_NAME)'', ''--namespace=$(NAMESPACE)''],
      c_Env = robinDefaultEnvVars cluster, c_EnvFrom = [],
      c_Ports = [\<lparr>cp_Name = ''metrics'', cp_ContainerPort = 8080, cp_Protocol = ''TCP''\<rparr>],
      c_Resources = (case rs_Resources (sp_Robin (rk_Spec cluster)) of
                       None \<Rightarrow> zero_Resources | Some r \<Rightarrow> r),
      c_VolumeMounts = [], c_SecurityContext = None, c_Other = None\<rparr>"

text \<open>Overrides from the first container of the template.\<close>

definition override_container :: "Container \<Rightarrow> Container \<Rightarrow> Container" where
  "override_container container src =
     (let container = (if c_Image src \<noteq> [] then container\<lparr>c_Image := c_Image src\<rparr> else container);
          container = (if rr_Limits (c_Resources src) \<noteq> None \<or> rr_Requests (c_Resources src) \<noteq> None
                       then container\<lparr>c_Resources := c_Resources src\<rparr> else container);
          container = (if c_Env src \<noteq> []
                       then container\<lparr>c_Env := mergeEnvVars (c_Env container) (c_Env src)\<rparr> else container);
          container = (if c_EnvFrom src \<noteq> [] then container\<lparr>c_EnvFrom := c_EnvFrom src\<rparr> else container);
          container = (if c_VolumeMounts src \<noteq> []
                       then container\<lparr>c_VolumeMounts := c_VolumeMounts src\<rparr> else container)
      in if c_SecurityContext src \<noteq> None
         then container\<lparr>c_SecurityContext := c_SecurityContext src\<rparr> else container)"

definition base_podspec :: "Redkey \<Rightarrow> PodSpec" where
  "base_podspec cluster =
     \<lparr>ps_ServiceAccountName = robin_name cluster, ps_Containers = [], ps_NodeSelector = None,
      ps_Tolerations = [], ps_Affinity = None, ps_SecurityContext = None, ps_ImagePullSecrets = [],
      ps_PriorityClassName = [], ps_TopologySpreadConstraints = [], ps_Volumes = [], ps_Other = None\<rparr>"

definition override_podspec :: "PodSpec \<Rightarrow> PartialPodSpec \<Rightarrow> PodSpec" where
  "override_podspec podSpec tpl =
     (let podSpec = (if \<not> mempty (pp_NodeSelector tpl)
                     then podSpec\<lparr>ps_NodeSelector := pp_NodeSelector tpl\<rparr> else podSpec);
          podSpec = (if pp_Tolerations tpl \<noteq> []
                     then podSpec\<lparr>ps_Tolerations := pp_Tolerations tpl\<rparr> else podSpec);
          podSpec = (if pp_Affinity tpl \<noteq> None
                     then podSpec\<lparr>ps_Affinity := pp_Affinity tpl\<rparr> else podSpec);
          podSpec = (if pp_SecurityContext tpl \<noteq> None
                     then podSpec\<lparr>ps_SecurityContext := pp_SecurityContext tpl\<rparr> else podSpec);
          podSpec = (if pp_ImagePullSecrets tpl \<noteq> []
                     then podSpec\<lparr>ps_ImagePullSecrets := pp_ImagePullSecrets tpl\<rparr> else podSpec);
          podSpec = (if pp_PriorityClassName tpl \<noteq> []
                     then podSpec\<lparr>ps_PriorityClassName := pp_PriorityClassName tpl\<rparr> else podSpec);
          podSpec = (if pp_TopologySpreadConstraints tpl \<noteq> []
                     then podSpec\<lparr>ps_TopologySpreadConstraints := pp_TopologySpreadConstraints tpl\<rparr>
                     else podSpec)
      in if pp_Volumes tpl \<noteq> [] then podSpec\<lparr>ps_Volumes := pp_Volumes tpl\<rparr> else podSpec)"

definition robin_container :: "Redkey \<Rightarrow> Container" where
  "robin_container cluster =
     (case rs_Template (sp_Robin (rk_Spec cluster)) of
        None \<Rightarrow> base_container cluster
      | Some tpl \<Rightarrow>
          let container = (case pp_Containers (ppt_Spec tpl) of
                             [] \<Rightarrow> base_container cluster
                           | src # _ \<Rightarrow> override_container (base_container cluster) src)
          in container\<lparr>c_Env := mergeEnvVars (c_Env container) (robinDefaultEnvVars cluster)\<rparr>)"

definition robin_podspec :: "Redkey \<Rightarrow> PodSpec" where
  "robin_podspec cluster =
     (case rs_Template (sp_Robin (rk_Spec cluster)) of
        None \<Rightarrow> base_podspec cluster
      | Some tpl \<Rightarrow> override_podspec (base_podspec cluster) (ppt_Spec tpl))"

definition buildDesiredRobinDeployment :: "Redkey \<Rightarrow> Deployment" where
  "buildDesiredRobinDeployment cluster =
     (let baseLabels = robin_base_labels cluster;
          specLabels = derefMap (sp_Labels (rk_Spec cluster));
          specAnnotations = derefMap (sp_Annotations (rk_Spec cluster));
          (tplLabels, tplAnnotations) =
            (case rs_Template (sp_Robin (rk_Spec cluster)) of
               None \<Rightarrow> (None, None)
             | Some tpl \<Rightarrow> (om_Labels (ppt_Metadata tpl), om_Annotations (ppt_Metadata tpl)));
          deployLabels = mergeMeta specLabels None baseLabels;
          deployAnnotations = mergeMeta specAnnotations None None;
          podLabels = mergeMeta specLabels tplLabels baseLabels;
          podAnnotations = mergeMeta specAnnotations tplAnnotations None;
          podSpec = (robin_podspec cluster)\<lparr>ps_Containers := [robin_container cluster]\<rparr>
      in \<lparr>dp_Meta = mk_meta (robin_name cluster) (om_Namespace (rk_Meta cluster)) deployLabels deployAnnotations,
          dp_Replicas = Some 1,
          dp_MatchLabels = robin_base_labels cluster,
          dp_Template = \<lparr>pt_Labels = podLabels, pt_Annotations = podAnnotations, pt_Spec = podSpec\<rparr>\<rparr>)"

definition robinDeploymentNeedsUpdate :: "'w env \<Rightarrow> Deployment \<Rightarrow> Deployment \<Rightarrow> bool" where
  "robinDeploymentNeedsUpdate e existing desired \<longleftrightarrow>
     (if dp_Replicas existing = None \<or> dp_Replicas existing \<noteq> dp_Replicas desired then True
      else if \<not> e_equal_map e (om_Labels (dp_Meta existing)) (om_Labels (dp_Meta desired)) then True
      else if \<not> e_equal_map e (stripManagedAnnotations (om_Annotations (dp_Meta existing)))
                              (om_Annotations (dp_Meta desired)) then True
      else if \<not> e_equal_map e (pt_Labels (dp_Template existing)) (pt_Labels (dp_Template desired)) then True
      else if \<not> e_equal_map e (pt_Annotations (dp_Template existing))
                              (pt_Annotations (dp_Template desired)) then True
      else if \<not> e_derivative_podspec e (pt_Spec (dp_Template desired)) (pt_Spec (dp_Template existing)) then True
      else False)"

definition patched_deployment :: "Deployment \<Rightarrow> Deployment \<Rightarrow> Deployment" where
  "patched_deployment existing desired =
     existing\<lparr>dp_Meta := (dp_Meta existing)\<lparr>
                 om_Labels := om_Labels (dp_Meta desired),
                 om_Annotations := preserveManagedAnnotations (om_Annotations (dp_Meta existing))
                                     (om_Annotations (dp_Meta desired))\<rparr>,
              dp_Replicas := dp_Replicas desired,
              dp_Template := dp_Template desired\<rparr>"

definition ensureRobinDeployment :: "'w env \<Rightarrow> Redkey \<Rightarrow> ('w opstate, unit) io" where
  "ensureRobinDeployment e cluster =
     (let built = buildDesiredRobinDeployment cluster in
      bindE (liftR (e_set_controller_reference e cluster (dp_Meta built))) (\<lambda>m.
        let desired = built\<lparr>dp_Meta := m\<rparr> in
        attempt (liftW (rc_get (e_deployments e) (dp_key desired))) (\<lambda>r.
          case r of
            Inl err \<Rightarrow>
              if IsNotFound err
              then bindE (liftW (rc_create (e_deployments e) desired)) (\<lambda>_.
                     emit (CounterInc ''redkey_robin_deployment_changes_total'' [''create'']))
              else throw err
          | Inr existing \<Rightarrow>
              if robinDeploymentNeedsUpdate e existing desired
              then bindE (liftW (rc_patch (e_deployments e) (patched_deployment existing desired) existing)) (\<lambda>_.
                     emit (CounterInc ''redkey_robin_deployment_changes_total'' [''patch'']))
              else ret ())))"

text \<open>What convergence means: the stored objects are the desired ones, up to nil and empty maps and
  to the fields the server completes.\<close>

definition meta_converged :: "ObjectMeta \<Rightarrow> Redkey \<Rightarrow> bool" where
  "meta_converged m cluster \<longleftrightarrow> entries (om_Labels m) = entries (rbac_labels cluster) \<and>
     entries (om_Annotations m) = entries (rbac_annotations cluster)"

definition sa_converged :: "(okey \<Rightarrow> Object option) \<Rightarrow> Redkey \<Rightarrow> bool" where
  "sa_converged st cluster \<longleftrightarrow>
     (\<exists>y. st (KServiceAccount, robin_key cluster) = Some (OServiceAccount y) \<and>
          meta_converged (sa_Meta y) cluster)"

definition role_converged :: "(okey \<Rightarrow> Object option) \<Rightarrow> Redkey \<Rightarrow> bool" where
  "role_converged st cluster \<longleftrightarrow>
     (\<exists>y. st (KRole, robin_key cluster) = Some (ORole y) \<and>
          meta_converged (ro_Meta y) cluster \<and> ro_Rules y = DesiredRobinRules)"

definition rb_converged :: "(okey \<Rightarrow> Object option) \<Rightarrow> Redkey \<Rightarrow> bool" where
  "rb_converged st cluster \<longleftrightarrow>
     (\<exists>y. st (KRoleBinding, robin_key cluster) = Some (ORoleBinding y) \<and>
          meta_converged (rb_Meta y) cluster \<and> rb_Subjects y = desired_subjects cluster \<and>
          rb_RoleRef y = desired_roleref cluster)"

definition rbac_converged :: "(okey \<Rightarrow> Object option) \<Rightarrow> Redkey \<Rightarrow> bool" where
  "rbac_converged st cluster \<longleftrightarrow>
     sa_converged st cluster \<and> role_converged st cluster \<and> rb_converged st cluster"

definition deployment_converged :: "'w env \<Rightarrow> (okey \<Rightarrow> Object option) \<Rightarrow> Redkey \<Rightarrow> bool" where
  "deployment_converged e st cluster \<longleftrightarrow>
     (\<exists>y. st (KDeployment, robin_key cluster) = Some (ODeployment y) \<and>
          \<not> robinDeploymentNeedsUpdate e y (buildDesiredRobinDeployment cluster))"

definition deployment_selector_ok :: "(okey \<Rightarrow> Object option) \<Rightarrow> Redkey \<Rightarrow> bool" where
  "deployment_selector_ok st cluster \<longleftrightarrow>
     (\<forall>x. st (KDeployment, robin_key cluster) = Some (ODeployment x) \<longrightarrow>
          entries (dp_MatchLabels x) = entries (robin_base_labels cluster))"

definition no_revision_annotation :: "Redkey \<Rightarrow> bool" where
  "no_revision_annotation cluster \<longleftrightarrow>
     mget (derefMap (sp_Annotations (rk_Spec cluster))) deploymentRevisionAnnotation = None"

definition rbac_keys :: "Redkey \<Rightarrow> okey set" where
  "rbac_keys cluster =
     {(KServiceAccount, robin_key cluster), (KRole, robin_key cluster), (KRoleBinding, robin_key cluster)}"

section \<open>Lemmas\<close>

lemma ClusterLabel_neq_ComponentLabel [simp]: "ClusterLabel \<noteq> ComponentLabel" "ComponentLabel \<noteq> ClusterLabel"
  by (simp_all add: ClusterLabel_def ComponentLabel_def)

lemma mget_robin_base_labels:
  "mget (robin_base_labels cluster) k =
     (if k = ClusterLabel then Some (om_Name (rk_Meta cluster))
      else if k = ComponentLabel then Some ''robin'' else None)"
  by (simp add: robin_base_labels_def fmlookup_of_list)

lemma meta_key_rbac_meta [simp]: "meta_key (rbac_meta cluster) = robin_key cluster"
  by (simp add: rbac_meta_def robin_key_def)

lemma rbac_meta_sel [simp]:
  "om_Labels (rbac_meta cluster) = rbac_labels cluster"
  "om_Annotations (rbac_meta cluster) = rbac_annotations cluster"
  "om_Namespace (rbac_meta cluster) = om_Namespace (rk_Meta cluster)"
  "om_OwnerReferences (rbac_meta cluster) = []"
  by (simp_all add: rbac_meta_def)

lemma meta_key_simps [simp]:
  "meta_key (m\<lparr>om_OwnerReferences := x\<rparr>) = meta_key m"
  "meta_key (set_meta_maps m n) = meta_key m"
  "meta_key (m\<lparr>om_Labels := l, om_Annotations := a\<rparr>) = meta_key m"
  by (simp_all add: meta_key_def set_meta_maps_def)

lemma set_meta_maps_sel [simp]:
  "om_Labels (set_meta_maps m n) = om_Labels n" "om_Annotations (set_meta_maps m n) = om_Annotations n"
  by (simp_all add: set_meta_maps_def)

lemma build_sel [simp]:
  "dp_Replicas (buildDesiredRobinDeployment cluster) = Some 1"
  "dp_MatchLabels (buildDesiredRobinDeployment cluster) = robin_base_labels cluster"
  "om_Labels (dp_Meta (buildDesiredRobinDeployment cluster)) = rbac_labels cluster"
  "om_Annotations (dp_Meta (buildDesiredRobinDeployment cluster)) = rbac_annotations cluster"
  "om_Namespace (dp_Meta (buildDesiredRobinDeployment cluster)) = om_Namespace (rk_Meta cluster)"
  "om_OwnerReferences (dp_Meta (buildDesiredRobinDeployment cluster)) = []"
  "dp_key (buildDesiredRobinDeployment cluster) = robin_key cluster"
  by (simp_all add: buildDesiredRobinDeployment_def rbac_labels_def rbac_annotations_def
      robin_key_def Let_def split: prod.splits)

lemma build_pod_labels:
  "mget (pt_Labels (dp_Template (buildDesiredRobinDeployment cluster))) k =
     (case mget (robin_base_labels cluster) k of
        Some v \<Rightarrow> Some v
      | None \<Rightarrow>
          (case rs_Template (sp_Robin (rk_Spec cluster)) of
             Some tpl \<Rightarrow> if mempty (om_Labels (ppt_Metadata tpl))
                         then mget (derefMap (sp_Labels (rk_Spec cluster))) k
                         else mget (om_Labels (ppt_Metadata tpl)) k
           | None \<Rightarrow> mget (derefMap (sp_Labels (rk_Spec cluster))) k))"
  by (cases "rs_Template (sp_Robin (rk_Spec cluster))")
    (simp_all add: buildDesiredRobinDeployment_def Let_def mget_mergeMeta split: option.splits)

lemma selector_matches_template:
  assumes "entries (dp_MatchLabels d) = entries (robin_base_labels cluster)"
    and "dp_Template d = dp_Template (buildDesiredRobinDeployment cluster)"
  shows "selector_matches d"
  using assms by (auto simp: selector_matches_def map_le_def build_pod_labels fmlookup_dom'_iff)

lemma build_selector_matches: "selector_matches (buildDesiredRobinDeployment cluster)"
  by (rule selector_matches_template) simp_all

lemma rbac_annotations_no_revision:
  "no_revision_annotation cluster \<Longrightarrow> mget (rbac_annotations cluster) deploymentRevisionAnnotation = None"
  by (simp add: rbac_annotations_def no_revision_annotation_def mget_mergeMeta)

lemma robin_env_defaults:
  "env_last (c_Env (robin_container cluster)) n =
     (case env_last (robinDefaultEnvVars cluster) n of
        Some x \<Rightarrow> Some x
      | None \<Rightarrow>
          (case rs_Template (sp_Robin (rk_Spec cluster)) of
             None \<Rightarrow> None
           | Some tpl \<Rightarrow> (case pp_Containers (ppt_Spec tpl) of [] \<Rightarrow> None | src # _ \<Rightarrow> env_last (c_Env src) n)))"
proof -
  have base: "c_Env (base_container cluster) = robinDefaultEnvVars cluster"
    by (simp add: base_container_def)
  have env: "c_Env (override_container c src) =
      (if c_Env src \<noteq> [] then mergeEnvVars (c_Env c) (c_Env src) else c_Env c)" for c src
    by (simp add: override_container_def Let_def)
  have ov: "env_last (c_Env (override_container (base_container cluster) src)) n =
      (case env_last (c_Env src) n of Some x \<Rightarrow> Some x | None \<Rightarrow> env_last (robinDefaultEnvVars cluster) n)" for src
    by (simp add: env env_last_mergeEnvVars base)
  show ?thesis
    by (auto simp: robin_container_def Let_def env_last_mergeEnvVars ov base
        split: option.splits list.splits)
qed

lemma patched_deployment_sel [simp]:
  "dp_key (patched_deployment x d) = dp_key x"
  "dp_MatchLabels (patched_deployment x d) = dp_MatchLabels x"
  "dp_Template (patched_deployment x d) = dp_Template d"
  by (simp_all add: patched_deployment_def)

lemma needsUpdate_owner [simp]:
  "robinDeploymentNeedsUpdate e y (d\<lparr>dp_Meta := (dp_Meta d)\<lparr>om_OwnerReferences := refs\<rparr>\<rparr>) =
   robinDeploymentNeedsUpdate e y d"
  by (auto simp: robinDeploymentNeedsUpdate_def)

context kube_objects
begin

lemma meta_drift_iff:
  "meta_drift e m (rbac_meta cluster\<lparr>om_OwnerReferences := refs\<rparr>) \<longleftrightarrow> \<not> meta_converged m cluster"
  by (auto simp: meta_drift_def meta_converged_def)

lemma rbac_owner_reference:
  obtains refs where "e_set_controller_reference e cluster (rbac_meta cluster)
      = Inr (rbac_meta cluster\<lparr>om_OwnerReferences := refs\<rparr>)"
  using owner_reference [of "rbac_meta cluster" cluster] by auto

lemma ensureServiceAccount_converges:
  "sa.reaches w (ensureServiceAccount e cluster) (robin_key cluster)
     (\<lambda>y. meta_converged (sa_Meta y) cluster)"
proof -
  obtain refs where ref: "e_set_controller_reference e cluster (rbac_meta cluster)
      = Inr (rbac_meta cluster\<lparr>om_OwnerReferences := refs\<rparr>)"
    by (rule rbac_owner_reference)
  show ?thesis
    unfolding ensureServiceAccount_def ref bindE_liftR Let_def
    by (rule sa.reaches_ensure)
      (auto simp: sa_agrees_def meta_agrees_def meta_converged_def meta_drift_iff
        intro!: sa.reaches_ret sa.reaches_patch)
qed

lemma ensureRole_converges:
  "role.reaches w (ensureRole e cluster) (robin_key cluster)
     (\<lambda>y. meta_converged (ro_Meta y) cluster \<and> ro_Rules y = DesiredRobinRules)"
proof -
  obtain refs where ref: "e_set_controller_reference e cluster (rbac_meta cluster)
      = Inr (rbac_meta cluster\<lparr>om_OwnerReferences := refs\<rparr>)"
    by (rule rbac_owner_reference)
  show ?thesis
    unfolding ensureRole_def ref bindE_liftR Let_def
    by (rule role.reaches_ensure)
      (auto simp: role_agrees_def meta_agrees_def meta_converged_def meta_drift_iff
        intro!: role.reaches_ret role.reaches_patch)
qed

lemma ensureRoleBinding_converges:
  "rb.reaches w (ensureRoleBinding e cluster) (robin_key cluster)
     (\<lambda>y. meta_converged (rb_Meta y) cluster \<and> rb_Subjects y = desired_subjects cluster \<and>
          rb_RoleRef y = desired_roleref cluster)"
proof -
  obtain refs where ref: "e_set_controller_reference e cluster (rbac_meta cluster)
      = Inr (rbac_meta cluster\<lparr>om_OwnerReferences := refs\<rparr>)"
    by (rule rbac_owner_reference)
  show ?thesis
    unfolding ensureRoleBinding_def ref bindE_liftR Let_def
    by (rule rb.reaches_ensure)
      (auto simp: rb_agrees_def meta_agrees_def meta_converged_def rb_immutable_def meta_drift_iff
        intro!: rb.reaches_ret rb.reaches_patch rb.reaches_recreate)
qed

lemma ensureRBAC_converges:
  "\<exists>w'. ensureRBAC e cluster s = (Inr (), s\<lparr>world := w'\<rparr>) \<and> rbac_converged (look w') cluster \<and>
        (\<forall>q. q \<notin> rbac_keys cluster \<longrightarrow> look w' q = look (world s) q)"
proof -
  obtain w1 where w1: "ensureServiceAccount e cluster (world s) = (Inr (), w1)"
      "sa_converged (look w1) cluster"
      "\<And>q. q \<noteq> (KServiceAccount, robin_key cluster) \<Longrightarrow> look w1 q = look (world s) q"
    using ensureServiceAccount_converges [of "world s" cluster]
    by (auto simp: sa.reaches_def sa_converged_def)
  obtain w2 where w2: "ensureRole e cluster w1 = (Inr (), w2)" "role_converged (look w2) cluster"
      "\<And>q. q \<noteq> (KRole, robin_key cluster) \<Longrightarrow> look w2 q = look w1 q"
    using ensureRole_converges [of w1 cluster]
    by (auto simp: role.reaches_def role_converged_def)
  obtain w3 where w3: "ensureRoleBinding e cluster w2 = (Inr (), w3)" "rb_converged (look w3) cluster"
      "\<And>q. q \<noteq> (KRoleBinding, robin_key cluster) \<Longrightarrow> look w3 q = look w2 q"
    using ensureRoleBinding_converges [of w2 cluster]
    by (auto simp: rb.reaches_def rb_converged_def)
  have "ensureRBAC e cluster s = (Inr (), s\<lparr>world := w3\<rparr>)"
    using w1(1) w2(1) w3(1) by (simp add: ensureRBAC_def io_simps)
  moreover have "rbac_converged (look w3) cluster"
    using w1(2) w2(2) w3(2) w2(3) w3(3)
    by (simp add: rbac_converged_def sa_converged_def role_converged_def)
  moreover have "\<forall>q. q \<notin> rbac_keys cluster \<longrightarrow> look w3 q = look (world s) q"
    using w1(3) w2(3) w3(3) by (simp add: rbac_keys_def)
  ultimately show ?thesis by blast
qed

lemma ensureRBAC_stable:
  assumes "rbac_converged (look (world s)) cluster"
  shows "ensureRBAC e cluster s = (Inr (), s)"
proof -
  obtain refs where ref: "e_set_controller_reference e cluster (rbac_meta cluster)
      = Inr (rbac_meta cluster\<lparr>om_OwnerReferences := refs\<rparr>)"
    by (rule rbac_owner_reference)
  from assms obtain x y z where
    x: "look (world s) (KServiceAccount, robin_key cluster) = Some (OServiceAccount x)"
      "meta_converged (sa_Meta x) cluster" and
    y: "look (world s) (KRole, robin_key cluster) = Some (ORole y)"
      "meta_converged (ro_Meta y) cluster" "ro_Rules y = DesiredRobinRules" and
    z: "look (world s) (KRoleBinding, robin_key cluster) = Some (ORoleBinding z)"
      "meta_converged (rb_Meta z) cluster" "rb_Subjects z = desired_subjects cluster"
      "rb_RoleRef z = desired_roleref cluster"
    by (auto simp: rbac_converged_def sa_converged_def role_converged_def rb_converged_def)
  have "ensureServiceAccount e cluster (world s) = (Inr (), world s)"
    using x sa.get_some [OF x(1)]
    by (simp add: ensureServiceAccount_def ref io_simps meta_drift_iff)
  moreover have "ensureRole e cluster (world s) = (Inr (), world s)"
    using y role.get_some [OF y(1)] by (simp add: ensureRole_def ref io_simps meta_drift_iff)
  moreover have "ensureRoleBinding e cluster (world s) = (Inr (), world s)"
    using z rb.get_some [OF z(1)] by (simp add: ensureRoleBinding_def ref io_simps meta_drift_iff)
  ultimately show ?thesis by (simp add: ensureRBAC_def io_simps)
qed

lemma agrees_built_settled:
  assumes "dp_agrees e d y" "no_revision_annotation cluster"
    and "d = (buildDesiredRobinDeployment cluster)\<lparr>dp_Meta :=
           (dp_Meta (buildDesiredRobinDeployment cluster))\<lparr>om_OwnerReferences := refs\<rparr>\<rparr>"
  shows "\<not> robinDeploymentNeedsUpdate e y (buildDesiredRobinDeployment cluster)"
  using assms rbac_annotations_no_revision [OF assms(2)]
  by (auto simp: robinDeploymentNeedsUpdate_def dp_agrees_def meta_agrees_def entries_strip
      intro!: fmap_ext)

lemma agrees_patched_settled:
  assumes "dp_agrees e (patched_deployment x (buildDesiredRobinDeployment cluster)) y"
    and "no_revision_annotation cluster"
  shows "\<not> robinDeploymentNeedsUpdate e y (buildDesiredRobinDeployment cluster)"
proof -
  let ?d = "buildDesiredRobinDeployment cluster"
  have "entries (stripManagedAnnotations (om_Annotations (dp_Meta y))) =
      entries (stripManagedAnnotations
        (preserveManagedAnnotations (om_Annotations (dp_Meta x)) (rbac_annotations cluster)))"
    using assms(1) by (simp add: dp_agrees_def meta_agrees_def patched_deployment_def entries_strip)
  also have "\<dots> = entries (rbac_annotations cluster)"
    by (rule strip_preserve [OF rbac_annotations_no_revision [OF assms(2)]])
  finally show ?thesis
    using assms(1)
    by (simp add: robinDeploymentNeedsUpdate_def dp_agrees_def meta_agrees_def patched_deployment_def)
qed

lemma dp_agrees_MatchLabels: "dp_agrees e x y \<Longrightarrow> dp_MatchLabels y = dp_MatchLabels x"
  by (simp add: dp_agrees_def)

lemma patched_deployment_owner:
  "patched_deployment x (d\<lparr>dp_Meta := (dp_Meta d)\<lparr>om_OwnerReferences := refs\<rparr>\<rparr>) = patched_deployment x d"
  by (simp add: patched_deployment_def)

lemma ensureRobinDeployment_converges:
  assumes sel: "deployment_selector_ok (look (world s)) cluster"
    and rev: "no_revision_annotation cluster"
  shows "\<exists>w' c. ensureRobinDeployment e cluster s = (Inr (), s\<lparr>world := w', metric_log := metric_log s @ c\<rparr>) \<and>
           deployment_converged e (look w') cluster \<and> deployment_selector_ok (look w') cluster \<and>
           (\<forall>q. q \<noteq> (KDeployment, robin_key cluster) \<longrightarrow> look w' q = look (world s) q)"
proof -
  let ?b = "buildDesiredRobinDeployment cluster"
  obtain refs where ref: "e_set_controller_reference e cluster (dp_Meta ?b)
      = Inr ((dp_Meta ?b)\<lparr>om_OwnerReferences := refs\<rparr>)"
    using owner_reference [of "dp_Meta ?b" cluster] by auto
  let ?d = "?b\<lparr>dp_Meta := (dp_Meta ?b)\<lparr>om_OwnerReferences := refs\<rparr>\<rparr>"
  let ?ok = "\<lambda>y. \<not> robinDeploymentNeedsUpdate e y ?b \<and>
      entries (dp_MatchLabels y) = entries (robin_base_labels cluster)"
  note unf = ensureRobinDeployment_def ref io_simps patched_deployment_owner deployment_converged_def
    deployment_selector_ok_def
  show ?thesis
  proof (cases rule: dp.get_cases [of "world s" "robin_key cluster", case_names found missing])
    case (missing err)
    have "dp.reaches (world s) (rc_create (e_deployments e) ?d) (robin_key cluster) ?ok"
      using missing(1) by (intro dp.reaches_create)
        (auto intro!: selector_matches_template dest: agrees_built_settled [OF _ rev refl] dp_agrees_MatchLabels)
    with missing show ?thesis by (fastforce simp: unf dp.reaches_def)
  next
    case (found x)
    show ?thesis
    proof (cases "robinDeploymentNeedsUpdate e x ?b")
      case True
      have x: "entries (dp_MatchLabels x) = entries (robin_base_labels cluster)"
        using sel found(1) by (simp add: deployment_selector_ok_def)
      have "entries (dp_MatchLabels y) = entries (robin_base_labels cluster)"
        if "dp_agrees e (patched_deployment x ?b) y" for y
        using dp_agrees_MatchLabels [OF that] x by simp
      then have "dp.reaches (world s) (rc_patch (e_deployments e) (patched_deployment x ?b) x)
          (robin_key cluster) ?ok"
        using found x by (intro dp.reaches_patch)
          (auto simp: dp_immutable_def
            intro!: selector_matches_template dest: agrees_patched_settled [OF _ rev])
      with True found show ?thesis by (fastforce simp: unf dp.reaches_def)
    next
      case False
      with found show ?thesis
        using sel by (intro exI [of _ "world s"] exI [of _ "[]"]) (auto simp: unf)
    qed
  qed
qed

lemma ensureRobinDeployment_stable:
  assumes "deployment_converged e (look (world s)) cluster"
  shows "ensureRobinDeployment e cluster s = (Inr (), s)"
proof -
  let ?b = "buildDesiredRobinDeployment cluster"
  obtain refs where ref: "e_set_controller_reference e cluster (dp_Meta ?b)
      = Inr ((dp_Meta ?b)\<lparr>om_OwnerReferences := refs\<rparr>)"
    using owner_reference [of "dp_Meta ?b" cluster] by auto
  from assms obtain y where y: "look (world s) (KDeployment, robin_key cluster) = Some (ODeployment y)"
      "\<not> robinDeploymentNeedsUpdate e y ?b"
    by (auto simp: deployment_converged_def)
  with dp.get_some [OF y(1)] show ?thesis
    by (simp add: ensureRobinDeployment_def ref io_simps)
qed

lemma revision_annotation_never_settles:
  assumes "\<not> no_revision_annotation cluster"
  shows "robinDeploymentNeedsUpdate e x (buildDesiredRobinDeployment cluster)"
proof -
  have "mget (rbac_annotations cluster) deploymentRevisionAnnotation \<noteq> None"
    using assms by (simp add: rbac_annotations_def no_revision_annotation_def mget_mergeMeta)
  moreover have "mget (stripManagedAnnotations (om_Annotations (dp_Meta x))) deploymentRevisionAnnotation = None"
    by (simp add: entries_strip)
  ultimately have "entries (stripManagedAnnotations (om_Annotations (dp_Meta x))) \<noteq> entries (rbac_annotations cluster)"
    by metis
  then show ?thesis by (simp add: robinDeploymentNeedsUpdate_def)
qed

end

end
