(* ===== verification/Config_Lifecycle.thy ===== *)
theory Config_Lifecycle
  imports Robin_Manager
begin

text \<open>
  The life cycle of the sequenced configurations (\<^verbatim>\<open>internal/controller/redkey_config.go\<close>):
  listing, deciding whether a new one is needed, creating it, choosing the active one, mirroring
  its status onto the \<^verbatim>\<open>Redkey\<close>, and deleting the ones older than the last applied.
\<close>

section \<open>Listing and creation\<close>

definition GenerationAnnotation :: string where
  "GenerationAnnotation = ''redkey.inditex.dev/cluster-generation''"

abbreviation seq_of :: "RedkeyConfig \<Rightarrow> int" where
  "seq_of c \<equiv> cs_Sequence (cf_Spec c)"

abbreviation phase_of :: "RedkeyConfig \<Rightarrow> string" where
  "phase_of c \<equiv> ct_ConfigPhase (cf_Status c)"

text \<open>\<^verbatim>\<open>sort.Slice\<close> leaves the order of equal sequence numbers open; here they keep their order.
  Sequence numbers of one cluster are distinct, and then the sorted list is unique
  (lemma \<open>sorted_configs_unique\<close>).\<close>

definition listConfigs :: "'w env \<Rightarrow> Redkey \<Rightarrow> ('w, RedkeyConfig list) io" where
  "listConfigs e cluster =
     bindE (e_list_configs e (om_Namespace (rk_Meta cluster)) (ClusterLabel, om_Name (rk_Meta cluster)))
       (\<lambda>items. ret (sort_key seq_of items))"

definition needsNewConfig :: "Redkey \<Rightarrow> RedkeyConfig option \<Rightarrow> bool" where
  "needsNewConfig cluster latestConfig =
     (let fallback = st_ObservedGeneration (rk_Status cluster) < om_Generation (rk_Meta cluster) in
      case latestConfig of
        None \<Rightarrow> fallback
      | Some c \<Rightarrow>
          let genStr = (case mget (om_Annotations (cf_Meta c)) GenerationAnnotation of
                          None \<Rightarrow> [] | Some s \<Rightarrow> s)
          in if genStr \<noteq> []
             then (case ParseInt genStr of
                     None \<Rightarrow> fallback
                   | Some parsedGen \<Rightarrow>
                       if parsedGen \<ge> om_Generation (rk_Meta cluster) then False else fallback)
             else fallback)"

definition next_seq :: "RedkeyConfig option \<Rightarrow> int" where
  "next_seq highestSeq = (case highestSeq of None \<Rightarrow> 1 | Some c \<Rightarrow> wrap64 (seq_of c + 1))"

definition config_name :: "string \<Rightarrow> int \<Rightarrow> string" where
  "config_name cluster seq = cluster @ ''-'' @ FormatInt seq"

definition build_config :: "Redkey \<Rightarrow> int \<Rightarrow> RedkeyConfig" where
  "build_config cluster seq =
     (let sp = rk_Spec cluster in
      \<lparr>cf_Meta = mk_meta (config_name (om_Name (rk_Meta cluster)) seq) (om_Namespace (rk_Meta cluster))
          (mergeMeta (derefMap (sp_Labels sp)) None
             (Some (fmap_of_list [(ClusterLabel, om_Name (rk_Meta cluster))])))
          (mergeMeta (derefMap (sp_Annotations sp)) None
             (Some (fmap_of_list [(GenerationAnnotation, FormatInt (om_Generation (rk_Meta cluster)))]))),
       cf_Spec =
         \<lparr>cs_Sequence = seq,
          cs_SkipIfSuperseded = sp_SkipIfSuperseded sp,
          cs_Mode = sp_Mode sp,
          cs_Primaries = sp_Primaries sp,
          cs_ReplicasPerPrimary = sp_ReplicasPerPrimary sp,
          cs_Ephemeral = sp_Ephemeral sp,
          cs_Storage = sp_Storage sp,
          cs_StorageClassName = sp_StorageClassName sp,
          cs_Image = sp_Image sp,
          cs_Version = sp_Version sp,
          cs_RedisConfig = sp_Config sp,
          cs_Resources = sp_Resources sp,
          cs_Auth = sp_Auth sp,
          cs_Labels = sp_Labels sp,
          cs_Annotations = sp_Annotations sp,
          cs_DeletePVC = sp_DeletePVC sp,
          cs_PurgeKeysOnRebalance = sp_PurgeKeysOnRebalance sp,
          cs_Override = sp_Override sp,
          cs_Pdb = sp_Pdb sp,
          cs_RobinConfig = (case rs_Config (sp_Robin sp) of None \<Rightarrow> None | Some c \<Rightarrow> Some c)\<rparr>,
       cf_Status = zero_ConfigStatus\<rparr>)"

definition createNewConfig :: "'w env \<Rightarrow> Redkey \<Rightarrow> RedkeyConfig option \<Rightarrow> ('w opstate, unit) io" where
  "createNewConfig e cluster highestSeq =
     (let config = build_config cluster (next_seq highestSeq) in
      bindE (liftR (e_set_controller_reference e cluster (cf_Meta config))) (\<lambda>m.
        attempt (liftW (rc_create (e_configs e) (config\<lparr>cf_Meta := m\<rparr>))) (\<lambda>r.
          case r of
            Inl err \<Rightarrow> if IsAlreadyExists err then ret () else throw err
          | Inr _ \<Rightarrow>
              emit (CounterInc ''redkey_config_creations_total''
                [if highestSeq = None then ''initial'' else ''generation_change'']))))"

section \<open>Status aggregation\<close>

text \<open>\<open>None\<close> is the panic of \<^verbatim>\<open>configs[0]\<close> on an empty slice.\<close>

definition selectActiveConfig :: "RedkeyConfig list \<Rightarrow> RedkeyConfig option" where
  "selectActiveConfig configs =
     (if length configs = 1 then Some (configs ! 0)
      else case find (\<lambda>c. phase_of c = ConfigPhaseInProgress) configs of
             Some c \<Rightarrow> Some c
           | None \<Rightarrow> (case configs of [] \<Rightarrow> None | c # _ \<Rightarrow> Some c))"

definition isTerminalConfigPhase :: "string \<Rightarrow> bool" where
  "isTerminalConfigPhase phase \<longleftrightarrow> phase = ConfigPhaseApplied \<or> phase = ConfigPhaseSuperseded"

definition isConfigReady :: "RedkeyConfig option \<Rightarrow> bool" where
  "isConfigReady config \<longleftrightarrow>
     (case config of None \<Rightarrow> False
      | Some c \<Rightarrow> isTerminalConfigPhase (phase_of c) \<and> ct_Status (cf_Status c) \<noteq> ClusterPhaseError)"

definition hasConfigError :: "RedkeyConfig option \<Rightarrow> bool" where
  "hasConfigError config \<longleftrightarrow>
     (case config of None \<Rightarrow> False
      | Some c \<Rightarrow> isTerminalConfigPhase (phase_of c) \<and> ct_Status (cf_Status c) = ClusterPhaseError)"

definition conditionStatus :: "bool \<Rightarrow> string" where
  "conditionStatus b = (if b then ConditionTrue else ConditionFalse)"

definition emptyNodesIfNil :: "nodes \<Rightarrow> nodes" where
  "emptyNodesIfNil ns = (case ns of None \<Rightarrow> Some fmempty | Some m \<Rightarrow> Some m)"

definition mk_condition :: "string \<Rightarrow> string \<Rightarrow> string \<Rightarrow> string \<Rightarrow> Condition" where
  "mk_condition ty status reason message =
     \<lparr>cd_Type = ty, cd_Status = status, cd_ObservedGeneration = 0, cd_LastTransitionTime = 0,
      cd_Reason = reason, cd_Message = message\<rparr>"

definition healthConditionTypes :: "string list" where
  "healthConditionTypes = [ConditionHealthy, ConditionMembershipHealthy, ConditionSlotsCovered,
     ConditionSlotsBalanced, ConditionReplicasBalanced, ConditionClusterCheckPassing]"

definition health_settled :: "RedkeyConfig \<Rightarrow> bool" where
  "health_settled activeConfig \<longleftrightarrow>
     isTerminalConfigPhase (phase_of activeConfig) \<and> ct_Status (cf_Status activeConfig) = ClusterStatusReady"

definition health_condition :: "'w env \<Rightarrow> RedkeyConfig \<Rightarrow> string \<Rightarrow> Condition" where
  "health_condition e activeConfig condType =
     (case (if health_settled activeConfig
            then e_find_status_condition e (ct_Conditions (cf_Status activeConfig)) condType else None) of
        Some src \<Rightarrow> mk_condition condType (cd_Status src) (cd_Reason src) (cd_Message src)
      | None \<Rightarrow> mk_condition condType ConditionUnknown ''Reconciling'' [])"

fun set_conditions :: "'w env \<Rightarrow> Condition list \<Rightarrow> Condition list \<Rightarrow> 'w \<Rightarrow> Condition list \<times> 'w" where
  "set_conditions e conditions [] w = (conditions, w)"
| "set_conditions e conditions (c # cs) w =
     (case e_set_status_condition e conditions c w of
        (conditions', w') \<Rightarrow> set_conditions e conditions' cs w')"

definition aggregateHealthConditions ::
    "'w env \<Rightarrow> Condition list \<Rightarrow> RedkeyConfig \<Rightarrow> 'w \<Rightarrow> Condition list \<times> 'w" where
  "aggregateHealthConditions e conditions activeConfig =
     set_conditions e conditions (map (health_condition e activeConfig) healthConditionTypes)"

definition aggregateConditions ::
    "'w env \<Rightarrow> Condition list \<Rightarrow> RedkeyConfig \<Rightarrow> 'w \<Rightarrow> Condition list \<times> 'w" where
  "aggregateConditions e existingConditions highestConfig w =
     (case set_conditions e existingConditions
        [mk_condition ''Ready'' (conditionStatus (isConfigReady (Some highestConfig))) ''StatusAggregated'' [],
         mk_condition ''ConfigPending''
           (conditionStatus (\<not> isTerminalConfigPhase (phase_of highestConfig))) ''StatusAggregated'' [],
         mk_condition ''Error'' (conditionStatus (hasConfigError (Some highestConfig))) ''StatusAggregated'' []] w of
        (conditions, w') \<Rightarrow> aggregateHealthConditions e conditions highestConfig w')"

definition computePhaseFromConditions :: "'w env \<Rightarrow> Condition list \<Rightarrow> string" where
  "computePhaseFromConditions e conditions =
     (if (case e_find_status_condition e conditions ''Error'' of
            None \<Rightarrow> False | Some c \<Rightarrow> cd_Status c = ConditionTrue) then PhaseError
      else if (case e_find_status_condition e conditions ''Ready'' of
            None \<Rightarrow> False | Some c \<Rightarrow> cd_Status c = ConditionTrue) then PhaseReady
      else PhaseConfiguring)"

text \<open>The body of the retried closure between the \<^verbatim>\<open>Get\<close> and the \<^verbatim>\<open>Status().Update\<close>.\<close>

definition aggregated_status ::
    "'w env \<Rightarrow> RedkeyConfig \<Rightarrow> int \<Rightarrow> Redkey \<Rightarrow> 'w \<Rightarrow> RedkeyStatus \<times> 'w" where
  "aggregated_status e activeConfig observedGeneration latest w =
     (let (now, w1) = e_now e w;
          (conditions, w2) = aggregateConditions e (st_Conditions (rk_Status latest)) activeConfig w1;
          st = (rk_Status latest)\<lparr>
                 st_Replicas := sp_Primaries (rk_Spec latest),
                 st_Status := ct_Status (cf_Status activeConfig),
                 st_Substatus := ct_Substatus (cf_Status activeConfig),
                 st_Nodes := emptyNodesIfNil (ct_Nodes (cf_Status activeConfig)),
                 st_Conditions := conditions,
                 st_Phase := computePhaseFromConditions e conditions,
                 st_LastUpdatedAt := Some now,
                 st_ObservedGeneration := observedGeneration\<rparr>;
          st = (if \<not> sp_Ephemeral (rk_Spec latest) \<and>
                   phase_of activeConfig = ConfigPhaseApplied \<and>
                   cs_Primaries (cf_Spec activeConfig) > 0
                then st\<lparr>st_LastAppliedPrimaries := cs_Primaries (cf_Spec activeConfig),
                        st_LastAppliedReplicasPerPrimary := cs_ReplicasPerPrimary (cf_Spec activeConfig)\<rparr>
                else st)
      in (st, w2))"

definition aggregate_once ::
    "'w env \<Rightarrow> RedkeyConfig \<Rightarrow> int \<Rightarrow> NamespacedName \<Rightarrow> ('w, RedkeyStatus) io" where
  "aggregate_once e activeConfig observedGeneration k =
     bindE (e_get_redkey e k) (\<lambda>latest.
       bindE (liftP (aggregated_status e activeConfig observedGeneration latest)) (\<lambda>st.
         bindE (e_status_update e (latest\<lparr>rk_Status := st\<rparr>)) (\<lambda>updated.
           ret (rk_Status updated))))"

text \<open>Returns the caller's copy with the status that was persisted.\<close>

definition aggregateStatus :: "'w env \<Rightarrow> Redkey \<Rightarrow> RedkeyConfig list \<Rightarrow> ('w, Redkey) io" where
  "aggregateStatus e cluster configs =
     (if configs = [] then ret cluster
      else case selectActiveConfig configs of
             None \<Rightarrow> throw (Panic ''index out of range'')
           | Some activeConfig \<Rightarrow>
               bindE (e_retry_on_conflict e
                        (aggregate_once e activeConfig (om_Generation (rk_Meta cluster))
                           (redkey_NamespacedName cluster))) (\<lambda>st.
                 ret (cluster\<lparr>rk_Status := st\<rparr>)))"

section \<open>Cleanup\<close>

text \<open>After an error the Go function returns the configs not yet handled beside it; its caller
  returns the error and does not read them.\<close>

text \<open>The downward scan for the last applied config; \<open>-1\<close> when there is none.\<close>

fun findLastApplied :: "RedkeyConfig list \<Rightarrow> nat \<Rightarrow> int" where
  "findLastApplied configs 0 = -1"
| "findLastApplied configs (Suc i) =
     (if phase_of (configs ! i) = ConfigPhaseApplied then int i else findLastApplied configs i)"

fun cleanup_loop :: "'w env \<Rightarrow> RedkeyConfig list \<Rightarrow> ('w opstate, unit) io" where
  "cleanup_loop e [] = ret ()"
| "cleanup_loop e (c # cs) =
     attempt (liftW (rc_delete (e_configs e) (config_key c))) (\<lambda>r.
       case r of
         Inl err \<Rightarrow> if \<not> IsNotFound err then throw err else cleanup_loop e cs
       | Inr _ \<Rightarrow> bindE (emit (CounterInc ''redkey_cleanup_deleted_configs_total'' [])) (\<lambda>_. cleanup_loop e cs))"

definition cleanupSupersededConfigs ::
    "'w env \<Rightarrow> RedkeyConfig list \<Rightarrow> ('w opstate, RedkeyConfig list) io" where
  "cleanupSupersededConfigs e configs =
     (if length configs \<le> 1 then ret configs
      else let lastApplied = findLastApplied configs (length configs) in
           if lastApplied \<le> 0 then ret configs
           else bindE (cleanup_loop e (take (nat lastApplied) configs)) (\<lambda>_.
                  ret (drop (nat lastApplied) configs)))"

text \<open>Reference definitions the lemmas compare the code with: the generation a config was created
  for, the phase a config stands for, and what the cleanup keeps (a config goes exactly when a
  later one is applied).\<close>

definition config_generation :: "RedkeyConfig \<Rightarrow> int option" where
  "config_generation c =
     (case mget (om_Annotations (cf_Meta c)) GenerationAnnotation of
        None \<Rightarrow> None | Some s \<Rightarrow> ParseInt s)"

definition phase_of_config :: "RedkeyConfig \<Rightarrow> string" where
  "phase_of_config c =
     (if \<not> isTerminalConfigPhase (phase_of c) then PhaseConfiguring
      else if ct_Status (cf_Status c) = ClusterPhaseError then PhaseError else PhaseReady)"

fun keep_configs :: "RedkeyConfig list \<Rightarrow> RedkeyConfig list" where
  "keep_configs [] = []"
| "keep_configs (c # cs) =
     (if list_ex (\<lambda>d. phase_of d = ConfigPhaseApplied) cs then keep_configs cs else c # cs)"

text \<open>The kept list is a suffix; the dropped prefix is what the loop deletes.\<close>

definition drop_configs :: "RedkeyConfig list \<Rightarrow> RedkeyConfig list" where
  "drop_configs cs = take (length cs - length (keep_configs cs)) cs"

section \<open>Lemmas on listing and creation\<close>

lemma sorted_configs_unique:
  assumes "distinct (map seq_of xs)" "distinct (map seq_of ys)" "set ys = set xs"
    and "sorted (map seq_of ys)"
  shows "ys = sort_key seq_of xs"
proof (rule map_sorted_distinct_set_unique [where f = seq_of])
  show "inj_on seq_of (set ys \<union> set (sort_key seq_of xs))"
    using assms(1,3) by (simp add: distinct_map)
  show "distinct (map seq_of (sort_key seq_of xs))"
    using assms(1) by (simp add: distinct_map)
qed (use assms in simp_all)

lemma ParseInt_nil [simp]: "ParseInt [] = None"
  by (simp add: ParseInt_def)

lemma needsNewConfig_iff:
  "needsNewConfig cluster (Some c) \<longleftrightarrow>
     st_ObservedGeneration (rk_Status cluster) < om_Generation (rk_Meta cluster) \<and>
     (\<forall>g. config_generation c = Some g \<longrightarrow> g < om_Generation (rk_Meta cluster))"
  by (auto simp: needsNewConfig_def config_generation_def Let_def split: option.splits)

lemma needsNewConfig_None:
  "needsNewConfig cluster None \<longleftrightarrow>
     st_ObservedGeneration (rk_Status cluster) < om_Generation (rk_Meta cluster)"
  by (simp add: needsNewConfig_def)

lemma build_config_sel [simp]:
  "seq_of (build_config cluster n) = n"
  "cs_Primaries (cf_Spec (build_config cluster n)) = sp_Primaries (rk_Spec cluster)"
  "cs_ReplicasPerPrimary (cf_Spec (build_config cluster n)) = sp_ReplicasPerPrimary (rk_Spec cluster)"
  "cf_Status (build_config cluster n) = zero_ConfigStatus"
  "om_Namespace (cf_Meta (build_config cluster n)) = om_Namespace (rk_Meta cluster)"
  "om_Name (cf_Meta (build_config cluster n)) = config_name (om_Name (rk_Meta cluster)) n"
  by (simp_all add: build_config_def Let_def)

lemma GenerationAnnotation_neq [simp]: "GenerationAnnotation \<noteq> ClusterLabel"
  by (simp add: GenerationAnnotation_def ClusterLabel_def)

lemma build_config_label:
  "mget (om_Labels (cf_Meta (build_config cluster n))) ClusterLabel = Some (om_Name (rk_Meta cluster))"
  by (simp add: build_config_def Let_def mget_mergeMeta fmlookup_of_list)

lemma build_config_generation:
  "mget (om_Annotations (cf_Meta (build_config cluster n))) GenerationAnnotation =
     Some (FormatInt (om_Generation (rk_Meta cluster)))"
  by (simp add: build_config_def Let_def mget_mergeMeta fmlookup_of_list)

lemma config_generation_build:
  "in_int64 (om_Generation (rk_Meta cluster)) \<Longrightarrow>
     config_generation (build_config cluster n) = Some (om_Generation (rk_Meta cluster))"
  by (simp add: config_generation_def build_config_generation ParseInt_FormatInt)

lemma config_generation_agrees:
  "config_agrees c c' \<Longrightarrow> config_generation c' = config_generation c"
  by (simp add: config_agrees_def meta_agrees_def config_generation_def)

lemma FormatInt_no_dash: "0 \<le> i \<Longrightarrow> CHR ''-'' \<notin> set (FormatInt i)"
  using nat_digits_no_sign by (simp add: FormatInt_def)

lemma FormatInt_inject: "0 \<le> i \<Longrightarrow> 0 \<le> j \<Longrightarrow> FormatInt i = FormatInt j \<longleftrightarrow> i = j"
  by (auto simp: FormatInt_def nat_digits_inject)

lemma append_dash_inject:
  assumes "c \<notin> set ys" "c \<notin> set ys'"
  shows "xs @ c # ys = xs' @ c # ys' \<longleftrightarrow> xs = xs' \<and> ys = ys'"
proof -
  have tw: "takeWhile (\<lambda>z. z \<noteq> c) (rev (us @ c # vs)) = rev vs" if "c \<notin> set vs" for us vs
    using that by (auto simp: takeWhile_append)
  have "ys = ys'" if "xs @ c # ys = xs' @ c # ys'"
    using tw [OF assms(1), of xs] tw [OF assms(2), of xs'] that by (metis rev_rev_ident)
  then show ?thesis by auto
qed

lemma config_name_inject:
  "0 \<le> i \<Longrightarrow> 0 \<le> j \<Longrightarrow> config_name a i = config_name b j \<longleftrightarrow> a = b \<and> i = j"
  using append_dash_inject [OF FormatInt_no_dash FormatInt_no_dash, of i j a b]
  by (simp add: config_name_def FormatInt_inject)

lemma next_seq_greater:
  assumes "sorted (map seq_of configs)" "configs \<noteq> []" "in_int64 (seq_of (last configs) + 1)"
    "in_int64 (seq_of (last configs))"
  shows "\<forall>c \<in> set configs. seq_of c < next_seq (Some (last configs))"
proof
  fix c assume c: "c \<in> set configs"
  from assms(2) have eq: "configs = butlast configs @ [last configs]" by simp
  have "seq_of c \<le> seq_of (last configs)"
    using assms(1) c by (subst (asm) eq, subst (asm) (3) eq) (auto simp: sorted_append)
  with assms(3) show "seq_of c < next_seq (Some (last configs))"
    by (simp add: next_seq_def wrap64_id)
qed

section \<open>Lemmas on the active config and the phase\<close>

lemma selectActiveConfig_total: "configs \<noteq> [] \<Longrightarrow> \<exists>c. selectActiveConfig configs = Some c \<and> c \<in> set configs"
  by (cases configs) (auto simp: selectActiveConfig_def dest: find_SomeD split: option.splits)

lemma isConfigReady_Some:
  "isConfigReady (Some c) \<longleftrightarrow> phase_of_config c = PhaseReady"
  "hasConfigError (Some c) \<longleftrightarrow> phase_of_config c = PhaseError"
  "\<not> isTerminalConfigPhase (phase_of c) \<longleftrightarrow> phase_of_config c = PhaseConfiguring"
  by (auto simp: isConfigReady_def hasConfigError_def phase_of_config_def constant_defs)

lemma healthConditionTypes_not_lifecycle:
  "t \<in> {''Ready'', ''ConfigPending'', ''Error''} \<Longrightarrow> t \<notin> set healthConditionTypes"
  by (auto simp: healthConditionTypes_def constant_defs)

lemma cd_Type_mk_condition [simp]: "cd_Type (mk_condition t s r m) = t"
  by (simp add: mk_condition_def)

lemma cond_core_mk_condition [simp]: "cond_core (mk_condition t s r m) = (t, s, r, m)"
  by (simp add: mk_condition_def cond_core_def)

lemma cd_Type_health_condition [simp]: "cd_Type (health_condition e c t) = t"
  by (simp add: health_condition_def split: option.splits)

lemma conditionStatus_True [simp]: "conditionStatus b = ConditionTrue \<longleftrightarrow> b"
  by (simp add: conditionStatus_def constant_defs)

lemma find_health_condition:
  "find (\<lambda>d. cd_Type d = t) (map (health_condition e c) ts) =
     (if t \<in> set ts then Some (health_condition e c t) else None)"
  by (induction ts) auto

context status_conditions
begin

lemma cond_of_set_conditions:
  "set_conditions e cs new w = (cs', w') \<Longrightarrow> distinct (map cd_Type new) \<Longrightarrow>
     cond_of e cs' t =
       (case find (\<lambda>c. cd_Type c = t) new of Some c \<Rightarrow> Some (cond_core c) | None \<Rightarrow> cond_of e cs t)"
proof (induction new arbitrary: cs w)
  case Nil
  then show ?case by simp
next
  case (Cons c new)
  obtain cs1 w1 where s: "e_set_status_condition e cs c w = (cs1, w1)" by fastforce
  with Cons have "cond_of e cs' t =
      (case find (\<lambda>c. cd_Type c = t) new of Some c \<Rightarrow> Some (cond_core c) | None \<Rightarrow> cond_of e cs1 t)"
    by simp
  moreover have "find (\<lambda>d. cd_Type d = t) new = None" if "cd_Type c = t"
    using Cons.prems(2) that by (auto simp: find_None_iff) (metis imageI)
  ultimately show ?case
    using cond_of_set [OF s, of t] by (cases "cd_Type c = t") (simp_all split: option.split)
qed

lemma aggregateConditions_core:
  assumes "aggregateConditions e cs c w = (cs', w')"
  shows "cond_of e cs' t =
      (if t = ''Ready'' then Some (t, conditionStatus (isConfigReady (Some c)), ''StatusAggregated'', [])
       else if t = ''ConfigPending''
         then Some (t, conditionStatus (\<not> isTerminalConfigPhase (phase_of c)), ''StatusAggregated'', [])
       else if t = ''Error'' then Some (t, conditionStatus (hasConfigError (Some c)), ''StatusAggregated'', [])
       else if t \<in> set healthConditionTypes then Some (cond_core (health_condition e c t))
       else cond_of e cs t)"
proof -
  let ?life = "[mk_condition ''Ready'' (conditionStatus (isConfigReady (Some c))) ''StatusAggregated'' [],
         mk_condition ''ConfigPending''
           (conditionStatus (\<not> isTerminalConfigPhase (phase_of c))) ''StatusAggregated'' [],
         mk_condition ''Error'' (conditionStatus (hasConfigError (Some c))) ''StatusAggregated'' []]"
  let ?health = "map (health_condition e c) healthConditionTypes"
  obtain cs1 w1 where s1: "set_conditions e cs ?life w = (cs1, w1)" by fastforce
  then have s2: "set_conditions e cs1 ?health w1 = (cs', w')"
    using assms by (simp add: aggregateConditions_def aggregateHealthConditions_def)
  have d: "distinct (map cd_Type ?health)"
    by (simp add: o_def healthConditionTypes_def constant_defs)
  have final: "cond_of e cs' t =
      (if t \<in> set healthConditionTypes then Some (cond_core (health_condition e c t)) else cond_of e cs1 t)"
    by (simp add: cond_of_set_conditions [OF s2 d, of t] find_health_condition)
  have "cond_of e cs1 t = (case find (\<lambda>d. cd_Type d = t) ?life of
      Some d \<Rightarrow> Some (cond_core d) | None \<Rightarrow> cond_of e cs t)"
    by (rule cond_of_set_conditions [OF s1]) simp
  then have life: "cond_of e cs1 t =
      (if t = ''Ready'' then Some (t, conditionStatus (isConfigReady (Some c)), ''StatusAggregated'', [])
       else if t = ''ConfigPending''
         then Some (t, conditionStatus (\<not> isTerminalConfigPhase (phase_of c)), ''StatusAggregated'', [])
       else if t = ''Error'' then Some (t, conditionStatus (hasConfigError (Some c)), ''StatusAggregated'', [])
       else cond_of e cs t)"
    by (simp only: find.simps cd_Type_mk_condition cond_core_mk_condition eq_commute [of _ t]
        option.case if_distrib [of "case_option _ _"] split: if_split) simp
  show ?thesis
  proof (cases "t \<in> set healthConditionTypes")
    case True
    then have "t \<noteq> ''Ready''" "t \<noteq> ''ConfigPending''" "t \<noteq> ''Error''"
      using healthConditionTypes_not_lifecycle by blast+
    with final True show ?thesis by (simp only: if_True if_False)
  next
    case False
    with final life show ?thesis by (simp only: if_False)
  qed
qed

lemma computePhase_aggregateConditions:
  assumes "aggregateConditions e cs c w = (cs', w')"
  shows "computePhaseFromConditions e cs' = phase_of_config c"
proof -
  have status: "(case e_find_status_condition e cs' t of None \<Rightarrow> False | Some d \<Rightarrow> cd_Status d = ConditionTrue)
      \<longleftrightarrow> b" if "cond_of e cs' t = Some (t, conditionStatus b, r, m)" for t b r m
    using that by (auto simp: cond_of_def cond_core_def)
  have err: "cond_of e cs' ''Error'' = Some (''Error'', conditionStatus (hasConfigError (Some c)), ''StatusAggregated'', [])"
    by (simp add: aggregateConditions_core [OF assms])
  have ready: "cond_of e cs' ''Ready'' = Some (''Ready'', conditionStatus (isConfigReady (Some c)), ''StatusAggregated'', [])"
    by (simp add: aggregateConditions_core [OF assms])
  show ?thesis
    unfolding computePhaseFromConditions_def status [OF err] status [OF ready]
    by (simp add: phase_of_config_def hasConfigError_def isConfigReady_def)
qed

end

lemma aggregated_status_sel:
  assumes "aggregated_status e c g r w = (st, w')"
  obtains now w1 cs where "e_now e w = (now, w1)"
    "aggregateConditions e (st_Conditions (rk_Status r)) c w1 = (cs, w')"
    "st_Conditions st = cs" "st_Phase st = computePhaseFromConditions e cs"
    "st_ObservedGeneration st = g" "st_Replicas st = sp_Primaries (rk_Spec r)"
    "st_Status st = ct_Status (cf_Status c)" "st_Substatus st = ct_Substatus (cf_Status c)"
    "st_Nodes st = emptyNodesIfNil (ct_Nodes (cf_Status c))"
proof -
  obtain now w1 where n: "e_now e w = (now, w1)" by fastforce
  obtain cs w2 where a: "aggregateConditions e (st_Conditions (rk_Status r)) c w1 = (cs, w2)" by fastforce
  from assms n a show thesis
    by (intro that [of now w1 cs]) (auto simp: aggregated_status_def Let_def split: if_splits)
qed

lemma aggregated_status_topology:
  assumes "aggregated_status e c g r w = (st, w')"
  shows "(st_LastAppliedPrimaries st, st_LastAppliedReplicasPerPrimary st) =
    (if \<not> sp_Ephemeral (rk_Spec r) \<and> phase_of c = ConfigPhaseApplied \<and> cs_Primaries (cf_Spec c) > 0
     then (cs_Primaries (cf_Spec c), cs_ReplicasPerPrimary (cf_Spec c))
     else (st_LastAppliedPrimaries (rk_Status r), st_LastAppliedReplicasPerPrimary (rk_Status r)))"
proof -
  obtain now w1 where n: "e_now e w = (now, w1)" by fastforce
  obtain cs w2 where a: "aggregateConditions e (st_Conditions (rk_Status r)) c w1 = (cs, w2)" by fastforce
  from assms n a show ?thesis
    by (auto simp: aggregated_status_def Let_def split: if_splits)
qed

section \<open>Lemmas on the cleanup\<close>

lemma findLastApplied_cases:
  "n \<le> length configs \<Longrightarrow>
     (findLastApplied configs n = -1 \<and> (\<forall>i < n. phase_of (configs ! i) \<noteq> ConfigPhaseApplied)) \<or>
     (\<exists>i < n. findLastApplied configs n = int i \<and> phase_of (configs ! i) = ConfigPhaseApplied \<and>
              (\<forall>j < n. i < j \<longrightarrow> phase_of (configs ! j) \<noteq> ConfigPhaseApplied))"
proof (induction n)
  case 0
  then show ?case by simp
next
  case (Suc n)
  then show ?case by (auto simp: less_Suc_eq)
qed

lemma keep_configs_drop:
  "i < length cs \<Longrightarrow> phase_of (cs ! i) = ConfigPhaseApplied \<Longrightarrow>
     (\<forall>j < length cs. i < j \<longrightarrow> phase_of (cs ! j) \<noteq> ConfigPhaseApplied) \<Longrightarrow> keep_configs cs = drop i cs"
proof (induction cs arbitrary: i)
  case Nil
  then show ?case by simp
next
  case (Cons c cs)
  show ?case
  proof (cases i)
    case 0
    have "phase_of (cs ! j) \<noteq> ConfigPhaseApplied" if "j < length cs" for j
      using Cons.prems(3) [rule_format, of "Suc j"] 0 that by simp
    then have "\<not> list_ex (\<lambda>d. phase_of d = ConfigPhaseApplied) cs"
      by (auto simp: list_ex_iff in_set_conv_nth)
    with 0 show ?thesis by simp
  next
    case (Suc k)
    with Cons.prems have k: "k < length cs" "phase_of (cs ! k) = ConfigPhaseApplied"
      "\<forall>j < length cs. k < j \<longrightarrow> phase_of (cs ! j) \<noteq> ConfigPhaseApplied"
      by auto
    then have "list_ex (\<lambda>d. phase_of d = ConfigPhaseApplied) cs"
      by (auto simp: list_ex_iff)
    with Cons.IH [OF k] Suc show ?thesis by simp
  qed
qed

lemma keep_configs_none:
  "\<forall>i < length cs. phase_of (cs ! i) \<noteq> ConfigPhaseApplied \<Longrightarrow> keep_configs cs = cs"
proof (cases cs)
  case (Cons c ds)
  assume none: "\<forall>i < length cs. phase_of (cs ! i) \<noteq> ConfigPhaseApplied"
  have "phase_of (ds ! j) \<noteq> ConfigPhaseApplied" if "j < length ds" for j
    using none [rule_format, of "Suc j"] Cons that by simp
  with Cons show ?thesis by (auto simp: list_ex_iff in_set_conv_nth)
qed simp

lemma cleanupSupersededConfigs_eq:
  "cleanupSupersededConfigs e configs =
     bindE (cleanup_loop e (drop_configs configs)) (\<lambda>_. ret (keep_configs configs))"
proof -
  from findLastApplied_cases [of "length configs" configs]
  consider (none) "findLastApplied configs (length configs) = -1"
      "\<forall>i < length configs. phase_of (configs ! i) \<noteq> ConfigPhaseApplied"
    | (some) i where "i < length configs" "findLastApplied configs (length configs) = int i"
      "phase_of (configs ! i) = ConfigPhaseApplied"
      "\<forall>j < length configs. i < j \<longrightarrow> phase_of (configs ! j) \<noteq> ConfigPhaseApplied"
    by auto
  then show ?thesis
  proof cases
    case none
    then have "keep_configs configs = configs" "cleanupSupersededConfigs e configs = ret configs"
      by (simp_all add: keep_configs_none cleanupSupersededConfigs_def Let_def)
    then show ?thesis by (simp add: drop_configs_def fun_eq_iff bindE_def)
  next
    case (some i)
    have keep: "keep_configs configs = drop i configs"
      by (rule keep_configs_drop [OF some(1,3,4)])
    show ?thesis
    proof (cases "i = 0")
      case True
      with some keep have "keep_configs configs = configs" "cleanupSupersededConfigs e configs = ret configs"
        by (simp_all add: cleanupSupersededConfigs_def Let_def)
      then show ?thesis by (simp add: drop_configs_def fun_eq_iff bindE_def)
    next
      case False
      with some(1) have "\<not> length configs \<le> 1" by simp
      with some False keep show ?thesis
        by (simp add: cleanupSupersededConfigs_def Let_def drop_configs_def)
    qed
  qed
qed

lemma drop_keep_configs: "drop_configs cs @ keep_configs cs = cs"
proof -
  have "\<exists>ys. cs = ys @ keep_configs cs" for cs
    by (induction cs rule: keep_configs.induct) (auto, metis append_Cons)
  then obtain ys where ys: "cs = ys @ keep_configs cs" by blast
  then have "length cs - length (keep_configs cs) = length ys"
    by (metis add_diff_cancel_right' length_append)
  then have "drop_configs cs = ys"
    unfolding drop_configs_def by (metis append_eq_conv_conj ys)
  with ys show ?thesis by simp
qed

lemma keep_configs_nonempty: "cs \<noteq> [] \<Longrightarrow> keep_configs cs \<noteq> []"
proof (induction cs)
  case (Cons c cs)
  then show ?case by (cases cs) simp_all
qed simp

lemma keep_configs_applied:
  "c \<in> set (tl (keep_configs cs)) \<Longrightarrow> phase_of c \<noteq> ConfigPhaseApplied"
  by (induction cs rule: keep_configs.induct) (auto simp: list_ex_iff split: if_splits)

end
