(* ===== verification/Config_Store.thy ===== *)
theory Config_Store
  imports Config_Lifecycle
begin

text \<open>
  What the operations of \<^verbatim>\<open>redkey_config.go\<close> do to the objects on the API server, proved in
  the locale \<open>kube_api\<close>: the list is the cluster's configs in sequence order, a creation adds
  exactly one config (or nothing, when its name is taken), the cleanup removes exactly the dropped
  configs, and the aggregation changes the status of one \<^verbatim>\<open>Redkey\<close> and nothing else.
\<close>

section \<open>Specifications\<close>

definition cluster_configs :: "(okey \<Rightarrow> Object option) \<Rightarrow> Redkey \<Rightarrow> RedkeyConfig set" where
  "cluster_configs st cluster =
     {c. st (KConfig, config_key c) = Some (OConfig c) \<and>
         om_Namespace (cf_Meta c) = om_Namespace (rk_Meta cluster) \<and>
         mget (om_Labels (cf_Meta c)) ClusterLabel = Some (om_Name (rk_Meta cluster))}"

definition new_config_key :: "Redkey \<Rightarrow> RedkeyConfig option \<Rightarrow> NamespacedName" where
  "new_config_key cluster highest =
     \<lparr>nn_Namespace = om_Namespace (rk_Meta cluster),
      nn_Name = config_name (om_Name (rk_Meta cluster)) (next_seq highest)\<rparr>"

text \<open>\<open>c\<close> is a config for the present generation of the cluster: its specification is the
  snapshot, it carries the label and the generation, and Robin has not touched it.\<close>

definition fresh_config :: "Redkey \<Rightarrow> int \<Rightarrow> RedkeyConfig \<Rightarrow> bool" where
  "fresh_config cluster n c \<longleftrightarrow>
     config_key c = config_key (build_config cluster n) \<and>
     cf_Spec c = cf_Spec (build_config cluster n) \<and> cf_Status c = zero_ConfigStatus \<and>
     mget (om_Labels (cf_Meta c)) ClusterLabel = Some (om_Name (rk_Meta cluster)) \<and>
     mget (om_Annotations (cf_Meta c)) GenerationAnnotation =
       Some (FormatInt (om_Generation (rk_Meta cluster)))"

text \<open>The objects left after the configs \<open>cs\<close> are deleted.\<close>

definition without_configs :: "(okey \<Rightarrow> Object option) \<Rightarrow> RedkeyConfig list \<Rightarrow> okey \<Rightarrow> Object option" where
  "without_configs st cs q = (if q \<in> (\<lambda>c. (KConfig, config_key c)) ` set cs then None else st q)"

definition stored_count :: "(okey \<Rightarrow> Object option) \<Rightarrow> RedkeyConfig list \<Rightarrow> nat" where
  "stored_count st cs = length (filter (\<lambda>c. st (KConfig, config_key c) \<noteq> None) cs)"

definition creation_reason :: "RedkeyConfig option \<Rightarrow> string" where
  "creation_reason highest = (if highest = None then ''initial'' else ''generation_change'')"

text \<open>The status the aggregation writes: \<open>old\<close> is the stored object, \<open>c\<close> the active config,
  \<open>g\<close> the generation observed.\<close>

definition mirrored :: "'w env \<Rightarrow> RedkeyConfig \<Rightarrow> int \<Rightarrow> Redkey \<Rightarrow> RedkeyStatus \<Rightarrow> bool" where
  "mirrored e c g old st \<longleftrightarrow>
     st_Phase st = phase_of_config c \<and> st_ObservedGeneration st = g \<and>
     st_Replicas st = sp_Primaries (rk_Spec old) \<and>
     st_Status st = ct_Status (cf_Status c) \<and> st_Substatus st = ct_Substatus (cf_Status c) \<and>
     st_Nodes st = emptyNodesIfNil (ct_Nodes (cf_Status c)) \<and>
     (st_LastAppliedPrimaries st, st_LastAppliedReplicasPerPrimary st) =
       (if \<not> sp_Ephemeral (rk_Spec old) \<and> phase_of c = ConfigPhaseApplied \<and> cs_Primaries (cf_Spec c) > 0
        then (cs_Primaries (cf_Spec c), cs_ReplicasPerPrimary (cf_Spec c))
        else (st_LastAppliedPrimaries (rk_Status old), st_LastAppliedReplicasPerPrimary (rk_Status old)))"

section \<open>Lemmas\<close>

lemma build_config_owner [simp]: "om_OwnerReferences (cf_Meta (build_config cluster n)) = []"
  by (simp add: build_config_def Let_def)

lemma config_key_build [simp]: "config_key (build_config cluster (next_seq h)) = new_config_key cluster h"
  by (simp add: meta_key_def new_config_key_def)

lemma fresh_config_agrees:
  "config_agrees ((build_config cluster n)\<lparr>cf_Meta := (cf_Meta (build_config cluster n))\<lparr>om_OwnerReferences := refs\<rparr>\<rparr>) y
     \<Longrightarrow> fresh_config cluster n y"
  using build_config_label [of cluster n] build_config_generation [of cluster n]
  by (simp add: fresh_config_def config_agrees_def meta_agrees_def meta_key_def)

lemma fresh_config_sel:
  assumes "fresh_config cluster n c"
  shows "seq_of c = n" "cs_Primaries (cf_Spec c) = sp_Primaries (rk_Spec cluster)"
    "om_Namespace (cf_Meta c) = om_Namespace (rk_Meta cluster)"
    "om_Name (cf_Meta c) = config_name (om_Name (rk_Meta cluster)) n"
    "phase_of c = []"
  using assms by (auto simp: fresh_config_def meta_key_def zero_ConfigStatus_def)

lemma fresh_config_generation:
  "fresh_config cluster n c \<Longrightarrow> in_int64 (om_Generation (rk_Meta cluster)) \<Longrightarrow>
     config_generation c = Some (om_Generation (rk_Meta cluster))"
  by (simp add: fresh_config_def config_generation_def ParseInt_FormatInt)

lemma without_configs_Cons:
  "without_configs (st((KConfig, config_key c) := None)) cs = without_configs st (c # cs)"
  by (auto simp: without_configs_def)

lemma without_configs_absent:
  "st (KConfig, config_key c) = None \<Longrightarrow> without_configs st (c # cs) = without_configs st cs"
  by (auto simp: without_configs_def)

lemma without_configs_other [simp]:
  "fst q \<noteq> KConfig \<Longrightarrow> without_configs st cs q = st q"
  by (auto simp: without_configs_def)

lemma without_configs_Nil [simp]: "without_configs st [] = st"
  by (simp add: without_configs_def fun_eq_iff)

context kube_objects
begin

lemma createNewConfig_cases:
  obtains (created) w' c where
      "createNewConfig e cluster h s = (Inr (), s\<lparr>world := w',
         metric_log := metric_log s @ [CounterInc ''redkey_config_creations_total'' [creation_reason h]]\<rparr>)"
      "look (world s) (KConfig, new_config_key cluster h) = None"
      "look w' = (look (world s))((KConfig, new_config_key cluster h) \<mapsto> OConfig c)"
      "fresh_config cluster (next_seq h) c"
    | (taken) "createNewConfig e cluster h s = (Inr (), s)"
      "look (world s) (KConfig, new_config_key cluster h) \<noteq> None"
proof -
  let ?b = "build_config cluster (next_seq h)"
  obtain refs where ref: "e_set_controller_reference e cluster (cf_Meta ?b)
      = Inr ((cf_Meta ?b)\<lparr>om_OwnerReferences := refs\<rparr>)"
    using owner_reference [of "cf_Meta ?b" cluster] by auto
  let ?c = "?b\<lparr>cf_Meta := (cf_Meta ?b)\<lparr>om_OwnerReferences := refs\<rparr>\<rparr>"
  note unf = createNewConfig_def ref io_simps creation_reason_def
  show thesis
  proof (cases "look (world s) (KConfig, new_config_key cluster h)")
    case None
    then obtain w' y where "rc_create (e_configs e) ?c (world s) = (Inr (), w')"
        "look w' = (look (world s))((KConfig, new_config_key cluster h) \<mapsto> OConfig y)" "config_agrees ?c y"
      using cf.create_free [of "world s" ?c] by auto
    with None fresh_config_agrees show thesis by (intro created [of w' y]) (simp_all add: unf)
  next
    case (Some ob)
    then obtain err where "rc_create (e_configs e) ?c (world s) = (Inl err, world s)" "IsAlreadyExists err"
      using cf.create_taken [of "world s" ?c] by auto
    with Some show thesis by (intro taken) (simp_all add: unf)
  qed
qed

lemma cleanup_loop_ok:
  "distinct (map config_key cs) \<Longrightarrow>
   \<exists>w'. cleanup_loop e cs s = (Inr (), s\<lparr>world := w',
          metric_log := metric_log s @ replicate (stored_count (look (world s)) cs)
            (CounterInc ''redkey_cleanup_deleted_configs_total'' [])\<rparr>) \<and>
        look w' = without_configs (look (world s)) cs"
proof (induction cs arbitrary: s)
  case Nil
  then show ?case by (intro exI [of _ "world s"]) (simp add: stored_count_def)
next
  case (Cons c cs)
  show ?case
  proof (cases rule: cf.delete_cases [of "config_key c" "world s", case_names deleted absent])
    case (deleted w1)
    have "config_key d \<noteq> config_key c" if "d \<in> set cs" for d
      using Cons.prems that by (simp add: image_iff) metis
    then have same: "stored_count (look w1) cs = stored_count (look (world s)) cs"
      unfolding stored_count_def deleted(2)
      by (intro arg_cong [of _ _ length] filter_cong) auto
    have "look (world s) (KConfig, config_key c) \<noteq> None"
      using cf.delete_none [of "world s" "config_key c"] deleted(1) by auto
    then have count: "stored_count (look (world s)) (c # cs) = Suc (stored_count (look (world s)) cs)"
      by (simp add: stored_count_def)
    let ?s1 = "s\<lparr>world := w1, metric_log := metric_log s @
        [CounterInc ''redkey_cleanup_deleted_configs_total'' []]\<rparr>"
    obtain w' where "cleanup_loop e cs ?s1 = (Inr (), ?s1\<lparr>world := w',
          metric_log := metric_log ?s1 @ replicate (stored_count (look w1) cs)
            (CounterInc ''redkey_cleanup_deleted_configs_total'' [])\<rparr>)"
        "look w' = without_configs (look w1) cs"
      using Cons.IH [of ?s1] Cons.prems by auto
    then show ?thesis
      unfolding count same unfolding deleted(2) without_configs_Cons
      by (intro exI [of _ w']) (simp add: io_simps deleted(1))
  next
    case (absent err)
    then have "stored_count (look (world s)) (c # cs) = stored_count (look (world s)) cs"
      by (simp add: stored_count_def)
    with Cons.IH [of s] Cons.prems absent show ?thesis
      by (simp add: io_simps without_configs_absent)
  qed
qed

lemma look_set_conditions: "look (snd (set_conditions e cs new w)) = look w"
proof (induction new arbitrary: cs w)
  case (Cons c new)
  then show ?case using set_cond_look [of cs c w] by (simp split: prod.split) (metis snd_conv)
qed simp

lemma look_aggregateConditions: "aggregateConditions e cs c w = (cs', w') \<Longrightarrow> look w' = look w"
proof -
  assume a: "aggregateConditions e cs c w = (cs', w')"
  obtain cs1 w1 where "set_conditions e cs
        [mk_condition ''Ready'' (conditionStatus (isConfigReady (Some c))) ''StatusAggregated'' [],
         mk_condition ''ConfigPending''
           (conditionStatus (\<not> isTerminalConfigPhase (phase_of c))) ''StatusAggregated'' [],
         mk_condition ''Error'' (conditionStatus (hasConfigError (Some c))) ''StatusAggregated'' []] w = (cs1, w1)"
    by fastforce
  with a look_set_conditions show ?thesis
    unfolding aggregateConditions_def aggregateHealthConditions_def by (metis prod.case snd_conv)
qed

lemma aggregated_status_mirrored:
  assumes "aggregated_status e c g old w = (st, w')"
  shows "mirrored e c g old st" "look w' = look w"
proof -
  from assms obtain now w1 cs where a: "e_now e w = (now, w1)"
      "aggregateConditions e (st_Conditions (rk_Status old)) c w1 = (cs, w')"
      "st_Phase st = computePhaseFromConditions e cs"
      "st_ObservedGeneration st = g" "st_Replicas st = sp_Primaries (rk_Spec old)"
      "st_Status st = ct_Status (cf_Status c)" "st_Substatus st = ct_Substatus (cf_Status c)"
      "st_Nodes st = emptyNodesIfNil (ct_Nodes (cf_Status c))"
    by (rule aggregated_status_sel)
  then show "mirrored e c g old st"
    using aggregated_status_topology [OF assms] computePhase_aggregateConditions [OF a(2)]
    by (simp add: mirrored_def)
  show "look w' = look w"
    using look_aggregateConditions [OF a(2)] now_look [of w] a(1) by simp
qed

lemma aggregate_once_ok:
  assumes "look w (KRedkey, k) = Some (ORedkey old)"
  shows "\<exists>st w' rv. aggregate_once e c g k w = (Inr st, w') \<and> mirrored e c g old st \<and>
     look w' = (look w)((KRedkey, k) \<mapsto>
       ORedkey (old\<lparr>rk_Meta := (rk_Meta old)\<lparr>om_ResourceVersion := rv\<rparr>, rk_Status := st\<rparr>))"
proof -
  have k: "redkey_NamespacedName old = k"
    using redkey_stored [OF assms] by auto
  obtain st w1 where a: "aggregated_status e c g old w = (st, w1)" by fastforce
  note m = aggregated_status_mirrored [OF a]
  have "redkey_NamespacedName (old\<lparr>rk_Status := st\<rparr>) = k"
    using k by (simp add: redkey_NamespacedName_def)
  with status_update_ok [of w1 "old\<lparr>rk_Status := st\<rparr>" old] assms m(2) k
  obtain w' rv where "e_status_update e (old\<lparr>rk_Status := st\<rparr>) w1 =
      (Inr (old\<lparr>rk_Meta := (rk_Meta old)\<lparr>om_ResourceVersion := rv\<rparr>, rk_Status := st\<rparr>), w')"
      "look w' = (look w)((KRedkey, k) \<mapsto>
         ORedkey (old\<lparr>rk_Meta := (rk_Meta old)\<lparr>om_ResourceVersion := rv\<rparr>, rk_Status := st\<rparr>))"
    by (auto simp: Let_def)
  with m(1) show ?thesis
    by (intro exI [of _ st] exI [of _ w'] exI [of _ rv])
      (simp add: aggregate_once_def io_simps get_redkey_some [OF assms] a)
qed

lemma aggregateStatus_ok:
  assumes "look w (KRedkey, redkey_NamespacedName cluster) = Some (ORedkey old)"
    and "selectActiveConfig configs = Some c" "configs \<noteq> []"
  shows "\<exists>st w' rv. aggregateStatus e cluster configs w = (Inr (cluster\<lparr>rk_Status := st\<rparr>), w') \<and>
     mirrored e c (om_Generation (rk_Meta cluster)) old st \<and>
     look w' = (look w)((KRedkey, redkey_NamespacedName cluster) \<mapsto>
       ORedkey (old\<lparr>rk_Meta := (rk_Meta old)\<lparr>om_ResourceVersion := rv\<rparr>, rk_Status := st\<rparr>))"
proof -
  let ?f = "aggregate_once e c (om_Generation (rk_Meta cluster)) (redkey_NamespacedName cluster)"
  from aggregate_once_ok [OF assms(1)] obtain st w' rv where f: "?f w = (Inr st, w')"
      "mirrored e c (om_Generation (rk_Meta cluster)) old st"
      "look w' = (look w)((KRedkey, redkey_NamespacedName cluster) \<mapsto>
         ORedkey (old\<lparr>rk_Meta := (rk_Meta old)\<lparr>om_ResourceVersion := rv\<rparr>, rk_Status := st\<rparr>))"
    by blast
  have "e_retry_on_conflict e ?f w = ?f w"
    by (rule retry_no_conflict) (simp add: f(1))
  with f assms(2,3) show ?thesis
    by (intro exI [of _ st] exI [of _ w'] exI [of _ rv]) (simp add: aggregateStatus_def io_simps)
qed

end

context kube_api
begin

lemma listConfigs_ok:
  obtains cfs where "listConfigs e cluster w = (Inr cfs, w)" "sorted (map seq_of cfs)"
    "set cfs = cluster_configs (look w) cluster" "distinct (map config_key cfs)"
proof -
  obtain cfs where cfs: "e_list_configs e (om_Namespace (rk_Meta cluster)) (ClusterLabel, om_Name (rk_Meta cluster)) w
        = (Inr cfs, w)" "distinct (map config_key cfs)"
      "set cfs = cluster_configs (look w) cluster"
    using list_configs_ok [of "om_Namespace (rk_Meta cluster)" ClusterLabel "om_Name (rk_Meta cluster)" w]
    unfolding cluster_configs_def by blast
  have "distinct (map config_key (sort_key seq_of cfs))"
    using cfs(2) by (simp add: distinct_map)
  with cfs show thesis
    by (intro that [of "sort_key seq_of cfs"]) (simp_all add: listConfigs_def io_simps)
qed

end

end
