(* ===== verification/Scale_To_Zero.thy ===== *)
theory Scale_To_Zero
  imports Config_Store
begin

text \<open>
  Scaling a cluster to zero primaries (\<^verbatim>\<open>internal/controller/redkey_scale_zero.go\<close>): the four
  cases of \<^verbatim>\<open>reconcileScaleToZero\<close>, the deletion of Robin's Deployment, of its RBAC objects and of
  every config, and the status of a cluster scaled to zero. In the locale \<open>kube_api\<close> each case is
  shown to succeed and its effect on the stored objects is computed.
\<close>

section \<open>Operations\<close>

record Result =
  res_RequeueAfter :: duration

record RedkeyReconciler =
  rec_ResyncInterval :: duration
  rec_MaxConcurrentReconciles :: int

definition deleteRobinDeployment :: "'w env \<Rightarrow> Redkey \<Rightarrow> ('w, unit) io" where
  "deleteRobinDeployment e cluster =
     attempt (rc_delete (e_deployments e) (robin_key cluster)) (\<lambda>r.
       case r of
         Inl err \<Rightarrow>
           if IsNotFound err then ret ()
           else throw (Wrapped (''deleting Robin Deployment '' @ robin_name cluster) err)
       | Inr _ \<Rightarrow> ret ())"

text \<open>The loop over \<^verbatim>\<open>objects\<close>, one deletion per element. The kind in the message is read from the
  object's \<^verbatim>\<open>TypeMeta\<close>, which is empty in the literals.\<close>

fun delete_objects :: "string \<Rightarrow> ('w, unit) io list \<Rightarrow> ('w, unit) io" where
  "delete_objects name [] = ret ()"
| "delete_objects name (del # dels) =
     attempt del (\<lambda>r.
       case r of
         Inl err \<Rightarrow>
           if IsNotFound err then delete_objects name dels
           else throw (Wrapped (''deleting RBAC resource /'' @ name) err)
       | Inr _ \<Rightarrow> delete_objects name dels)"

definition deleteRBAC :: "'w env \<Rightarrow> Redkey \<Rightarrow> ('w, unit) io" where
  "deleteRBAC e cluster =
     delete_objects (robin_name cluster)
       [rc_delete (e_rolebindings e) (robin_key cluster),
        rc_delete (e_roles e) (robin_key cluster),
        rc_delete (e_serviceaccounts e) (robin_key cluster)]"

fun delete_configs :: "'w env \<Rightarrow> RedkeyConfig list \<Rightarrow> ('w, unit) io" where
  "delete_configs e [] = ret ()"
| "delete_configs e (c # cs) =
     attempt (rc_delete (e_configs e) (config_key c)) (\<lambda>r.
       case r of
         Inl err \<Rightarrow>
           if IsNotFound err then delete_configs e cs
           else throw (Wrapped (''deleting config '' @ om_Name (cf_Meta c)) err)
       | Inr _ \<Rightarrow> delete_configs e cs)"

definition deleteAllConfigs :: "'w env \<Rightarrow> Redkey \<Rightarrow> ('w, unit) io" where
  "deleteAllConfigs e cluster =
     attempt (e_list_configs e (om_Namespace (rk_Meta cluster)) (ClusterLabel, om_Name (rk_Meta cluster))) (\<lambda>r.
       case r of
         Inl err \<Rightarrow> throw (Wrapped ''listing configs for deletion'' err)
       | Inr items \<Rightarrow> delete_configs e items)"

definition scaled_to_zero_status :: "'w env \<Rightarrow> Redkey \<Rightarrow> 'w \<Rightarrow> RedkeyStatus \<times> 'w" where
  "scaled_to_zero_status e cluster w =
     (let (now, w1) = e_now e w;
          st = (rk_Status cluster)\<lparr>
                 st_Replicas := 0,
                 st_Phase := PhaseReady,
                 st_Status := [],
                 st_Substatus := zero_Substatus,
                 st_Nodes := Some fmempty,
                 st_LastUpdatedAt := Some now,
                 st_ObservedGeneration := om_Generation (rk_Meta cluster)\<rparr>;
          (conditions, w2) = set_conditions e (st_Conditions (rk_Status cluster))
             [mk_condition ''Ready'' ConditionTrue ''ScaledToZero'' [],
              mk_condition ''ConfigPending'' ConditionFalse ''ScaledToZero'' [],
              mk_condition ''Error'' ConditionFalse ''ScaledToZero'' []] w1
      in (st\<lparr>st_Conditions := conditions\<rparr>, w2))"

text \<open>The in-place update of the caller's copy is its return value.\<close>

definition updateStatusScaledToZero :: "'w env \<Rightarrow> Redkey \<Rightarrow> ('w, Redkey) io" where
  "updateStatusScaledToZero e cluster =
     bindE (liftP (scaled_to_zero_status e cluster)) (\<lambda>st. e_status_update e (cluster\<lparr>rk_Status := st\<rparr>))"

definition reconcileScaleToZero ::
    "'w env \<Rightarrow> RedkeyReconciler \<Rightarrow> Redkey \<Rightarrow> ('w opstate, Result \<times> Redkey) io" where
  "reconcileScaleToZero e r cluster =
     bindE (liftW (listConfigs e cluster)) (\<lambda>configs.
     if configs = [] then
       bindE (liftW (updateStatusScaledToZero e cluster)) (\<lambda>cluster'.
       ret (\<lparr>res_RequeueAfter = rec_ResyncInterval r\<rparr>, cluster'))
     else let latestConfig = last configs in
     if cs_Primaries (cf_Spec latestConfig) \<noteq> 0 then
       bindE (ensureRBAC e cluster) (\<lambda>_.
       bindE (ensureRobinDeployment e cluster) (\<lambda>_.
       bindE (createNewConfig e cluster (Some latestConfig)) (\<lambda>_.
       ret (\<lparr>res_RequeueAfter = rec_ResyncInterval r\<rparr>, cluster))))
     else if phase_of latestConfig = ConfigPhaseApplied then
       bindE (liftW (deleteRobinDeployment e cluster)) (\<lambda>_.
       bindE (liftW (deleteRBAC e cluster)) (\<lambda>_.
       bindE (liftW (deleteAllConfigs e cluster)) (\<lambda>_.
       bindE (liftW (updateStatusScaledToZero e cluster)) (\<lambda>cluster'.
       ret (\<lparr>res_RequeueAfter = rec_ResyncInterval r\<rparr>, cluster')))))
     else
       bindE (ensureRBAC e cluster) (\<lambda>_.
       bindE (ensureRobinDeployment e cluster) (\<lambda>_.
       bindE (liftW (aggregateStatus e cluster configs)) (\<lambda>cluster'.
       ret (\<lparr>res_RequeueAfter = rec_ResyncInterval r\<rparr>, cluster')))))"

section \<open>Specifications\<close>

definition robin_keys :: "Redkey \<Rightarrow> okey set" where
  "robin_keys cluster = insert (KDeployment, robin_key cluster) (rbac_keys cluster)"

text \<open>\<open>st'\<close> is \<open>st\<close> without Robin's objects, without the cluster's configs, and with a new status of
  the cluster.\<close>

definition config_keys :: "(okey \<Rightarrow> Object option) \<Rightarrow> Redkey \<Rightarrow> okey set" where
  "config_keys st cluster = (\<lambda>c. (KConfig, config_key c)) ` cluster_configs st cluster"

definition torn_down :: "(okey \<Rightarrow> Object option) \<Rightarrow> Redkey \<Rightarrow> okey \<Rightarrow> Object option" where
  "torn_down st cluster q = (if q \<in> robin_keys cluster \<union> config_keys st cluster then None else st q)"

definition zero_status :: "'w env \<Rightarrow> Redkey \<Rightarrow> RedkeyStatus \<Rightarrow> bool" where
  "zero_status e old st \<longleftrightarrow>
     st_Replicas st = 0 \<and> st_Phase st = PhaseReady \<and> st_Status st = [] \<and>
     st_Substatus st = zero_Substatus \<and> st_Nodes st = Some fmempty \<and>
     st_ObservedGeneration st = om_Generation (rk_Meta old) \<and>
     cond_of e (st_Conditions st) ''Ready'' = Some (''Ready'', ConditionTrue, ''ScaledToZero'', []) \<and>
     cond_of e (st_Conditions st) ''ConfigPending'' = Some (''ConfigPending'', ConditionFalse, ''ScaledToZero'', []) \<and>
     cond_of e (st_Conditions st) ''Error'' = Some (''Error'', ConditionFalse, ''ScaledToZero'', []) \<and>
     st_LastAppliedPrimaries st = st_LastAppliedPrimaries (rk_Status old) \<and>
     st_LastAppliedReplicasPerPrimary st = st_LastAppliedReplicasPerPrimary (rk_Status old)"

definition set_status :: "Redkey \<Rightarrow> string \<Rightarrow> RedkeyStatus \<Rightarrow> Redkey" where
  "set_status old rv st = old\<lparr>rk_Meta := (rk_Meta old)\<lparr>om_ResourceVersion := rv\<rparr>, rk_Status := st\<rparr>"

definition robin_converged :: "'w env \<Rightarrow> (okey \<Rightarrow> Object option) \<Rightarrow> Redkey \<Rightarrow> bool" where
  "robin_converged e st cluster \<longleftrightarrow> rbac_converged st cluster \<and> deployment_converged e st cluster"

definition redkey_okey :: "Redkey \<Rightarrow> okey" where
  "redkey_okey cluster = (KRedkey, redkey_NamespacedName cluster)"

text \<open>What the runs below start from: the operator's copy of the cluster is the stored one, Robin's
  Deployment (if there is one) has the selector the operator gave it, and the user's annotations
  leave the revision annotation to Kubernetes.\<close>

definition reconcilable :: "(okey \<Rightarrow> Object option) \<Rightarrow> Redkey \<Rightarrow> bool" where
  "reconcilable st cluster \<longleftrightarrow>
     st (redkey_okey cluster) = Some (ORedkey cluster) \<and>
     deployment_selector_ok st cluster \<and> no_revision_annotation cluster"

section \<open>Lemmas\<close>

lemma set_status_sel [simp]:
  "rk_Spec (set_status old rv st) = rk_Spec old" "rk_Status (set_status old rv st) = st"
  "om_Generation (rk_Meta (set_status old rv st)) = om_Generation (rk_Meta old)"
  "om_Name (rk_Meta (set_status old rv st)) = om_Name (rk_Meta old)"
  "om_Namespace (rk_Meta (set_status old rv st)) = om_Namespace (rk_Meta old)"
  by (simp_all add: set_status_def)

lemma set_status_key [simp]:
  "redkey_NamespacedName (set_status old rv st) = redkey_NamespacedName old"
  "redkey_okey (set_status old rv st) = redkey_okey old"
  by (simp_all add: redkey_NamespacedName_def redkey_okey_def)

lemma set_status_robin [simp]:
  "robin_key (set_status old rv st) = robin_key old" "robin_keys (set_status old rv st) = robin_keys old"
  "rbac_labels (set_status old rv st) = rbac_labels old"
  "rbac_annotations (set_status old rv st) = rbac_annotations old"
  by (simp_all add: robin_key_def robin_name_def robin_keys_def rbac_keys_def rbac_labels_def
      rbac_annotations_def robin_base_labels_def)

lemma set_status_build [simp]: "buildDesiredRobinDeployment (set_status old rv st) = buildDesiredRobinDeployment old"
proof -
  have base: "robin_name (set_status old rv st) = robin_name old"
    "robin_base_labels (set_status old rv st) = robin_base_labels old"
    "robinDefaultEnvVars (set_status old rv st) = robinDefaultEnvVars old"
    by (simp_all add: robin_name_def robin_base_labels_def robinDefaultEnvVars_def)
  have inner: "base_container (set_status old rv st) = base_container old"
      "base_podspec (set_status old rv st) = base_podspec old"
    unfolding base_container_def base_podspec_def base set_status_sel by (rule refl)+
  have "robin_container (set_status old rv st) = robin_container old"
      "robin_podspec (set_status old rv st) = robin_podspec old"
    unfolding robin_container_def robin_podspec_def base inner set_status_sel by (rule refl)+
  then show ?thesis
    unfolding buildDesiredRobinDeployment_def base set_status_sel by simp
qed

lemma set_status_converged [simp]:
  "robin_converged e objs (set_status old rv st) = robin_converged e objs old"
  by (simp add: robin_converged_def rbac_converged_def sa_converged_def role_converged_def rb_converged_def
      deployment_converged_def meta_converged_def desired_subjects_def desired_roleref_def robin_name_def)

lemma set_status_selector [simp]:
  "deployment_selector_ok objs (set_status old rv st) = deployment_selector_ok objs old"
  "no_revision_annotation (set_status old rv st) = no_revision_annotation old"
  by (simp_all add: deployment_selector_ok_def robin_base_labels_def no_revision_annotation_def)

lemma set_status_configs [simp]:
  "cluster_configs objs (set_status old rv st) = cluster_configs objs old"
  by (simp add: cluster_configs_def)

lemma okey_kinds:
  "redkey_okey cluster \<notin> robin_keys cluster" "redkey_okey cluster \<notin> config_keys st cluster"
  "(KConfig, k) \<notin> robin_keys cluster"
  by (auto simp: redkey_okey_def robin_keys_def rbac_keys_def config_keys_def)

lemma cluster_configs_cong:
  "(\<And>k. st (KConfig, k) = st' (KConfig, k)) \<Longrightarrow> cluster_configs st cluster = cluster_configs st' cluster"
  by (simp add: cluster_configs_def)

lemma cluster_configs_redkey [simp]:
  "cluster_configs (st(redkey_okey r := x)) cluster = cluster_configs st cluster"
  by (rule cluster_configs_cong) (simp add: redkey_okey_def)

lemma config_keys_cong:
  "(\<And>k. st (KConfig, k) = st' (KConfig, k)) \<Longrightarrow> config_keys st cluster = config_keys st' cluster"
  unfolding config_keys_def by (simp add: cluster_configs_cong [of st st'])

context kube_objects
begin

lemma deleteRobinDeployment_ok:
  "\<exists>w'. deleteRobinDeployment e cluster w = (Inr (), w') \<and>
        look w' = (look w)((KDeployment, robin_key cluster) := None)"
proof (cases rule: dp.delete_cases [of "robin_key cluster" w, case_names deleted absent])
  case (deleted w')
  then show ?thesis by (auto simp: deleteRobinDeployment_def io_simps)
next
  case (absent err)
  then show ?thesis by (auto simp: deleteRobinDeployment_def io_simps fun_upd_idem)
qed

lemma delete_objects_step:
  assumes "(\<exists>w1. del w = (Inr (), w1) \<and> P w1) \<or> (\<exists>err. del w = (Inl err, w) \<and> IsNotFound err \<and> P w)"
    and "\<And>w1. P w1 \<Longrightarrow> \<exists>w'. delete_objects name dels w1 = (Inr (), w') \<and> Q w'"
  shows "\<exists>w'. delete_objects name (del # dels) w = (Inr (), w') \<and> Q w'"
  using assms by (auto simp: io_simps)

lemma deleteRBAC_ok:
  "\<exists>w'. deleteRBAC e cluster w = (Inr (), w') \<and>
        look w' = (\<lambda>q. if q \<in> rbac_keys cluster then None else look w q)"
proof -
  let ?k = "robin_key cluster"
  have rb: "(\<exists>w1. rc_delete (e_rolebindings e) ?k v = (Inr (), w1) \<and> look w1 = (look v)((KRoleBinding, ?k) := None)) \<or>
      (\<exists>err. rc_delete (e_rolebindings e) ?k v = (Inl err, v) \<and> IsNotFound err \<and>
             look v = (look v)((KRoleBinding, ?k) := None))" for v
    by (rule rb.delete_cases [of ?k v]) (auto simp: fun_upd_idem)
  have ro: "(\<exists>w1. rc_delete (e_roles e) ?k v = (Inr (), w1) \<and> look w1 = (look v)((KRole, ?k) := None)) \<or>
      (\<exists>err. rc_delete (e_roles e) ?k v = (Inl err, v) \<and> IsNotFound err \<and>
             look v = (look v)((KRole, ?k) := None))" for v
    by (rule role.delete_cases [of ?k v]) (auto simp: fun_upd_idem)
  have sa: "(\<exists>w1. rc_delete (e_serviceaccounts e) ?k v = (Inr (), w1) \<and>
        look w1 = (look v)((KServiceAccount, ?k) := None)) \<or>
      (\<exists>err. rc_delete (e_serviceaccounts e) ?k v = (Inl err, v) \<and> IsNotFound err \<and>
             look v = (look v)((KServiceAccount, ?k) := None))" for v
    by (rule sa.delete_cases [of ?k v]) (auto simp: fun_upd_idem)
  show ?thesis
    unfolding deleteRBAC_def
    by (rule delete_objects_step [OF rb], rule delete_objects_step [OF ro], rule delete_objects_step [OF sa])
      (auto simp: rbac_keys_def)
qed

lemma delete_configs_ok:
  "\<exists>w'. delete_configs e cs w = (Inr (), w') \<and> look w' = without_configs (look w) cs"
proof (induction cs arbitrary: w)
  case Nil
  then show ?case by simp
next
  case (Cons c cs)
  show ?case
  proof (cases rule: cf.delete_cases [of "config_key c" w, case_names deleted absent])
    case (deleted w1)
    with Cons.IH [of w1] show ?thesis
      unfolding deleted(2) without_configs_Cons by (simp add: io_simps)
  next
    case (absent err)
    with Cons.IH [of w] show ?thesis by (auto simp: io_simps without_configs_absent)
  qed
qed

lemma scaled_to_zero_status_ok:
  assumes "scaled_to_zero_status e cluster w = (st, w')"
  shows "zero_status e cluster st" "look w' = look w"
proof -
  let ?new = "[mk_condition ''Ready'' ConditionTrue ''ScaledToZero'' [],
      mk_condition ''ConfigPending'' ConditionFalse ''ScaledToZero'' [],
      mk_condition ''Error'' ConditionFalse ''ScaledToZero'' []]"
  obtain now w1 where n: "e_now e w = (now, w1)" by fastforce
  obtain cs w2 where c: "set_conditions e (st_Conditions (rk_Status cluster)) ?new w1 = (cs, w2)" by fastforce
  have cond: "cond_of e cs t = (case find (\<lambda>c. cd_Type c = t) ?new of
      Some c \<Rightarrow> Some (cond_core c) | None \<Rightarrow> cond_of e (st_Conditions (rk_Status cluster)) t)" for t
    by (rule cond_of_set_conditions [OF c]) simp
  have st: "st = (rk_Status cluster)\<lparr>st_Replicas := 0, st_Phase := PhaseReady, st_Status := [],
      st_Substatus := zero_Substatus, st_Nodes := Some fmempty, st_LastUpdatedAt := Some now,
      st_ObservedGeneration := om_Generation (rk_Meta cluster), st_Conditions := cs\<rparr>" "w' = w2"
    using assms n c by (auto simp: scaled_to_zero_status_def Let_def)
  then show "zero_status e cluster st" by (simp add: zero_status_def cond)
  show "look w' = look w"
    using look_set_conditions [of "st_Conditions (rk_Status cluster)" ?new w1] c now_look [of w] n st(2) by simp
qed

lemma updateStatusScaledToZero_ok:
  assumes "look w (KRedkey, redkey_NamespacedName cluster) = Some (ORedkey old)"
    and "om_ResourceVersion (rk_Meta cluster) = om_ResourceVersion (rk_Meta old)"
  shows "\<exists>st w' rv. updateStatusScaledToZero e cluster w = (Inr (set_status old rv st), w') \<and>
     zero_status e cluster st \<and>
     look w' = (look w)((KRedkey, redkey_NamespacedName cluster) \<mapsto> ORedkey (set_status old rv st))"
proof -
  obtain st w1 where st: "scaled_to_zero_status e cluster w = (st, w1)" by fastforce
  note ok = scaled_to_zero_status_ok [OF st]
  have k: "redkey_NamespacedName (cluster\<lparr>rk_Status := st\<rparr>) = redkey_NamespacedName cluster"
    by (simp add: redkey_NamespacedName_def)
  from status_update_ok [of w1 "cluster\<lparr>rk_Status := st\<rparr>" old] assms ok(2) k
  obtain w' rv where "e_status_update e (cluster\<lparr>rk_Status := st\<rparr>) w1 = (Inr (set_status old rv st), w')"
      "look w' = (look w)((KRedkey, redkey_NamespacedName cluster) \<mapsto> ORedkey (set_status old rv st))"
    by (auto simp: Let_def set_status_def)
  with ok(1) st show ?thesis
    by (intro exI [of _ st] exI [of _ w'] exI [of _ rv]) (simp add: updateStatusScaledToZero_def io_simps)
qed

lemma ensure_robin_stable:
  assumes "robin_converged e (look (world s)) cluster"
  shows "ensureRBAC e cluster s = (Inr (), s)" "ensureRobinDeployment e cluster s = (Inr (), s)"
  using ensureRBAC_stable [of s cluster] ensureRobinDeployment_stable [of s cluster] assms
  by (simp_all add: robin_converged_def)

lemma ensure_robin:
  assumes "reconcilable (look (world s)) cluster"
  obtains s1 w' l where
    "ensureRBAC e cluster s = (Inr (), s1)"
    "ensureRobinDeployment e cluster s1 = (Inr (), s\<lparr>world := w', metric_log := metric_log s @ l\<rparr>)"
    "robin_converged e (look w') cluster"
    "\<forall>q. q \<notin> robin_keys cluster \<longrightarrow> look w' q = look (world s) q"
    "robin_converged e (look (world s)) cluster \<longrightarrow> look w' = look (world s)"
    "deployment_selector_ok (look w') cluster"
proof -
  obtain w1 where w1: "ensureRBAC e cluster s = (Inr (), s\<lparr>world := w1\<rparr>)" "rbac_converged (look w1) cluster"
      "\<And>q. q \<notin> rbac_keys cluster \<Longrightarrow> look w1 q = look (world s) q"
    using ensureRBAC_converges [of cluster s] by blast
  have "deployment_selector_ok (look (world (s\<lparr>world := w1\<rparr>))) cluster"
    using assms w1(3) by (simp add: reconcilable_def deployment_selector_ok_def rbac_keys_def)
  from ensureRobinDeployment_converges [OF this] assms
  obtain w2 l where w2: "ensureRobinDeployment e cluster (s\<lparr>world := w1\<rparr>) =
        (Inr (), s\<lparr>world := w2, metric_log := metric_log s @ l\<rparr>)"
      "deployment_converged e (look w2) cluster" "deployment_selector_ok (look w2) cluster"
      "\<And>q. q \<noteq> (KDeployment, robin_key cluster) \<Longrightarrow> look w2 q = look w1 q"
    by (auto simp: reconcilable_def)
  have "rbac_converged (look w2) cluster"
    using w1(2) w2(4)
    by (simp add: rbac_converged_def sa_converged_def role_converged_def rb_converged_def)
  moreover have "look w2 = look (world s)" if "robin_converged e (look (world s)) cluster"
  proof -
    have "s\<lparr>world := w1\<rparr> = s" using w1(1) ensure_robin_stable(1) [OF that] by simp
    with w2(1) ensure_robin_stable(2) [OF that] have "world s = world (s\<lparr>world := w2, metric_log := metric_log s @ l\<rparr>)"
      by simp
    then show ?thesis by simp
  qed
  ultimately show thesis
    using w1 w2 by (intro that [of "s\<lparr>world := w1\<rparr>" l w2]) (simp_all add: robin_converged_def robin_keys_def)
qed

lemma robin_converged_cong:
  "(\<And>q. q \<in> robin_keys cluster \<Longrightarrow> st q = st' q) \<Longrightarrow> robin_converged e st cluster \<Longrightarrow> robin_converged e st' cluster"
  by (auto simp: robin_converged_def rbac_converged_def sa_converged_def role_converged_def rb_converged_def
      deployment_converged_def robin_keys_def rbac_keys_def)

end

context kube_api
begin

lemma deleteAllConfigs_ok:
  "\<exists>w'. deleteAllConfigs e cluster w = (Inr (), w') \<and>
        look w' = (\<lambda>q. if q \<in> config_keys (look w) cluster then None else look w q)"
proof -
  obtain cfs where cfs: "e_list_configs e (om_Namespace (rk_Meta cluster)) (ClusterLabel, om_Name (rk_Meta cluster)) w
        = (Inr cfs, w)" "set cfs = cluster_configs (look w) cluster"
    using list_configs_ok [of "om_Namespace (rk_Meta cluster)" ClusterLabel "om_Name (rk_Meta cluster)" w]
    unfolding cluster_configs_def by blast
  with delete_configs_ok [of cfs w] show ?thesis
    by (auto simp: deleteAllConfigs_def io_simps fun_eq_iff without_configs_def config_keys_def)
qed

lemma scale_zero_no_configs:
  assumes "look (world s) (redkey_okey cluster) = Some (ORedkey cluster)"
    and "cluster_configs (look (world s)) cluster = {}"
  shows "\<exists>st w' rv. reconcileScaleToZero e r cluster s =
      (Inr (\<lparr>res_RequeueAfter = rec_ResyncInterval r\<rparr>, set_status cluster rv st), s\<lparr>world := w'\<rparr>) \<and>
    zero_status e cluster st \<and>
    look w' = (look (world s))(redkey_okey cluster \<mapsto> ORedkey (set_status cluster rv st))"
proof -
  have l: "listConfigs e cluster (world s) = (Inr [], world s)"
    using listConfigs_ok [of cluster "world s"] assms(2) by (metis set_empty)
  from updateStatusScaledToZero_ok [of "world s" cluster cluster] assms(1)
  obtain st w' rv where "updateStatusScaledToZero e cluster (world s) = (Inr (set_status cluster rv st), w')"
      "zero_status e cluster st"
      "look w' = (look (world s))(redkey_okey cluster \<mapsto> ORedkey (set_status cluster rv st))"
    by (auto simp: redkey_okey_def)
  then show ?thesis
    by (intro exI [of _ st] exI [of _ w'] exI [of _ rv]) (simp add: reconcileScaleToZero_def io_simps l)
qed

lemma scale_zero_request:
  assumes "reconcilable (look (world s)) cluster"
    and "listConfigs e cluster (world s) = (Inr configs, world s)" "configs \<noteq> []"
    and "cs_Primaries (cf_Spec (last configs)) \<noteq> 0"
    and "look (world s) (KConfig, new_config_key cluster (Some (last configs))) = None"
  shows "\<exists>s' c. reconcileScaleToZero e r cluster s =
      (Inr (\<lparr>res_RequeueAfter = rec_ResyncInterval r\<rparr>, cluster), s') \<and>
    robin_converged e (look (world s')) cluster \<and> deployment_selector_ok (look (world s')) cluster \<and>
    fresh_config cluster (next_seq (Some (last configs))) c \<and>
    look (world s') (KConfig, new_config_key cluster (Some (last configs))) = Some (OConfig c) \<and>
    (\<forall>q. q \<notin> insert (KConfig, new_config_key cluster (Some (last configs))) (robin_keys cluster) \<longrightarrow>
         look (world s') q = look (world s) q)"
proof -
  obtain s0 w1 l where en: "ensureRBAC e cluster s = (Inr (), s0)"
      "ensureRobinDeployment e cluster s0 = (Inr (), s\<lparr>world := w1, metric_log := metric_log s @ l\<rparr>)"
      "robin_converged e (look w1) cluster"
      "\<forall>q. q \<notin> robin_keys cluster \<longrightarrow> look w1 q = look (world s) q"
      "robin_converged e (look (world s)) cluster \<longrightarrow> look w1 = look (world s)"
      "deployment_selector_ok (look w1) cluster"
    by (rule ensure_robin [OF assms(1)])
  let ?s1 = "s\<lparr>world := w1, metric_log := metric_log s @ l\<rparr>"
  have free: "look (world ?s1) (KConfig, new_config_key cluster (Some (last configs))) = None"
    using assms(5) en(4) okey_kinds(3) by simp
  obtain s' c where c: "createNewConfig e cluster (Some (last configs)) ?s1 = (Inr (), s')"
      "look (world s') = (look w1)((KConfig, new_config_key cluster (Some (last configs))) \<mapsto> OConfig c)"
      "fresh_config cluster (next_seq (Some (last configs))) c"
    by (rule createNewConfig_cases [of cluster "Some (last configs)" ?s1]) (use free in auto)
  have "robin_converged e (look (world s')) cluster"
    using okey_kinds(3) by (intro robin_converged_cong [OF _ en(3)]) (auto simp: c(2))
  moreover have "deployment_selector_ok (look (world s')) cluster"
    using en(6) by (simp add: deployment_selector_ok_def c(2))
  ultimately show ?thesis using assms(2-4) en c
    by (intro exI [of _ s'] exI [of _ c]) (simp add: reconcileScaleToZero_def io_simps)
qed

lemma teardown_ok:
  assumes "look w (redkey_okey cluster) = Some (ORedkey cluster)"
  shows "\<exists>w1 w2 w3 st w4 rv. deleteRobinDeployment e cluster w = (Inr (), w1) \<and>
    deleteRBAC e cluster w1 = (Inr (), w2) \<and> deleteAllConfigs e cluster w2 = (Inr (), w3) \<and>
    updateStatusScaledToZero e cluster w3 = (Inr (set_status cluster rv st), w4) \<and>
    zero_status e cluster st \<and>
    look w4 = (torn_down (look w) cluster)(redkey_okey cluster \<mapsto> ORedkey (set_status cluster rv st))"
proof -
  obtain w1 where w1: "deleteRobinDeployment e cluster w = (Inr (), w1)"
      "look w1 = (look w)((KDeployment, robin_key cluster) := None)"
    using deleteRobinDeployment_ok by blast
  obtain w2 where w2: "deleteRBAC e cluster w1 = (Inr (), w2)"
      "look w2 = (\<lambda>q. if q \<in> rbac_keys cluster then None else look w1 q)"
    using deleteRBAC_ok by blast
  obtain w3 where w3: "deleteAllConfigs e cluster w2 = (Inr (), w3)"
      "look w3 = (\<lambda>q. if q \<in> config_keys (look w2) cluster then None else look w2 q)"
    using deleteAllConfigs_ok by blast
  have "config_keys (look w2) cluster = config_keys (look w) cluster"
    by (rule config_keys_cong) (simp add: w1(2) w2(2) rbac_keys_def)
  then have td: "look w3 = torn_down (look w) cluster"
    by (auto simp: w1(2) w2(2) w3(2) torn_down_def robin_keys_def)
  then have "look w3 (KRedkey, redkey_NamespacedName cluster) = Some (ORedkey cluster)"
    using assms okey_kinds(1,2) by (simp add: torn_down_def redkey_okey_def)
  from updateStatusScaledToZero_ok [OF this refl] w1(1) w2(1) w3(1) show ?thesis
    unfolding redkey_okey_def td by blast
qed

lemma scale_zero_applied:
  assumes "look (world s) (redkey_okey cluster) = Some (ORedkey cluster)"
    and "listConfigs e cluster (world s) = (Inr configs, world s)" "configs \<noteq> []"
    and "cs_Primaries (cf_Spec (last configs)) = 0" "phase_of (last configs) = ConfigPhaseApplied"
  shows "\<exists>st w' rv. reconcileScaleToZero e r cluster s =
      (Inr (\<lparr>res_RequeueAfter = rec_ResyncInterval r\<rparr>, set_status cluster rv st), s\<lparr>world := w'\<rparr>) \<and>
    zero_status e cluster st \<and>
    look w' = (torn_down (look (world s)) cluster)(redkey_okey cluster \<mapsto> ORedkey (set_status cluster rv st))"
proof -
  from teardown_ok [OF assms(1)] obtain w1 w2 w3 st w4 rv where
    "deleteRobinDeployment e cluster (world s) = (Inr (), w1)" "deleteRBAC e cluster w1 = (Inr (), w2)"
    "deleteAllConfigs e cluster w2 = (Inr (), w3)"
    "updateStatusScaledToZero e cluster w3 = (Inr (set_status cluster rv st), w4)" "zero_status e cluster st"
    "look w4 = (torn_down (look (world s)) cluster)(redkey_okey cluster \<mapsto> ORedkey (set_status cluster rv st))"
    by blast
  with assms(2-5) show ?thesis
    by (intro exI [of _ st] exI [of _ w4] exI [of _ rv]) (simp add: reconcileScaleToZero_def io_simps)
qed

lemma scale_zero_waiting:
  assumes "reconcilable (look (world s)) cluster"
    and "listConfigs e cluster (world s) = (Inr configs, world s)" "configs \<noteq> []"
    and "cs_Primaries (cf_Spec (last configs)) = 0" "phase_of (last configs) \<noteq> ConfigPhaseApplied"
    and "selectActiveConfig configs = Some c"
  shows "\<exists>s' st rv. reconcileScaleToZero e r cluster s =
      (Inr (\<lparr>res_RequeueAfter = rec_ResyncInterval r\<rparr>, cluster\<lparr>rk_Status := st\<rparr>), s') \<and>
    robin_converged e (look (world s')) cluster \<and> deployment_selector_ok (look (world s')) cluster \<and>
    mirrored e c (om_Generation (rk_Meta cluster)) cluster st \<and>
    look (world s') (redkey_okey cluster) = Some (ORedkey (set_status cluster rv st)) \<and>
    (\<forall>q. q \<notin> insert (redkey_okey cluster) (robin_keys cluster) \<longrightarrow> look (world s') q = look (world s) q)"
proof -
  obtain s0 w1 l where en: "ensureRBAC e cluster s = (Inr (), s0)"
      "ensureRobinDeployment e cluster s0 = (Inr (), s\<lparr>world := w1, metric_log := metric_log s @ l\<rparr>)"
      "robin_converged e (look w1) cluster"
      "\<forall>q. q \<notin> robin_keys cluster \<longrightarrow> look w1 q = look (world s) q"
      "robin_converged e (look (world s)) cluster \<longrightarrow> look w1 = look (world s)"
      "deployment_selector_ok (look w1) cluster"
    by (rule ensure_robin [OF assms(1)])
  have "look w1 (KRedkey, redkey_NamespacedName cluster) = Some (ORedkey cluster)"
    using assms(1) en(4) okey_kinds(1) by (simp add: reconcilable_def redkey_okey_def)
  from aggregateStatus_ok [OF this assms(6,3)] obtain st w2 rv where ag:
    "aggregateStatus e cluster configs w1 = (Inr (cluster\<lparr>rk_Status := st\<rparr>), w2)"
    "mirrored e c (om_Generation (rk_Meta cluster)) cluster st"
    "look w2 = (look w1)(redkey_okey cluster \<mapsto> ORedkey (set_status cluster rv st))"
    by (auto simp: redkey_okey_def set_status_def)
  have "robin_converged e (look w2) cluster"
    using okey_kinds(1) by (intro robin_converged_cong [OF _ en(3)]) (auto simp: ag(3))
  moreover have "deployment_selector_ok (look w2) cluster"
    using en(6) by (simp add: deployment_selector_ok_def ag(3) redkey_okey_def)
  ultimately show ?thesis using assms(2-5) en ag
    by (intro exI [of _ "s\<lparr>world := w2, metric_log := metric_log s @ l\<rparr>"] exI [of _ st] exI [of _ rv])
      (simp add: reconcileScaleToZero_def io_simps)
qed

end

end
