(* ===== verification/Op_Metrics.thy ===== *)
theory Op_Metrics
  imports Kube_Env
begin

text \<open>
  The fleet metrics (\<^verbatim>\<open>internal/controller/metrics.go\<close>): the operation tracker, the readiness
  tracker, and the functions that refresh and drop the series of one \<^verbatim>\<open>Redkey\<close>. Every call on a
  Prometheus vector is appended to \<open>metric_log\<close>; a duration is logged in nanoseconds, before its
  conversion to seconds. The mutexes make each tracker operation one atomic step.

  The locale \<open>gauge_vectors\<close> states what \<^verbatim>\<open>Set\<close> and \<^verbatim>\<open>DeletePartialMatch\<close> do to the series
  of a vector; in it the series after a refresh or a removal are computed.
\<close>

section \<open>Trackers\<close>

definition time_Sub :: "time \<Rightarrow> time \<Rightarrow> duration" where
  "time_Sub t u =
     (let d = t - u in if d > 2 ^ 63 - 1 then 2 ^ 63 - 1 else if d < - (2 ^ 63) then - (2 ^ 63) else d)"

definition time_Now :: "'w env \<Rightarrow> ('w opstate, time) io" where
  "time_Now e = liftW (liftP (e_now e))"

definition time_Since :: "'w env \<Rightarrow> time \<Rightarrow> ('w opstate, duration) io" where
  "time_Since e t = bindE (time_Now e) (\<lambda>now. ret (time_Sub now t))"

definition in_operation :: "string \<Rightarrow> bool" where
  "in_operation status \<longleftrightarrow> status \<noteq> [] \<and> status \<noteq> ClusterStatusReady \<and> status \<noteq> ClusterPhaseError"

definition set_active :: "NamespacedName \<Rightarrow> activeOperation option \<Rightarrow> ('w opstate, unit) io" where
  "set_active k a s = (Inr (), s\<lparr>opTracker_active := (opTracker_active s)(k := a)\<rparr>)"

definition start_operation :: "'w env \<Rightarrow> NamespacedName \<Rightarrow> string \<Rightarrow> ('w opstate, unit) io" where
  "start_operation e k status =
     bindE (time_Now e) (\<lambda>now. set_active k (Some \<lparr>ao_operation = status, ao_startedAt = now\<rparr>))"

definition complete_operation :: "'w env \<Rightarrow> activeOperation \<Rightarrow> string \<Rightarrow> ('w opstate, unit) io" where
  "complete_operation e current result =
     bindE (time_Since e (ao_startedAt current)) (\<lambda>d.
     bindE (emit (HistogramObserve ''redkey_operation_duration_seconds'' [ao_operation current] d)) (\<lambda>_.
     emit (CounterInc ''redkey_operation_total'' [ao_operation current, result])))"

text \<open>The \<^verbatim>\<open>switch\<close> of \<^verbatim>\<open>observe\<close>, with the entry \<^verbatim>\<open>t.active[key]\<close> as its argument.\<close>

definition observe_case ::
    "'w env \<Rightarrow> NamespacedName \<Rightarrow> string \<Rightarrow> string \<Rightarrow> activeOperation option \<Rightarrow> ('w opstate, unit) io" where
  "observe_case e key status phase entry =
     (let inOperation = in_operation status in
      case entry of
        None \<Rightarrow> if inOperation then start_operation e key status else ret ()
      | Some current \<Rightarrow>
          if inOperation \<and> ao_operation current \<noteq> status
          then bindE (complete_operation e current ''superseded'') (\<lambda>_. start_operation e key status)
          else if \<not> inOperation
          then bindE (complete_operation e current
                 (if phase = PhaseError \<or> status = ClusterPhaseError then ''error'' else ''success''))
                 (\<lambda>_. set_active key None)
          else ret ())"

definition observe :: "'w env \<Rightarrow> NamespacedName \<Rightarrow> string \<Rightarrow> string \<Rightarrow> ('w opstate, unit) io" where
  "observe e key status phase s = observe_case e key status phase (opTracker_active s key) s"

definition opTracker_forget :: "NamespacedName \<Rightarrow> ('w opstate, unit) io" where
  "opTracker_forget key = set_active key None"

definition enteredReady :: "NamespacedName \<Rightarrow> string \<Rightarrow> ('w opstate, bool) io" where
  "enteredReady key phase s =
     (let previous = (case readyTracker_lastPhase s key of None \<Rightarrow> [] | Some p \<Rightarrow> p) in
      (Inr (phase = PhaseReady \<and> previous \<noteq> PhaseReady),
       s\<lparr>readyTracker_lastPhase := (readyTracker_lastPhase s)(key \<mapsto> phase)\<rparr>))"

definition readyTracker_forget :: "NamespacedName \<Rightarrow> ('w opstate, unit) io" where
  "readyTracker_forget key s =
     (Inr (), s\<lparr>readyTracker_lastPhase := (readyTracker_lastPhase s)(key := None)\<rparr>)"

section \<open>Refreshing and removing the series\<close>

definition redkeyPhaseValues :: "string list" where
  "redkeyPhaseValues = [PhaseReady, PhaseConfiguring, PhaseError]"

definition redkeyConfigPhaseValues :: "string list" where
  "redkeyConfigPhaseValues =
     [ConfigPhasePending, ConfigPhaseInProgress, ConfigPhaseSuperseded, ConfigPhaseApplied]"

text \<open>The label names of the gauge vectors.\<close>

definition vector_labels :: "string \<Rightarrow> string list" where
  "vector_labels v =
     (if v = ''redkey_phase'' then [''namespace'', ''name'', ''phase'']
      else if v = ''redkey_config_phase'' then [''namespace'', ''name'', ''config_phase'']
      else if v = ''redkey_operation_in_progress'' then [''namespace'', ''name'', ''operation'']
      else [])"

definition cr_labels :: "string \<Rightarrow> string \<Rightarrow> (string \<times> string) list" where
  "cr_labels ns name = [(''namespace'', ns), (''name'', name)]"

fun emits :: "metric_call list \<Rightarrow> ('w opstate, unit) io" where
  "emits [] = ret ()"
| "emits (c # cs) = bindE (emit c) (\<lambda>_. emits cs)"

text \<open>The loops over the phase values: 1 on the active value, 0 on the others.\<close>

definition state_set :: "string \<Rightarrow> string \<Rightarrow> string \<Rightarrow> string \<Rightarrow> string list \<Rightarrow> metric_call list" where
  "state_set vec ns name active vals =
     map (\<lambda>v. GaugeSet vec [ns, name, v] (if v = active then 1 else 0)) vals"

definition recordRedkeyMetrics :: "'w env \<Rightarrow> Redkey \<Rightarrow> RedkeyConfig option \<Rightarrow> ('w opstate, unit) io" where
  "recordRedkeyMetrics e cluster activeConfig =
     (let ns = om_Namespace (rk_Meta cluster);
          name = om_Name (rk_Meta cluster);
          key = \<lparr>nn_Namespace = ns, nn_Name = name\<rparr>;
          status = st_Status (rk_Status cluster);
          phase = st_Phase (rk_Status cluster)
      in bindE (observe e key status phase) (\<lambda>_.
         bindE (emit (GaugeDeletePartialMatch ''redkey_operation_in_progress'' (cr_labels ns name))) (\<lambda>_.
         bindE (if in_operation status
                then emit (GaugeSet ''redkey_operation_in_progress'' [ns, name, status] 1) else ret ()) (\<lambda>_.
         bindE (emits (state_set ''redkey_phase'' ns name phase redkeyPhaseValues)) (\<lambda>_.
         case activeConfig of
           None \<Rightarrow> emit (GaugeDeletePartialMatch ''redkey_config_phase'' (cr_labels ns name))
         | Some c \<Rightarrow>
             bindE (emits (state_set ''redkey_config_phase'' ns name (ct_ConfigPhase (cf_Status c))
                      redkeyConfigPhaseValues)) (\<lambda>_.
             bindE (enteredReady key phase) (\<lambda>entered.
               if entered
               then bindE (time_Since e (om_CreationTimestamp (cf_Meta c))) (\<lambda>d.
                      emit (HistogramObserve ''redkey_time_to_ready_seconds'' [] d))
               else ret ())))))))"

definition deleteRedkeyMetrics :: "NamespacedName \<Rightarrow> ('w opstate, unit) io" where
  "deleteRedkeyMetrics key =
     (let crLabels = cr_labels (nn_Namespace key) (nn_Name key) in
      bindE (emit (GaugeDeletePartialMatch ''redkey_phase'' crLabels)) (\<lambda>_.
      bindE (emit (GaugeDeletePartialMatch ''redkey_config_phase'' crLabels)) (\<lambda>_.
      bindE (emit (GaugeDeletePartialMatch ''redkey_operation_in_progress'' crLabels)) (\<lambda>_.
      bindE (opTracker_forget key) (\<lambda>_.
      readyTracker_forget key)))))"

section \<open>Reference definitions\<close>

definition tracker_inv :: "'w opstate \<Rightarrow> bool" where
  "tracker_inv s \<longleftrightarrow> (\<forall>k a. opTracker_active s k = Some a \<longrightarrow> in_operation (ao_operation a))"

definition tracked :: "'w opstate \<Rightarrow> NamespacedName \<Rightarrow> string option" where
  "tracked s k = map_option ao_operation (opTracker_active s k)"

definition is_completion :: "metric_call \<Rightarrow> bool" where
  "is_completion c \<longleftrightarrow> (case c of CounterInc v _ \<Rightarrow> v = ''redkey_operation_total'' | _ \<Rightarrow> False)"

definition is_duration :: "metric_call \<Rightarrow> bool" where
  "is_duration c \<longleftrightarrow>
     (case c of HistogramObserve v _ _ \<Rightarrow> v = ''redkey_operation_duration_seconds'' | _ \<Rightarrow> False)"

text \<open>A cluster's statuses as the operator sees them one after the other, run through the tracker.\<close>

fun observe_all :: "'w env \<Rightarrow> NamespacedName \<Rightarrow> (string \<times> string) list \<Rightarrow> ('w opstate, unit) io" where
  "observe_all e k [] = ret ()"
| "observe_all e k ((status, phase) # obs) = bindE (observe e k status phase) (\<lambda>_. observe_all e k obs)"

text \<open>The number of operations that begin in a sequence of statuses: an operation begins when its
  status differs from the status observed before.\<close>

fun operations_begun :: "string option \<Rightarrow> string list \<Rightarrow> nat" where
  "operations_begun prev [] = 0"
| "operations_begun prev (status # rest) =
     (if in_operation status
      then (if prev = Some status then 0 else 1) + operations_begun (Some status) rest
      else operations_begun None rest)"

fun enter_all :: "NamespacedName \<Rightarrow> string list \<Rightarrow> ('w opstate, bool list) io" where
  "enter_all k [] = ret []"
| "enter_all k (p # ps) = bindE (enteredReady k p) (\<lambda>b. bindE (enter_all k ps) (\<lambda>bs. ret (b # bs)))"

text \<open>The values of a vector's series after a log of calls, and which series a partial match
  selects.\<close>

definition partial_match :: "string list \<Rightarrow> string list \<Rightarrow> (string \<times> string) list \<Rightarrow> bool" where
  "partial_match names vals ps \<longleftrightarrow> list_all (\<lambda>p. p \<in> set (zip names vals)) ps"

fun replay_one :: "metric_call \<Rightarrow> (string \<Rightarrow> string list \<Rightarrow> int option) \<Rightarrow> string \<Rightarrow> string list \<Rightarrow> int option" where
  "replay_one (GaugeSet v ls x) m v' ls' = (if v' = v \<and> ls' = ls then Some x else m v' ls')"
| "replay_one (GaugeDeletePartialMatch v ps) m v' ls' =
     (if v' = v \<and> partial_match (vector_labels v) ls' ps then None else m v' ls')"
| "replay_one _ m v' ls' = m v' ls'"

definition replay :: "metric_call list \<Rightarrow> string \<Rightarrow> string list \<Rightarrow> int option" where
  "replay log = fold replay_one log (\<lambda>_ _. None)"

fun is_gauge_call :: "metric_call \<Rightarrow> bool" where
  "is_gauge_call (GaugeSet _ _ _) = True"
| "is_gauge_call (GaugeDeletePartialMatch _ _) = True"
| "is_gauge_call _ = False"

fun touches :: "metric_call \<Rightarrow> string \<Rightarrow> string list \<Rightarrow> bool" where
  "touches (GaugeSet v ls _) v' ls' \<longleftrightarrow> v' = v \<and> ls' = ls"
| "touches (GaugeDeletePartialMatch v ps) v' ls' \<longleftrightarrow> v' = v \<and> partial_match (vector_labels v) ls' ps"
| "touches _ _ _ \<longleftrightarrow> False"

text \<open>The log of one refresh.\<close>

definition refresh_log :: "Redkey \<Rightarrow> RedkeyConfig option \<Rightarrow> metric_call list" where
  "refresh_log cluster ac =
     (let ns = om_Namespace (rk_Meta cluster); name = om_Name (rk_Meta cluster);
          status = st_Status (rk_Status cluster) in
      GaugeDeletePartialMatch ''redkey_operation_in_progress'' (cr_labels ns name) #
      (if in_operation status then [GaugeSet ''redkey_operation_in_progress'' [ns, name, status] 1] else []) @
      state_set ''redkey_phase'' ns name (st_Phase (rk_Status cluster)) redkeyPhaseValues @
      (case ac of
         None \<Rightarrow> [GaugeDeletePartialMatch ''redkey_config_phase'' (cr_labels ns name)]
       | Some c \<Rightarrow> state_set ''redkey_config_phase'' ns name (ct_ConfigPhase (cf_Status c)) redkeyConfigPhaseValues))"

section \<open>The interface of the gauge vectors\<close>

locale gauge_vectors =
  fixes series :: "metric_call list \<Rightarrow> string \<Rightarrow> string list \<Rightarrow> int option"
  assumes set_gauge: "series (log @ [GaugeSet v ls x]) v' ls' =
      (if v' = v \<and> ls' = ls then Some x else series log v' ls')"
    and delete_gauge: "series (log @ [GaugeDeletePartialMatch v ps]) v' ls' =
      (if v' = v \<and> partial_match (vector_labels v) ls' ps then None else series log v' ls')"
    and counter_inc: "series (log @ [CounterInc c cl]) v' ls' = series log v' ls'"
    and histogram_observe: "series (log @ [HistogramObserve h hl d]) v' ls' = series log v' ls'"
begin

lemma series_state_set:
  "series (log @ state_set v ns nm act vals) v' ls =
     (if v' = v \<and> (\<exists>x \<in> set vals. ls = [ns, nm, x])
      then Some (if ls = [ns, nm, act] then 1 else 0) else series log v' ls)"
proof (induction vals rule: rev_induct)
  case (snoc x vals)
  have eq: "log @ state_set v ns nm act (vals @ [x]) =
      (log @ state_set v ns nm act vals) @ [GaugeSet v [ns, nm, x] (if x = act then 1 else 0)]"
    by (simp add: state_set_def)
  show ?case
    unfolding eq set_gauge snoc by auto
qed (simp add: state_set_def)

end

interpretation replayed: gauge_vectors replay
  by unfold_locales (simp_all add: replay_def)

section \<open>Lemmas\<close>

lemma emits_eq [simp]: "emits cs s = (Inr (), s\<lparr>metric_log := metric_log s @ cs\<rparr>)"
  by (induction cs arbitrary: s) (simp_all add: bindE_def)

lemma time_Now_eq [io_simps]: "time_Now e s = (case e_now e (world s) of (t, w) \<Rightarrow> (Inr t, s\<lparr>world := w\<rparr>))"
  by (simp add: time_Now_def io_simps split: prod.split)

lemma set_active_eq [simp]: "set_active k a s = (Inr (), s\<lparr>opTracker_active := (opTracker_active s)(k := a)\<rparr>)"
  by (simp add: set_active_def)

lemma in_operation_neq:
  "in_operation status \<Longrightarrow> status \<noteq> ClusterPhaseError" "\<not> in_operation []"
  by (auto simp: in_operation_def)

text \<open>One observation, in full: what happens to the tracked operation and to the log.\<close>

lemma observe_run:
  obtains w' op' log' where
    "observe e k status phase s = (Inr (), s\<lparr>world := w', opTracker_active := (opTracker_active s)(k := op'),
       metric_log := metric_log s @ log'\<rparr>)"
    "map_option ao_operation op' = (if in_operation status then Some status else None)"
    "log' = (case opTracker_active s k of
        None \<Rightarrow> []
      | Some cur \<Rightarrow>
          if in_operation status \<and> ao_operation cur = status then []
          else [HistogramObserve ''redkey_operation_duration_seconds'' [ao_operation cur]
                  (time_Sub (fst (e_now e (world s))) (ao_startedAt cur)),
                CounterInc ''redkey_operation_total'' [ao_operation cur,
                  if in_operation status then ''superseded''
                  else if phase = PhaseError \<or> status = ClusterPhaseError then ''error'' else ''success'']])"
proof -
  obtain t w1 where t: "e_now e (world s) = (t, w1)" by fastforce
  obtain t' w2 where t': "e_now e w1 = (t', w2)" by fastforce
  note unf = observe_def observe_case_def start_operation_def complete_operation_def time_Since_def io_simps t t'
  consider (idle) "opTracker_active s k = None" "\<not> in_operation status"
    | (start) "opTracker_active s k = None" "in_operation status"
    | (same) cur where "opTracker_active s k = Some cur" "in_operation status" "ao_operation cur = status"
    | (other) cur where "opTracker_active s k = Some cur" "in_operation status" "ao_operation cur \<noteq> status"
    | (settle) cur where "opTracker_active s k = Some cur" "\<not> in_operation status"
    by (cases "opTracker_active s k") auto
  then show thesis
  proof cases
    case idle
    then show thesis
      by (intro that [where w' = "world s" and op' = None and log' = "[]"]) (simp_all add: unf fun_upd_idem)
  next
    case start
    then show thesis
      by (intro that [where w' = w1 and op' = "Some \<lparr>ao_operation = status, ao_startedAt = t\<rparr>"
          and log' = "[]"]) (simp_all add: unf)
  next
    case same
    then show thesis
      by (intro that [where w' = "world s" and op' = "Some cur" and log' = "[]"]) (simp_all add: unf fun_upd_idem)
  next
    case other
    then show thesis
      by (intro that [where w' = w2 and op' = "Some \<lparr>ao_operation = status, ao_startedAt = t'\<rparr>",
          OF _ _ refl])
        (simp_all add: unf)
  next
    case settle
    then show thesis
      by (intro that [where w' = w1 and op' = None, OF _ _ refl]) (simp_all add: unf)
  qed
qed

lemma observe_other: "k' \<noteq> k \<Longrightarrow> tracked (snd (observe e k status phase s)) k' = tracked s k'"
  by (rule observe_run [of e k status phase s]) (simp add: tracked_def)

lemma observe_tracked:
  "tracked (snd (observe e k status phase s)) k = (if in_operation status then Some status else None)"
  by (rule observe_run [of e k status phase s]) (simp add: tracked_def)

lemma observe_inv:
  assumes "tracker_inv s"
  shows "tracker_inv (snd (observe e k status phase s))"
proof -
  have "in_operation (ao_operation a)"
    if "opTracker_active (snd (observe e k status phase s)) k' = Some a" for k' a
  proof (cases "k' = k")
    case True
    with that observe_tracked [of e k status phase s] show ?thesis
      by (auto simp: tracked_def split: if_splits)
  next
    case False
    with that observe_other [of k' k e status phase s]
    have "map_option ao_operation (opTracker_active s k') = Some (ao_operation a)"
      by (simp add: tracked_def)
    with assms show ?thesis by (auto simp: tracker_inv_def map_option_case split: option.splits) metis
  qed
  then show ?thesis by (simp add: tracker_inv_def)
qed

text \<open>Every operation that begins is completed once, except the one still in flight, and every
  completion comes with one duration.\<close>

lemma observe_all_accounting:
  assumes "\<And>op. tracked s k = Some op \<Longrightarrow> in_operation op"
  shows "\<exists>s' l. observe_all e k obs s = (Inr (), s') \<and> metric_log s' = metric_log s @ l \<and>
     length (filter is_completion l) + (if tracked s' k = None then 0 else 1) =
       operations_begun (tracked s k) (map fst obs) + (if tracked s k = None then 0 else 1) \<and>
     length (filter is_duration l) = length (filter is_completion l)"
  using assms
proof (induction obs arbitrary: s)
  case (Cons ob obs)
  obtain status phase where ob: "ob = (status, phase)" by fastforce
  obtain w' op' log' where run:
    "observe e k status phase s = (Inr (), s\<lparr>world := w', opTracker_active := (opTracker_active s)(k := op'),
       metric_log := metric_log s @ log'\<rparr>)"
    "map_option ao_operation op' = (if in_operation status then Some status else None)"
    and log': "length (filter is_completion log') =
        (if tracked s k = None \<or> in_operation status \<and> tracked s k = Some status then 0 else 1)"
      "length (filter is_duration log') = length (filter is_completion log')"
    by (rule observe_run [of e k status phase s])
      (auto simp: tracked_def is_completion_def is_duration_def split: option.splits)
  let ?s1 = "s\<lparr>world := w', opTracker_active := (opTracker_active s)(k := op'), metric_log := metric_log s @ log'\<rparr>"
  have tr: "tracked ?s1 k = (if in_operation status then Some status else None)"
    using run(2) by (simp add: tracked_def)
  then have inv: "in_operation op" if "tracked ?s1 k = Some op" for op
    using that by (simp split: if_splits)
  have "metric_log ?s1 = metric_log s @ log'" by simp
  with Cons.IH [of ?s1, OF inv] obtain s' l where ih: "observe_all e k obs ?s1 = (Inr (), s')"
      "metric_log s' = metric_log s @ log' @ l"
      "length (filter is_completion l) + (if tracked s' k = None then 0 else 1) =
         operations_begun (tracked ?s1 k) (map fst obs) + (if tracked ?s1 k = None then 0 else 1)"
      "length (filter is_duration l) = length (filter is_completion l)"
    by auto
  have "observe_all e k (ob # obs) s = (Inr (), s')"
    using ih(1) run(1) by (simp add: ob bindE_def)
  moreover have "length (filter is_completion (log' @ l)) + (if tracked s' k = None then 0 else 1) =
       operations_begun (tracked s k) (map fst (ob # obs)) + (if tracked s k = None then 0 else 1)"
    using ih(3) log'(1) Cons.prems by (auto simp: ob tr split: if_splits)
  ultimately show ?case
    using ih(2,4) log'(2) by (intro exI [of _ s'] exI [of _ "log' @ l"]) simp
qed simp

lemma enter_all_eq:
  "enter_all k ps s =
     (Inr (map2 (\<lambda>prev p. p = PhaseReady \<and> prev \<noteq> PhaseReady)
            ((case readyTracker_lastPhase s k of None \<Rightarrow> [] | Some p \<Rightarrow> p) # ps) ps),
      if ps = [] then s
      else s\<lparr>readyTracker_lastPhase := (readyTracker_lastPhase s)(k \<mapsto> last ps)\<rparr>)"
  by (induction ps arbitrary: s) (simp_all add: bindE_def enteredReady_def Let_def)

lemma partial_match_cr_labels:
  assumes "v \<in> {''redkey_phase'', ''redkey_config_phase'', ''redkey_operation_in_progress''}"
  shows "partial_match (vector_labels v) [a, b, c] (cr_labels ns nm) \<longleftrightarrow> a = ns \<and> b = nm"
  using assms by (auto simp: partial_match_def vector_labels_def cr_labels_def)

lemma observe_no_gauge:
  "\<exists>w' a l. observe e k status phase s = (Inr (), s\<lparr>world := w', opTracker_active := a,
      metric_log := metric_log s @ l\<rparr>) \<and> list_all (\<lambda>c. \<not> is_gauge_call c) l"
  by (rule observe_run [of e k status phase s]) (fastforce split: option.splits)

lemma recordRedkeyMetrics_run:
  "\<exists>l l'. fst (recordRedkeyMetrics e cluster ac s) = Inr () \<and>
     metric_log (snd (recordRedkeyMetrics e cluster ac s)) = metric_log s @ l @ refresh_log cluster ac @ l' \<and>
     list_all (\<lambda>c. \<not> is_gauge_call c) (l @ l')"
proof -
  let ?k = "\<lparr>nn_Namespace = om_Namespace (rk_Meta cluster), nn_Name = om_Name (rk_Meta cluster)\<rparr>"
  obtain w' a l where ob: "observe e ?k (st_Status (rk_Status cluster)) (st_Phase (rk_Status cluster)) s =
      (Inr (), s\<lparr>world := w', opTracker_active := a, metric_log := metric_log s @ l\<rparr>)"
      "list_all (\<lambda>c. \<not> is_gauge_call c) l"
    using observe_no_gauge [of e ?k "st_Status (rk_Status cluster)" "st_Phase (rk_Status cluster)" s] by blast
  obtain t w2 where t: "e_now e w' = (t, w2)" by fastforce
  note unf = recordRedkeyMetrics_def refresh_log_def ob(1) bindE_def enteredReady_def time_Since_def time_Now_eq t
  show ?thesis
  proof (cases ac)
    case None
    with ob(2) show ?thesis by (intro exI [of _ l] exI [of _ "[]"]) (simp add: unf Let_def)
  next
    case (Some c)
    let ?entered = "st_Phase (rk_Status cluster) = PhaseReady \<and>
        (case readyTracker_lastPhase s ?k of None \<Rightarrow> [] | Some p \<Rightarrow> p) \<noteq> PhaseReady"
    let ?l' = "if ?entered then [HistogramObserve ''redkey_time_to_ready_seconds'' []
        (time_Sub t (om_CreationTimestamp (cf_Meta c)))] else []"
    from Some ob(2) show ?thesis
      by (intro exI [of _ l] exI [of _ ?l']) (simp add: unf Let_def)
  qed
qed

lemma is_gauge_call_touches: "touches c v ls \<Longrightarrow> is_gauge_call c"
  by (cases c) simp_all

lemma refresh_log_touches:
  "(a, b) \<noteq> (om_Namespace (rk_Meta cluster), om_Name (rk_Meta cluster)) \<Longrightarrow>
     list_all (\<lambda>c. \<not> touches c v [a, b, x]) (refresh_log cluster ac)"
  by (cases ac) (auto simp: refresh_log_def Let_def list_all_iff state_set_def partial_match_cr_labels)

text \<open>The three deletions of \<open>deleteRedkeyMetrics\<close>.\<close>

lemma deleteRedkeyMetrics_run:
  "deleteRedkeyMetrics k s = (Inr (),
     s\<lparr>metric_log := metric_log s @
         map (\<lambda>v. GaugeDeletePartialMatch v (cr_labels (nn_Namespace k) (nn_Name k)))
           [''redkey_phase'', ''redkey_config_phase'', ''redkey_operation_in_progress''],
       opTracker_active := (opTracker_active s)(k := None),
       readyTracker_lastPhase := (readyTracker_lastPhase s)(k := None)\<rparr>)"
  by (simp add: deleteRedkeyMetrics_def Let_def bindE_def opTracker_forget_def readyTracker_forget_def)

context gauge_vectors
begin

lemma series_untouched:
  "list_all (\<lambda>c. \<not> touches c v ls) l \<Longrightarrow> series (log @ l) v ls = series log v ls"
proof (induction l rule: rev_induct)
  case (snoc c l)
  then have "series ((log @ l) @ [c]) v ls = series (log @ l) v ls"
    by (cases c) (auto simp: set_gauge delete_gauge counter_inc histogram_observe simp del: append_assoc)
  with snoc show ?case by simp
qed simp

lemma series_no_gauge: "list_all (\<lambda>c. \<not> is_gauge_call c) l \<Longrightarrow> series (log @ l) = series log"
  by (intro ext series_untouched) (auto simp: list_all_iff intro: is_gauge_call_touches)

lemma series_refresh:
  assumes "series (log @ refresh_log cluster ac) v [a, b, x] = y"
    and "a = om_Namespace (rk_Meta cluster)" "b = om_Name (rk_Meta cluster)"
  shows "v = ''redkey_phase'' \<Longrightarrow> x \<in> set redkeyPhaseValues \<Longrightarrow>
           y = Some (if x = st_Phase (rk_Status cluster) then 1 else 0)"
    and "v = ''redkey_operation_in_progress'' \<Longrightarrow>
           y = (if in_operation (st_Status (rk_Status cluster)) \<and> x = st_Status (rk_Status cluster)
                then Some 1 else None)"
    and "v = ''redkey_config_phase'' \<Longrightarrow> x \<in> set redkeyConfigPhaseValues \<Longrightarrow>
           y = (case ac of None \<Rightarrow> None
                | Some c \<Rightarrow> Some (if x = ct_ConfigPhase (cf_Status c) then 1 else 0))"
proof -
  define l1 where "l1 = log @ [GaugeDeletePartialMatch ''redkey_operation_in_progress'' (cr_labels a b)]"
  define l2 where "l2 = l1 @ (if in_operation (st_Status (rk_Status cluster))
      then [GaugeSet ''redkey_operation_in_progress'' [a, b, st_Status (rk_Status cluster)] 1] else [])"
  define l3 where "l3 = l2 @ state_set ''redkey_phase'' a b (st_Phase (rk_Status cluster)) redkeyPhaseValues"
  define l4 where "l4 = (case ac of
         None \<Rightarrow> l3 @ [GaugeDeletePartialMatch ''redkey_config_phase'' (cr_labels a b)]
       | Some c \<Rightarrow> l3 @ state_set ''redkey_config_phase'' a b (ct_ConfigPhase (cf_Status c)) redkeyConfigPhaseValues)"
  have "log @ refresh_log cluster ac = l4"
    using assms(2,3) by (simp add: refresh_log_def Let_def l1_def l2_def l3_def l4_def split: option.splits)
  with assms(1) have y: "y = series l4 v [a, b, x]" by simp
  have s4: "series l4 v [a, b, x] = series l3 v [a, b, x]" if "v \<noteq> ''redkey_config_phase''"
    using that unfolding l4_def by (cases ac) (simp_all add: delete_gauge series_state_set)
  have s3: "series l3 v [a, b, x] = series l2 v [a, b, x]" if "v \<noteq> ''redkey_phase''"
    using that by (simp add: l3_def series_state_set)
  have s2: "series l2 ''redkey_operation_in_progress'' [a, b, x] =
      (if in_operation (st_Status (rk_Status cluster)) \<and> x = st_Status (rk_Status cluster) then Some 1 else None)"
    by (auto simp: l2_def set_gauge) (simp_all add: l1_def delete_gauge partial_match_cr_labels)
  show "y = Some (if x = st_Phase (rk_Status cluster) then 1 else 0)"
    if "v = ''redkey_phase''" "x \<in> set redkeyPhaseValues"
    using that s4 y by (simp add: l3_def series_state_set)
  show "y = (if in_operation (st_Status (rk_Status cluster)) \<and> x = st_Status (rk_Status cluster)
      then Some 1 else None)" if "v = ''redkey_operation_in_progress''"
    using that s4 s3 s2 y by simp
  show "y = (case ac of None \<Rightarrow> None | Some c \<Rightarrow> Some (if x = ct_ConfigPhase (cf_Status c) then 1 else 0))"
    if "v = ''redkey_config_phase''" "x \<in> set redkeyConfigPhaseValues"
    using that y
    by (cases ac) (simp_all add: l4_def series_state_set delete_gauge partial_match_cr_labels)
qed

lemma series_record:
  "\<exists>log. series (metric_log (snd (recordRedkeyMetrics e cluster ac s))) =
         series (log @ refresh_log cluster ac) \<and> series log = series (metric_log s)"
proof -
  obtain l l' where
    "metric_log (snd (recordRedkeyMetrics e cluster ac s)) = metric_log s @ l @ refresh_log cluster ac @ l'"
    "list_all (\<lambda>c. \<not> is_gauge_call c) l" "list_all (\<lambda>c. \<not> is_gauge_call c) l'"
    using recordRedkeyMetrics_run [of e cluster ac s] by auto
  with series_no_gauge [of l'] series_no_gauge [of l] show ?thesis
    by (intro exI [of _ "metric_log s @ l"]) (metis append_assoc)
qed

lemma series_record_other:
  assumes "(a, b) \<noteq> (om_Namespace (rk_Meta cluster), om_Name (rk_Meta cluster))"
  shows "series (metric_log (snd (recordRedkeyMetrics e cluster ac s))) v [a, b, x] =
         series (metric_log s) v [a, b, x]"
  using series_record [of e cluster ac s] series_untouched [OF refresh_log_touches [OF assms]] by metis

lemma series_delete:
  assumes "v \<in> {''redkey_phase'', ''redkey_config_phase'', ''redkey_operation_in_progress''}"
  shows "series (metric_log (snd (deleteRedkeyMetrics k s))) v [a, b, x] =
    (if \<lparr>nn_Namespace = a, nn_Name = b\<rparr> = k then None else series (metric_log s) v [a, b, x])"
proof -
  let ?d = "\<lambda>v. GaugeDeletePartialMatch v (cr_labels (nn_Namespace k) (nn_Name k))"
  define l1 where "l1 = metric_log s @ [?d ''redkey_phase'']"
  define l2 where "l2 = l1 @ [?d ''redkey_config_phase'']"
  have "metric_log (snd (deleteRedkeyMetrics k s)) = l2 @ [?d ''redkey_operation_in_progress'']"
    by (simp add: deleteRedkeyMetrics_run l1_def l2_def)
  moreover have "\<lparr>nn_Namespace = a, nn_Name = b\<rparr> = k \<longleftrightarrow> a = nn_Namespace k \<and> b = nn_Name k"
    by (cases k) simp
  moreover have "series l2 v [a, b, x] = (if v = ''redkey_config_phase'' \<and> a = nn_Namespace k \<and> b = nn_Name k
      then None else series l1 v [a, b, x])"
    by (simp add: l2_def delete_gauge partial_match_cr_labels)
  moreover have "series l1 v [a, b, x] = (if v = ''redkey_phase'' \<and> a = nn_Namespace k \<and> b = nn_Name k
      then None else series (metric_log s) v [a, b, x])"
    by (simp add: l1_def delete_gauge partial_match_cr_labels)
  ultimately show ?thesis
    using assms unfolding insert_iff empty_iff
    by (elim disjE) (simp_all only: delete_gauge partial_match_cr_labels insert_iff simp_thms
        list.inject char.inject if_True if_False split: if_split)
qed

end

end
