(* ===== verification/Metric_Log.thy ===== *)
theory Metric_Log
  imports Scale_To_Zero Op_Metrics
begin

text \<open>
  Which calls on the Prometheus vectors an operation makes. \<open>logs_only P m\<close>: every run of \<open>m\<close>, failing
  or not, appends calls to the log that all satisfy \<open>P\<close>. The locale \<open>metric_calls\<close> lists the calls the
  operations of the operator make; for every \<open>P\<close> that admits them the operations log only such calls.
\<close>

definition logs_only :: "(metric_call \<Rightarrow> bool) \<Rightarrow> ('w opstate, 'a) io \<Rightarrow> bool" where
  "logs_only P m \<longleftrightarrow> (\<forall>s. \<exists>l. metric_log (snd (m s)) = metric_log s @ l \<and> list_all P l)"

named_theorems log_intros \<open>composition of computations that log only certain calls\<close>

section \<open>Composition\<close>

lemma logs_onlyE:
  assumes "logs_only P m" "m s = (r, s')"
  obtains l where "metric_log s' = metric_log s @ l" "list_all P l"
  using assms unfolding logs_only_def by (metis snd_conv)

lemma logs_onlyI:
  "(\<And>s r s'. m s = (r, s') \<Longrightarrow> \<exists>l. metric_log s' = metric_log s @ l \<and> list_all P l) \<Longrightarrow> logs_only P m"
  unfolding logs_only_def by (metis prod.collapse)

lemma logs_basic [log_intros]:
  "logs_only P (ret x)" "logs_only P (throw err)" "logs_only P (liftR y)" "logs_only P (set_active k a)"
  by (simp_all add: logs_only_def)

lemma logs_liftW [log_intros]: "logs_only P (liftW m)"
  by (simp add: logs_only_def liftW_def split: prod.split)

lemma logs_emit: "P c \<Longrightarrow> logs_only P (emit c)"
  by (simp add: logs_only_def)

lemma logs_emits: "list_all P cs \<Longrightarrow> logs_only P (emits cs)"
  by (simp add: logs_only_def)

lemma logs_attempt [log_intros]:
  assumes "logs_only P m" "\<And>r. logs_only P (f r)"
  shows "logs_only P (attempt m f)"
proof (rule logs_onlyI)
  fix s r s' assume run: "attempt m f s = (r, s')"
  obtain r1 s1 where m: "m s = (r1, s1)" by fastforce
  then have f: "f r1 s1 = (r, s')" using run by (simp add: attempt_def)
  obtain l l' where "metric_log s1 = metric_log s @ l" "list_all P l" "metric_log s' = metric_log s1 @ l'" "list_all P l'"
    using logs_onlyE [OF assms(1) m] logs_onlyE [OF assms(2) f] by metis
  then show "\<exists>l. metric_log s' = metric_log s @ l \<and> list_all P l" by simp
qed

lemma logs_bindE [log_intros]:
  assumes "logs_only P m" "\<And>x. logs_only P (f x)"
  shows "logs_only P (bindE m f)"
proof -
  have "bindE m f = attempt m (\<lambda>r. case r of Inl err \<Rightarrow> throw err | Inr x \<Rightarrow> f x)"
    by (auto simp: bindE_def attempt_def split: prod.splits sum.splits)
  moreover have "logs_only P (case r of Inl err \<Rightarrow> throw err | Inr x \<Rightarrow> f x)" for r
    by (cases r) (simp_all add: logs_basic assms(2) del: throw_eq)
  ultimately show ?thesis by (simp add: logs_attempt [OF assms(1)])
qed

lemma logs_case_sum [log_intros]:
  "(\<And>a. logs_only P (f a)) \<Longrightarrow> (\<And>b. logs_only P (g b)) \<Longrightarrow> logs_only P (case r of Inl a \<Rightarrow> f a | Inr b \<Rightarrow> g b)"
  by (cases r) simp_all

lemma logs_case_option [log_intros]:
  "logs_only P f \<Longrightarrow> (\<And>b. logs_only P (g b)) \<Longrightarrow> logs_only P (case r of None \<Rightarrow> f | Some b \<Rightarrow> g b)"
  by (cases r) simp_all

lemma logs_case_prod [log_intros]: "(\<And>a b. logs_only P (f a b)) \<Longrightarrow> logs_only P (case p of (a, b) \<Rightarrow> f a b)"
  by (cases p) simp

lemma logs_if [log_intros]: "logs_only P m \<Longrightarrow> logs_only P n \<Longrightarrow> logs_only P (if b then m else n)"
  by simp

lemma logs_pointwise: "(\<And>s. \<exists>m. logs_only P m \<and> f s = m s) \<Longrightarrow> logs_only P f"
  unfolding logs_only_def by metis

lemma logs_time [log_intros]: "logs_only P (time_Now e)" "logs_only P (time_Since e t)"
  unfolding time_Since_def time_Now_def by (intro log_intros)+

lemma logs_trackers [log_intros]:
  "logs_only P (enteredReady k p)" "logs_only P (readyTracker_forget k)" "logs_only P (opTracker_forget k)"
  "logs_only P (start_operation e k status)"
proof -
  show "logs_only P (start_operation e k status)" unfolding start_operation_def by (intro log_intros)
qed (simp_all add: logs_only_def enteredReady_def readyTracker_forget_def opTracker_forget_def Let_def)

lemma logs_ensureRBAC [log_intros]: "logs_only P (ensureRBAC e cluster)"
  unfolding ensureRBAC_def by (intro log_intros)

section \<open>The calls of the operations\<close>

locale metric_calls =
  fixes P :: "metric_call \<Rightarrow> bool"
  assumes counters: "P (CounterInc ''redkey_robin_deployment_changes_total'' [x])"
      "P (CounterInc ''redkey_config_creations_total'' [x])" "P (CounterInc ''redkey_cleanup_deleted_configs_total'' [])"
      "P (CounterInc ''redkey_operation_total'' [x, y])"
    and histograms: "P (HistogramObserve ''redkey_operation_duration_seconds'' [x] d)"
      "P (HistogramObserve ''redkey_time_to_ready_seconds'' [] d)"
    and series: "v \<in> {''redkey_phase'', ''redkey_config_phase'', ''redkey_operation_in_progress''} \<Longrightarrow>
      P (GaugeSet v [ns, name, x] n)"
    and removals: "v \<in> {''redkey_phase'', ''redkey_config_phase'', ''redkey_operation_in_progress''} \<Longrightarrow>
      P (GaugeDeletePartialMatch v (cr_labels ns name))"
begin

lemma logs_ensureRobinDeployment [log_intros]: "logs_only P (ensureRobinDeployment e cluster)"
  unfolding ensureRobinDeployment_def Let_def by (intro log_intros logs_emit counters)

lemma logs_createNewConfig [log_intros]: "logs_only P (createNewConfig e cluster h)"
  unfolding createNewConfig_def Let_def by (intro log_intros logs_emit counters)

lemma logs_cleanup_loop [log_intros]: "logs_only P (cleanup_loop e cs)"
proof (induction cs)
  case Nil
  show ?case unfolding cleanup_loop.simps by (intro log_intros)
next
  case (Cons c cs)
  show ?case unfolding cleanup_loop.simps by (intro log_intros logs_emit counters Cons.IH)
qed

lemma logs_config_stages [log_intros]:
  "logs_only P (cleanupSupersededConfigs e cs)" "logs_only P (reconcileScaleToZero e r cluster)"
  unfolding cleanupSupersededConfigs_def reconcileScaleToZero_def Let_def by (intro log_intros)+

lemma logs_complete_operation [log_intros]: "logs_only P (complete_operation e cur result)"
  unfolding complete_operation_def by (intro log_intros logs_emit counters histograms)

lemma logs_observe [log_intros]: "logs_only P (observe e k status phase)"
proof -
  have "logs_only P (observe_case e k status phase entry)" for entry
    unfolding observe_case_def Let_def by (intro log_intros)
  then show ?thesis by (intro logs_pointwise) (auto simp: observe_def)
qed

lemma logs_state_set:
  "v \<in> {''redkey_phase'', ''redkey_config_phase'', ''redkey_operation_in_progress''} \<Longrightarrow>
     list_all P (state_set v ns name act vals)"
  by (simp add: state_set_def list_all_iff series)

lemma logs_recordRedkeyMetrics [log_intros]: "logs_only P (recordRedkeyMetrics e cluster ac)"
  unfolding recordRedkeyMetrics_def Let_def
  by (intro log_intros logs_emit logs_emits logs_state_set series removals histograms) simp_all

lemma logs_deleteRedkeyMetrics [log_intros]: "logs_only P (deleteRedkeyMetrics k)"
  unfolding deleteRedkeyMetrics_def Let_def by (intro log_intros logs_emit removals) simp_all

end

end
