(* ===== verification/Reconciler.thy ===== *)
theory Reconciler
  imports Metric_Log
begin

text \<open>
  The reconcile loop (\<^verbatim>\<open>internal/controller/redkey_controller.go\<close>): \<^verbatim>\<open>Reconcile\<close> with its stages,
  the error counter of each stage, and the controller options.

  The lemmas account for errors: in every environment, an error that \<^verbatim>\<open>Reconcile\<close> returns is
  counted once, under its stage, and a run that succeeds counts none. The effect of a run on the stored
  objects is computed in the theories \<open>Reconcile_Effect\<close>, \<open>Reconcile_Runs\<close> and \<open>Reconcile_System\<close>.
\<close>

section \<open>The reconcile loop\<close>

fun is_panic :: "GoErr \<Rightarrow> bool" where
  "is_panic (Panic _) = True"
| "is_panic _ = False"

text \<open>\<^verbatim>\<open>if err := f(); err != nil { redkeyReconcileStageErrors.WithLabelValues(name).Inc(); return err }\<close>.
  A panic does not return and is not counted.\<close>

definition stage :: "string \<Rightarrow> ('w opstate, 'a) io \<Rightarrow> ('w opstate, 'a) io" where
  "stage name m =
     attempt m (\<lambda>r.
       case r of
         Inl err \<Rightarrow>
           if is_panic err then throw err
           else bindE (emit (CounterInc ''redkey_reconcile_stage_errors_total'' [name])) (\<lambda>_. throw err)
       | Inr x \<Rightarrow> ret x)"

definition refresh_configs :: "'w env \<Rightarrow> Redkey \<Rightarrow> RedkeyConfig list \<Rightarrow> ('w opstate, RedkeyConfig list) io" where
  "refresh_configs e cluster configs =
     (let highestSeq = (if configs = [] then None else Some (last configs)) in
      if configs = [] \<or> needsNewConfig cluster highestSeq
      then bindE (stage ''create_new_config'' (createNewConfig e cluster highestSeq)) (\<lambda>_.
             stage ''list_configs'' (liftW (listConfigs e cluster)))
      else ret configs)"

definition publish_status ::
    "'w env \<Rightarrow> Redkey \<Rightarrow> RedkeyConfig list \<Rightarrow> ('w opstate, RedkeyConfig list \<times> Redkey) io" where
  "publish_status e cluster configs =
     (if configs = [] then ret (configs, cluster)
      else bindE (stage ''cleanup_superseded_configs'' (cleanupSupersededConfigs e configs)) (\<lambda>configs'.
           bindE (stage ''aggregate_status'' (liftW (aggregateStatus e cluster configs'))) (\<lambda>cluster'.
           ret (configs', cluster'))))"

definition active_config :: "RedkeyConfig list \<Rightarrow> ('s, RedkeyConfig option) io" where
  "active_config configs =
     (if configs = [] then ret None
      else case selectActiveConfig configs of
             None \<Rightarrow> throw (Panic ''index out of range'')
           | Some c \<Rightarrow> ret (Some c))"

definition reconcile_cluster ::
    "'w env \<Rightarrow> RedkeyReconciler \<Rightarrow> Redkey \<Rightarrow> ('w opstate, Result) io" where
  "reconcile_cluster e r cluster =
     (if sp_Primaries (rk_Spec cluster) = 0 then
        bindE (stage ''scale_to_zero'' (reconcileScaleToZero e r cluster)) (\<lambda>(res, cluster').
        bindE (recordRedkeyMetrics e cluster' None) (\<lambda>_.
        ret res))
      else
        bindE (stage ''ensure_rbac'' (ensureRBAC e cluster)) (\<lambda>_.
        bindE (stage ''ensure_robin_deployment'' (ensureRobinDeployment e cluster)) (\<lambda>_.
        bindE (stage ''list_configs'' (liftW (listConfigs e cluster))) (\<lambda>configs.
        bindE (refresh_configs e cluster configs) (\<lambda>configs'.
        bindE (publish_status e cluster configs') (\<lambda>(configs'', cluster').
        bindE (active_config configs'') (\<lambda>activeConfig.
        bindE (recordRedkeyMetrics e cluster' activeConfig) (\<lambda>_.
        ret \<lparr>res_RequeueAfter = rec_ResyncInterval r\<rparr>))))))))"

definition Reconcile ::
    "'w env \<Rightarrow> RedkeyReconciler \<Rightarrow> NamespacedName \<Rightarrow> ('w opstate, Result) io" where
  "Reconcile e r req =
     attempt (liftW (e_get_redkey e req)) (\<lambda>got.
       case got of
         Inl err \<Rightarrow>
           if IsNotFound err
           then bindE (deleteRedkeyMetrics req) (\<lambda>_. ret \<lparr>res_RequeueAfter = 0\<rparr>)
           else stage ''get_cluster'' (throw err)
       | Inr cluster \<Rightarrow> reconcile_cluster e r cluster)"

text \<open>\<^verbatim>\<open>controller.Options\<close>: only the field the operator sets; 0 leaves the default of one worker.\<close>

definition controllerOptions :: "RedkeyReconciler \<Rightarrow> int" where
  "controllerOptions r =
     (if rec_MaxConcurrentReconciles r > 0 then rec_MaxConcurrentReconciles r else 0)"

section \<open>Error accounting\<close>

definition is_stage_error :: "metric_call \<Rightarrow> bool" where
  "is_stage_error c \<longleftrightarrow>
     (case c of CounterInc v _ \<Rightarrow> v = ''redkey_reconcile_stage_errors_total'' | _ \<Rightarrow> False)"

definition stage_errors :: "metric_call list \<Rightarrow> string list" where
  "stage_errors l = concat (map (\<lambda>c. case c of CounterInc _ ls \<Rightarrow> ls | _ \<Rightarrow> []) (filter is_stage_error l))"

definition stage_names :: "string list" where
  "stage_names = [''get_cluster'', ''scale_to_zero'', ''ensure_rbac'', ''ensure_robin_deployment'',
     ''list_configs'', ''create_new_config'', ''cleanup_superseded_configs'', ''aggregate_status'']"

text \<open>\<open>quiet m\<close>: \<open>m\<close> logs no stage error. \<open>counted m\<close>: a run of \<open>m\<close> appends
  exactly one stage error when it returns an error, and none otherwise (a panic counts none).\<close>

abbreviation quiet :: "('w opstate, 'a) io \<Rightarrow> bool" where
  "quiet \<equiv> logs_only (\<lambda>c. \<not> is_stage_error c)"

definition counted_outcome :: "GoErr + 'a \<Rightarrow> metric_call list \<Rightarrow> bool" where
  "counted_outcome r l \<longleftrightarrow>
     (case r of
        Inl err \<Rightarrow> if is_panic err then stage_errors l = []
                   else list_ex (\<lambda>st. stage_errors l = [st]) stage_names
      | Inr _ \<Rightarrow> stage_errors l = [])"

definition counted :: "('w opstate, 'a) io \<Rightarrow> bool" where
  "counted m \<longleftrightarrow>
     (\<forall>s. \<exists>l. metric_log (snd (m s)) = metric_log s @ l \<and> counted_outcome (fst (m s)) l)"

lemma stage_errors_append [simp]: "stage_errors (l @ m) = stage_errors l @ stage_errors m"
  by (simp add: stage_errors_def)

lemma stage_errors_Nil [simp]: "stage_errors [] = []"
  by (simp add: stage_errors_def)

lemma stage_errors_stage [simp]: "stage_errors [CounterInc ''redkey_reconcile_stage_errors_total'' ls] = ls"
  by (simp add: stage_errors_def is_stage_error_def)

interpretation unstaged: metric_calls "\<lambda>c. \<not> is_stage_error c"
  by unfold_locales (auto simp: is_stage_error_def)

lemma countedI:
  "(\<And>s r s'. m s = (r, s') \<Longrightarrow> \<exists>l. metric_log s' = metric_log s @ l \<and> counted_outcome r l) \<Longrightarrow> counted m"
  unfolding counted_def by (metis prod.collapse)

lemma countedE:
  assumes "counted m" "m s = (r, s')"
  obtains l where "metric_log s' = metric_log s @ l" "counted_outcome r l"
  using assms unfolding counted_def by (metis fst_conv snd_conv)

lemma quietE:
  assumes "quiet m" "m s = (r, s')"
  obtains l where "metric_log s' = metric_log s @ l" "stage_errors l = []"
proof -
  obtain l where "metric_log s' = metric_log s @ l" "list_all (\<lambda>c. \<not> is_stage_error c) l"
    by (rule logs_onlyE [OF assms])
  moreover from this(2) have "stage_errors l = []" by (induction l) (simp_all add: stage_errors_def)
  ultimately show ?thesis by (intro that)
qed

lemma counted_stage:
  assumes "quiet m" "name \<in> set stage_names"
  shows "counted (stage name m)"
proof (rule countedI)
  fix s r s' assume run: "stage name m s = (r, s')"
  obtain r1 s1 where m: "m s = (r1, s1)" by fastforce
  obtain l where "metric_log s1 = metric_log s @ l" "stage_errors l = []"
    by (rule quietE [OF assms(1) m])
  with run m assms(2) show "\<exists>l. metric_log s' = metric_log s @ l \<and> counted_outcome r l"
    by (cases r1) (auto simp: stage_def attempt_def bindE_def counted_outcome_def list_ex_iff split: if_splits)
qed

lemma counted_bindE:
  assumes "counted m" "\<And>x. counted (f x)"
  shows "counted (bindE m f)"
proof (rule countedI)
  fix s r s' assume run: "bindE m f s = (r, s')"
  obtain r1 s1 where m: "m s = (r1, s1)" by fastforce
  obtain l where l: "metric_log s1 = metric_log s @ l" "counted_outcome r1 l"
    by (rule countedE [OF assms(1) m])
  show "\<exists>l. metric_log s' = metric_log s @ l \<and> counted_outcome r l"
  proof (cases r1)
    case (Inl err)
    with run m have "r = Inl err" "s' = s1" by (auto simp: bindE_def)
    with l Inl show ?thesis by (auto simp: counted_outcome_def)
  next
    case (Inr x)
    with run m have run': "f x s1 = (r, s')" by (simp add: bindE_def)
    obtain l' where "metric_log s' = metric_log s1 @ l'" "counted_outcome r l'"
      by (rule countedE [OF assms(2) run'])
    with l Inr show ?thesis
      by (intro exI [of _ "l @ l'"]) (cases r; simp add: counted_outcome_def)
  qed
qed

lemma counted_total:
  assumes "quiet m" "\<And>s err. fst (m s) = Inl err \<Longrightarrow> is_panic err"
  shows "counted m"
proof (rule countedI)
  fix s r s' assume run: "m s = (r, s')"
  obtain l where "metric_log s' = metric_log s @ l" "stage_errors l = []"
    by (rule quietE [OF assms(1) run])
  then show "\<exists>l. metric_log s' = metric_log s @ l \<and> counted_outcome r l"
    using assms(2) [of s] run by (auto simp: counted_outcome_def split: sum.splits)
qed

lemma counted_ret: "counted (ret x)"
  by (rule counted_total [OF logs_basic(1)]) simp

lemma counted_record: "counted (recordRedkeyMetrics e cluster ac)"
  using recordRedkeyMetrics_run [of e cluster ac] by (intro counted_total [OF unstaged.logs_recordRedkeyMetrics]) auto

lemma counted_active_config: "counted (active_config cs)"
  unfolding active_config_def
  by (rule counted_total) (auto intro!: log_intros split: option.splits if_splits)

lemma counted_refresh_configs: "counted (refresh_configs e cluster configs)"
  unfolding refresh_configs_def Let_def
  by (auto intro!: counted_bindE counted_stage counted_ret log_intros simp: stage_names_def)

lemma counted_publish_status: "counted (publish_status e cluster configs)"
  unfolding publish_status_def
  by (auto intro!: counted_bindE counted_stage counted_ret log_intros simp: stage_names_def)

lemma counted_reconcile_cluster: "counted (reconcile_cluster e r cluster)"
  unfolding reconcile_cluster_def
  by (auto intro!: counted_bindE counted_stage counted_ret counted_record counted_active_config
      counted_refresh_configs counted_publish_status log_intros simp: stage_names_def)

lemma counted_Reconcile: "counted (Reconcile e r req)"
proof (rule countedI)
  fix s res s' assume run: "Reconcile e r req s = (res, s')"
  obtain got w1 where got: "e_get_redkey e req (world s) = (got, w1)" by fastforce
  let ?s1 = "s\<lparr>world := w1\<rparr>"
  show "\<exists>l. metric_log s' = metric_log s @ l \<and> counted_outcome res l"
  proof (cases got)
    case (Inl err)
    show ?thesis
    proof (cases "IsNotFound err")
      case True
      with Inl got run show ?thesis
        by (auto simp: Reconcile_def io_simps deleteRedkeyMetrics_run counted_outcome_def stage_errors_def
            is_stage_error_def)
    next
      case False
      with Inl got run show ?thesis
        by (auto simp: Reconcile_def stage_def io_simps counted_outcome_def stage_names_def split: if_splits)
    qed
  next
    case (Inr cluster)
    with got run have "reconcile_cluster e r cluster ?s1 = (res, s')"
      by (simp add: Reconcile_def io_simps)
    with counted_reconcile_cluster show ?thesis by (elim countedE [rotated]) auto
  qed
qed

end
