(* ===== verification/Reconcile_Effect.thy ===== *)
theory Reconcile_Effect
  imports Reconciler
begin

text \<open>
  The effect of one \<^verbatim>\<open>Reconcile\<close> on the stored objects, for an API server that satisfies
  \<open>kube_api\<close>. The invariant \<open>configs_wf\<close> (a config is named after its cluster and its sequence
  number, and nothing else has such a name) makes every new config's name free.
\<close>

section \<open>Specifications\<close>

definition highest :: "RedkeyConfig list \<Rightarrow> RedkeyConfig option" where
  "highest cfs = (if cfs = [] then None else Some (last cfs))"

definition configs_wf :: "(okey \<Rightarrow> Object option) \<Rightarrow> Redkey \<Rightarrow> bool" where
  "configs_wf st cluster \<longleftrightarrow>
     (\<forall>c \<in> cluster_configs st cluster.
        om_Name (cf_Meta c) = config_name (om_Name (rk_Meta cluster)) (seq_of c) \<and>
        1 \<le> seq_of c \<and> seq_of c < 2 ^ 63 - 1) \<and>
     (\<forall>n c. 1 \<le> n \<longrightarrow>
        st (KConfig, \<lparr>nn_Namespace = om_Namespace (rk_Meta cluster),
                      nn_Name = config_name (om_Name (rk_Meta cluster)) n\<rparr>) = Some (OConfig c) \<longrightarrow>
        c \<in> cluster_configs st cluster)"

definition needs_config :: "Redkey \<Rightarrow> RedkeyConfig list \<Rightarrow> bool" where
  "needs_config cluster cfs \<longleftrightarrow> cfs = [] \<or> needsNewConfig cluster (highest cfs)"

text \<open>The configs a run works with: those it found, and the one it adds when one is needed.\<close>

definition extended :: "Redkey \<Rightarrow> RedkeyConfig list \<Rightarrow> RedkeyConfig list \<Rightarrow> bool" where
  "extended cluster cfs cfs' \<longleftrightarrow>
     (if needs_config cluster cfs
      then \<exists>c. fresh_config cluster (next_seq (highest cfs)) c \<and> cfs' = cfs @ [c]
      else cfs' = cfs)"

definition config_okeys :: "RedkeyConfig list \<Rightarrow> okey set" where
  "config_okeys cs = (\<lambda>c. (KConfig, config_key c)) ` set cs"

text \<open>The postcondition of a run for a cluster with primaries: \<open>st\<close> and \<open>st'\<close> are the objects before
  and after, \<open>cfs'\<close> the configs worked with, \<open>a\<close> the active one, \<open>stt\<close> the new status.\<close>

definition reconciled ::
    "'w env \<Rightarrow> Redkey \<Rightarrow> (okey \<Rightarrow> Object option) \<Rightarrow> RedkeyConfig list \<Rightarrow> RedkeyConfig \<Rightarrow> RedkeyStatus \<Rightarrow> string \<Rightarrow>
     (okey \<Rightarrow> Object option) \<Rightarrow> bool" where
  "reconciled e cluster st cfs' a stt rv st' \<longleftrightarrow>
     robin_converged e st' cluster \<and> deployment_selector_ok st' cluster \<and>
     selectActiveConfig (keep_configs cfs') = Some a \<and>
     mirrored e a (om_Generation (rk_Meta cluster)) cluster stt \<and>
     st' (redkey_okey cluster) = Some (ORedkey (set_status cluster rv stt)) \<and>
     cluster_configs st' cluster = set (keep_configs cfs') \<and>
     (\<forall>c \<in> set (keep_configs cfs'). st' (KConfig, config_key c) = Some (OConfig c)) \<and>
     (\<forall>q \<in> config_okeys (drop_configs cfs'). st' q = None) \<and>
     (\<forall>q. q \<notin> robin_keys cluster \<union> config_okeys cfs' \<and> q \<noteq> redkey_okey cluster \<longrightarrow> st' q = st q)"

section \<open>Lemmas on the invariant\<close>

lemma cluster_configs_D:
  assumes "c \<in> cluster_configs st cluster"
  shows "st (KConfig, config_key c) = Some (OConfig c)"
    "om_Namespace (cf_Meta c) = om_Namespace (rk_Meta cluster)"
    "mget (om_Labels (cf_Meta c)) ClusterLabel = Some (om_Name (rk_Meta cluster))"
  using assms by (simp_all add: cluster_configs_def)

lemma configs_wf_D:
  assumes "configs_wf st cluster" "c \<in> cluster_configs st cluster"
  shows "om_Name (cf_Meta c) = config_name (om_Name (rk_Meta cluster)) (seq_of c)"
    "1 \<le> seq_of c" "seq_of c < 2 ^ 63 - 1"
  using assms unfolding configs_wf_def by blast+

lemma cluster_configs_unique:
  assumes "configs_wf st cluster"
  shows "inj_on seq_of (cluster_configs st cluster)"
proof (rule inj_onI)
  fix c d assume cd: "c \<in> cluster_configs st cluster" "d \<in> cluster_configs st cluster" "seq_of c = seq_of d"
  have "config_key c = config_key d"
    using configs_wf_D(1) [OF assms cd(1)] configs_wf_D(1) [OF assms cd(2)]
      cluster_configs_D(2) [OF cd(1)] cluster_configs_D(2) [OF cd(2)] cd(3)
    unfolding meta_key_def by argo
  then have "Some (OConfig c) = Some (OConfig d)"
    using cluster_configs_D(1) [OF cd(1)] cluster_configs_D(1) [OF cd(2)] by metis
  then show "c = d" by blast
qed

lemma sorted_last_max:
  assumes "sorted (map seq_of cfs)" "c \<in> set cfs"
  shows "seq_of c \<le> seq_of (last cfs)"
  using assms by (cases cfs rule: rev_cases) (auto simp: sorted_append)

lemma next_seq_bounds:
  assumes "configs_wf st cluster" "set cfs = cluster_configs st cluster" "sorted (map seq_of cfs)"
  shows "1 \<le> next_seq (highest cfs)" "\<forall>c \<in> set cfs. seq_of c < next_seq (highest cfs)"
proof -
  have "1 \<le> seq_of (last cfs) \<and> seq_of (last cfs) < 2 ^ 63 - 1" if "cfs \<noteq> []"
    using configs_wf_D(2,3) [OF assms(1), of "last cfs"] assms(2) last_in_set [OF that] by blast
  then have some: "1 \<le> seq_of (last cfs) \<and> next_seq (highest cfs) = seq_of (last cfs) + 1" if "cfs \<noteq> []"
    using that by (simp add: next_seq_def highest_def wrap64_id in_int64_def)
  show "1 \<le> next_seq (highest cfs)"
    using some by (cases "cfs = []") (simp_all add: next_seq_def highest_def)
  show "\<forall>c \<in> set cfs. seq_of c < next_seq (highest cfs)"
  proof
    fix c assume c: "c \<in> set cfs"
    then have "cfs \<noteq> []" by auto
    with some sorted_last_max [OF assms(3) c] show "seq_of c < next_seq (highest cfs)" by simp
  qed
qed

lemma config_okeys_sel [simp]: "redkey_okey r \<notin> config_okeys cs" "config_okeys [] = {}"
    "config_okeys (c # cs) = insert (KConfig, config_key c) (config_okeys cs)"
    "config_okeys (cs @ ds) = config_okeys cs \<union> config_okeys ds"
  by (auto simp: config_okeys_def redkey_okey_def)

lemma config_okeys_robin: "q \<in> robin_keys cluster \<Longrightarrow> q \<notin> config_okeys cs"
  by (auto simp: config_okeys_def robin_keys_def rbac_keys_def)

lemma world_update_id [simp]: "s\<lparr>world := world s\<rparr> = s"
  by (cases s) simp

lemma set_keep_configs: "set (keep_configs cs) \<subseteq> set cs"
  by (metis Un_iff drop_keep_configs set_append subsetI)

lemma config_okeys_split: "config_okeys cs = config_okeys (drop_configs cs) \<union> config_okeys (keep_configs cs)"
  by (metis config_okeys_sel(4) drop_keep_configs)

lemma without_configs_okeys: "without_configs st cs q = (if q \<in> config_okeys cs then None else st q)"
  by (simp add: without_configs_def config_okeys_def)

context kube_objects
begin

text \<open>Computations that leave every stored object as it is.\<close>

definition still :: "('w opstate, 'a) io \<Rightarrow> bool" where
  "still m \<longleftrightarrow> (\<forall>s. look (world (snd (m s))) = look (world s))"

lemma still_basic:
  "still (ret x)" "still (emit c)" "still (emits cs)" "still (set_active k a)" "still (enteredReady k p)"
  by (simp_all add: still_def enteredReady_def Let_def)

lemma still_bindE: "still m \<Longrightarrow> (\<And>x. still (f x)) \<Longrightarrow> still (bindE m f)"
  by (simp add: still_def bindE_def split: prod.split sum.split) (metis snd_conv)

lemma still_time_Now: "still (time_Now e)"
  using now_look by (simp add: still_def time_Now_eq split: prod.split) (metis snd_conv)

lemma still_if: "still m \<Longrightarrow> still n \<Longrightarrow> still (if b then m else n)"
  by simp

lemma still_case_option:
  "still f \<Longrightarrow> (\<And>b. still (g b)) \<Longrightarrow> still (case r of None \<Rightarrow> f | Some b \<Rightarrow> g b)"
  by (cases r) simp_all

lemmas still_intros = still_basic still_bindE still_time_Now still_if still_case_option

lemma still_observe: "still (observe e k status phase)"
proof -
  have "still (observe_case e k status phase entry)" for entry
    unfolding observe_case_def start_operation_def complete_operation_def time_Since_def Let_def
    by (intro still_intros)
  then show ?thesis by (simp add: still_def observe_def)
qed

lemma look_recordRedkeyMetrics: "look (world (snd (recordRedkeyMetrics e cluster ac s))) = look (world s)"
proof -
  have "still (recordRedkeyMetrics e cluster ac)"
    unfolding recordRedkeyMetrics_def Let_def time_Since_def by (intro still_intros still_observe)
  then show ?thesis by (simp add: still_def)
qed

lemma new_config_free:
  assumes "configs_wf (look w) cluster" "set cfs = cluster_configs (look w) cluster" "sorted (map seq_of cfs)"
  shows "look w (KConfig, new_config_key cluster (highest cfs)) = None"
proof (rule ccontr)
  assume "look w (KConfig, new_config_key cluster (highest cfs)) \<noteq> None"
  then obtain c where c: "look w (KConfig, new_config_key cluster (highest cfs)) = Some (OConfig c)"
      "config_key c = new_config_key cluster (highest cfs)"
    using cf.stored by blast
  note b = next_seq_bounds [OF assms]
  have mem: "c \<in> cluster_configs (look w) cluster"
    using assms(1) c(1) b(1) unfolding configs_wf_def new_config_key_def by blast
  have "om_Name (cf_Meta c) = config_name (om_Name (rk_Meta cluster)) (next_seq (highest cfs))"
    using c(2) by (simp add: meta_key_def new_config_key_def)
  with configs_wf_D(1,2) [OF assms(1) mem] b(1) have "seq_of c = next_seq (highest cfs)"
    by (simp add: config_name_inject)
  with b(2) mem assms(2) show False by auto
qed

lemma cluster_configs_insert:
  assumes "st (KConfig, config_key c) = None"
    and "om_Namespace (cf_Meta c) = om_Namespace (rk_Meta cluster)"
    and "mget (om_Labels (cf_Meta c)) ClusterLabel = Some (om_Name (rk_Meta cluster))"
  shows "cluster_configs (st((KConfig, config_key c) \<mapsto> OConfig c)) cluster = insert c (cluster_configs st cluster)"
  using assms unfolding cluster_configs_def by auto

lemma fresh_config_key: "fresh_config cluster (next_seq h) c \<Longrightarrow> config_key c = new_config_key cluster h"
  by (simp add: fresh_config_def)

lemma publish_status_ok:
  assumes red: "look (world s) (redkey_okey cluster) = Some (ORedkey cluster)"
    and cfs: "cfs \<noteq> []" "distinct (map config_key cfs)"
  obtains s' a st rv where
    "publish_status e cluster cfs s = (Inr (keep_configs cfs, cluster\<lparr>rk_Status := st\<rparr>), s')"
    "selectActiveConfig (keep_configs cfs) = Some a"
    "mirrored e a (om_Generation (rk_Meta cluster)) cluster st"
    "look (world s') = (without_configs (look (world s)) (drop_configs cfs))
       (redkey_okey cluster \<mapsto> ORedkey (set_status cluster rv st))"
proof -
  have ne: "keep_configs cfs \<noteq> []" by (rule keep_configs_nonempty [OF cfs(1)])
  then obtain a where a: "selectActiveConfig (keep_configs cfs) = Some a"
    using selectActiveConfig_total by blast
  have "distinct (map config_key (drop_configs cfs))"
    using cfs(2) by (metis distinct_append drop_keep_configs map_append)
  from cleanup_loop_ok [OF this, of s] obtain w1 l where w1:
      "cleanup_loop e (drop_configs cfs) s = (Inr (), s\<lparr>world := w1, metric_log := metric_log s @ l\<rparr>)"
      "look w1 = without_configs (look (world s)) (drop_configs cfs)"
    by blast
  have "look w1 (KRedkey, redkey_NamespacedName cluster) = Some (ORedkey cluster)"
    using red w1(2) by (simp add: redkey_okey_def)
  from aggregateStatus_ok [OF this a ne] obtain st w2 rv where ag:
    "aggregateStatus e cluster (keep_configs cfs) w1 = (Inr (cluster\<lparr>rk_Status := st\<rparr>), w2)"
    "mirrored e a (om_Generation (rk_Meta cluster)) cluster st"
    "look w2 = (look w1)(redkey_okey cluster \<mapsto> ORedkey (set_status cluster rv st))"
    unfolding redkey_okey_def set_status_def by blast
  have "publish_status e cluster cfs s = (Inr (keep_configs cfs, cluster\<lparr>rk_Status := st\<rparr>),
      s\<lparr>world := w2, metric_log := metric_log s @ l\<rparr>)"
    using cfs(1) by (simp add: publish_status_def cleanupSupersededConfigs_eq stage_def io_simps w1(1) ag(1))
  from that [OF this a ag(2)] ag(3) w1(2) show thesis by simp
qed

lemma cluster_configs_without:
  "cluster_configs (without_configs st ds) cluster =
     {c \<in> cluster_configs st cluster. (KConfig, config_key c) \<notin> config_okeys ds}"
  by (auto simp: cluster_configs_def without_configs_okeys)

lemma kept_configs:
  assumes "distinct (map config_key cfs)" "cluster_configs st cluster = set cfs"
  shows "cluster_configs (without_configs st (drop_configs cfs)) cluster = set (keep_configs cfs)"
proof -
  have "distinct (map config_key (drop_configs cfs @ keep_configs cfs))"
    using assms(1) by (simp only: drop_keep_configs)
  then have disj: "config_key ` set (drop_configs cfs) \<inter> config_key ` set (keep_configs cfs) = {}"
    by (simp only: map_append distinct_append set_map)
  have "set cfs = set (drop_configs cfs) \<union> set (keep_configs cfs)"
    by (metis drop_keep_configs set_append)
  with disj show ?thesis
    unfolding cluster_configs_without assms(2) config_okeys_def by blast
qed

lemma reconciled_I:
  assumes "robin_converged e st1 cluster" "deployment_selector_ok st1 cluster" and st1: "\<forall>q. q \<notin> robin_keys cluster \<longrightarrow> st1 q = st q"
    and st2: "\<forall>q. q \<notin> config_okeys cfs' \<longrightarrow> st2 q = st1 q"
    and cc: "cluster_configs st2 cluster = set cfs'" "distinct (map config_key cfs')"
    and a: "selectActiveConfig (keep_configs cfs') = Some a"
    and m: "mirrored e a (om_Generation (rk_Meta cluster)) cluster stt"
    and st3: "st3 = (without_configs st2 (drop_configs cfs'))
       (redkey_okey cluster \<mapsto> ORedkey (set_status cluster rv stt))"
  shows "reconciled e cluster st cfs' a stt rv st3"
proof -
  have same: "st3 q = st2 q" if "q \<notin> config_okeys cfs'" "q \<noteq> redkey_okey cluster" for q
    using that config_okeys_split [of cfs'] by (simp add: st3 without_configs_okeys)
  have configs: "cluster_configs st3 cluster = set (keep_configs cfs')"
    unfolding st3 by (simp add: kept_configs [OF cc(2,1)])
  have rob: "st3 q = st1 q" if "q \<in> robin_keys cluster" for q
  proof -
    have "q \<notin> config_okeys cfs'" "q \<noteq> redkey_okey cluster"
      using config_okeys_robin [OF that] okey_kinds(1) that by blast+
    with same [of q] st2 [rule_format, of q] show ?thesis by simp
  qed
  have "robin_converged e st3 cluster"
    using rob by (intro robin_converged_cong [OF _ assms(1)]) simp
  moreover have "deployment_selector_ok st3 cluster"
    using rob assms(2) by (simp add: deployment_selector_ok_def robin_keys_def)
  moreover have "st3 q = st q"
    if "q \<notin> robin_keys cluster \<union> config_okeys cfs'" "q \<noteq> redkey_okey cluster" for q
    using that same [of q] st2 [rule_format, of q] st1 [rule_format, of q] by simp
  moreover have "st3 (KConfig, config_key c) = Some (OConfig c)" if "c \<in> set (keep_configs cfs')" for c
    using that cluster_configs_D(1) configs by blast
  moreover have "st3 q = None" if "q \<in> config_okeys (drop_configs cfs')" for q
  proof -
    have "q \<noteq> redkey_okey cluster" using that config_okeys_sel(1) by blast
    with that show ?thesis by (simp add: st3 without_configs_okeys)
  qed
  ultimately show ?thesis
    using a m configs by (simp add: reconciled_def) (simp add: st3)
qed

end

context kube_api
begin

lemma listConfigs_unique:
  assumes "set cfs = cluster_configs (look w) cluster" "sorted (map seq_of cfs)" "distinct cfs"
    and "inj_on seq_of (cluster_configs (look w) cluster)"
  shows "listConfigs e cluster w = (Inr cfs, w)"
proof -
  obtain ds where ds: "listConfigs e cluster w = (Inr ds, w)" "sorted (map seq_of ds)"
      "set ds = cluster_configs (look w) cluster" "distinct (map config_key ds)"
    by (rule listConfigs_ok)
  have "cfs = ds"
    using assms ds by (intro map_sorted_distinct_set_unique [where f = seq_of])
      (auto simp: distinct_map)
  with ds(1) show ?thesis by simp
qed

lemma list_after_create:
  assumes wf: "configs_wf (look w) cluster" and cfs: "set cfs = cluster_configs (look w) cluster"
    "sorted (map seq_of cfs)" "distinct cfs"
    and c: "fresh_config cluster (next_seq (highest cfs)) c"
    and w': "\<And>k. look w' (KConfig, k) =
      (if k = new_config_key cluster (highest cfs) then Some (OConfig c) else look w (KConfig, k))"
  shows "listConfigs e cluster w' = (Inr (cfs @ [c]), w')"
    "cluster_configs (look w') cluster = set (cfs @ [c])"
    "inj_on seq_of (cluster_configs (look w') cluster)"
proof -
  note b = next_seq_bounds(2) [OF wf cfs(1,2)]
  have seq: "seq_of c = next_seq (highest cfs)" by (rule fresh_config_sel(1) [OF c])
  have k: "config_key c = new_config_key cluster (highest cfs)" by (rule fresh_config_key [OF c])
  have w'_key: "cluster_configs (look w') cluster =
      cluster_configs ((look w)((KConfig, config_key c) \<mapsto> OConfig c)) cluster"
    by (rule cluster_configs_cong) (simp add: w' k)
  have "look w (KConfig, config_key c) = None" unfolding k by (rule new_config_free [OF wf cfs(1,2)])
  moreover have "mget (om_Labels (cf_Meta c)) ClusterLabel = Some (om_Name (rk_Meta cluster))"
    using c unfolding fresh_config_def by blast
  ultimately have ins: "cluster_configs (look w') cluster = insert c (set cfs)"
    unfolding w'_key cfs(1) by (intro cluster_configs_insert fresh_config_sel(3) [OF c])
  then show "cluster_configs (look w') cluster = set (cfs @ [c])" by simp
  have "inj_on seq_of (set cfs)"
    unfolding cfs(1) by (rule cluster_configs_unique [OF wf])
  moreover have new: "seq_of c \<notin> seq_of ` set cfs"
  proof
    assume "seq_of c \<in> seq_of ` set cfs"
    then obtain d where d: "seq_of c = seq_of d" "d \<in> set cfs" by (rule imageE)
    from bspec [OF b d(2)] d(1) show False unfolding seq by simp
  qed
  ultimately have inj: "inj_on seq_of (insert c (set cfs))" unfolding inj_on_insert by blast
  then show "inj_on seq_of (cluster_configs (look w') cluster)" unfolding ins .
  show "listConfigs e cluster w' = (Inr (cfs @ [c]), w')"
  proof (rule listConfigs_unique)
    have "\<forall>d \<in> set cfs. seq_of d \<le> seq_of c" unfolding seq using b by (auto intro: less_imp_le)
    then show "sorted (map seq_of (cfs @ [c]))" using cfs(2) by (simp add: sorted_append)
    have "c \<notin> set cfs" using new by blast
    then show "distinct (cfs @ [c])" using cfs(3) by simp
  qed (use ins inj in simp_all)
qed

lemma refresh_configs_ok:
  assumes wf: "configs_wf (look (world s)) cluster" and cfs: "set cfs = cluster_configs (look (world s)) cluster"
    "sorted (map seq_of cfs)" "distinct (map config_key cfs)"
  obtains s' cfs' where "refresh_configs e cluster cfs s = (Inr cfs', s')" "extended cluster cfs cfs'"
    "distinct (map config_key cfs')"
    "cluster_configs (look (world s')) cluster = set cfs'"
    "\<forall>q. q \<notin> config_okeys cfs' \<longrightarrow> look (world s') q = look (world s) q"
proof (cases "needs_config cluster cfs")
  case True
  show thesis
  proof (rule createNewConfig_cases [of cluster "highest cfs" s])
    fix w' c
    assume c: "createNewConfig e cluster (highest cfs) s = (Inr (), s\<lparr>world := w',
         metric_log := metric_log s @ [CounterInc ''redkey_config_creations_total'' [creation_reason (highest cfs)]]\<rparr>)"
      "look w' = (look (world s))((KConfig, new_config_key cluster (highest cfs)) \<mapsto> OConfig c)"
      "fresh_config cluster (next_seq (highest cfs)) c"
    have "distinct cfs" using cfs(3) by (simp add: distinct_map)
    moreover have "look w' (KConfig, k) = (if k = new_config_key cluster (highest cfs) then Some (OConfig c)
        else look (world s) (KConfig, k))" for k
      by (simp add: c(2))
    ultimately have l: "listConfigs e cluster w' = (Inr (cfs @ [c]), w')"
        "cluster_configs (look w') cluster = set (cfs @ [c])"
      using list_after_create [OF wf cfs(1,2) _ c(3)] by blast+
    have dist: "distinct (map config_key (cfs @ [c]))"
      by (rule listConfigs_ok [of cluster w']) (simp add: l(1))
    let ?s1 = "s\<lparr>world := w', metric_log := metric_log s @
        [CounterInc ''redkey_config_creations_total'' [creation_reason (highest cfs)]]\<rparr>"
    show thesis
    proof (rule that [of "cfs @ [c]" ?s1])
      show "refresh_configs e cluster cfs s = (Inr (cfs @ [c]), ?s1)"
        using True c(1) l(1)
        by (simp add: refresh_configs_def needs_config_def highest_def stage_def io_simps split: if_splits)
      show "distinct (map config_key (cfs @ [c]))" by (rule dist)
      show "extended cluster cfs (cfs @ [c])" using True c(3) by (auto simp: extended_def)
      show "cluster_configs (look (world ?s1)) cluster = set (cfs @ [c])" using l(2) by simp
      show "\<forall>q. q \<notin> config_okeys (cfs @ [c]) \<longrightarrow> look (world ?s1) q = look (world s) q"
        by (simp add: c(2) fresh_config_key [OF c(3)])
    qed
  qed (use new_config_free [OF wf cfs(1,2)] in simp)
next
  case False
  then show thesis
    using cfs by (intro that [of cfs s])
      (auto simp: refresh_configs_def needs_config_def highest_def extended_def split: if_splits)
qed

lemma listConfigs_D:
  assumes "listConfigs e cluster w = (Inr cfs, w')"
  shows "w' = w" "sorted (map seq_of cfs)" "set cfs = cluster_configs (look w) cluster"
    "distinct (map config_key cfs)"
  by (rule listConfigs_ok [of cluster w], use assms in simp)+

lemma reconcile_normal:
  assumes rec: "reconcilable (look (world s)) cluster" and wf: "configs_wf (look (world s)) cluster"
    and p: "sp_Primaries (rk_Spec cluster) \<noteq> 0"
    and l: "listConfigs e cluster (world s) = (Inr cfs, world s)"
  obtains s' cfs' a st rv where
    "reconcile_cluster e r cluster s = (Inr \<lparr>res_RequeueAfter = rec_ResyncInterval r\<rparr>, s')"
    "extended cluster cfs cfs'" "reconciled e cluster (look (world s)) cfs' a st rv (look (world s'))"
    "robin_converged e (look (world s)) cluster \<longrightarrow>
       (\<forall>q \<in> robin_keys cluster. look (world s') q = look (world s) q)"
proof -
  obtain s0 w1 lg where en: "ensureRBAC e cluster s = (Inr (), s0)"
      "ensureRobinDeployment e cluster s0 = (Inr (), s\<lparr>world := w1, metric_log := metric_log s @ lg\<rparr>)"
      "robin_converged e (look w1) cluster"
      "\<forall>q. q \<notin> robin_keys cluster \<longrightarrow> look w1 q = look (world s) q"
      "robin_converged e (look (world s)) cluster \<longrightarrow> look w1 = look (world s)"
      "deployment_selector_ok (look w1) cluster"
    by (rule ensure_robin [OF rec])
  define s1 where "s1 = s\<lparr>world := w1, metric_log := metric_log s @ lg\<rparr>"
  have w1: "world s1 = w1" by (simp add: s1_def)
  note run1 = en(2) [folded s1_def]
  have cfg: "look w1 (KConfig, k) = look (world s) (KConfig, k)" for k
    using en(4) okey_kinds(3) by blast
  note cc = cluster_configs_cong [of "look w1" "look (world s)", OF cfg]
  have wf1: "configs_wf (look (world s1)) cluster"
    using wf unfolding configs_wf_def w1 by (simp add: cc cfg)
  note ld = listConfigs_D [OF l]
  have cfs: "set cfs = cluster_configs (look (world s1)) cluster" using ld(3) cc w1 by simp
  have inj: "inj_on seq_of (cluster_configs (look w1) cluster)"
    using cluster_configs_unique [OF wf1] w1 by simp
  have l1: "listConfigs e cluster (world s1) = (Inr cfs, world s1)"
    using cfs ld inj w1 by (intro listConfigs_unique) (simp_all add: distinct_map)
  obtain s2 cfs' where s2: "refresh_configs e cluster cfs s1 = (Inr cfs', s2)" "extended cluster cfs cfs'"
    "distinct (map config_key cfs')" "cluster_configs (look (world s2)) cluster = set cfs'"
    "\<forall>q. q \<notin> config_okeys cfs' \<longrightarrow> look (world s2) q = look (world s1) q"
    by (rule refresh_configs_ok [OF wf1 cfs ld(2,4)])
  have ne: "cfs' \<noteq> []" using s2(2) by (auto simp: extended_def needs_config_def split: if_splits)
  have "look w1 (redkey_okey cluster) = Some (ORedkey cluster)"
    using rec en(4) [rule_format, OF okey_kinds(1)] by (simp add: reconcilable_def)
  then have red: "look (world s2) (redkey_okey cluster) = Some (ORedkey cluster)"
    using s2(5) [rule_format, of "redkey_okey cluster"] w1 by simp
  obtain s3 a st rv where s3:
    "publish_status e cluster cfs' s2 = (Inr (keep_configs cfs', cluster\<lparr>rk_Status := st\<rparr>), s3)"
    "selectActiveConfig (keep_configs cfs') = Some a"
    "mirrored e a (om_Generation (rk_Meta cluster)) cluster st"
    "look (world s3) = (without_configs (look (world s2)) (drop_configs cfs'))
       (redkey_okey cluster \<mapsto> ORedkey (set_status cluster rv st))"
    by (rule publish_status_ok [OF red ne s2(3)])
  obtain s4 where s4: "recordRedkeyMetrics e (cluster\<lparr>rk_Status := st\<rparr>) (Some a) s3 = (Inr (), s4)"
    using recordRedkeyMetrics_run [of e "cluster\<lparr>rk_Status := st\<rparr>" "Some a" s3] by (metis prod.collapse)
  have look4: "look (world s4) = look (world s3)"
    using look_recordRedkeyMetrics [of "cluster\<lparr>rk_Status := st\<rparr>" "Some a" s3] s4 by simp
  have "reconcile_cluster e r cluster s = (Inr \<lparr>res_RequeueAfter = rec_ResyncInterval r\<rparr>, s4)"
    using p keep_configs_nonempty [OF ne]
    by (simp add: reconcile_cluster_def stage_def io_simps en(1) run1 l1 s2(1) s3(1,2) active_config_def s4)
  moreover have "reconciled e cluster (look (world s)) cfs' a st rv (look (world s4))"
    unfolding look4 using s2(5) w1 by (intro reconciled_I [OF en(3,6,4) _ s2(4,3) s3(2-4)]) simp
  moreover have "look (world s4) q = look (world s) q"
    if "robin_converged e (look (world s)) cluster" "q \<in> robin_keys cluster" for q
  proof -
    have q: "q \<notin> config_okeys cfs'" "q \<noteq> redkey_okey cluster"
      using config_okeys_robin [OF that(2)] okey_kinds(1) that(2) by blast+
    then have "q \<notin> config_okeys (drop_configs cfs')" using config_okeys_split [of cfs'] by blast
    with q that(1) s2(5) [rule_format, of q] en(5) w1 show ?thesis
      by (simp add: look4 s3(4) without_configs_okeys)
  qed
  ultimately show thesis using s2(2) that by blast
qed

end

end
