(* ===== verification/Reconcile_Runs.thy ===== *)
theory Reconcile_Runs
  imports Reconcile_Effect
begin

text \<open>
  Runs of \<^verbatim>\<open>Reconcile\<close> composed: it keeps the naming invariant, a second run changes nothing but the
  status, a run that finds no \<^verbatim>\<open>Redkey\<close> only drops its metrics, and a cluster scaled to zero goes
  through request, wait and teardown.
\<close>

lemma extended_sets:
  "extended cluster cfs cfs' \<Longrightarrow> set cfs \<subseteq> set cfs'"
  by (auto simp: extended_def split: if_splits)

lemma extended_nonempty: "extended cluster cfs cfs' \<Longrightarrow> cfs' \<noteq> []"
  by (auto simp: extended_def needs_config_def split: if_splits)

lemma keep_configs_idem: "keep_configs (keep_configs cs) = keep_configs cs"
  by (induction cs rule: keep_configs.induct) auto

lemma drop_configs_keep: "drop_configs (keep_configs cs) = []"
  by (simp add: drop_configs_def keep_configs_idem)

lemma last_keep_configs: "cs \<noteq> [] \<Longrightarrow> last (keep_configs cs) = last cs"
  by (induction cs rule: keep_configs.induct) auto

lemma sorted_keep_configs: "sorted (map seq_of cs) \<Longrightarrow> sorted (map seq_of (keep_configs cs))"
  by (metis drop_keep_configs map_append sorted_append)

lemma distinct_keep_configs: "distinct (map config_key cs) \<Longrightarrow> distinct (map config_key (keep_configs cs))"
  by (metis distinct_append drop_keep_configs map_append)

lemma not_needed_after:
  assumes "mirrored e a (om_Generation (rk_Meta cluster)) cluster stt" "cfs \<noteq> []"
  shows "\<not> needs_config (set_status cluster rv stt) cfs"
  using assms by (simp add: needs_config_def mirrored_def highest_def needsNewConfig_iff)

lemma set_status_wf [simp]: "configs_wf st (set_status cluster rv stt) = configs_wf st cluster"
  by (simp add: configs_wf_def)

lemma set_status_twice [simp]: "set_status (set_status cluster rv st) rv' st' = set_status cluster rv' st'"
  by (simp add: set_status_def)

lemma reconciled_after:
  assumes "reconciled e cluster st cfs' a stt rv st'" "no_revision_annotation cluster"
  shows "reconcilable st' (set_status cluster rv stt)"
  using assms by (simp add: reconciled_def reconcilable_def)

context kube_objects
begin

lemma Reconcile_found:
  assumes "look (world s) (redkey_okey cluster) = Some (ORedkey cluster)"
  shows "Reconcile e r (redkey_NamespacedName cluster) s = reconcile_cluster e r cluster s"
proof -
  have "e_get_redkey e (redkey_NamespacedName cluster) (world s) = (Inr cluster, world s)"
    using assms by (intro get_redkey_some) (simp add: redkey_okey_def)
  then show ?thesis by (simp add: Reconcile_def io_simps)
qed

lemma Reconcile_missing:
  assumes "look (world s) (KRedkey, k) = None"
  shows "Reconcile e r k s = (Inr \<lparr>res_RequeueAfter = 0\<rparr>, snd (deleteRedkeyMetrics k s))"
proof -
  obtain err where "e_get_redkey e k (world s) = (Inl err, world s)" "IsNotFound err"
    using get_redkey_none [OF assms] by blast
  then show ?thesis by (simp add: Reconcile_def io_simps deleteRedkeyMetrics_run)
qed

lemma reconciled_wf:
  assumes wf: "configs_wf (look w) cluster" and cfs: "set cfs = cluster_configs (look w) cluster"
      "sorted (map seq_of cfs)"
    and ext: "extended cluster cfs cfs'" and rec: "reconciled e cluster (look w) cfs' a stt rv (look w')"
    and room: "next_seq (highest cfs) < 2 ^ 63 - 1"
  shows "configs_wf (look w') cluster"
proof -
  have own: "om_Name (cf_Meta c) = config_name (om_Name (rk_Meta cluster)) (seq_of c) \<and>
      1 \<le> seq_of c \<and> seq_of c < 2 ^ 63 - 1" if "c \<in> set cfs'" for c
  proof (cases "c \<in> set cfs")
    case True
    with configs_wf_D [OF wf] cfs(1) show ?thesis by blast
  next
    case False
    with that ext have c: "fresh_config cluster (next_seq (highest cfs)) c"
      by (auto simp: extended_def split: if_splits)
    with fresh_config_sel(1,4) [OF c] next_seq_bounds(1) [OF wf cfs] room show ?thesis by simp
  qed
  have keep: "cluster_configs (look w') cluster = set (keep_configs cfs')"
    using rec by (simp add: reconciled_def)
  have "c \<in> cluster_configs (look w') cluster"
    if n: "1 \<le> n" and c: "look w' (KConfig, \<lparr>nn_Namespace = om_Namespace (rk_Meta cluster),
        nn_Name = config_name (om_Name (rk_Meta cluster)) n\<rparr>) = Some (OConfig c)" for n c
  proof (cases "(KConfig, config_key c) \<in> config_okeys (keep_configs cfs')")
    case True
    then obtain d where d: "d \<in> set (keep_configs cfs')" "config_key c = config_key d"
      by (auto simp: config_okeys_def)
    have "look w' (KConfig, config_key c) = Some (OConfig c)"
      using cf.stored [OF c] c by auto
    with d rec show ?thesis unfolding keep reconciled_def by (metis Object.inject(2) option.inject)
  next
    case False
    let ?q = "(KConfig, \<lparr>nn_Namespace = om_Namespace (rk_Meta cluster),
        nn_Name = config_name (om_Name (rk_Meta cluster)) n\<rparr>)"
    have q: "?q = (KConfig, config_key c)" using cf.stored [OF c] by auto
    show ?thesis
    proof (cases "?q \<in> config_okeys cfs'")
      case True
      with False q have "?q \<in> config_okeys (drop_configs cfs')"
        using config_okeys_split [of cfs'] by auto
      with rec c show ?thesis unfolding reconciled_def by (metis option.distinct(1))
    next
      case False
      have "?q \<notin> robin_keys cluster" "?q \<noteq> redkey_okey cluster"
        by (simp_all add: okey_kinds(3)) (simp add: redkey_okey_def)
      with False rec c have "look w ?q = Some (OConfig c)" unfolding reconciled_def by (metis Un_iff)
      with wf n cfs(1) have "c \<in> set cfs" unfolding configs_wf_def by blast
      with extended_sets [OF ext] have "(KConfig, config_key c) \<in> config_okeys cfs'"
        by (auto simp: config_okeys_def)
      with False q show ?thesis by simp
    qed
  qed
  with own keep set_keep_configs show ?thesis
    unfolding configs_wf_def by blast
qed

end

context kube_api
begin

lemma reconcile_idempotent:
  assumes rec: "reconciled e cluster st0 cfs a stt rv (look (world s))"
    and wf: "configs_wf (look (world s)) cluster" and norev: "no_revision_annotation cluster"
    and p: "sp_Primaries (rk_Spec cluster) \<noteq> 0"
    and cfs: "cfs \<noteq> []" "sorted (map seq_of cfs)" "distinct (map config_key cfs)"
  shows "\<exists>s' stt' rv'. Reconcile e r (redkey_NamespacedName cluster) s =
      (Inr \<lparr>res_RequeueAfter = rec_ResyncInterval r\<rparr>, s') \<and>
    mirrored e a (om_Generation (rk_Meta cluster)) (set_status cluster rv stt) stt' \<and>
    look (world s') = (look (world s))(redkey_okey cluster \<mapsto> ORedkey (set_status cluster rv' stt'))"
proof -
  let ?c = "set_status cluster rv stt" and ?k = "keep_configs cfs"
  note rd = rec [unfolded reconciled_def]
  have cc: "set ?k = cluster_configs (look (world s)) ?c" using rd by simp
  have ne: "?k \<noteq> []" by (rule keep_configs_nonempty [OF cfs(1)])
  have wf': "configs_wf (look (world s)) ?c" using wf by simp
  have dk: "distinct (map config_key ?k)" by (rule distinct_keep_configs [OF cfs(3)])
  have l: "listConfigs e ?c (world s) = (Inr ?k, world s)"
    using cc sorted_keep_configs [OF cfs(2)] dk cluster_configs_unique [OF wf']
    by (intro listConfigs_unique) (simp_all add: distinct_map)
  obtain s' cfs' a' stt' rv' where run:
      "reconcile_cluster e r ?c s = (Inr \<lparr>res_RequeueAfter = rec_ResyncInterval r\<rparr>, s')"
      "extended ?c ?k cfs'" "reconciled e ?c (look (world s)) cfs' a' stt' rv' (look (world s'))"
      "robin_converged e (look (world s)) ?c \<longrightarrow>
         (\<forall>q \<in> robin_keys ?c. look (world s') q = look (world s) q)"
    by (rule reconcile_normal [OF reconciled_after [OF rec norev] wf' _ l]) (use p in simp_all)
  have "\<not> needs_config ?c ?k" using not_needed_after [of e a cluster stt ?k rv] rd ne by blast
  with run(2) have cfs': "cfs' = ?k" by (simp add: extended_def)
  note rd' = run(3) [unfolded reconciled_def cfs' keep_configs_idem drop_configs_keep]
  have a: "a' = a" using rd rd' by simp
  have same: "look (world s') q = look (world s) q" if "q \<noteq> redkey_okey cluster" for q
  proof (cases "q \<in> robin_keys cluster \<union> config_okeys ?k")
    case True
    then show ?thesis using run(4) rd rd' by (auto simp: config_okeys_def)
  next
    case False
    then show ?thesis using rd' that by (metis set_status_key(2) set_status_robin(2))
  qed
  have "look (world s') = (look (world s))(redkey_okey cluster \<mapsto> ORedkey (set_status cluster rv' stt'))"
    using same rd' by (intro ext) simp
  moreover have "Reconcile e r (redkey_NamespacedName cluster) s = reconcile_cluster e r ?c s"
    using Reconcile_found [of s ?c r] rd by simp
  ultimately show ?thesis using run(1) rd' a by auto
qed

lemma Reconcile_zero:
  assumes "look (world s) (redkey_okey cluster) = Some (ORedkey cluster)" "sp_Primaries (rk_Spec cluster) = 0"
    and run: "reconcileScaleToZero e r cluster s = (Inr (res, cluster'), s1)"
  shows "\<exists>s'. Reconcile e r (redkey_NamespacedName cluster) s = (Inr res, s') \<and>
     look (world s') = look (world s1)"
proof -
  obtain s2 where s2: "recordRedkeyMetrics e cluster' None s1 = (Inr (), s2)"
    using recordRedkeyMetrics_run [of e cluster' None s1] by (metis prod.collapse)
  have "look (world s2) = look (world s1)"
    using look_recordRedkeyMetrics [of cluster' None s1] s2 by simp
  with assms(2) run s2 show ?thesis
    unfolding Reconcile_found [OF assms(1)] by (simp add: reconcile_cluster_def stage_def io_simps)
qed

lemma cluster_configs_update:
  assumes "c \<in> cluster_configs st cluster"
  shows "cluster_configs (st((KConfig, config_key c) \<mapsto> OConfig (c\<lparr>cf_Status := x\<rparr>))) cluster =
     insert (c\<lparr>cf_Status := x\<rparr>) (cluster_configs st cluster - {c})"
  (is "?l = ?r")
proof
  show "?l \<subseteq> ?r"
  proof
    fix d assume d: "d \<in> ?l"
    show "d \<in> ?r"
    proof (cases "config_key d = config_key c")
      case True
      with cluster_configs_D(1) [OF d] show ?thesis by auto
    next
      case False
      with d have "d \<in> cluster_configs st cluster" by (auto simp: cluster_configs_def)
      with False show ?thesis by auto
    qed
  qed
  show "?r \<subseteq> ?l"
  proof
    fix d assume d: "d \<in> ?r"
    show "d \<in> ?l"
    proof (cases "d = c\<lparr>cf_Status := x\<rparr>")
      case True
      with assms show ?thesis by (simp add: cluster_configs_def)
    next
      case False
      with d have d': "d \<in> cluster_configs st cluster" "d \<noteq> c" by auto
      have "config_key d \<noteq> config_key c"
      proof
        assume k: "config_key d = config_key c"
        from cluster_configs_D(1) [OF d'(1)] cluster_configs_D(1) [OF assms] d'(2) show False
          unfolding k by simp
      qed
      with d'(1) show ?thesis by (simp add: cluster_configs_def)
    qed
  qed
qed

lemma list_after_status:
  assumes l: "listConfigs e cluster w = (Inr (cfs @ [c]), w)" and inj: "inj_on seq_of (cluster_configs (look w) cluster)"
    and w': "look w' = (look w)((KConfig, config_key c) \<mapsto> OConfig (c\<lparr>cf_Status := x\<rparr>))"
  shows "listConfigs e cluster w' = (Inr (cfs @ [c\<lparr>cf_Status := x\<rparr>]), w')"
proof -
  let ?c = "c\<lparr>cf_Status := x\<rparr>"
  note d = listConfigs_D [OF l]
  have nin: "c \<notin> set cfs" "distinct cfs" using d(4) by (auto simp: distinct_map)
  have mem: "c \<in> cluster_configs (look w) cluster" using d(3) by auto
  have set': "cluster_configs (look w') cluster = insert ?c (set cfs)"
    unfolding w' cluster_configs_update [OF mem] d(3) [symmetric] using nin(1) by auto
  have inj': "inj_on seq_of (insert c (set cfs))" using inj d(3) by simp
  then have "?c \<notin> set cfs"
  proof -
    have "seq_of ?c = seq_of c" by simp
    with inj' nin(1) show ?thesis unfolding inj_on_def by (metis insertCI)
  qed
  with nin(2) have dist: "distinct (cfs @ [?c])" by simp
  have "inj_on seq_of (insert ?c (set cfs))"
    using inj' nin(1) by (auto simp: inj_on_insert)
  with set' d(2) dist show ?thesis
    by (intro listConfigs_unique) simp_all
qed

text \<open>The request: one run on a cluster scaled to zero whose last config still has primaries.\<close>

lemma zero_requested:
  assumes rec: "reconcilable (look (world s)) cluster" and p: "sp_Primaries (rk_Spec cluster) = 0"
    and wf: "configs_wf (look (world s)) cluster"
    and l: "listConfigs e cluster (world s) = (Inr cfs, world s)" "cfs \<noteq> []"
    and last: "cs_Primaries (cf_Spec (last cfs)) \<noteq> 0"
  obtains s' c where
    "Reconcile e r (redkey_NamespacedName cluster) s = (Inr \<lparr>res_RequeueAfter = rec_ResyncInterval r\<rparr>, s')"
    "fresh_config cluster (next_seq (highest cfs)) c" "robin_converged e (look (world s')) cluster"
    "listConfigs e cluster (world s') = (Inr (cfs @ [c]), world s')"
    "inj_on seq_of (cluster_configs (look (world s')) cluster)"
    "look (world s') (redkey_okey cluster) = Some (ORedkey cluster)"
proof -
  have h: "highest cfs = Some (last cfs)" using l(2) by (simp add: highest_def)
  note d = listConfigs_D [OF l(1)]
  have dist: "distinct cfs" using d(4) by (simp add: distinct_map)
  have free: "look (world s) (KConfig, new_config_key cluster (Some (last cfs))) = None"
    using new_config_free [OF wf d(3,2)] h by simp
  obtain s1 c where run: "reconcileScaleToZero e r cluster s =
        (Inr (\<lparr>res_RequeueAfter = rec_ResyncInterval r\<rparr>, cluster), s1)"
      "robin_converged e (look (world s1)) cluster" "fresh_config cluster (next_seq (highest cfs)) c"
      "look (world s1) (KConfig, new_config_key cluster (highest cfs)) = Some (OConfig c)"
      "\<forall>q. q \<notin> insert (KConfig, new_config_key cluster (highest cfs)) (robin_keys cluster) \<longrightarrow>
         look (world s1) q = look (world s) q"
    using scale_zero_request [OF rec l last free, of r] unfolding h by blast
  have red: "look (world s) (redkey_okey cluster) = Some (ORedkey cluster)"
    using rec by (simp add: reconcilable_def)
  obtain s' where s': "Reconcile e r (redkey_NamespacedName cluster) s =
        (Inr \<lparr>res_RequeueAfter = rec_ResyncInterval r\<rparr>, s')" "look (world s') = look (world s1)"
    using Reconcile_zero [OF red p run(1)] by blast
  have "look (world s') (KConfig, k) = (if k = new_config_key cluster (highest cfs) then Some (OConfig c)
      else look (world s) (KConfig, k))" for k
    using run(4,5) okey_kinds(3) [of k cluster] unfolding s'(2) by auto
  note after = list_after_create [OF wf d(3,2) dist run(3) this]
  have "look (world s') (redkey_okey cluster) = Some (ORedkey cluster)"
    using run(5) [rule_format, of "redkey_okey cluster"] red okey_kinds(1) [of cluster]
    unfolding s'(2) by (simp add: redkey_okey_def)
  then show thesis using that [OF s'(1) run(3)] run(2) s'(2) after(1,3) by simp
qed

text \<open>The teardown, once Robin has applied the last config.\<close>

lemma zero_completed:
  assumes red: "look (world s) (redkey_okey cluster) = Some (ORedkey cluster)"
    and p: "sp_Primaries (rk_Spec cluster) = 0"
    and l: "listConfigs e cluster (world s) = (Inr cfs, world s)" "cfs \<noteq> []"
    and c: "cs_Primaries (cf_Spec (last cfs)) = 0" "phase_of (last cfs) = ConfigPhaseApplied"
  shows "\<exists>s' stt rv. Reconcile e r (redkey_NamespacedName cluster) s =
      (Inr \<lparr>res_RequeueAfter = rec_ResyncInterval r\<rparr>, s') \<and> zero_status e cluster stt \<and>
    look (world s') = (torn_down (look (world s)) cluster)(redkey_okey cluster \<mapsto> ORedkey (set_status cluster rv stt))"
proof -
  obtain stt w1 rv where run: "reconcileScaleToZero e r cluster s =
      (Inr (\<lparr>res_RequeueAfter = rec_ResyncInterval r\<rparr>, set_status cluster rv stt), s\<lparr>world := w1\<rparr>)"
      "zero_status e cluster stt"
      "look w1 = (torn_down (look (world s)) cluster)(redkey_okey cluster \<mapsto> ORedkey (set_status cluster rv stt))"
    using scale_zero_applied [OF red l c, of r] by blast
  from Reconcile_zero [OF red p run(1)] run(2,3) show ?thesis by auto
qed

text \<open>Once nothing is left, further runs only rewrite the status.\<close>

lemma zero_settled:
  assumes red: "look (world s) (redkey_okey cluster) = Some (ORedkey cluster)"
    and p: "sp_Primaries (rk_Spec cluster) = 0" and none: "cluster_configs (look (world s)) cluster = {}"
  shows "\<exists>s' stt rv. Reconcile e r (redkey_NamespacedName cluster) s =
      (Inr \<lparr>res_RequeueAfter = rec_ResyncInterval r\<rparr>, s') \<and> zero_status e cluster stt \<and>
    look (world s') = (look (world s))(redkey_okey cluster \<mapsto> ORedkey (set_status cluster rv stt))"
proof -
  obtain stt w1 rv where run: "reconcileScaleToZero e r cluster s =
      (Inr (\<lparr>res_RequeueAfter = rec_ResyncInterval r\<rparr>, set_status cluster rv stt), s\<lparr>world := w1\<rparr>)"
      "zero_status e cluster stt"
      "look w1 = (look (world s))(redkey_okey cluster \<mapsto> ORedkey (set_status cluster rv stt))"
    using scale_zero_no_configs [OF red none, of r] by blast
  from Reconcile_zero [OF red p run(1)] run(2,3) show ?thesis by auto
qed

lemma scale_to_zero_runs:
  assumes rec: "reconcilable (look (world s)) cluster" and p: "sp_Primaries (rk_Spec cluster) = 0"
    and wf: "configs_wf (look (world s)) cluster"
    and l: "listConfigs e cluster (world s) = (Inr cfs, world s)" "cfs \<noteq> []"
    and last: "cs_Primaries (cf_Spec (last cfs)) \<noteq> 0"
  shows "\<exists>s1 c. Reconcile e r (redkey_NamespacedName cluster) s =
      (Inr \<lparr>res_RequeueAfter = rec_ResyncInterval r\<rparr>, s1) \<and>
    robin_converged e (look (world s1)) cluster \<and> fresh_config cluster (next_seq (highest cfs)) c \<and>
    look (world s1) (KConfig, config_key c) = Some (OConfig c) \<and>
    (\<forall>w2 x. ct_ConfigPhase x = ConfigPhaseApplied \<longrightarrow>
       look w2 = (look (world s1))((KConfig, config_key c) \<mapsto> OConfig (c\<lparr>cf_Status := x\<rparr>)) \<longrightarrow>
       (\<exists>s3 stt rv. Reconcile e r (redkey_NamespacedName cluster) (s1\<lparr>world := w2\<rparr>) =
            (Inr \<lparr>res_RequeueAfter = rec_ResyncInterval r\<rparr>, s3) \<and> zero_status e cluster stt \<and>
          look (world s3) = (torn_down (look w2) cluster)(redkey_okey cluster \<mapsto> ORedkey (set_status cluster rv stt))))"
proof -
  obtain s1 c where run: "Reconcile e r (redkey_NamespacedName cluster) s =
        (Inr \<lparr>res_RequeueAfter = rec_ResyncInterval r\<rparr>, s1)"
      "fresh_config cluster (next_seq (highest cfs)) c" "robin_converged e (look (world s1)) cluster"
      "listConfigs e cluster (world s1) = (Inr (cfs @ [c]), world s1)"
      "inj_on seq_of (cluster_configs (look (world s1)) cluster)"
      "look (world s1) (redkey_okey cluster) = Some (ORedkey cluster)"
    by (rule zero_requested [OF assms])
  have "c \<in> cluster_configs (look (world s1)) cluster" using listConfigs_D(3) [OF run(4)] by auto
  then have stored: "look (world s1) (KConfig, config_key c) = Some (OConfig c)" by (rule cluster_configs_D)
  have "\<exists>s3 stt rv. Reconcile e r (redkey_NamespacedName cluster) (s1\<lparr>world := w2\<rparr>) =
            (Inr \<lparr>res_RequeueAfter = rec_ResyncInterval r\<rparr>, s3) \<and> zero_status e cluster stt \<and>
          look (world s3) = (torn_down (look w2) cluster)(redkey_okey cluster \<mapsto> ORedkey (set_status cluster rv stt))"
    if "ct_ConfigPhase x = ConfigPhaseApplied"
      "look w2 = (look (world s1))((KConfig, config_key c) \<mapsto> OConfig (c\<lparr>cf_Status := x\<rparr>))" for w2 x
  proof -
    let ?s2 = "s1\<lparr>world := w2\<rparr>"
    have "look (world ?s2) (redkey_okey cluster) = Some (ORedkey cluster)"
      using run(6) that(2) by (simp add: redkey_okey_def)
    moreover have "listConfigs e cluster (world ?s2) = (Inr (cfs @ [c\<lparr>cf_Status := x\<rparr>]), world ?s2)"
      using list_after_status [OF run(4,5) that(2)] by simp
    ultimately show ?thesis
      using zero_completed [of ?s2 cluster "cfs @ [c\<lparr>cf_Status := x\<rparr>]" r] p that(1) fresh_config_sel(2) [OF run(2)]
      by simp
  qed
  with run(1-3) stored show ?thesis by blast
qed

end

lemma torn_down_configs:
  "cluster_configs ((torn_down st cluster)(redkey_okey cluster \<mapsto> ob)) cluster = {}"
  unfolding cluster_configs_redkey by (auto simp: cluster_configs_def torn_down_def config_keys_def)

context kube_objects
begin

text \<open>A list that lags behind the store: the name of the next config is taken by a config the cache
  has not delivered. The creation is skipped, and the generation is recorded as observed all the
  same.\<close>

lemma stale_list_run:
  assumes rec: "reconcilable (look (world s)) cluster" and p: "sp_Primaries (rk_Spec cluster) \<noteq> 0"
    and l: "\<And>w. listConfigs e cluster w = (Inr cfs, w)"
    and cfs: "cfs \<noteq> []" "distinct (map config_key cfs)" "needsNewConfig cluster (Some (last cfs))"
    and taken: "look (world s) (KConfig, new_config_key cluster (Some (last cfs))) \<noteq> None"
  shows "\<exists>s' stt rv. Reconcile e r (redkey_NamespacedName cluster) s =
      (Inr \<lparr>res_RequeueAfter = rec_ResyncInterval r\<rparr>, s') \<and>
    st_ObservedGeneration stt = om_Generation (rk_Meta cluster) \<and>
    look (world s') (redkey_okey cluster) = Some (ORedkey (set_status cluster rv stt)) \<and>
    (\<forall>k c. look (world s') (KConfig, k) = Some (OConfig c) \<longrightarrow> look (world s) (KConfig, k) = Some (OConfig c))"
proof -
  obtain s0 w1 lg where en: "ensureRBAC e cluster s = (Inr (), s0)"
      "ensureRobinDeployment e cluster s0 = (Inr (), s\<lparr>world := w1, metric_log := metric_log s @ lg\<rparr>)"
      "robin_converged e (look w1) cluster"
      "\<forall>q. q \<notin> robin_keys cluster \<longrightarrow> look w1 q = look (world s) q"
      "robin_converged e (look (world s)) cluster \<longrightarrow> look w1 = look (world s)"
      "deployment_selector_ok (look w1) cluster"
    by (rule ensure_robin [OF rec])
  define s1 where "s1 = s\<lparr>world := w1, metric_log := metric_log s @ lg\<rparr>"
  have w1: "world s1 = w1" by (simp add: s1_def)
  note run1 = en(2) [folded s1_def]
  have "look (world s1) (KConfig, new_config_key cluster (Some (last cfs))) \<noteq> None"
    using taken en(4) okey_kinds(3) unfolding w1 by metis
  then have skip: "createNewConfig e cluster (Some (last cfs)) s1 = (Inr (), s1)"
    using createNewConfig_cases [of cluster "Some (last cfs)" s1] by metis
  have refresh: "refresh_configs e cluster cfs s1 = (Inr cfs, s1)"
    using cfs(1,3) skip l by (simp add: refresh_configs_def stage_def io_simps)
  have red: "look (world s1) (redkey_okey cluster) = Some (ORedkey cluster)"
    using rec en(4) [rule_format, OF okey_kinds(1)] w1 by (simp add: reconcilable_def)
  obtain s3 a stt rv where s3:
    "publish_status e cluster cfs s1 = (Inr (keep_configs cfs, cluster\<lparr>rk_Status := stt\<rparr>), s3)"
    "selectActiveConfig (keep_configs cfs) = Some a"
    "mirrored e a (om_Generation (rk_Meta cluster)) cluster stt"
    "look (world s3) = (without_configs (look (world s1)) (drop_configs cfs))
       (redkey_okey cluster \<mapsto> ORedkey (set_status cluster rv stt))"
    by (rule publish_status_ok [OF red cfs(1,2)])
  obtain s4 where s4: "recordRedkeyMetrics e (cluster\<lparr>rk_Status := stt\<rparr>) (Some a) s3 = (Inr (), s4)"
    using recordRedkeyMetrics_run [of e "cluster\<lparr>rk_Status := stt\<rparr>" "Some a" s3] by (metis prod.collapse)
  have look4: "look (world s4) = look (world s3)"
    using look_recordRedkeyMetrics [of "cluster\<lparr>rk_Status := stt\<rparr>" "Some a" s3] s4 by simp
  have "reconcile_cluster e r cluster s = (Inr \<lparr>res_RequeueAfter = rec_ResyncInterval r\<rparr>, s4)"
    using p keep_configs_nonempty [OF cfs(1)]
    by (simp add: reconcile_cluster_def stage_def io_simps en(1) run1 l refresh s3(1,2) active_config_def s4)
  moreover have "look (world s) (redkey_okey cluster) = Some (ORedkey cluster)"
    using rec by (simp add: reconcilable_def)
  moreover have "look (world s) (KConfig, k) = Some (OConfig c)"
    if "look (world s4) (KConfig, k) = Some (OConfig c)" for k c
  proof -
    have "look w1 (KConfig, k) = Some (OConfig c)"
      using that unfolding look4 s3(4) w1
      by (simp add: without_configs_okeys redkey_okey_def split: if_splits)
    then show ?thesis using en(4) okey_kinds(3) by metis
  qed
  ultimately show ?thesis
    using s3(3) unfolding Reconcile_found [OF \<open>look (world s) (redkey_okey cluster) = _\<close>]
    by (intro exI [of _ s4] exI [of _ stt] exI [of _ rv]) (simp add: mirrored_def look4 s3(4))
qed

end

end
