(* ===== verification/Reconcile_System.thy ===== *)
theory Reconcile_System
  imports Reconcile_Runs
begin

text \<open>
  Compositions of reconciles: one run of the loop from every well-formed state, two runs in a row,
  the effect on the objects of other clusters, and the scale-to-zero request that races with the
  aggregation of the status.
\<close>

section \<open>Specifications\<close>

text \<open>What two statuses of a cluster have in common if they differ in conditions and time stamps only.\<close>

definition same_report :: "RedkeyStatus \<Rightarrow> RedkeyStatus \<Rightarrow> bool" where
  "same_report st st' \<longleftrightarrow>
     st_Phase st' = st_Phase st \<and> st_Status st' = st_Status st \<and> st_Replicas st' = st_Replicas st \<and>
     st_Nodes st' = st_Nodes st \<and> st_ObservedGeneration st' = st_ObservedGeneration st \<and>
     st_LastAppliedPrimaries st' = st_LastAppliedPrimaries st \<and>
     st_LastAppliedReplicasPerPrimary st' = st_LastAppliedReplicasPerPrimary st"

text \<open>Room for one more sequence number.\<close>

definition sequence_room :: "(okey \<Rightarrow> Object option) \<Rightarrow> Redkey \<Rightarrow> bool" where
  "sequence_room st cluster \<longleftrightarrow> (\<forall>c \<in> cluster_configs st cluster. seq_of c < 2 ^ 63 - 2)"

text \<open>The objects of a cluster: the Redkey, Robin's objects and the configs.\<close>

definition cluster_objects :: "(okey \<Rightarrow> Object option) \<Rightarrow> Redkey \<Rightarrow> okey set" where
  "cluster_objects st cluster = insert (redkey_okey cluster) (robin_keys cluster \<union> config_keys st cluster)"

section \<open>Lemmas\<close>

lemma mirrored_twice:
  "mirrored e a g cluster st \<Longrightarrow> mirrored e a g (set_status cluster rv st) st' \<Longrightarrow> same_report st st'"
  by (auto simp: mirrored_def same_report_def split: if_splits)

lemma next_seq_room:
  assumes "configs_wf st cluster" "set cfs = cluster_configs st cluster" "sequence_room st cluster"
  shows "next_seq (highest cfs) < 2 ^ 63 - 1"
proof (cases "cfs = []")
  case True
  then show ?thesis by (simp add: highest_def next_seq_def)
next
  case False
  then have "last cfs \<in> cluster_configs st cluster" using assms(2) last_in_set by blast
  with configs_wf_D(2) [OF assms(1)] assms(3) have "1 \<le> seq_of (last cfs)" "seq_of (last cfs) < 2 ^ 63 - 2"
    by (auto simp: sequence_room_def)
  then show ?thesis using False wrap64_id [of "seq_of (last cfs) + 1"]
    by (simp add: highest_def next_seq_def in_int64_def)
qed

lemma extended_sorted:
  assumes "extended cluster cfs cfs'" "configs_wf st cluster" "set cfs = cluster_configs st cluster"
    "sorted (map seq_of cfs)"
  shows "sorted (map seq_of cfs')"
proof (cases "needs_config cluster cfs")
  case True
  with assms(1) obtain c where c: "fresh_config cluster (next_seq (highest cfs)) c" "cfs' = cfs @ [c]"
    by (auto simp: extended_def)
  with next_seq_bounds(2) [OF assms(2-4)] assms(4) fresh_config_sel(1) [OF c(1)] show ?thesis
    by (auto simp: sorted_append intro: less_imp_le)
qed (use assms in \<open>simp add: extended_def\<close>)

lemma extended_keys:
  assumes "extended cluster cfs cfs'" "c \<in> set cfs'"
  shows "c \<in> set cfs \<or> fresh_config cluster (next_seq (highest cfs)) c"
  using assms by (auto simp: extended_def split: if_splits)

lemma extended_distinct:
  assumes ext: "extended cluster cfs cfs'" and wf: "configs_wf st cluster"
    and cfs: "set cfs = cluster_configs st cluster" "sorted (map seq_of cfs)" "distinct (map config_key cfs)"
  shows "distinct (map config_key cfs')"
proof (cases "needs_config cluster cfs")
  case True
  with ext obtain c where c: "fresh_config cluster (next_seq (highest cfs)) c" "cfs' = cfs @ [c]"
    by (auto simp: extended_def)
  have "config_key d \<noteq> config_key c" if d: "d \<in> set cfs" for d
  proof
    assume "config_key d = config_key c"
    then have "om_Name (cf_Meta d) = om_Name (cf_Meta c)" by (simp add: meta_key_def)
    moreover have "1 \<le> seq_of d" "om_Name (cf_Meta d) = config_name (om_Name (rk_Meta cluster)) (seq_of d)"
      using configs_wf_D [OF wf] d cfs(1) by auto
    moreover have "seq_of d < next_seq (highest cfs)" using next_seq_bounds(2) [OF wf cfs(1,2)] d by blast
    ultimately show False using fresh_config_sel(4) [OF c(1)] by (simp add: config_name_inject)
  qed
  then have "config_key c \<notin> set (map config_key cfs)" by (metis (no_types, lifting) imageE list.set_map)
  with c cfs(3) show ?thesis by simp
qed (use assms in \<open>simp add: extended_def\<close>)

lemma robin_keys_other:
  "redkey_NamespacedName other \<noteq> redkey_NamespacedName cluster \<Longrightarrow> q \<in> robin_keys other \<Longrightarrow> q \<notin> robin_keys cluster"
  by (auto simp: robin_keys_def rbac_keys_def robin_key_def robin_name_def redkey_NamespacedName_def)

lemma cluster_configs_other:
  "redkey_NamespacedName other \<noteq> redkey_NamespacedName cluster \<Longrightarrow>
     c \<in> cluster_configs st other \<Longrightarrow> c \<notin> cluster_configs st' cluster"
  by (auto simp: cluster_configs_def redkey_NamespacedName_def)

lemma robin_keys_kinds: "(KRedkey, k) \<notin> robin_keys cluster" "(KConfig, k) \<notin> robin_keys cluster"
  by (simp_all add: robin_keys_def rbac_keys_def)

context kube_objects
begin

lemma other_objects_apart:
  assumes wf: "configs_wf (look w) cluster" and cfs: "set cfs = cluster_configs (look w) cluster"
      "sorted (map seq_of cfs)" and ext: "extended cluster cfs cfs'"
    and other: "redkey_NamespacedName other \<noteq> redkey_NamespacedName cluster"
    and q: "q \<in> cluster_objects (look w) other"
  shows "q \<notin> robin_keys cluster \<union> config_okeys cfs' \<and> q \<noteq> redkey_okey cluster"
proof -
  consider "q = redkey_okey other" | "q \<in> robin_keys other"
    | c where "c \<in> cluster_configs (look w) other" "q = (KConfig, config_key c)"
    using q by (auto simp: cluster_objects_def config_keys_def)
  then show ?thesis
  proof cases
    case 1
    with other show ?thesis by (auto simp: redkey_okey_def robin_keys_kinds config_okeys_def)
  next
    case 2
    with robin_keys_other [OF other 2] config_okeys_robin [OF 2] show ?thesis
      by (auto simp: redkey_okey_def robin_keys_kinds)
  next
    case (3 c)
    have "(KConfig, config_key c) \<noteq> (KConfig, config_key d)" if d: "d \<in> set cfs'" for d
    proof
      assume eq: "(KConfig, config_key c) = (KConfig, config_key d)"
      have look: "look w (KConfig, config_key c) = Some (OConfig c)" by (rule cluster_configs_D(1) [OF 3(1)])
      show False
      proof (cases "d \<in> set cfs")
        case True
        with cfs(1) have "d \<in> cluster_configs (look w) cluster" by simp
        with cluster_configs_D(1) [OF this] look eq cluster_configs_other [OF other 3(1)] show False by auto
      next
        case False
        with extended_keys [OF ext d] have "config_key d = new_config_key cluster (highest cfs)"
          using fresh_config_key by blast
        with new_config_free [OF wf cfs] look eq show False by simp
      qed
    qed
    with 3(2) show ?thesis by (auto simp: config_okeys_def robin_keys_kinds redkey_okey_def)
  qed
qed

lemma reconciled_isolated:
  assumes wf: "configs_wf (look w) cluster" and cfs: "set cfs = cluster_configs (look w) cluster"
      "sorted (map seq_of cfs)" and ext: "extended cluster cfs cfs'"
    and rec: "reconciled e cluster (look w) cfs' a stt rv (look w')"
    and other: "redkey_NamespacedName other \<noteq> redkey_NamespacedName cluster"
  shows "\<forall>q \<in> cluster_objects (look w) other. look w' q = look w q"
    and "cluster_configs (look w') other = cluster_configs (look w) other"
proof -
  note rd = rec [unfolded reconciled_def]
  show same: "\<forall>q \<in> cluster_objects (look w) other. look w' q = look w q"
    using rd other_objects_apart [OF wf cfs ext other] by blast
  have "c \<in> cluster_configs (look w) other" if c: "c \<in> cluster_configs (look w') other" for c
  proof (cases "(KConfig, config_key c) \<in> config_okeys cfs'")
    case True
    have look: "look w' (KConfig, config_key c) = Some (OConfig c)" by (rule cluster_configs_D(1) [OF c])
    with rd have "(KConfig, config_key c) \<notin> config_okeys (drop_configs cfs')" by auto
    with True have "(KConfig, config_key c) \<in> config_okeys (keep_configs cfs')"
      using config_okeys_split [of cfs'] by blast
    then obtain d where d: "d \<in> set (keep_configs cfs')" "config_key c = config_key d"
      by (auto simp: config_okeys_def)
    with rd have "look w' (KConfig, config_key d) = Some (OConfig d)" by blast
    with look d have "c = d" by simp
    with d rd have "c \<in> cluster_configs (look w') cluster" by simp
    with cluster_configs_other [OF other c] show ?thesis by blast
  next
    case False
    with rd have "look w' (KConfig, config_key c) = look w (KConfig, config_key c)"
      by (auto simp: robin_keys_kinds redkey_okey_def)
    with c show ?thesis by (simp add: cluster_configs_def)
  qed
  moreover have "c \<in> cluster_configs (look w') other" if c: "c \<in> cluster_configs (look w) other" for c
    using same c by (auto simp: cluster_objects_def config_keys_def cluster_configs_def)
  ultimately show "cluster_configs (look w') other = cluster_configs (look w) other" by blast
qed

end

context kube_api
begin

lemma reconcile_run:
  assumes rec: "reconcilable (look (world s)) cluster" and wf: "configs_wf (look (world s)) cluster"
    and p: "sp_Primaries (rk_Spec cluster) \<noteq> 0"
  obtains cfs s' cfs' a st rv where
    "listConfigs e cluster (world s) = (Inr cfs, world s)" "sorted (map seq_of cfs)"
    "set cfs = cluster_configs (look (world s)) cluster"
    "Reconcile e r (redkey_NamespacedName cluster) s = (Inr \<lparr>res_RequeueAfter = rec_ResyncInterval r\<rparr>, s')"
    "extended cluster cfs cfs'" "reconciled e cluster (look (world s)) cfs' a st rv (look (world s'))"
    "sorted (map seq_of cfs')" "distinct (map config_key cfs')"
proof -
  obtain cfs where l: "listConfigs e cluster (world s) = (Inr cfs, world s)" "sorted (map seq_of cfs)"
      "set cfs = cluster_configs (look (world s)) cluster" "distinct (map config_key cfs)"
    by (rule listConfigs_ok)
  obtain s' cfs' a st rv where run:
    "reconcile_cluster e r cluster s = (Inr \<lparr>res_RequeueAfter = rec_ResyncInterval r\<rparr>, s')"
    "extended cluster cfs cfs'" "reconciled e cluster (look (world s)) cfs' a st rv (look (world s'))"
    "robin_converged e (look (world s)) cluster \<longrightarrow>
       (\<forall>q \<in> robin_keys cluster. look (world s') q = look (world s) q)"
    by (rule reconcile_normal [OF rec wf p l(1)])
  have "Reconcile e r (redkey_NamespacedName cluster) s = reconcile_cluster e r cluster s"
    using rec by (intro Reconcile_found) (simp add: reconcilable_def)
  with run(1) have "Reconcile e r (redkey_NamespacedName cluster) s =
      (Inr \<lparr>res_RequeueAfter = rec_ResyncInterval r\<rparr>, s')" by simp
  from that [OF l(1,2,3) this run(2,3) extended_sorted [OF run(2) wf l(3,2)]
      extended_distinct [OF run(2) wf l(3,2,4)]]
  show ?thesis .
qed

lemma reconcile_twice:
  assumes rec: "reconcilable (look (world s)) cluster" and wf: "configs_wf (look (world s)) cluster"
    and room: "sequence_room (look (world s)) cluster" and p: "sp_Primaries (rk_Spec cluster) \<noteq> 0"
  shows "\<exists>s1 s2 st rv st' rv'.
    Reconcile e r (redkey_NamespacedName cluster) s = (Inr \<lparr>res_RequeueAfter = rec_ResyncInterval r\<rparr>, s1) \<and>
    configs_wf (look (world s1)) cluster \<and>
    look (world s1) (redkey_okey cluster) = Some (ORedkey (set_status cluster rv st)) \<and>
    Reconcile e r (redkey_NamespacedName cluster) s1 = (Inr \<lparr>res_RequeueAfter = rec_ResyncInterval r\<rparr>, s2) \<and>
    same_report st st' \<and>
    look (world s2) = (look (world s1))(redkey_okey cluster \<mapsto> ORedkey (set_status cluster rv' st'))"
proof -
  obtain cfs s1 cfs' a st rv where one:
    "listConfigs e cluster (world s) = (Inr cfs, world s)" "sorted (map seq_of cfs)"
    "set cfs = cluster_configs (look (world s)) cluster"
    "Reconcile e r (redkey_NamespacedName cluster) s = (Inr \<lparr>res_RequeueAfter = rec_ResyncInterval r\<rparr>, s1)"
    "extended cluster cfs cfs'" "reconciled e cluster (look (world s)) cfs' a st rv (look (world s1))"
    "sorted (map seq_of cfs')" "distinct (map config_key cfs')"
    by (rule reconcile_run [OF rec wf p])
  have wf1: "configs_wf (look (world s1)) cluster"
    by (rule reconciled_wf [OF wf one(3,2,5,6) next_seq_room [OF wf one(3) room]])
  have norev: "no_revision_annotation cluster" using rec by (simp add: reconcilable_def)
  obtain s2 st' rv' where two:
    "Reconcile e r (redkey_NamespacedName cluster) s1 = (Inr \<lparr>res_RequeueAfter = rec_ResyncInterval r\<rparr>, s2)"
    "mirrored e a (om_Generation (rk_Meta cluster)) (set_status cluster rv st) st'"
    "look (world s2) = (look (world s1))(redkey_okey cluster \<mapsto> ORedkey (set_status cluster rv' st'))"
    using reconcile_idempotent [OF one(6) wf1 norev p extended_nonempty [OF one(5)] one(7,8), of r] by blast
  have st: "mirrored e a (om_Generation (rk_Meta cluster)) cluster st"
    "look (world s1) (redkey_okey cluster) = Some (ORedkey (set_status cluster rv st))"
    using one(6) by (simp_all add: reconciled_def)
  from one(4) wf1 st two mirrored_twice [OF st(1) two(2)] show ?thesis by blast
qed

lemma zero_waiting:
  assumes rec: "reconcilable (look (world s)) cluster" and p: "sp_Primaries (rk_Spec cluster) = 0"
    and l: "listConfigs e cluster (world s) = (Inr cfs, world s)" "cfs \<noteq> []"
    and last: "cs_Primaries (cf_Spec (last cfs)) = 0" "phase_of (last cfs) \<noteq> ConfigPhaseApplied"
    and a: "selectActiveConfig cfs = Some c"
  shows "\<exists>s' st rv. Reconcile e r (redkey_NamespacedName cluster) s =
      (Inr \<lparr>res_RequeueAfter = rec_ResyncInterval r\<rparr>, s') \<and>
    robin_converged e (look (world s')) cluster \<and> deployment_selector_ok (look (world s')) cluster \<and>
    mirrored e c (om_Generation (rk_Meta cluster)) cluster st \<and>
    look (world s') (redkey_okey cluster) = Some (ORedkey (set_status cluster rv st)) \<and>
    (\<forall>q. q \<notin> insert (redkey_okey cluster) (robin_keys cluster) \<longrightarrow> look (world s') q = look (world s) q)"
proof -
  have red: "look (world s) (redkey_okey cluster) = Some (ORedkey cluster)"
    using rec by (simp add: reconcilable_def)
  obtain s1 st rv where run: "reconcileScaleToZero e r cluster s =
      (Inr (\<lparr>res_RequeueAfter = rec_ResyncInterval r\<rparr>, cluster\<lparr>rk_Status := st\<rparr>), s1)"
    "robin_converged e (look (world s1)) cluster" "deployment_selector_ok (look (world s1)) cluster"
    "mirrored e c (om_Generation (rk_Meta cluster)) cluster st"
    "look (world s1) (redkey_okey cluster) = Some (ORedkey (set_status cluster rv st))"
    "\<forall>q. q \<notin> insert (redkey_okey cluster) (robin_keys cluster) \<longrightarrow> look (world s1) q = look (world s) q"
    using scale_zero_waiting [OF rec l last a, of r] by blast
  from Reconcile_zero [OF red p run(1)] obtain s' where
    "Reconcile e r (redkey_NamespacedName cluster) s = (Inr \<lparr>res_RequeueAfter = rec_ResyncInterval r\<rparr>, s')"
    "look (world s') = look (world s1)" by blast
  with run(2-) show ?thesis by (intro exI [of _ s'] exI [of _ st] exI [of _ rv]) simp
qed

end

end
