(* ===== verification/Mem_Store.thy ===== *)
theory Mem_Store
  imports Kube_Env
begin

text \<open>
  An in-memory API server: objects in a list, a resource-version counter and a clock. It interprets
  every interface of \<open>Kube_Env\<close>, so the hypotheses \<open>kube_objects\<close> and \<open>kube_api\<close> of the properties
  can be met, and the operator's definitions can be run against it. Behaviour follows the
  documentation of the Kubernetes API and of the helpers the operator calls: creation stamps
  identity and version, the status update checks the resource version, \<^verbatim>\<open>SetStatusCondition\<close>
  moves the transition time only when the status changes, \<^verbatim>\<open>RetryOnConflict\<close> makes at most five
  attempts, \<^verbatim>\<open>SetControllerReference\<close> refuses another controller's object.
\<close>

section \<open>The server\<close>

record mem =
  m_objs :: "Object list"
  m_rv :: nat
  m_clock :: int

fun obj_key :: "Object \<Rightarrow> okey" where
  "obj_key (ORedkey r) = (KRedkey, redkey_NamespacedName r)"
| "obj_key (OConfig c) = (KConfig, config_key c)"
| "obj_key (OServiceAccount x) = (KServiceAccount, sa_key x)"
| "obj_key (ORole x) = (KRole, role_key x)"
| "obj_key (ORoleBinding x) = (KRoleBinding, rb_key x)"
| "obj_key (ODeployment x) = (KDeployment, dp_key x)"

definition mem_look :: "mem \<Rightarrow> okey \<Rightarrow> Object option" where
  "mem_look w q = find (\<lambda>ob. obj_key ob = q) (m_objs w)"

definition mem_put :: "mem \<Rightarrow> Object \<Rightarrow> mem" where
  "mem_put w ob = w\<lparr>m_objs := ob # filter (\<lambda>o'. obj_key o' \<noteq> obj_key ob) (m_objs w), m_rv := Suc (m_rv w)\<rparr>"

definition mem_del :: "mem \<Rightarrow> okey \<Rightarrow> mem" where
  "mem_del w q = w\<lparr>m_objs := filter (\<lambda>ob. obj_key ob \<noteq> q) (m_objs w)\<rparr>"

definition api_error :: "StatusReason \<Rightarrow> NamespacedName \<Rightarrow> GoErr" where
  "api_error r k = ApiStatus r (nn_Namespace k @ ''/'' @ nn_Name k)"

definition fresh_rv :: "mem \<Rightarrow> string" where
  "fresh_rv w = FormatInt (int (m_rv w))"

definition stamp_created :: "mem \<Rightarrow> ObjectMeta \<Rightarrow> ObjectMeta" where
  "stamp_created w m = m\<lparr>om_UID := ''uid-'' @ fresh_rv w, om_ResourceVersion := fresh_rv w,
     om_Generation := 1, om_CreationTimestamp := m_clock w\<rparr>"

definition stamp_updated :: "mem \<Rightarrow> ObjectMeta \<Rightarrow> ObjectMeta" where
  "stamp_updated w m = m\<lparr>om_ResourceVersion := fresh_rv w\<rparr>"

text \<open>The client of one kind: \<open>prj\<close> reads an object of that kind, \<open>upd\<close> changes its metadata, \<open>init\<close>
  is what the server resets on creation.\<close>

definition mem_client ::
    "Kind \<Rightarrow> ('a \<Rightarrow> Object) \<Rightarrow> (Object \<Rightarrow> 'a option) \<Rightarrow> ('a \<Rightarrow> NamespacedName) \<Rightarrow>
     ((ObjectMeta \<Rightarrow> ObjectMeta) \<Rightarrow> 'a \<Rightarrow> 'a) \<Rightarrow> ('a \<Rightarrow> 'a) \<Rightarrow> ('a \<Rightarrow> bool) \<Rightarrow> ('a \<Rightarrow> 'a \<Rightarrow> bool) \<Rightarrow>
     ('a, mem) resource_client" where
  "mem_client kd mk prj key upd init valid imm =
     \<lparr>rc_get = (\<lambda>k w. case Option.bind (mem_look w (kd, k)) prj of
          None \<Rightarrow> (Inl (api_error NotFound k), w) | Some x \<Rightarrow> (Inr x, w)),
      rc_create = (\<lambda>x w. if mem_look w (kd, key x) \<noteq> None then (Inl (api_error AlreadyExists (key x)), w)
          else if \<not> valid x then (Inl (api_error (OtherReason ''Invalid'') (key x)), w)
          else (Inr (), mem_put w (mk (upd (stamp_created w) (init x))))),
      rc_patch = (\<lambda>x base w. case Option.bind (mem_look w (kd, key x)) prj of
          None \<Rightarrow> (Inl (api_error NotFound (key x)), w)
        | Some old \<Rightarrow>
            if valid x \<and> imm old x then (Inr (), mem_put w (mk (upd (stamp_updated w) x)))
            else (Inl (api_error (OtherReason ''Invalid'') (key x)), w)),
      rc_delete = (\<lambda>k w. if mem_look w (kd, k) = None then (Inl (api_error NotFound k), w)
          else (Inr (), mem_del w (kd, k)))\<rparr>"

fun prj_sa :: "Object \<Rightarrow> ServiceAccount option" where
  "prj_sa (OServiceAccount x) = Some x" | "prj_sa _ = None"

fun prj_role :: "Object \<Rightarrow> Role option" where
  "prj_role (ORole x) = Some x" | "prj_role _ = None"

fun prj_rb :: "Object \<Rightarrow> RoleBinding option" where
  "prj_rb (ORoleBinding x) = Some x" | "prj_rb _ = None"

fun prj_dp :: "Object \<Rightarrow> Deployment option" where
  "prj_dp (ODeployment x) = Some x" | "prj_dp _ = None"

fun prj_config :: "Object \<Rightarrow> RedkeyConfig option" where
  "prj_config (OConfig x) = Some x" | "prj_config _ = None"

fun prj_redkey :: "Object \<Rightarrow> Redkey option" where
  "prj_redkey (ORedkey x) = Some x" | "prj_redkey _ = None"

definition mem_get_redkey :: "NamespacedName \<Rightarrow> (mem, Redkey) io" where
  "mem_get_redkey k w =
     (case Option.bind (mem_look w (KRedkey, k)) prj_redkey of
        None \<Rightarrow> (Inl (api_error NotFound k), w) | Some r \<Rightarrow> (Inr r, w))"

definition mem_status_update :: "Redkey \<Rightarrow> (mem, Redkey) io" where
  "mem_status_update r w =
     (let k = redkey_NamespacedName r in
      case Option.bind (mem_look w (KRedkey, k)) prj_redkey of
        None \<Rightarrow> (Inl (api_error NotFound k), w)
      | Some old \<Rightarrow>
          if om_ResourceVersion (rk_Meta r) \<noteq> om_ResourceVersion (rk_Meta old)
          then (Inl (api_error Conflict k), w)
          else let r' = old\<lparr>rk_Meta := (rk_Meta old)\<lparr>om_ResourceVersion := fresh_rv w\<rparr>,
                            rk_Status := rk_Status r\<rparr>
               in (Inr r', mem_put w (ORedkey r')))"

fun stored_configs :: "Object list \<Rightarrow> RedkeyConfig list" where
  "stored_configs [] = []"
| "stored_configs (ob # obs) =
     (case prj_config ob of None \<Rightarrow> stored_configs obs | Some c \<Rightarrow> c # stored_configs obs)"

definition mem_list_configs :: "string \<Rightarrow> string \<times> string \<Rightarrow> (mem, RedkeyConfig list) io" where
  "mem_list_configs ns lv w =
     (Inr (filter (\<lambda>c. mem_look w (KConfig, config_key c) = Some (OConfig c) \<and> om_Namespace (cf_Meta c) = ns \<and>
                       mget (om_Labels (cf_Meta c)) (fst lv) = Some (snd lv))
             (remdups (stored_configs (m_objs w)))), w)"

definition mem_now :: "mem \<Rightarrow> time \<times> mem" where
  "mem_now w = (m_clock w, w\<lparr>m_clock := m_clock w + 1\<rparr>)"

definition mem_set_controller_reference :: "Redkey \<Rightarrow> ObjectMeta \<Rightarrow> GoErr + ObjectMeta" where
  "mem_set_controller_reference owner m =
     (let uid = om_UID (rk_Meta owner) in
      if om_Namespace m \<noteq> om_Namespace (rk_Meta owner)
      then Inl (api_error (OtherReason ''CrossNamespaceOwner'') (meta_key m))
      else if list_ex (\<lambda>r. or_Controller r \<and> or_UID r \<noteq> uid) (om_OwnerReferences m)
      then Inl (api_error (OtherReason ''AlreadyOwned'') (meta_key m))
      else Inr (m\<lparr>om_OwnerReferences := filter (\<lambda>r. or_UID r \<noteq> uid) (om_OwnerReferences m) @
             [\<lparr>or_Name = om_Name (rk_Meta owner), or_UID = uid, or_Controller = True\<rparr>]\<rparr>))"

fun mem_retry :: "nat \<Rightarrow> ('w, 'a) io \<Rightarrow> ('w, 'a) io" where
  "mem_retry 0 f w = f w"
| "mem_retry (Suc n) f w =
     (case f w of
        (Inl err, w') \<Rightarrow> if IsConflict err then mem_retry n f w' else (Inl err, w')
      | (Inr x, w') \<Rightarrow> (Inr x, w'))"

definition mem_find_condition :: "Condition list \<Rightarrow> string \<Rightarrow> Condition option" where
  "mem_find_condition cs t = find (\<lambda>c. cd_Type c = t) cs"

fun replace_condition :: "Condition list \<Rightarrow> Condition \<Rightarrow> Condition list" where
  "replace_condition [] c = [c]"
| "replace_condition (d # ds) c = (if cd_Type d = cd_Type c then c # ds else d # replace_condition ds c)"

definition mem_set_condition :: "Condition list \<Rightarrow> Condition \<Rightarrow> mem \<Rightarrow> Condition list \<times> mem" where
  "mem_set_condition cs c w =
     (case mem_find_condition cs (cd_Type c) of
        Some d \<Rightarrow>
          if cd_Status d = cd_Status c
          then (replace_condition cs (c\<lparr>cd_LastTransitionTime := cd_LastTransitionTime d\<rparr>), w)
          else (replace_condition cs (c\<lparr>cd_LastTransitionTime := fst (mem_now w)\<rparr>), snd (mem_now w))
      | None \<Rightarrow> (replace_condition cs (c\<lparr>cd_LastTransitionTime := fst (mem_now w)\<rparr>), snd (mem_now w)))"

text \<open>The environment, with the list as a parameter: \<open>mem_env\<close> lists the store itself; any other
  function is a cache that may lag behind it.\<close>

definition cached_env :: "(string \<Rightarrow> string \<times> string \<Rightarrow> (mem, RedkeyConfig list) io) \<Rightarrow> mem env" where
  "cached_env cache =
     \<lparr>e_serviceaccounts = mem_client KServiceAccount OServiceAccount prj_sa sa_key
        (\<lambda>f x. x\<lparr>sa_Meta := f (sa_Meta x)\<rparr>) (\<lambda>x. x) (\<lambda>_. True) (\<lambda>_ _. True),
      e_roles = mem_client KRole ORole prj_role role_key
        (\<lambda>f x. x\<lparr>ro_Meta := f (ro_Meta x)\<rparr>) (\<lambda>x. x) (\<lambda>_. True) (\<lambda>_ _. True),
      e_rolebindings = mem_client KRoleBinding ORoleBinding prj_rb rb_key
        (\<lambda>f x. x\<lparr>rb_Meta := f (rb_Meta x)\<rparr>) (\<lambda>x. x) (\<lambda>_. True) rb_immutable,
      e_deployments = mem_client KDeployment ODeployment prj_dp dp_key
        (\<lambda>f x. x\<lparr>dp_Meta := f (dp_Meta x)\<rparr>) (\<lambda>x. x) selector_matches dp_immutable,
      e_configs = mem_client KConfig OConfig prj_config config_key
        (\<lambda>f x. x\<lparr>cf_Meta := f (cf_Meta x)\<rparr>) (\<lambda>x. x\<lparr>cf_Status := zero_ConfigStatus\<rparr>) (\<lambda>_. True) (\<lambda>_ _. False),
      e_get_redkey = mem_get_redkey,
      e_status_update = mem_status_update,
      e_list_configs = cache,
      e_now = mem_now,
      e_set_controller_reference = mem_set_controller_reference,
      e_retry_on_conflict = mem_retry 4,
      e_set_status_condition = mem_set_condition,
      e_find_status_condition = mem_find_condition,
      e_equal_map = (\<lambda>a b. entries a = entries b),
      e_equal_rules = (=),
      e_equal_subjects = (=),
      e_derivative_podspec = (=)\<rparr>"

definition mem_env :: "mem env" where
  "mem_env = cached_env mem_list_configs"

section \<open>Lemmas\<close>

lemma cached_env_sel:
  "e_serviceaccounts (cached_env cache) = mem_client KServiceAccount OServiceAccount prj_sa sa_key
     (\<lambda>f x. x\<lparr>sa_Meta := f (sa_Meta x)\<rparr>) (\<lambda>x. x) (\<lambda>_. True) (\<lambda>_ _. True)"
  "e_roles (cached_env cache) = mem_client KRole ORole prj_role role_key
     (\<lambda>f x. x\<lparr>ro_Meta := f (ro_Meta x)\<rparr>) (\<lambda>x. x) (\<lambda>_. True) (\<lambda>_ _. True)"
  "e_rolebindings (cached_env cache) = mem_client KRoleBinding ORoleBinding prj_rb rb_key
     (\<lambda>f x. x\<lparr>rb_Meta := f (rb_Meta x)\<rparr>) (\<lambda>x. x) (\<lambda>_. True) rb_immutable"
  "e_deployments (cached_env cache) = mem_client KDeployment ODeployment prj_dp dp_key
     (\<lambda>f x. x\<lparr>dp_Meta := f (dp_Meta x)\<rparr>) (\<lambda>x. x) selector_matches dp_immutable"
  "e_configs (cached_env cache) = mem_client KConfig OConfig prj_config config_key
     (\<lambda>f x. x\<lparr>cf_Meta := f (cf_Meta x)\<rparr>) (\<lambda>x. x\<lparr>cf_Status := zero_ConfigStatus\<rparr>) (\<lambda>_. True) (\<lambda>_ _. False)"
  "e_get_redkey (cached_env cache) = mem_get_redkey" "e_status_update (cached_env cache) = mem_status_update"
  "e_list_configs (cached_env cache) = cache" "e_now (cached_env cache) = mem_now"
  "e_set_controller_reference (cached_env cache) = mem_set_controller_reference"
  "e_retry_on_conflict (cached_env cache) = mem_retry 4" "e_set_status_condition (cached_env cache) = mem_set_condition"
  "e_find_status_condition (cached_env cache) = mem_find_condition" "e_derivative_podspec (cached_env cache) = (=)"
  by (simp_all add: cached_env_def)

lemma find_filter_key:
  "find (\<lambda>x. f x = q) (filter (\<lambda>x. f x \<noteq> q') xs) = (if q = q' then None else find (\<lambda>x. f x = q) xs)"
  by (induction xs) auto

lemma mem_look_put: "mem_look (mem_put w ob) = (mem_look w)(obj_key ob \<mapsto> ob)"
proof
  fix q show "mem_look (mem_put w ob) q = ((mem_look w)(obj_key ob \<mapsto> ob)) q"
    by (cases "obj_key ob = q") (simp_all add: mem_look_def mem_put_def find_filter_key)
qed

lemma mem_look_del: "mem_look (mem_del w q) = (mem_look w)(q := None)"
proof
  fix q' show "mem_look (mem_del w q) q' = ((mem_look w)(q := None)) q'"
    by (cases "q' = q") (simp_all add: mem_look_def mem_del_def find_filter_key)
qed

lemma mem_look_key: "mem_look w q = Some ob \<Longrightarrow> obj_key ob = q"
  unfolding mem_look_def by (blast dest: find_SomeD)

lemma mem_look_clock [simp]: "mem_look (w\<lparr>m_clock := t\<rparr>) = mem_look w"
  by (simp add: mem_look_def fun_eq_iff)

lemma api_error_reasons [simp]:
  "IsNotFound (api_error NotFound k)" "IsAlreadyExists (api_error AlreadyExists k)"
  "IsConflict (api_error Conflict k)"
  by (simp_all add: api_error_def IsNotFound_def IsAlreadyExists_def IsConflict_def)

lemma meta_agrees_stamp [simp]:
  "meta_agrees m (stamp_created w m)" "meta_agrees m (stamp_updated w m)"
  "meta_key (stamp_created w m) = meta_key m" "meta_key (stamp_updated w m) = meta_key m"
  by (simp_all add: meta_agrees_def stamp_created_def stamp_updated_def meta_key_def)

lemma mem_resource_store:
  assumes key: "\<And>x. obj_key (mk x) = (kd, key x)" and prj: "\<And>x. prj (mk x) = Some x"
    and mk_eq: "\<And>x y. mk x = mk y \<longleftrightarrow> x = y" and kind: "\<And>ob. fst (obj_key ob) = kd \<Longrightarrow> \<exists>x. ob = mk x"
    and upd: "\<And>x w. key (upd (stamp_created w) (init x)) = key x" "\<And>x w. key (upd (stamp_updated w) x) = key x"
    and ag: "\<And>x w. agrees x (upd (stamp_created w) (init x))" "\<And>x w. imm' \<Longrightarrow> agrees x (upd (stamp_updated w) x)"
    and imm: "\<And>x y. imm x y \<Longrightarrow> imm'"
  shows "resource_store (mem_client kd mk prj key upd init valid imm) kd mk key mem_look valid imm agrees"
proof
  fix w k ob assume "mem_look w (kd, k) = Some ob"
  then have k: "obj_key ob = (kd, k)" by (rule mem_look_key)
  with kind [of ob] obtain x where "ob = mk x" by auto
  with k key show "\<exists>x. ob = mk x \<and> key x = k" by auto
next
  fix w x base assume "mem_look w (kd, key x) = Some (mk base)" "valid x" "imm base x"
  then show "\<exists>w' y. rc_patch (mem_client kd mk prj key upd init valid imm) x base w = (Inr (), w') \<and>
      mem_look w' = (mem_look w)((kd, key x) \<mapsto> mk y) \<and> agrees x y"
    using ag(2) [OF imm] by (auto simp: mem_client_def prj mem_look_put key upd)
qed (use prj mk_eq ag(1) in \<open>auto simp: mem_client_def mem_look_put mem_look_del key upd\<close>)

lemma obj_key_kinds:
  "fst (obj_key ob) = KServiceAccount \<Longrightarrow> \<exists>x. ob = OServiceAccount x"
  "fst (obj_key ob) = KRole \<Longrightarrow> \<exists>x. ob = ORole x"
  "fst (obj_key ob) = KRoleBinding \<Longrightarrow> \<exists>x. ob = ORoleBinding x"
  "fst (obj_key ob) = KDeployment \<Longrightarrow> \<exists>x. ob = ODeployment x"
  "fst (obj_key ob) = KConfig \<Longrightarrow> \<exists>x. ob = OConfig x"
  "fst (obj_key ob) = KRedkey \<Longrightarrow> \<exists>x. ob = ORedkey x"
  by (cases ob; simp)+

lemma find_replace_condition:
  "find (\<lambda>d. cd_Type d = t) (replace_condition cs c) =
     (if t = cd_Type c then Some c else find (\<lambda>d. cd_Type d = t) cs)"
  by (induction cs) auto

lemma find_set_condition:
  "\<exists>t. fst (mem_set_condition cs c w) = replace_condition cs (c\<lparr>cd_LastTransitionTime := t\<rparr>)"
  by (auto simp: mem_set_condition_def split: option.splits)

lemma mem_retry_run: "retry_run f w (mem_retry n f w)"
proof (induction n arbitrary: w)
  case 0
  show ?case using last_run [of f w] by simp
next
  case (Suc n)
  obtain r w' where r: "f w = (r, w')" by fastforce
  show ?case
  proof (cases "\<exists>err. r = Inl err \<and> IsConflict err")
    case True
    with r Suc [of w'] show ?thesis by (auto intro: again)
  next
    case False
    with r have "mem_retry (Suc n) f w = f w" by (auto split: sum.splits)
    then show ?thesis using last_run [of f w] by simp
  qed
qed

lemma mem_retry_no_conflict:
  assumes "\<nexists>err w'. f w = (Inl err, w') \<and> IsConflict err"
  shows "mem_retry n f w = f w"
proof (cases n)
  case (Suc m)
  obtain r w' where "f w = (r, w')" by fastforce
  with assms Suc show ?thesis by (cases r) auto
qed simp

interpretation cached: status_conditions "cached_env cache" for cache
proof
  fix cs c w
  obtain t where c': "fst (mem_set_condition cs c w) = replace_condition cs (c\<lparr>cd_LastTransitionTime := t\<rparr>)"
    using find_set_condition by blast
  then show "map_option cond_core (e_find_status_condition (cached_env cache)
      (fst (e_set_status_condition (cached_env cache) cs c w)) (cd_Type c)) = Some (cond_core c)"
    by (simp add: cached_env_sel mem_find_condition_def find_replace_condition cond_core_def)
  fix t assume "t \<noteq> cd_Type c"
  with c' show "e_find_status_condition (cached_env cache) (fst (e_set_status_condition (cached_env cache) cs c w)) t =
      e_find_status_condition (cached_env cache) cs t"
    by (simp add: cached_env_sel mem_find_condition_def find_replace_condition cond_core_def)
next
  fix cs t c' assume "e_find_status_condition (cached_env cache) cs t = Some c'"
  then show "cd_Type c' = t" by (auto simp: cached_env_sel mem_find_condition_def find_Some_iff)
qed

interpretation cached: semantic_equality "cached_env cache" for cache
  by unfold_locales (simp_all add: cached_env_def)

interpretation cached: retry_contract "cached_env cache" for cache
proof
  fix f w
  show "retry_run f w (e_retry_on_conflict (cached_env cache) f w)"
    by (simp add: cached_env_sel mem_retry_run)
  assume "\<nexists>err w'. f w = (Inl err, w') \<and> IsConflict err"
  then show "e_retry_on_conflict (cached_env cache) f w = f w"
    by (simp add: cached_env_sel mem_retry_no_conflict)
qed

interpretation mem_sa: resource_store "e_serviceaccounts (cached_env cache)" KServiceAccount OServiceAccount sa_key mem_look
    "\<lambda>_. True" "\<lambda>_ _. True" sa_agrees for cache
  unfolding cached_env_sel
  by (rule mem_resource_store [where imm' = True])
    (auto simp: sa_agrees_def dest: obj_key_kinds)

interpretation mem_role: resource_store "e_roles (cached_env cache)" KRole ORole role_key mem_look
    "\<lambda>_. True" "\<lambda>_ _. True" role_agrees for cache
  unfolding cached_env_sel
  by (rule mem_resource_store [where imm' = True])
    (auto simp: role_agrees_def dest: obj_key_kinds)

interpretation mem_rb: resource_store "e_rolebindings (cached_env cache)" KRoleBinding ORoleBinding rb_key mem_look
    "\<lambda>_. True" rb_immutable rb_agrees for cache
  unfolding cached_env_sel
  by (rule mem_resource_store [where imm' = True])
    (auto simp: rb_agrees_def dest: obj_key_kinds)

interpretation mem_dp: resource_store "e_deployments (cached_env cache)" KDeployment ODeployment dp_key mem_look
    selector_matches dp_immutable "dp_agrees (cached_env cache)" for cache
  unfolding cached_env_sel
  by (rule mem_resource_store [where imm' = True])
    (auto simp: dp_agrees_def cached_env_sel dest: obj_key_kinds)

interpretation mem_cf: resource_store "e_configs (cached_env cache)" KConfig OConfig config_key mem_look
    "\<lambda>_. True" "\<lambda>_ _. False" config_agrees for cache
  unfolding cached_env_sel
  by (rule mem_resource_store [where imm' = False])
    (auto simp: config_agrees_def dest: obj_key_kinds)

lemma mem_redkey_stored: "mem_look w (KRedkey, k) = Some ob \<Longrightarrow> \<exists>r. ob = ORedkey r \<and> redkey_NamespacedName r = k"
  using mem_look_key [of w "(KRedkey, k)" ob] obj_key_kinds(6) [of ob] by auto

lemma mem_set_cond_look: "mem_look (snd (mem_set_condition cs c w)) = mem_look w"
  by (simp add: mem_set_condition_def mem_now_def split: option.splits)

lemma mem_status_update_ok:
  assumes "mem_look w (KRedkey, redkey_NamespacedName r) = Some (ORedkey old)"
    and "om_ResourceVersion (rk_Meta r) = om_ResourceVersion (rk_Meta old)"
  shows "\<exists>w' rv. let r' = old\<lparr>rk_Meta := (rk_Meta old)\<lparr>om_ResourceVersion := rv\<rparr>, rk_Status := rk_Status r\<rparr>
         in mem_status_update r w = (Inr r', w') \<and>
            mem_look w' = (mem_look w)((KRedkey, redkey_NamespacedName r) \<mapsto> ORedkey r')"
proof -
  let ?r' = "old\<lparr>rk_Meta := (rk_Meta old)\<lparr>om_ResourceVersion := fresh_rv w\<rparr>, rk_Status := rk_Status r\<rparr>"
  have "redkey_NamespacedName old = redkey_NamespacedName r"
    using mem_redkey_stored [OF assms(1)] by simp
  then have "obj_key (ORedkey ?r') = (KRedkey, redkey_NamespacedName r)"
    by (simp add: redkey_NamespacedName_def)
  moreover have "mem_status_update r w = (Inr ?r', mem_put w (ORedkey ?r'))"
    using assms by (simp add: mem_status_update_def Let_def)
  ultimately show ?thesis
    unfolding Let_def by (intro exI [of _ "mem_put w (ORedkey ?r')"] exI [of _ "fresh_rv w"] conjI)
      (assumption, simp only: mem_look_put)
qed

interpretation cached: kube_objects "cached_env cache" mem_look for cache
proof (unfold_locales, unfold cached_env_sel)
  fix m :: ObjectMeta and owner :: Redkey
  assume "om_OwnerReferences m = []" "om_Namespace m = om_Namespace (rk_Meta owner)"
  then show "\<exists>refs. mem_set_controller_reference owner m = Inr (m\<lparr>om_OwnerReferences := refs\<rparr>)"
    by (auto simp: mem_set_controller_reference_def)
next
  fix w show "mem_look (snd (mem_now w)) = mem_look w" by (simp add: mem_now_def)
next
  fix cs c w show "mem_look (snd (mem_set_condition cs c w)) = mem_look w" by (rule mem_set_cond_look)
next
  fix w k r assume "mem_look w (KRedkey, k) = Some (ORedkey r)"
  then show "mem_get_redkey k w = (Inr r, w)" by (simp add: mem_get_redkey_def)
next
  fix w k assume "mem_look w (KRedkey, k) = None"
  then show "\<exists>err. mem_get_redkey k w = (Inl err, w) \<and> IsNotFound err" by (simp add: mem_get_redkey_def)
next
  fix w r old
  assume "mem_look w (KRedkey, redkey_NamespacedName r) = Some (ORedkey old)"
    "om_ResourceVersion (rk_Meta r) \<noteq> om_ResourceVersion (rk_Meta old)"
  then show "\<exists>err. mem_status_update r w = (Inl err, w) \<and> IsConflict err"
    by (simp add: mem_status_update_def Let_def)
qed (rule mem_redkey_stored mem_status_update_ok; assumption)+

lemma set_stored_configs: "OConfig c \<in> set obs \<Longrightarrow> c \<in> set (stored_configs obs)"
  by (induction obs) (auto split: option.splits)

lemma set_mem_list:
  "set (filter (\<lambda>c. mem_look w (KConfig, config_key c) = Some (OConfig c) \<and> P c)
     (remdups (stored_configs (m_objs w)))) =
   {c. mem_look w (KConfig, config_key c) = Some (OConfig c) \<and> P c}"
proof -
  have "c \<in> set (stored_configs (m_objs w))"
    if "mem_look w (KConfig, config_key c) = Some (OConfig c)" for c
  proof -
    from that have "OConfig c \<in> set (m_objs w)"
      unfolding mem_look_def by (blast dest: find_SomeD)
    then show ?thesis by (rule set_stored_configs)
  qed
  then show ?thesis by auto
qed

interpretation mem: kube_api mem_env mem_look
proof (unfold mem_env_def, unfold_locales)
  fix ns label val w
  let ?P = "\<lambda>c. om_Namespace (cf_Meta c) = ns \<and> mget (om_Labels (cf_Meta c)) label = Some val"
  let ?l = "filter (\<lambda>c. mem_look w (KConfig, config_key c) = Some (OConfig c) \<and> ?P c)
     (remdups (stored_configs (m_objs w)))"
  have "inj_on config_key (set ?l)"
  proof (rule inj_onI)
    fix c d assume "c \<in> set ?l" "d \<in> set ?l" and k: "config_key c = config_key d"
    then have "mem_look w (KConfig, config_key c) = Some (OConfig c)"
      "mem_look w (KConfig, config_key d) = Some (OConfig d)" by auto
    then show "c = d" unfolding k by simp
  qed
  then have "distinct (map config_key ?l)"
    unfolding distinct_map by (intro conjI distinct_filter distinct_remdups)
  then show "\<exists>cfs. e_list_configs (cached_env mem_list_configs) ns (label, val) w = (Inr cfs, w) \<and> distinct (map config_key cfs) \<and>
         set cfs = {c. mem_look w (KConfig, config_key c) = Some (OConfig c) \<and>
                      om_Namespace (cf_Meta c) = ns \<and> mget (om_Labels (cf_Meta c)) label = Some val}"
    using set_mem_list [of w ?P]
    by (intro exI [of _ ?l]) (simp add: cached_env_sel mem_list_configs_def)
qed

end
