(* ===== verification/Demo_Objects.thy ===== *)
theory Demo_Objects
  imports Reconcile_System Mem_Store
begin

text \<open>
  Concrete objects for the witnesses: a storage-backed cluster \<^verbatim>\<open>demo\<close>, its configs as the operator
  creates them, and states of the in-memory API server that hold them.
\<close>

definition demo_spec :: "int \<Rightarrow> RedkeySpec" where
  "demo_spec p =
     \<lparr>sp_Auth = \<lparr>au_SecretName = []\<rparr>, sp_Version = ''7.4'', sp_Mode = ModeCluster, sp_Primaries = p,
      sp_ReplicasPerPrimary = 1, sp_Image = ''redis'', sp_DeletePVC = None, sp_Backup = False,
      sp_Robin = \<lparr>rs_Image = ''robin'', rs_Resources = None, rs_Template = None, rs_Config = None\<rparr>,
      sp_SkipIfSuperseded = False, sp_PurgeKeysOnRebalance = None, sp_Config = [], sp_Resources = None,
      sp_Labels = None, sp_Annotations = None,
      sp_Pdb = \<lparr>pd_Enabled = False, pd_PdbSizeUnavailable = IntVal 0, pd_PdbSizeAvailable = IntVal 0\<rparr>,
      sp_Override = None, sp_Ephemeral = False, sp_Storage = ''1Gi'', sp_StorageClassName = [],
      sp_AccessModes = []\<rparr>"

definition demo_status :: "int \<Rightarrow> RedkeyStatus" where
  "demo_status obs =
     \<lparr>st_Replicas = 0, st_Phase = [], st_Status = [], st_Substatus = zero_Substatus, st_Nodes = None,
      st_Conditions = [], st_LastUpdatedAt = None, st_ObservedGeneration = obs,
      st_LastAppliedPrimaries = 0, st_LastAppliedReplicasPerPrimary = 0\<rparr>"

text \<open>Generation \<open>g\<close>, \<open>p\<close> primaries, observed generation \<open>obs\<close>.\<close>

definition demo :: "int \<Rightarrow> int \<Rightarrow> int \<Rightarrow> Redkey" where
  "demo g p obs =
     \<lparr>rk_Meta = \<lparr>om_Name = ''demo'', om_Namespace = ''ns'', om_UID = ''uid-0'', om_ResourceVersion = ''1'',
                 om_Generation = g, om_CreationTimestamp = 0, om_Labels = None, om_Annotations = None,
                 om_OwnerReferences = []\<rparr>,
      rk_Spec = demo_spec p, rk_Status = demo_status obs\<rparr>"

text \<open>The config with sequence number \<open>n\<close> for generation \<open>g\<close> and \<open>p\<close> primaries, in a given phase.\<close>

definition demo_config :: "int \<Rightarrow> int \<Rightarrow> int \<Rightarrow> string \<Rightarrow> RedkeyConfig" where
  "demo_config n g p phase =
     (build_config (demo g p 0) n)\<lparr>cf_Status := zero_ConfigStatus\<lparr>ct_ConfigPhase := phase,
        ct_Status := ClusterStatusReady\<rparr>\<rparr>"

definition demo_world :: "Object list \<Rightarrow> mem" where
  "demo_world objs = \<lparr>m_objs = objs, m_rv = 10, m_clock = 0\<rparr>"

definition demo_store :: "int \<Rightarrow> int \<Rightarrow> int \<Rightarrow> RedkeyConfig list \<Rightarrow> mem" where
  "demo_store g p obs cs = demo_world (ORedkey (demo g p obs) # map OConfig cs)"

definition demo_state :: "mem \<Rightarrow> mem opstate" where
  "demo_state w = \<lparr>world = w, metric_log = [], opTracker_active = Map.empty, readyTracker_lastPhase = Map.empty\<rparr>"

definition demo_reconciler :: RedkeyReconciler where
  "demo_reconciler = \<lparr>rec_ResyncInterval = 300000000000, rec_MaxConcurrentReconciles = 10\<rparr>"

section \<open>Lemmas\<close>

lemma demo_sel [simp]:
  "om_Name (rk_Meta (demo g p obs)) = ''demo''" "om_Namespace (rk_Meta (demo g p obs)) = ''ns''"
  "om_Generation (rk_Meta (demo g p obs)) = g" "rk_Spec (demo g p obs) = demo_spec p"
  "rk_Status (demo g p obs) = demo_status obs"
  "sp_Primaries (demo_spec p) = p" "sp_Ephemeral (demo_spec p) = False" "sp_Annotations (demo_spec p) = None"
  "st_ObservedGeneration (demo_status obs) = obs" "sp_ReplicasPerPrimary (demo_spec p) = 1"
  by (simp_all add: demo_def demo_spec_def demo_status_def)

lemma demo_config_sel [simp]:
  "seq_of (demo_config n g p ph) = n" "phase_of (demo_config n g p ph) = ph"
  "cs_Primaries (cf_Spec (demo_config n g p ph)) = p"
  "om_Namespace (cf_Meta (demo_config n g p ph)) = ''ns''"
  "om_Name (cf_Meta (demo_config n g p ph)) = config_name ''demo'' n"
  "config_key (demo_config n g p ph) = \<lparr>nn_Namespace = ''ns'', nn_Name = config_name ''demo'' n\<rparr>"
  "mget (om_Labels (cf_Meta (demo_config n g p ph))) ClusterLabel = Some ''demo''"
  by (simp_all add: demo_config_def meta_key_def build_config_label)

lemma demo_config_generation [simp]:
  "in_int64 g \<Longrightarrow> config_generation (demo_config n g p ph) = Some g"
  using config_generation_build [of "demo g p 0" n] by (simp add: demo_config_def config_generation_def)

lemma demo_state_world [simp]: "world (demo_state w) = w"
  by (simp add: demo_state_def)

lemma demo_no_revision [simp]: "no_revision_annotation (demo g p obs)"
  by (simp add: no_revision_annotation_def derefMap_def)

lemma demo_look:
  "mem_look (demo_store g p obs cs) q =
    (if q = redkey_okey (demo g p obs) then Some (ORedkey (demo g p obs))
     else find (\<lambda>ob. obj_key ob = q) (map OConfig cs))"
  by (auto simp: mem_look_def demo_store_def demo_world_def redkey_okey_def)

lemma demo_key [simp]: "redkey_okey (demo g p obs) = (KRedkey, \<lparr>nn_Namespace = ''ns'', nn_Name = ''demo''\<rparr>)"
  by (simp add: redkey_okey_def redkey_NamespacedName_def)

lemma demo_look_kind: "mem_look (demo_store g p obs cs) (kd, k) = Some ob \<Longrightarrow> kd \<noteq> KRedkey \<Longrightarrow>
    \<exists>c \<in> set cs. ob = OConfig c \<and> kd = KConfig \<and> config_key c = k"
proof -
  assume ob: "mem_look (demo_store g p obs cs) (kd, k) = Some ob" and kd: "kd \<noteq> KRedkey"
  then have "find (\<lambda>ob. obj_key ob = (kd, k)) (map OConfig cs) = Some ob" by (simp add: demo_look)
  then have "ob \<in> OConfig ` set cs" "obj_key ob = (kd, k)" using find_SomeD by fastforce+
  then show ?thesis by auto
qed

lemma demo_reconcilable: "reconcilable (mem_look (demo_store g p obs cs)) (demo g p obs)"
proof -
  have "mem_look (demo_store g p obs cs) (KDeployment, k) = None" for k
    using demo_look_kind [of g p obs cs KDeployment k] by (cases "mem_look (demo_store g p obs cs) (KDeployment, k)") auto
  then show ?thesis
    by (simp add: reconcilable_def deployment_selector_ok_def demo_look)
qed

lemma demo_wf:
  assumes "\<forall>c \<in> set cs. \<exists>n g p ph. c = demo_config n g p ph \<and> 1 \<le> n \<and> n < 2 ^ 63 - 1"
  shows "configs_wf (mem_look (demo_store g p obs cs)) (demo g p obs)"
proof -
  let ?st = "mem_look (demo_store g p obs cs)"
  have "om_Name (cf_Meta c) = config_name ''demo'' (seq_of c) \<and> 1 \<le> seq_of c \<and> seq_of c < 2 ^ 63 - 1"
    if "c \<in> cluster_configs ?st (demo g p obs)" for c
    using demo_look_kind [OF cluster_configs_D(1) [OF that]] assms by auto
  moreover have "c \<in> cluster_configs ?st (demo g p obs)"
    if c: "?st (KConfig, k) = Some (OConfig c)" for k c
    using c demo_look_kind [OF c] assms by (auto simp: cluster_configs_def)
  ultimately show ?thesis unfolding configs_wf_def by simp
qed

lemma demo_one_config:
  "cluster_configs (mem_look (demo_store g p obs [demo_config n g' p' ph])) (demo g p obs) = {demo_config n g' p' ph}"
  by (auto simp: cluster_configs_def demo_look split: if_splits)

lemma demo_no_config: "cluster_configs (mem_look (demo_store g p obs [])) (demo g p obs) = {}"
  by (auto simp: cluster_configs_def demo_look split: if_splits)

lemma find_demo_config:
  "distinct (map config_key cs) \<Longrightarrow> c \<in> set cs \<Longrightarrow>
     find (\<lambda>ob. obj_key ob = (KConfig, config_key c)) (map OConfig cs) = Some (OConfig c)"
  by (induction cs) auto

lemma demo_configs:
  assumes "\<forall>c \<in> set cs. \<exists>n g p ph. c = demo_config n g p ph" "distinct (map config_key cs)"
  shows "cluster_configs (mem_look (demo_store g p obs cs)) (demo g p obs) = set cs"
proof -
  have "c \<in> set cs" if "c \<in> cluster_configs (mem_look (demo_store g p obs cs)) (demo g p obs)" for c
    using demo_look_kind [OF cluster_configs_D(1) [OF that]] by auto
  moreover have "c \<in> cluster_configs (mem_look (demo_store g p obs cs)) (demo g p obs)" if "c \<in> set cs" for c
    using assms(1) that find_demo_config [OF assms(2) that] by (auto simp: cluster_configs_def demo_look)
  ultimately show ?thesis by blast
qed

lemma demo_list:
  assumes "\<forall>c \<in> set cs. \<exists>n g p ph. c = demo_config n g p ph" "distinct (map config_key cs)"
    and "sorted (map seq_of cs)" "distinct (map seq_of cs)"
  shows "listConfigs mem_env (demo g p obs) (demo_store g p obs cs) = (Inr cs, demo_store g p obs cs)"
  by (rule kube_api.listConfigs_unique [OF mem.kube_api_axioms])
    (use assms in \<open>simp_all add: demo_configs distinct_map\<close>)

end
