(* ===== verification/Object_Properties.thy ===== *)
theory Object_Properties
  imports Demo_Objects
begin

text \<open>
  Properties of the API types and of the objects the operator owns for Robin: validation of the
  specification, merging of metadata and environment variables, access rules, and convergence of
  the ServiceAccount, Role, RoleBinding and Deployment.
\<close>

section \<open>Reference definitions\<close>

text \<open>The names an override list adds to a base list, each at its first occurrence.\<close>

fun new_names :: "string list \<Rightarrow> EnvVar list \<Rightarrow> string list" where
  "new_names seen [] = []"
| "new_names seen (ev # evs) =
     (if ev_Name ev \<in> set seen then new_names seen evs
      else ev_Name ev # new_names (ev_Name ev # seen) evs)"

text \<open>A specification accepted by the validation rules whose node count does not fit in 32 bits.\<close>

definition huge_spec :: RedkeySpec where
  "huge_spec = (demo_spec 65536)\<lparr>sp_ReplicasPerPrimary := 65535\<rparr>"

text \<open>A cluster whose annotations name the revision annotation of the Deployment controller.\<close>

definition revision_cluster :: Redkey where
  "revision_cluster = (demo 1 3 0)\<lparr>rk_Spec := (demo_spec 3)\<lparr>sp_Annotations :=
     Some (Some (fmap_of_list [(deploymentRevisionAnnotation, ''7'')]))\<rparr>\<rparr>"

text \<open>A cluster scaled up from zero with the topology its status records.\<close>

definition restored_cluster :: Redkey where
  "restored_cluster = (demo 3 5 2)\<lparr>rk_Status := (demo_status 2)\<lparr>st_LastAppliedPrimaries := 5,
     st_LastAppliedReplicasPerPrimary := 1\<rparr>\<rparr>"

section \<open>Lemmas\<close>

lemma new_names_cong: "set seen = set seen' \<Longrightarrow> new_names seen evs = new_names seen' evs"
proof (induction evs arbitrary: seen seen')
  case (Cons ev evs)
  then have "new_names (ev_Name ev # seen) evs = new_names (ev_Name ev # seen') evs"
    by (intro Cons.IH) simp
  with Cons.prems Cons.IH [OF Cons.prems] show ?case by simp
qed simp

lemma map_name_update:
  assumes "env_index merged idx" "idx (ev_Name ev) = Some i"
  shows "map ev_Name (merged[i := ev]) = map ev_Name merged"
proof -
  have "ev_Name (merged ! i) = ev_Name ev" using assms by (rule env_indexD(3))
  then show ?thesis by (metis list_update_id map_update)
qed

lemma env_index_dom:
  assumes "env_index merged idx"
  shows "idx n = None \<longleftrightarrow> n \<notin> set (map ev_Name merged)"
proof (cases "idx n")
  case None
  with env_indexD(1) [OF assms this] show ?thesis by simp
next
  case (Some i)
  with env_indexD(2,3) [OF assms Some] show ?thesis by force
qed

lemma names_merge_env_loop:
  "env_index merged idx \<Longrightarrow>
     map ev_Name (merge_env_loop merged idx evs) = map ev_Name merged @ new_names (map ev_Name merged) evs"
proof (induction evs arbitrary: merged idx)
  case (Cons ev evs)
  show ?case
  proof (cases "idx (ev_Name ev)")
    case None
    have "new_names (map ev_Name (merged @ [ev])) evs = new_names (ev_Name ev # map ev_Name merged) evs"
      by (rule new_names_cong) auto
    with None Cons.IH [OF env_index_snoc [OF Cons.prems, of ev]] env_index_dom [OF Cons.prems, of "ev_Name ev"]
    show ?thesis by (simp add: fun_upd_def)
  next
    case (Some i)
    with Cons.IH [OF env_index_update [OF Cons.prems Some]] env_index_dom [OF Cons.prems, of "ev_Name ev"]
    show ?thesis by (simp add: map_name_update [OF Cons.prems Some])
  qed
qed simp

lemma names_mergeEnvVars:
  "map ev_Name (mergeEnvVars base overrides) = map ev_Name base @ new_names (map ev_Name base) overrides"
  by (simp add: mergeEnvVars_def names_merge_env_loop [OF env_index_base])

lemma robin_env_values:
  "map_option ev_Value (env_last (c_Env (robin_container cluster)) ''CLUSTER_NAME'') = Some (om_Name (rk_Meta cluster))"
  "map_option ev_Value (env_last (c_Env (robin_container cluster)) ''NAMESPACE'') = Some (om_Namespace (rk_Meta cluster))"
  by (simp_all add: robin_env_defaults robinDefaultEnvVars_def)

lemma robin_podspec_account: "ps_ServiceAccountName (robin_podspec cluster) = robin_name cluster"
  by (simp add: robin_podspec_def override_podspec_def base_podspec_def Let_def split: option.splits)

lemma build_podspec:
  "pt_Spec (dp_Template (buildDesiredRobinDeployment cluster)) =
     (robin_podspec cluster)\<lparr>ps_Containers := [robin_container cluster]\<rparr>"
  by (simp add: buildDesiredRobinDeployment_def Let_def split: option.splits prod.splits)

section \<open>Validation and sizes\<close>

text \<open>C23. A storage-backed cluster that was scaled to zero and is scaled up again can only come back
  with the topology its data was last applied with: the admission rules reject every other number of
  primaries or replicas, and changes of mode or of persistence.\<close>

theorem topology_locked_from_zero:
  assumes "admit_update old self"
    and "\<not> sp_Ephemeral (rk_Spec old)" "sp_Primaries (rk_Spec old) = 0" "sp_Primaries (rk_Spec self) \<noteq> 0"
    and "st_LastAppliedPrimaries (rk_Status self) \<noteq> 0"
  shows "sp_Primaries (rk_Spec self) = st_LastAppliedPrimaries (rk_Status self) \<and>
    sp_ReplicasPerPrimary (rk_Spec self) = st_LastAppliedReplicasPerPrimary (rk_Status self) \<and>
    sp_Mode (rk_Spec self) = sp_Mode (rk_Spec old) \<and> \<not> sp_Ephemeral (rk_Spec self)"
  using assms
  by (auto simp: admit_update_def spec_transition_rules_def scale_from_zero_primaries_rule_def
      scale_from_zero_replicas_rule_def)

theorem topology_locked_from_zero_witness:
  "admit_update (demo 2 0 2) restored_cluster \<and>
   sp_Primaries (rk_Spec restored_cluster) = st_LastAppliedPrimaries (rk_Status restored_cluster)"
proof -
  have "admit_update (demo 2 0 2) restored_cluster"
    by (simp add: restored_cluster_def admit_update_def spec_rules_def spec_transition_rules_def
        scale_from_zero_primaries_rule_def scale_from_zero_replicas_rule_def demo_spec_def constant_defs)
  with topology_locked_from_zero [OF this] show ?thesis by (simp add: restored_cluster_def)
qed

text \<open>C40. The number of nodes a specification needs is computed exactly if and only if primaries times
  one plus replicas fits in 32 bits; validation does not rule out the other case, where the count
  wraps, down to zero for 65536 primaries with 65535 replicas each.\<close>

theorem NodesNeeded_exact_iff:
  "(NodesNeeded s = sp_Primaries s * (1 + sp_ReplicasPerPrimary s) \<longleftrightarrow>
      in_int32 (sp_Primaries s * (1 + sp_ReplicasPerPrimary s))) \<and>
   spec_rules huge_spec \<and> NodesNeeded huge_spec = 0 \<and> sp_Primaries huge_spec = 65536"
proof -
  have "NodesNeeded s = sp_Primaries s * (1 + sp_ReplicasPerPrimary s) \<longleftrightarrow>
      in_int32 (sp_Primaries s * (1 + sp_ReplicasPerPrimary s))"
    using wrap32_id wrap32_range unfolding NodesNeeded_eq by metis
  moreover have "spec_rules huge_spec" "NodesNeeded huge_spec = 0" "sp_Primaries huge_spec = 65536"
    by (simp_all add: huge_spec_def spec_rules_def demo_spec_def NodesNeeded_def wrap32_def constant_defs)
  ultimately show ?thesis by blast
qed

text \<open>A standalone specification that passes validation needs as many nodes as it has primaries,
  at most one.\<close>

lemma standalone_single_node:
  assumes "spec_rules s" "IsStandalone s"
  shows "NodesNeeded s = sp_Primaries s \<and> NodesNeeded s \<in> {0, 1}"
proof -
  from assms have p: "sp_Primaries s \<in> {0, 1}" and r: "sp_ReplicasPerPrimary s = 0"
    by (auto simp: spec_rules_def IsStandalone_def)
  then have "in_int32 (sp_Primaries s)" by (auto simp: in_int32_def)
  with p r show ?thesis by (simp add: NodesNeeded_eq wrap32_id)
qed

section \<open>Merging\<close>

text \<open>Labels and annotations are merged with a fixed precedence: the operator's own entry wins,
  then the override block if it has any entry, which replaces the user's map as a whole, then the
  user's map; the result is nil exactly when there is no entry at all.\<close>

lemma mergeMeta_precedence:
  "(mget (mergeMeta spec override base) k =
     (case mget base k of
        Some v \<Rightarrow> Some v
      | None \<Rightarrow> if mempty override then mget spec k else mget override k)) \<and>
   (mergeMeta spec override base = None \<longleftrightarrow> mempty spec \<and> mempty override \<and> mempty base)"
  by (simp only: mget_mergeMeta mergeMeta_nil_iff)

text \<open>C37. Merging environment variables keeps the base variables at their positions and appends each
  new name once, in the order of the overrides; the effective value of every variable is the last
  one the overrides give, else that of the base.\<close>

theorem mergeEnvVars_spec:
  "map ev_Name (mergeEnvVars base overrides) = map ev_Name base @ new_names (map ev_Name base) overrides \<and>
   env_last (mergeEnvVars base overrides) n =
     (case env_last overrides n of Some x \<Rightarrow> Some x | None \<Rightarrow> env_last base n)"
  by (simp only: names_mergeEnvVars env_last_mergeEnvVars)

text \<open>C38. Preserving the managed annotation in a patch and stripping it in the comparison are inverse:
  the patched Deployment keeps the revision that Kubernetes wrote, and what the drift check sees of
  it are the desired annotations.\<close>

theorem managed_annotations_roundtrip:
  assumes "mget desired deploymentRevisionAnnotation = None"
  shows "entries (stripManagedAnnotations (preserveManagedAnnotations existing desired)) = entries desired \<and>
    mget (preserveManagedAnnotations existing desired) deploymentRevisionAnnotation =
      mget existing deploymentRevisionAnnotation"
  using strip_preserve [OF assms] assms by (simp add: entries_preserve split: option.splits)

theorem managed_annotations_roundtrip_witness:
  "mget (preserveManagedAnnotations (Some (fmap_of_list [(deploymentRevisionAnnotation, ''4'')])) None)
     deploymentRevisionAnnotation = Some ''4''"
  using managed_annotations_roundtrip [of None "Some (fmap_of_list [(deploymentRevisionAnnotation, ''4'')])"]
  by simp

section \<open>Robin's objects\<close>


text \<open>C31. Whatever labels, annotations and Robin template the user gives, the Deployment's selector
  matches its own pods, the pod runs under Robin's ServiceAccount, and the container gets the name
  and the namespace of the cluster in its environment.\<close>

theorem robin_deployment_identity:
  "selector_matches (buildDesiredRobinDeployment cluster) \<and>
   ps_ServiceAccountName (pt_Spec (dp_Template (buildDesiredRobinDeployment cluster))) = robin_name cluster \<and>
   (let env = concat (map c_Env (ps_Containers (pt_Spec (dp_Template (buildDesiredRobinDeployment cluster))))) in
    map_option ev_Value (env_last env ''CLUSTER_NAME'') = Some (om_Name (rk_Meta cluster)) \<and>
    map_option ev_Value (env_last env ''NAMESPACE'') = Some (om_Namespace (rk_Meta cluster)))"
  unfolding build_podspec Let_def
  by (simp add: build_selector_matches robin_podspec_account robin_env_values del: map_option_eq_Some)



text \<open>C33. A user annotation that names the Deployment controller's revision key is never settled:
  the drift check reports an update for every existing Deployment, so each reconcile patches it.\<close>

theorem revision_annotation_repatches:
  assumes "semantic_equality e" "\<not> no_revision_annotation cluster"
  shows "robinDeploymentNeedsUpdate e existing (buildDesiredRobinDeployment cluster)"
proof -
  have "mget (rbac_annotations cluster) deploymentRevisionAnnotation \<noteq> None"
    using assms(2) by (simp add: no_revision_annotation_def rbac_annotations_def mget_mergeMeta)
  moreover have "mget (stripManagedAnnotations a) deploymentRevisionAnnotation = None" for a
    by (simp add: entries_strip)
  ultimately have "entries (stripManagedAnnotations a) \<noteq> entries (rbac_annotations cluster)" for a
    by metis
  then show ?thesis
    by (simp add: robinDeploymentNeedsUpdate_def semantic_equality.equal_map [OF assms(1)])
qed

theorem revision_annotation_repatches_witness:
  "robinDeploymentNeedsUpdate mem_env (buildDesiredRobinDeployment revision_cluster)
     (buildDesiredRobinDeployment revision_cluster)"
proof (rule revision_annotation_repatches)
  show "semantic_equality mem_env" unfolding mem_env_def by (rule cached.semantic_equality_axioms)
  show "\<not> no_revision_annotation revision_cluster"
    by (simp add: no_revision_annotation_def revision_cluster_def)
qed

end
