(* ===== verification/Config_Properties.thy ===== *)
theory Config_Properties
  imports Demo_Objects
begin

text \<open>
  Properties of the configuration snapshots: when a new one is created and under which name, which
  one is active, what the status of the cluster shows of it, and which ones the cleanup removes.
\<close>

section \<open>Reference definitions\<close>


text \<open>The part of a specification that a snapshot carries; of Robin's settings only the runtime
  configuration.\<close>

definition snapshot_part :: "RedkeySpec \<Rightarrow> RedkeySpec" where
  "snapshot_part sp = sp\<lparr>sp_Backup := False, sp_AccessModes := [],
     sp_Robin := \<lparr>rs_Image = [], rs_Resources = None, rs_Template = None, rs_Config = rs_Config (sp_Robin sp)\<rparr>\<rparr>"

section \<open>Lemmas\<close>

lemma keep_configs_head:
  "\<exists>c \<in> set cs. phase_of c = ConfigPhaseApplied \<Longrightarrow> phase_of (hd (keep_configs cs)) = ConfigPhaseApplied"
proof (induction cs)
  case (Cons c cs)
  then show ?case by (cases "\<exists>d \<in> set cs. phase_of d = ConfigPhaseApplied") (auto simp: list_ex_iff)
qed simp

lemma keep_configs_all:
  "\<not> (\<exists>c \<in> set cs. phase_of c = ConfigPhaseApplied) \<Longrightarrow> keep_configs cs = cs"
  by (rule keep_configs_none) (metis nth_mem)

lemma drop_configs_older:
  "sorted (map seq_of cs) \<Longrightarrow> c \<in> set (drop_configs cs) \<Longrightarrow> d \<in> set (keep_configs cs) \<Longrightarrow> seq_of c \<le> seq_of d"
  using drop_keep_configs [of cs] sorted_append [of "map seq_of (drop_configs cs)" "map seq_of (keep_configs cs)"]
  by (metis (no_types, lifting) image_eqI list.set_map map_append)


lemma aggregate_once_result:
  assumes "aggregate_once e c g k w = (Inr st, w')"
    and "\<forall>r w r' w'. e_status_update e r w = (Inr r', w') \<longrightarrow> rk_Status r' = rk_Status r"
  shows "\<exists>latest v v'. aggregated_status e c g latest v = (st, v')"
proof -
  obtain latest v where v: "e_get_redkey e k w = (Inr latest, v)"
    using assms(1) by (auto simp: aggregate_once_def elim!: bindE_InrE)
  obtain st' v' where st': "aggregated_status e c g latest v = (st', v')" by fastforce
  with assms(1) v obtain r' where "e_status_update e (latest\<lparr>rk_Status := st'\<rparr>) v' = (Inr r', w')" "st = rk_Status r'"
    by (auto simp: aggregate_once_def bindE_def liftP_def split: prod.splits sum.splits)
  with assms(2) have "st = st'" by fastforce
  with st' show ?thesis by blast
qed

section \<open>Creation\<close>

text \<open>C27. A config carries the generation it was built for: reading the annotation back gives the
  generation of the cluster, and the cluster does not need a new config while that one is the
  latest.\<close>

theorem generation_roundtrip:
  assumes "in_int64 (om_Generation (rk_Meta cluster))"
  shows "config_generation (build_config cluster n) = Some (om_Generation (rk_Meta cluster)) \<and>
    \<not> needsNewConfig cluster (Some (build_config cluster n))"
  using config_generation_build [OF assms] by (simp add: needsNewConfig_iff)

theorem generation_roundtrip_witness:
  "config_generation (build_config (demo 42 3 0) 7) = Some 42"
  using generation_roundtrip [of "demo 42 3 0" 7] by (simp add: in_int64_def)


text \<open>C28. Config names determine their cluster and their sequence number, so that two clusters of a
  namespace, or two sequence numbers of a cluster, never compete for a name, even where a cluster's
  own name ends in a number.\<close>

theorem config_names_distinct:
  assumes "0 \<le> i" "0 \<le> j"
  shows "config_name a i = config_name b j \<longleftrightarrow> a = b \<and> i = j"
  using assms by (rule config_name_inject)

theorem config_names_distinct_witness:
  "config_name ''demo-1'' 2 \<noteq> config_name ''demo'' 12"
  using config_names_distinct [of 2 12 "''demo-1''" "''demo''"] by simp

text \<open>The sequence number of a new config is larger than that of every existing one, as long as
  the numbers fit in 64 bits.\<close>

lemma next_sequence_greater:
  assumes "sorted (map seq_of configs)" "configs \<noteq> []" "in_int64 (seq_of (last configs))"
    "in_int64 (seq_of (last configs) + 1)" "c \<in> set configs"
  shows "seq_of c < seq_of (build_config cluster (next_seq (Some (last configs))))"
  using next_seq_greater [of configs] assms by simp

text \<open>C29. A snapshot determines the specification it was taken from, up to the backup flag, the access
  modes of the volumes and Robin's image, resources and template: two clusters have the same snapshot
  exactly when their specifications agree on everything else.\<close>

theorem snapshot_faithful:
  "cf_Spec (build_config cluster n) = cf_Spec (build_config cluster' n) \<longleftrightarrow>
     snapshot_part (rk_Spec cluster) = snapshot_part (rk_Spec cluster')"
  by (cases "rk_Spec cluster"; cases "rk_Spec cluster'"; cases "sp_Robin (rk_Spec cluster)"; cases "sp_Robin (rk_Spec cluster')")
    (auto simp: build_config_def snapshot_part_def Let_def split: option.splits)

section \<open>Status\<close>

text \<open>C30. A non-empty list of configs always has an active one, and it is the config in progress if
  there is one.\<close>

theorem selectActiveConfig_spec:
  assumes "configs \<noteq> []"
  shows "\<exists>c \<in> set configs. selectActiveConfig configs = Some c \<and>
    (list_ex (\<lambda>d. phase_of d = ConfigPhaseInProgress) configs \<longrightarrow> phase_of c = ConfigPhaseInProgress)"
proof (cases "length configs = 1")
  case True
  then obtain c where "configs = [c]" by (auto simp: length_Suc_conv)
  then show ?thesis by (simp add: selectActiveConfig_def)
next
  case False
  show ?thesis
  proof (cases "find (\<lambda>c. phase_of c = ConfigPhaseInProgress) configs")
    case None
    then have "\<not> list_ex (\<lambda>d. phase_of d = ConfigPhaseInProgress) configs"
      by (auto simp: find_None_iff list_ex_iff)
    with None False assms show ?thesis
      by (intro bexI [of _ "hd configs"]) (simp_all add: selectActiveConfig_def neq_Nil_conv split: list.splits)
  next
    case (Some c)
    with False find_SomeD [OF Some] show ?thesis by (auto simp: selectActiveConfig_def)
  qed
qed

theorem selectActiveConfig_spec_witness:
  "\<exists>c. selectActiveConfig [demo_config 1 1 3 ConfigPhaseApplied, demo_config 2 2 3 ConfigPhaseInProgress] = Some c \<and>
     phase_of c = ConfigPhaseInProgress"
  using selectActiveConfig_spec [of "[demo_config 1 1 3 ConfigPhaseApplied, demo_config 2 2 3 ConfigPhaseInProgress]"]
  by auto



text \<open>C11. Whatever conflicts and concurrent edits of the Redkey occur while the status is written, a
  successful aggregation records the generation of the snapshot the reconcile worked on, never that
  of a newer specification read on a retry, and the rest of the status is computed from the active
  config.\<close>

theorem observed_generation_is_snapshot:
  assumes "retry_contract e"
    and "\<forall>r w r' w'. e_status_update e r w = (Inr r', w') \<longrightarrow> rk_Status r' = rk_Status r"
    and run: "aggregateStatus e cluster configs w = (Inr cluster', w')" and "configs \<noteq> []"
  shows "st_ObservedGeneration (rk_Status cluster') = om_Generation (rk_Meta cluster) \<and>
    rk_Spec cluster' = rk_Spec cluster \<and>
    (\<exists>a latest v v'. selectActiveConfig configs = Some a \<and>
       aggregated_status e a (om_Generation (rk_Meta cluster)) latest v = (rk_Status cluster', v'))"
proof -
  obtain a where a: "selectActiveConfig configs = Some a"
    using selectActiveConfig_total [OF assms(4)] by blast
  let ?once = "aggregate_once e a (om_Generation (rk_Meta cluster)) (redkey_NamespacedName cluster)"
  from run a assms(4) obtain st where st: "e_retry_on_conflict e ?once w = (Inr st, w')"
    and c': "cluster' = cluster\<lparr>rk_Status := st\<rparr>"
    by (auto simp: aggregateStatus_def elim!: bindE_InrE)
  have "retry_run ?once w (Inr st, w')"
    using retry_contract.retry_runs [OF assms(1), of ?once w] st by simp
  from retry_run_invariant [OF this, of "\<lambda>_. True"] obtain v where v: "?once v = (Inr st, w')" by auto
  from aggregate_once_result [OF v assms(2)] obtain latest u u' where
    u: "aggregated_status e a (om_Generation (rk_Meta cluster)) latest u = (st, u')" by blast
  then have "st_ObservedGeneration st = om_Generation (rk_Meta cluster)" by (rule aggregated_status_sel)
  with a u c' show ?thesis by auto
qed

theorem observed_generation_is_snapshot_witness:
  "\<exists>cluster' w'. aggregateStatus mem_env (demo 2 3 1) [demo_config 1 2 3 ConfigPhaseApplied]
       (demo_store 3 5 1 [demo_config 1 2 3 ConfigPhaseApplied]) = (Inr cluster', w') \<and>
     st_ObservedGeneration (rk_Status cluster') = 2"
proof -
  let ?c = "demo_config 1 2 3 ConfigPhaseApplied" and ?w = "demo_store 3 5 1 [demo_config 1 2 3 ConfigPhaseApplied]"
  have look: "mem_look ?w (KRedkey, redkey_NamespacedName (demo 2 3 1)) = Some (ORedkey (demo 3 5 1))"
    by (simp add: demo_look redkey_NamespacedName_def)
  have active: "selectActiveConfig [?c] = Some ?c" by (simp add: selectActiveConfig_def)
  obtain cluster' w' where run: "aggregateStatus mem_env (demo 2 3 1) [?c] ?w = (Inr cluster', w')"
    using kube_objects.aggregateStatus_ok [OF mem.kube_objects_axioms look active] by auto
  have "retry_contract mem_env" unfolding mem_env_def by (rule cached.retry_contract_axioms)
  moreover have "\<forall>r w r' w'. e_status_update mem_env r w = (Inr r', w') \<longrightarrow> rk_Status r' = rk_Status r"
    by (auto simp: mem_env_def cached_env_sel mem_status_update_def Let_def split: option.splits if_splits)
  ultimately show ?thesis
    using observed_generation_is_snapshot [OF _ _ run] run by simp
qed

section \<open>Cleanup\<close>

text \<open>C10. The cleanup deletes exactly the configs older than the last applied one and counts each
  deletion; it always keeps the newest config and everything after the last applied one, and with no
  applied config it deletes nothing.\<close>

theorem cleanup_keeps_last_applied:
  assumes "kube_objects e look" and "distinct (map config_key cfs)"
  shows "\<exists>w'. cleanupSupersededConfigs e cfs s = (Inr (keep_configs cfs), s\<lparr>world := w',
       metric_log := metric_log s @ replicate (stored_count (look (world s)) (drop_configs cfs))
         (CounterInc ''redkey_cleanup_deleted_configs_total'' [])\<rparr>) \<and>
     look w' = without_configs (look (world s)) (drop_configs cfs) \<and>
     drop_configs cfs @ keep_configs cfs = cfs \<and>
     list_all (\<lambda>c. phase_of c \<noteq> ConfigPhaseApplied) (tl (keep_configs cfs)) \<and>
     (if list_ex (\<lambda>c. phase_of c = ConfigPhaseApplied) cfs
      then phase_of (hd (keep_configs cfs)) = ConfigPhaseApplied else keep_configs cfs = cfs)"
proof -
  have "distinct (map config_key (drop_configs cfs))"
    using assms(2) drop_keep_configs [of cfs] by (metis distinct_append map_append)
  from kube_objects.cleanup_loop_ok [OF assms(1) this, of s] obtain w' where
    "cleanup_loop e (drop_configs cfs) s = (Inr (), s\<lparr>world := w',
       metric_log := metric_log s @ replicate (stored_count (look (world s)) (drop_configs cfs))
         (CounterInc ''redkey_cleanup_deleted_configs_total'' [])\<rparr>)"
    "look w' = without_configs (look (world s)) (drop_configs cfs)" by blast
  then show ?thesis
    using keep_configs_applied keep_configs_head [of cfs] keep_configs_all [of cfs]
    by (intro exI [of _ w'])
      (auto simp: cleanupSupersededConfigs_eq bindE_def drop_keep_configs list_all_iff list_ex_iff)
qed

theorem cleanup_keeps_last_applied_witness:
  "\<exists>w'. fst (cleanupSupersededConfigs mem_env
       [demo_config 1 1 3 ConfigPhaseApplied, demo_config 2 2 3 ConfigPhaseApplied, demo_config 3 3 3 ConfigPhasePending]
       (demo_state (demo_store 3 3 2 []))) =
     Inr [demo_config 2 2 3 ConfigPhaseApplied, demo_config 3 3 3 ConfigPhasePending]"
proof -
  let ?cs = "[demo_config 1 1 3 ConfigPhaseApplied, demo_config 2 2 3 ConfigPhaseApplied, demo_config 3 3 3 ConfigPhasePending]"
  have "distinct (map config_key ?cs)"
    by (simp add: config_name_inject)
  note run = cleanup_keeps_last_applied [OF mem.kube_objects_axioms this, of "demo_state (demo_store 3 3 2 [])"]
  have "keep_configs ?cs = [demo_config 2 2 3 ConfigPhaseApplied, demo_config 3 3 3 ConfigPhasePending]"
    by (simp add: constant_defs)
  with run show ?thesis by auto
qed

end
