(* ===== verification/Panic_Freedom.thy ===== *)
theory Panic_Freedom
  imports Reconciler
begin

text \<open>
  Freedom from run-time panics. \<open>calm\<close> computations never fail with a panic; the combinators preserve
  it, and every operation of the operator is calm if the client it is given is. The places where the
  code indexes a slice are guarded by its length checks.
\<close>

definition calm :: "('s, 'a) io \<Rightarrow> bool" where
  "calm m \<longleftrightarrow> (\<forall>s err s'. m s = (Inl err, s') \<longrightarrow> \<not> is_panic err)"

definition client_calm :: "('a, 'w) resource_client \<Rightarrow> bool" where
  "client_calm rc \<longleftrightarrow> (\<forall>k. calm (rc_get rc k)) \<and> (\<forall>x. calm (rc_create rc x)) \<and>
     (\<forall>x b. calm (rc_patch rc x b)) \<and> (\<forall>k. calm (rc_delete rc k))"

definition env_calm :: "'w env \<Rightarrow> bool" where
  "env_calm e \<longleftrightarrow>
     client_calm (e_serviceaccounts e) \<and> client_calm (e_roles e) \<and> client_calm (e_rolebindings e) \<and>
     client_calm (e_deployments e) \<and> client_calm (e_configs e) \<and> (\<forall>k. calm (e_get_redkey e k)) \<and>
     (\<forall>r. calm (e_status_update e r)) \<and> (\<forall>ns lv. calm (e_list_configs e ns lv)) \<and>
     (\<forall>owner m err. e_set_controller_reference e owner m = Inl err \<longrightarrow> \<not> is_panic err)"

named_theorems calm_intros \<open>composition of computations that do not panic\<close>

lemma calm_ret [calm_intros]: "calm (ret x)"
  by (simp add: calm_def)

lemma calm_throw [calm_intros]: "\<not> is_panic err \<Longrightarrow> calm (throw err)"
  by (simp add: calm_def)

lemma calm_emit [calm_intros]: "calm (emit c)"
  by (simp add: calm_def)

lemma calm_liftP [calm_intros]: "calm (liftP m)"
  by (simp add: calm_def liftP_def split: prod.splits)

lemma calm_liftW [calm_intros]: "calm m \<Longrightarrow> calm (liftW m)"
  by (auto simp: calm_def liftW_def split: prod.splits)

lemma calm_bindE [calm_intros]: "calm m \<Longrightarrow> (\<And>x. calm (f x)) \<Longrightarrow> calm (bindE m f)"
  by (fastforce simp: calm_def bindE_def split: prod.splits sum.splits)

lemma calm_attempt [calm_intros]:
  assumes "calm m" "\<And>err. \<not> is_panic err \<Longrightarrow> calm (g err)" "\<And>x. calm (h x)"
  shows "calm (attempt m (\<lambda>r. case r of Inl err \<Rightarrow> g err | Inr x \<Rightarrow> h x))"
  unfolding calm_def
proof (intro allI impI)
  fix s err s' assume run: "attempt m (\<lambda>r. case r of Inl err \<Rightarrow> g err | Inr x \<Rightarrow> h x) s = (Inl err, s')"
  obtain r s1 where m: "m s = (r, s1)" by fastforce
  show "\<not> is_panic err"
  proof (cases r)
    case (Inl e1)
    with m assms(1) have "\<not> is_panic e1" by (auto simp: calm_def)
    from assms(2) [OF this] m Inl run show ?thesis by (auto simp: calm_def attempt_def)
  next
    case (Inr x)
    with m run assms(3) [of x] show ?thesis by (auto simp: calm_def attempt_def)
  qed
qed

lemma calm_if [calm_intros]: "(b \<Longrightarrow> calm m) \<Longrightarrow> (\<not> b \<Longrightarrow> calm n) \<Longrightarrow> calm (if b then m else n)"
  by simp

lemma calm_case_option [calm_intros]:
  "(v = None \<Longrightarrow> calm m) \<Longrightarrow> (\<And>x. v = Some x \<Longrightarrow> calm (f x)) \<Longrightarrow> calm (case v of None \<Rightarrow> m | Some x \<Rightarrow> f x)"
  by (cases v) simp_all

lemma calm_case_prod [calm_intros]: "(\<And>a b. calm (f a b)) \<Longrightarrow> calm (case p of (a, b) \<Rightarrow> f a b)"
  by (cases p) simp

lemma calm_total: "(\<And>s. \<exists>x s'. m s = (Inr x, s')) \<Longrightarrow> calm m"
  unfolding calm_def by (metis Inl_Inr_False prod.inject)

lemma client_calmD [calm_intros]:
  assumes "client_calm rc"
  shows "calm (rc_get rc k)" "calm (rc_create rc x)" "calm (rc_patch rc x b)" "calm (rc_delete rc k)"
  using assms by (simp_all add: client_calm_def)

lemma env_calmD [calm_intros]:
  assumes "env_calm e"
  shows "client_calm (e_serviceaccounts e)" "client_calm (e_roles e)" "client_calm (e_rolebindings e)"
    "client_calm (e_deployments e)" "client_calm (e_configs e)" "calm (e_get_redkey e k)"
    "calm (e_status_update e r)" "calm (e_list_configs e ns lv)"
  using assms by (simp_all add: env_calm_def del: split_paired_All)

lemma calm_set_controller_reference [calm_intros]:
  "env_calm e \<Longrightarrow> calm (liftR (e_set_controller_reference e owner m))"
  by (auto simp: env_calm_def calm_def)

lemma calm_retry:
  assumes "retry_contract e" "calm f"
  shows "calm (e_retry_on_conflict e f)"
  unfolding calm_def
proof (intro allI impI)
  fix w err w' assume run: "e_retry_on_conflict e f w = (Inl err, w')"
  have "retry_run f w (Inl err, w')" using retry_contract.retry_runs [OF assms(1), of f w] run by simp
  from retry_run_invariant [OF this, of "\<lambda>_. True"] obtain v where "f v = (Inl err, w')" by auto
  with assms(2) show "\<not> is_panic err" by (auto simp: calm_def)
qed

section \<open>The operations\<close>

lemma calm_ensureRBAC [calm_intros]: "env_calm e \<Longrightarrow> calm (ensureRBAC e cluster)"
  unfolding ensureRBAC_def ensureServiceAccount_def ensureRole_def ensureRoleBinding_def Let_def
  by (intro calm_intros)

lemma calm_ensureRobinDeployment [calm_intros]: "env_calm e \<Longrightarrow> calm (ensureRobinDeployment e cluster)"
  unfolding ensureRobinDeployment_def Let_def by (intro calm_intros)

lemma calm_listConfigs [calm_intros]: "env_calm e \<Longrightarrow> calm (listConfigs e cluster)"
  unfolding listConfigs_def by (intro calm_intros)

lemma calm_createNewConfig [calm_intros]: "env_calm e \<Longrightarrow> calm (createNewConfig e cluster h)"
  unfolding createNewConfig_def Let_def by (intro calm_intros)

lemma calm_cleanup_loop [calm_intros]: "env_calm e \<Longrightarrow> calm (cleanup_loop e cs)"
proof (induction cs)
  case Nil
  show ?case unfolding cleanup_loop.simps by (rule calm_ret)
next
  case (Cons c cs)
  show ?case unfolding cleanup_loop.simps by (intro calm_intros Cons)
qed

lemma calm_cleanupSupersededConfigs [calm_intros]: "env_calm e \<Longrightarrow> calm (cleanupSupersededConfigs e cs)"
  unfolding cleanupSupersededConfigs_def Let_def by (intro calm_intros)

lemma calm_aggregateStatus [calm_intros]:
  assumes "env_calm e" "retry_contract e"
  shows "calm (aggregateStatus e cluster configs)"
proof (cases "configs = []")
  case True
  then show ?thesis unfolding aggregateStatus_def by (simp add: calm_def)
next
  case False
  from selectActiveConfig_total [OF False] obtain c where c: "selectActiveConfig configs = Some c" by blast
  have "calm (aggregate_once e c g k)" for g k
    unfolding aggregate_once_def by (intro calm_intros assms(1))
  with False c show ?thesis
    unfolding aggregateStatus_def by (simp add: calm_bindE calm_retry [OF assms(2)] calm_ret)
qed

lemma calm_delete_objects: "list_all calm dels \<Longrightarrow> calm (delete_objects name dels)"
proof (induction dels)
  case Nil
  show ?case unfolding delete_objects.simps by (rule calm_ret)
next
  case (Cons d dels)
  then have "calm d" "calm (delete_objects name dels)" by simp_all
  then show ?case unfolding delete_objects.simps by (intro calm_intros) simp_all
qed

lemma calm_delete_configs [calm_intros]: "env_calm e \<Longrightarrow> calm (delete_configs e cs)"
proof (induction cs)
  case Nil
  show ?case unfolding delete_configs.simps by (rule calm_ret)
next
  case (Cons c cs)
  show ?case unfolding delete_configs.simps by (intro calm_intros Cons) simp_all
qed

lemma calm_deleteRBAC [calm_intros]: "env_calm e \<Longrightarrow> calm (deleteRBAC e cluster)"
  unfolding deleteRBAC_def
  by (intro calm_delete_objects) (simp add: client_calmD env_calmD)

lemma calm_deletions [calm_intros]:
  assumes "env_calm e"
  shows "calm (deleteRobinDeployment e cluster)" "calm (deleteAllConfigs e cluster)"
    "calm (updateStatusScaledToZero e cluster)"
  unfolding deleteRobinDeployment_def deleteAllConfigs_def updateStatusScaledToZero_def
  by (intro calm_intros assms; simp)+

lemma calm_reconcileScaleToZero [calm_intros]:
  "env_calm e \<Longrightarrow> retry_contract e \<Longrightarrow> calm (reconcileScaleToZero e r cluster)"
  unfolding reconcileScaleToZero_def Let_def by (intro calm_intros)

lemma calm_stage [calm_intros]: "calm m \<Longrightarrow> calm (stage name m)"
  unfolding stage_def by (intro calm_intros)

lemma calm_recordRedkeyMetrics [calm_intros]: "calm (recordRedkeyMetrics e cluster ac)"
  unfolding calm_def using recordRedkeyMetrics_run [of e cluster ac]
  by (metis Inl_Inr_False fst_conv)

lemma calm_deleteRedkeyMetrics [calm_intros]: "calm (deleteRedkeyMetrics k)"
  by (simp add: calm_def deleteRedkeyMetrics_run)

lemma calm_active_config [calm_intros]: "calm (active_config configs)"
  using selectActiveConfig_total [of configs]
  by (cases "configs = []") (auto simp: active_config_def calm_def)

lemma calm_Reconcile:
  assumes "env_calm e" "retry_contract e"
  shows "calm (Reconcile e r req)"
proof -
  have "calm (refresh_configs e cluster configs)" "calm (publish_status e cluster configs)" for cluster configs
    unfolding refresh_configs_def publish_status_def Let_def by (intro calm_intros assms)+
  then have "calm (reconcile_cluster e r cluster)" for cluster
    unfolding reconcile_cluster_def by (intro calm_intros assms)
  then show ?thesis
    unfolding Reconcile_def by (intro calm_intros assms)
qed

end
