(* ===== verification/Metrics_Properties.thy ===== *)
theory Metrics_Properties
  imports Demo_Objects
begin

text \<open>
  Properties of the metrics: the trackers account for every operation and every entry into the
  ready phase, and the exported gauge series show the current state of each cluster and nothing of a
  deleted one. What a scrape sees is \<open>replay\<close> of the calls made so far.
\<close>

section \<open>Reference definitions\<close>

text \<open>The series of a cluster in one of the vectors labelled by namespace, name and a value.\<close>

definition cluster_series :: "'w opstate \<Rightarrow> string \<Rightarrow> NamespacedName \<Rightarrow> string \<Rightarrow> int option" where
  "cluster_series s v k x = replay (metric_log s) v [nn_Namespace k, nn_Name k, x]"

section \<open>Lemmas\<close>

lemma tracked_log [simp]: "tracked (s\<lparr>metric_log := l\<rparr>) = tracked s"
  by (simp add: tracked_def fun_eq_iff)

lemma time_Since_ok: "\<exists>d w. time_Since e t s = (Inr d, s\<lparr>world := w\<rparr>)"
  by (auto simp: time_Since_def io_simps split: prod.splits)

lemma record_tracked:
  "tracked (snd (recordRedkeyMetrics e cluster ac s)) =
     tracked (snd (observe e (redkey_NamespacedName cluster) (st_Status (rk_Status cluster))
       (st_Phase (rk_Status cluster)) s))"
proof -
  obtain s1 where s1: "observe e (redkey_NamespacedName cluster) (st_Status (rk_Status cluster))
      (st_Phase (rk_Status cluster)) s = (Inr (), s1)"
    using observe_run by metis
  show ?thesis
  proof (cases ac)
    case None
    with s1 show ?thesis
      by (simp add: recordRedkeyMetrics_def redkey_NamespacedName_def io_simps)
  next
    case (Some c)
    obtain d w where "time_Since e t s' = (Inr (d t s'), s'\<lparr>world := w t s'\<rparr>)" for t s'
      using time_Since_ok [of e] by metis
    with Some s1 show ?thesis
      by (simp add: recordRedkeyMetrics_def redkey_NamespacedName_def io_simps enteredReady_def tracked_def fun_eq_iff)
  qed
qed

lemma record_tracked_own:
  "tracked (snd (recordRedkeyMetrics e cluster ac s)) (redkey_NamespacedName cluster) =
     (if in_operation (st_Status (rk_Status cluster)) then Some (st_Status (rk_Status cluster)) else None)"
  by (simp add: record_tracked observe_tracked)

lemma record_series_other:
  "k \<noteq> redkey_NamespacedName cluster \<Longrightarrow>
     cluster_series (snd (recordRedkeyMetrics e cluster ac s)) v k x = cluster_series s v k x"
  unfolding cluster_series_def
  by (rule replayed.series_record_other) (auto simp: redkey_NamespacedName_def)

lemma record_series_own:
  "x \<in> set redkeyPhaseValues \<Longrightarrow>
     cluster_series (snd (recordRedkeyMetrics e cluster ac s)) ''redkey_phase'' (redkey_NamespacedName cluster) x =
       Some (if x = st_Phase (rk_Status cluster) then 1 else 0)"
  "x \<in> set redkeyConfigPhaseValues \<Longrightarrow>
     cluster_series (snd (recordRedkeyMetrics e cluster ac s)) ''redkey_config_phase'' (redkey_NamespacedName cluster) x =
       (case ac of None \<Rightarrow> None | Some c \<Rightarrow> Some (if x = phase_of c then 1 else 0))"
  "cluster_series (snd (recordRedkeyMetrics e cluster ac s)) ''redkey_operation_in_progress''
       (redkey_NamespacedName cluster) x =
     (if tracked (snd (recordRedkeyMetrics e cluster ac s)) (redkey_NamespacedName cluster) = Some x
      then Some 1 else None)"
proof -
  obtain log where log: "replay (metric_log (snd (recordRedkeyMetrics e cluster ac s))) =
      replay (log @ refresh_log cluster ac)"
    using replayed.series_record by blast
  let ?ns = "om_Namespace (rk_Meta cluster)" and ?nm = "om_Name (rk_Meta cluster)"
  have eq: "cluster_series (snd (recordRedkeyMetrics e cluster ac s)) v (redkey_NamespacedName cluster) x =
      replay (log @ refresh_log cluster ac) v [?ns, ?nm, x]" for v
    by (simp add: cluster_series_def log redkey_NamespacedName_def)
  note refresh = replayed.series_refresh [OF _ refl refl, of log cluster ac _ x, OF refl]
  show "cluster_series (snd (recordRedkeyMetrics e cluster ac s)) ''redkey_phase'' (redkey_NamespacedName cluster) x =
       Some (if x = st_Phase (rk_Status cluster) then 1 else 0)" if "x \<in> set redkeyPhaseValues"
    unfolding eq by (rule refresh(1) [OF refl that])
  show "cluster_series (snd (recordRedkeyMetrics e cluster ac s)) ''redkey_config_phase'' (redkey_NamespacedName cluster) x =
       (case ac of None \<Rightarrow> None | Some c \<Rightarrow> Some (if x = phase_of c then 1 else 0))"
    if "x \<in> set redkeyConfigPhaseValues"
    unfolding eq by (rule refresh(3) [OF refl that])
  have "cluster_series (snd (recordRedkeyMetrics e cluster ac s)) ''redkey_operation_in_progress''
      (redkey_NamespacedName cluster) x =
      (if in_operation (st_Status (rk_Status cluster)) \<and> x = st_Status (rk_Status cluster) then Some 1 else None)"
    unfolding eq by (rule refresh(2) [OF refl])
  then show "cluster_series (snd (recordRedkeyMetrics e cluster ac s)) ''redkey_operation_in_progress''
       (redkey_NamespacedName cluster) x =
     (if tracked (snd (recordRedkeyMetrics e cluster ac s)) (redkey_NamespacedName cluster) = Some x
      then Some 1 else None)"
    by (auto simp: record_tracked_own)
qed

lemma delete_series:
  assumes "v \<in> {''redkey_phase'', ''redkey_config_phase'', ''redkey_operation_in_progress''}"
  shows "cluster_series (snd (deleteRedkeyMetrics k s)) v k' x = (if k' = k then None else cluster_series s v k' x)"
  unfolding cluster_series_def replayed.series_delete [OF assms] by (cases k, cases k') simp

section \<open>Properties\<close>

text \<open>C20. After a refresh the exported series of every cluster are the current ones: exactly the
  reported phase and config phase are one and the others zero, an operation is shown in progress if and
  only if the tracker holds it, and the series of the other clusters are untouched.\<close>

theorem metrics_show_current_state:
  "let s' = snd (recordRedkeyMetrics e cluster ac s); own = redkey_NamespacedName cluster in
   list_all (\<lambda>x. cluster_series s' ''redkey_phase'' k x =
     (if k = own then Some (if x = st_Phase (rk_Status cluster) then 1 else 0)
      else cluster_series s ''redkey_phase'' k x)) redkeyPhaseValues \<and>
   list_all (\<lambda>x. cluster_series s' ''redkey_config_phase'' k x =
     (if k = own then (case ac of None \<Rightarrow> None | Some c \<Rightarrow> Some (if x = phase_of c then 1 else 0))
      else cluster_series s ''redkey_config_phase'' k x)) redkeyConfigPhaseValues \<and>
   cluster_series s' ''redkey_operation_in_progress'' k op =
     (if k = own then (if tracked s' k = Some op then Some 1 else None)
      else cluster_series s ''redkey_operation_in_progress'' k op)"
  by (cases "k = redkey_NamespacedName cluster")
    (simp_all add: Let_def list_all_iff record_series_own record_series_other)

text \<open>Deleting the metrics of a cluster removes all its series, forgets its operation and its
  last phase, and leaves the series of every other cluster as they are.\<close>

lemma metrics_deleted:
  "let s' = snd (deleteRedkeyMetrics k s) in
   list_all (\<lambda>v. cluster_series s' v k' x = (if k' = k then None else cluster_series s v k' x))
     [''redkey_phase'', ''redkey_config_phase'', ''redkey_operation_in_progress''] \<and>
   tracked s' k = None \<and> readyTracker_lastPhase s' k = None \<and> fst (deleteRedkeyMetrics k s) = Inr ()"
  by (simp add: Let_def delete_series) (simp add: deleteRedkeyMetrics_run tracked_def)

text \<open>C19. Every operation is accounted for exactly once: over any sequence of observations of a
  cluster, the operations completed plus the one still tracked are the operations begun plus the one
  tracked before, each completion comes with one duration sample, and the tracker never holds a
  status that is not an operation.\<close>

theorem operations_accounted:
  assumes "tracker_inv s"
  shows "\<exists>s' l. observe_all e k obs s = (Inr (), s') \<and> metric_log s' = metric_log s @ l \<and>
     length (filter is_completion l) + (if tracked s' k = None then 0 else 1) =
       operations_begun (tracked s k) (map fst obs) + (if tracked s k = None then 0 else 1) \<and>
     length (filter is_duration l) = length (filter is_completion l) \<and> tracker_inv s'"
proof -
  have op: "in_operation op" if "tracked s k = Some op" for op
    using that assms by (auto simp: tracked_def tracker_inv_def)
  have "tracker_inv (snd (observe_all e k obs s))"
    using assms
  proof (induction obs arbitrary: s)
    case (Cons ob obs)
    obtain status phase where ob: "ob = (status, phase)" by fastforce
    obtain s1 where s1: "observe e k status phase s = (Inr (), s1)" using observe_run by metis
    with observe_inv [OF Cons.prems, of e k status phase] have "tracker_inv s1" by simp
    with Cons.IH s1 ob show ?case by (simp add: bindE_def)
  qed simp
  with observe_all_accounting [where s = s and k = k and e = e and obs = obs, OF op] show ?thesis by auto
qed

theorem operations_accounted_witness:
  "\<exists>s' l. observe_all mem_env (redkey_NamespacedName (demo 1 3 0))
       [(ClusterStatusScalingUp, PhaseConfiguring), (ClusterStatusUpgrading, PhaseConfiguring), (ClusterStatusReady, PhaseReady)]
       (demo_state (demo_store 1 3 0 [])) = (Inr (), s') \<and> metric_log s' = l \<and>
     length (filter is_completion l) + (if tracked s' (redkey_NamespacedName (demo 1 3 0)) = None then 0 else 1) = 2"
proof -
  have inv: "tracker_inv (demo_state (demo_store 1 3 0 []))" by (simp add: tracker_inv_def demo_state_def)
  have begun: "operations_begun None [ClusterStatusScalingUp, ClusterStatusUpgrading, ClusterStatusReady] = 2"
    by (simp add: in_operation_def constant_defs)
  have empty: "tracked (demo_state w) k = None" "metric_log (demo_state w) = []" for w k
    by (simp_all add: tracked_def demo_state_def)
  from operations_accounted [OF inv, of mem_env "redkey_NamespacedName (demo 1 3 0)"
      "[(ClusterStatusScalingUp, PhaseConfiguring), (ClusterStatusUpgrading, PhaseConfiguring), (ClusterStatusReady, PhaseReady)]"]
  show ?thesis using begun empty by auto
qed

text \<open>The time to ready is sampled exactly on the observations where a cluster is ready and was
  not ready at the observation before, the first one counting as a change.\<close>

lemma ready_edges:
  "enter_all k ps s =
     (Inr (map2 (\<lambda>prev p. p = PhaseReady \<and> prev \<noteq> PhaseReady)
            ((case readyTracker_lastPhase s k of None \<Rightarrow> [] | Some p \<Rightarrow> p) # ps) ps),
      if ps = [] then s else s\<lparr>readyTracker_lastPhase := (readyTracker_lastPhase s)(k \<mapsto> last ps)\<rparr>)"
  by (rule enter_all_eq)

end
