(* ===== verification/Safety_Properties.thy ===== *)
theory Safety_Properties
  imports Panic_Freedom Metrics_Properties
begin

text \<open>
  Properties that hold of every run whatever the API server answers: no run-time panic, and statuses
  within the range of values that the metrics enumerate.
\<close>

section \<open>Lemmas\<close>

lemma computePhaseFromConditions_value: "computePhaseFromConditions e cs \<in> set redkeyPhaseValues"
  by (simp add: computePhaseFromConditions_def redkeyPhaseValues_def)

lemma written_status_range:
  "st_Phase (fst (aggregated_status e c g r w)) \<in> set redkeyPhaseValues"
  "st_Nodes (fst (aggregated_status e c g r w)) \<noteq> None"
  "st_Phase (fst (scaled_to_zero_status e r w)) \<in> set redkeyPhaseValues"
  "st_Nodes (fst (scaled_to_zero_status e r w)) \<noteq> None"
proof -
  obtain st w' where eq: "aggregated_status e c g r w = (st, w')" by fastforce
  then show "st_Phase (fst (aggregated_status e c g r w)) \<in> set redkeyPhaseValues"
    "st_Nodes (fst (aggregated_status e c g r w)) \<noteq> None"
    using computePhaseFromConditions_value
    by (auto elim!: aggregated_status_sel simp: emptyNodesIfNil_def split: option.splits)
qed (simp_all add: scaled_to_zero_status_def redkeyPhaseValues_def split: prod.splits)

lemma filter_eq_single: "distinct xs \<Longrightarrow> x \<in> set xs \<Longrightarrow> filter (\<lambda>y. y = x) xs = [x]"
  by (induction xs) (auto simp: filter_empty_conv)

lemma phase_one_hot:
  assumes "st_Phase (rk_Status cluster) \<in> set redkeyPhaseValues"
  shows "filter (\<lambda>x. cluster_series (snd (recordRedkeyMetrics e cluster ac s)) ''redkey_phase''
      (redkey_NamespacedName cluster) x = Some 1) redkeyPhaseValues = [st_Phase (rk_Status cluster)]"
proof -
  have "filter (\<lambda>x. cluster_series (snd (recordRedkeyMetrics e cluster ac s)) ''redkey_phase''
      (redkey_NamespacedName cluster) x = Some 1) redkeyPhaseValues =
      filter (\<lambda>x. x = st_Phase (rk_Status cluster)) redkeyPhaseValues"
    by (rule filter_cong [OF refl]) (simp add: record_series_own(1))
  also have "\<dots> = [st_Phase (rk_Status cluster)]"
    by (rule filter_eq_single [OF _ assms]) (simp add: redkeyPhaseValues_def PhaseReady_def PhaseConfiguring_def PhaseError_def)
  finally show ?thesis .
qed

lemma mem_client_calm: "client_calm (mem_client kd mk prj key upd init valid imm)"
  by (auto simp: client_calm_def calm_def mem_client_def api_error_def split: option.splits if_splits)

lemma mem_env_calm: "env_calm mem_env"
proof -
  have "calm (mem_get_redkey k)" "calm (mem_status_update r)" "calm (mem_list_configs ns lv)" for k r ns lv
    by (auto simp: calm_def mem_get_redkey_def mem_status_update_def mem_list_configs_def api_error_def Let_def
        split: option.splits if_splits)
  moreover have "mem_set_controller_reference owner m = Inl err \<Longrightarrow> \<not> is_panic err" for owner m err
    by (auto simp: mem_set_controller_reference_def api_error_def Let_def split: if_splits)
  ultimately show ?thesis
    unfolding env_calm_def mem_env_def cached_env_sel by (intro conjI allI impI mem_client_calm)
qed

lemma mem_env_retry: "retry_contract mem_env"
  unfolding mem_env_def by (rule cached.retry_contract_axioms)

lemma demo_state_log: "metric_log (demo_state w) = []"
  by (simp add: demo_state_def)

section \<open>Properties\<close>

text \<open>C15. With a client that does not panic itself, and a retry helper that returns the outcome of an
  attempt, \<^verbatim>\<open>Reconcile\<close> never panics, whatever objects and errors the server returns: the
  slices are indexed only where they are not empty. So every failing run is one returned error, counted
  under exactly one stage.\<close>

theorem reconcile_never_panics:
  assumes "env_calm e" "retry_contract e" "Reconcile e r req s = (res, s')"
  shows "\<exists>l. metric_log s' = metric_log s @ l \<and>
    (case res of
       Inl err \<Rightarrow> \<not> is_panic err \<and> list_ex (\<lambda>st. stage_errors l = [st]) stage_names
     | Inr _ \<Rightarrow> stage_errors l = [])"
proof -
  obtain l where l: "metric_log s' = metric_log s @ l" "counted_outcome res l"
    using countedE [OF counted_Reconcile assms(3)] .
  moreover have "\<not> is_panic err" if "res = Inl err" for err
    using calm_Reconcile [OF assms(1, 2), of r req] assms(3) that unfolding calm_def by blast
  ultimately show ?thesis
    by (auto simp: counted_outcome_def split: sum.splits intro!: exI [of _ l])
qed

theorem reconcile_never_panics_witness:
  "\<exists>l. metric_log (snd (Reconcile mem_env demo_reconciler \<lparr>nn_Namespace = ''ns'', nn_Name = ''demo''\<rparr>
         (demo_state (demo_store 1 3 0 [])))) = l \<and>
    (case fst (Reconcile mem_env demo_reconciler \<lparr>nn_Namespace = ''ns'', nn_Name = ''demo''\<rparr>
         (demo_state (demo_store 1 3 0 []))) of
       Inl err \<Rightarrow> \<not> is_panic err \<and> list_ex (\<lambda>st. stage_errors l = [st]) stage_names
     | Inr _ \<Rightarrow> stage_errors l = [])"
  using reconcile_never_panics [OF mem_env_calm mem_env_retry,
      of demo_reconciler "\<lparr>nn_Namespace = ''ns'', nn_Name = ''demo''\<rparr>" "demo_state (demo_store 1 3 0 [])"]
  by (metis append_Nil demo_state_log prod.collapse)

text \<open>C21. Every status the operator writes, by aggregation or when scaled to zero, has one of the
  three documented phases and a node map that is not nil, so the phase gauge recorded for it is one-hot:
  of the enumerated phases exactly the cluster's own has the value one.\<close>

theorem written_status_typed:
  "list_all (\<lambda>st.
     st_Phase st \<in> set redkeyPhaseValues \<and> st_Nodes st \<noteq> None \<and>
     filter (\<lambda>x. cluster_series (snd (recordRedkeyMetrics e (cluster\<lparr>rk_Status := st\<rparr>) ac s)) ''redkey_phase''
        (redkey_NamespacedName cluster) x = Some 1) redkeyPhaseValues = [st_Phase st])
   [fst (aggregated_status e c g cluster w), fst (scaled_to_zero_status e cluster w)]"
proof -
  have key: "redkey_NamespacedName (cluster\<lparr>rk_Status := st\<rparr>) = redkey_NamespacedName cluster" for st
    by (simp add: redkey_NamespacedName_def)
  have hot: "filter (\<lambda>x. cluster_series (snd (recordRedkeyMetrics e (cluster\<lparr>rk_Status := st\<rparr>) ac s)) ''redkey_phase''
      (redkey_NamespacedName cluster) x = Some 1) redkeyPhaseValues = [st_Phase st]"
    if "st_Phase st \<in> set redkeyPhaseValues" for st
    using phase_one_hot [of "cluster\<lparr>rk_Status := st\<rparr>" e ac s] that unfolding key by simp
  show ?thesis
    unfolding list.pred_inject
    by (intro conjI written_status_range hot) (simp_all add: written_status_range)
qed

end
