(* ===== verification/Operator_System.thy ===== *)
theory Operator_System
  imports Reconcile_System
begin

text \<open>
  The operator together with its environment: an \<open>inductive\<close> step relation in which the operator
  reconciles, Robin reports on configs, the user edits the Redkey within the admission rules, and
  anybody changes objects that are not the cluster's configs. The invariant shows that in every
  reachable state the configs of a cluster are well-formed snapshots in generation order and that
  the status never claims a generation for which there is no config.
\<close>

section \<open>Steps\<close>

text \<open>An edit of the Redkey by the user: the API server admits it, keeps the status, and increments
  the generation if and only if the specification changes.\<close>

definition user_edit :: "Redkey \<Rightarrow> Redkey \<Rightarrow> bool" where
  "user_edit old new \<longleftrightarrow>
     redkey_NamespacedName new = redkey_NamespacedName old \<and> rk_Status new = rk_Status old \<and>
     admit_update old new \<and> no_revision_annotation new \<and>
     om_Generation (rk_Meta new) = om_Generation (rk_Meta old) + (if rk_Spec new = rk_Spec old then 0 else 1) \<and>
     om_Generation (rk_Meta new) < 2 ^ 63"

text \<open>Robin's rules let it write the status of a config only.\<close>

definition robin_report :: "RedkeyConfig \<Rightarrow> RedkeyConfig \<Rightarrow> bool" where
  "robin_report c c' \<longleftrightarrow> meta_agrees (cf_Meta c) (cf_Meta c') \<and> cf_Spec c' = cf_Spec c"

text \<open>A change by others: the Redkey, the cluster's configs and the names reserved for them, and the
  selector of Robin's Deployment are as before; everything else may differ.\<close>

definition elsewhere :: "Redkey \<Rightarrow> (okey \<Rightarrow> Object option) \<Rightarrow> (okey \<Rightarrow> Object option) \<Rightarrow> bool" where
  "elsewhere cluster st st' \<longleftrightarrow>
     st' (redkey_okey cluster) = st (redkey_okey cluster) \<and>
     cluster_configs st' cluster = cluster_configs st cluster \<and>
     (\<forall>n \<ge> 1. let q = (KConfig, \<lparr>nn_Namespace = om_Namespace (rk_Meta cluster),
                                nn_Name = config_name (om_Name (rk_Meta cluster)) n\<rparr>) in st' q = st q) \<and>
     deployment_selector_ok st' cluster"

inductive system_step ::
    "'w env \<Rightarrow> ('w \<Rightarrow> okey \<Rightarrow> Object option) \<Rightarrow> RedkeyReconciler \<Rightarrow> NamespacedName \<Rightarrow>
     'w opstate \<Rightarrow> 'w opstate \<Rightarrow> bool"
  for e look r k where
  operator: "look (world s) (KRedkey, k) = Some (ORedkey cluster) \<Longrightarrow> sequence_room (look (world s)) cluster \<Longrightarrow>
    Reconcile e r k s = (res, s') \<Longrightarrow> system_step e look r k s s'"
| robin: "look (world s) (KConfig, q) = Some (OConfig c) \<Longrightarrow> robin_report c c' \<Longrightarrow>
    look w' = (look (world s))((KConfig, q) \<mapsto> OConfig c') \<Longrightarrow> system_step e look r k s (s\<lparr>world := w'\<rparr>)"
| user: "look (world s) (KRedkey, k) = Some (ORedkey old) \<Longrightarrow> user_edit old new \<Longrightarrow>
    look w' = (look (world s))((KRedkey, k) \<mapsto> ORedkey new) \<Longrightarrow> system_step e look r k s (s\<lparr>world := w'\<rparr>)"
| others: "look (world s) (KRedkey, k) = Some (ORedkey cluster) \<Longrightarrow>
    elsewhere cluster (look (world s)) (look w') \<Longrightarrow> system_step e look r k s (s\<lparr>world := w'\<rparr>)"

section \<open>Invariant\<close>

definition snapshot_of :: "Redkey \<Rightarrow> RedkeyConfig \<Rightarrow> bool" where
  "snapshot_of cluster c \<longleftrightarrow> config_generation c = Some (om_Generation (rk_Meta cluster)) \<and>
     cf_Spec c = cf_Spec (build_config cluster (seq_of c))"

definition generation_bounded :: "Redkey \<Rightarrow> RedkeyConfig \<Rightarrow> bool" where
  "generation_bounded cluster c \<longleftrightarrow>
     (\<exists>g. config_generation c = Some g \<and> (g < om_Generation (rk_Meta cluster) \<or> snapshot_of cluster c))"

definition generations_ok :: "(okey \<Rightarrow> Object option) \<Rightarrow> Redkey \<Rightarrow> bool" where
  "generations_ok st cluster \<longleftrightarrow>
     in_int64 (om_Generation (rk_Meta cluster)) \<and>
     st_ObservedGeneration (rk_Status cluster) \<le> om_Generation (rk_Meta cluster) \<and>
     (\<forall>c \<in> cluster_configs st cluster. generation_bounded cluster c) \<and>
     (\<forall>c \<in> cluster_configs st cluster. \<forall>d \<in> cluster_configs st cluster.
        seq_of c < seq_of d \<longrightarrow> the (config_generation c) < the (config_generation d)) \<and>
     (sp_Primaries (rk_Spec cluster) \<noteq> 0 \<and>
        st_ObservedGeneration (rk_Status cluster) = om_Generation (rk_Meta cluster) \<longrightarrow>
      (\<exists>c \<in> cluster_configs st cluster. snapshot_of cluster c))"

definition cluster_inv :: "(okey \<Rightarrow> Object option) \<Rightarrow> Redkey \<Rightarrow> bool" where
  "cluster_inv st cluster \<longleftrightarrow> reconcilable st cluster \<and> configs_wf st cluster \<and> generations_ok st cluster"

definition system_inv :: "('w \<Rightarrow> okey \<Rightarrow> Object option) \<Rightarrow> NamespacedName \<Rightarrow> 'w opstate \<Rightarrow> bool" where
  "system_inv look k s \<longleftrightarrow>
     (\<exists>cluster. look (world s) (KRedkey, k) = Some (ORedkey cluster) \<and> redkey_NamespacedName cluster = k \<and>
        cluster_inv (look (world s)) cluster)"

text \<open>A cluster just created: no generation observed, no configs, no foreign objects in the way.\<close>

definition created :: "('w \<Rightarrow> okey \<Rightarrow> Object option) \<Rightarrow> NamespacedName \<Rightarrow> 'w opstate \<Rightarrow> bool" where
  "created look k s \<longleftrightarrow>
     (\<exists>cluster. look (world s) (KRedkey, k) = Some (ORedkey cluster) \<and> redkey_NamespacedName cluster = k \<and>
        reconcilable (look (world s)) cluster \<and> configs_wf (look (world s)) cluster \<and>
        cluster_configs (look (world s)) cluster = {} \<and>
        om_Generation (rk_Meta cluster) = 1 \<and> st_ObservedGeneration (rk_Status cluster) = 0)"

text \<open>A recorded topology is never cleared.\<close>

definition topology_kept :: "RedkeyStatus \<Rightarrow> RedkeyStatus \<Rightarrow> bool" where
  "topology_kept st st' \<longleftrightarrow> (0 < st_LastAppliedPrimaries st \<longrightarrow> 0 < st_LastAppliedPrimaries st')"

section \<open>Lemmas on the invariant\<close>

lemma cluster_configs_same:
  "redkey_NamespacedName new = redkey_NamespacedName old \<Longrightarrow> cluster_configs st new = cluster_configs st old"
  by (simp add: cluster_configs_def redkey_NamespacedName_def)

lemma same_name:
  assumes "redkey_NamespacedName new = redkey_NamespacedName old"
  shows "om_Namespace (rk_Meta new) = om_Namespace (rk_Meta old)" "om_Name (rk_Meta new) = om_Name (rk_Meta old)"
  using assms by (simp_all add: redkey_NamespacedName_def)

lemma configs_wf_same:
  assumes "redkey_NamespacedName new = redkey_NamespacedName old"
  shows "configs_wf st new = configs_wf st old"
  unfolding configs_wf_def cluster_configs_same [OF assms] same_name [OF assms] by (rule refl)

lemma configs_wf_cong:
  assumes "\<And>k. st (KConfig, k) = st' (KConfig, k)"
  shows "configs_wf st cluster = configs_wf st' cluster"
  unfolding configs_wf_def cluster_configs_cong [of st st' cluster, OF assms] assms by (rule refl)

lemma deployment_selector_same:
  "redkey_NamespacedName new = redkey_NamespacedName old \<Longrightarrow>
     deployment_selector_ok st new = deployment_selector_ok st old"
  by (simp add: deployment_selector_ok_def robin_key_def robin_name_def robin_base_labels_def redkey_NamespacedName_def)

lemma generations_ok_D:
  assumes "generations_ok st cluster"
  shows "in_int64 (om_Generation (rk_Meta cluster))"
    "st_ObservedGeneration (rk_Status cluster) \<le> om_Generation (rk_Meta cluster)"
    "c \<in> cluster_configs st cluster \<Longrightarrow> generation_bounded cluster c"
    "c \<in> cluster_configs st cluster \<Longrightarrow> d \<in> cluster_configs st cluster \<Longrightarrow> seq_of c < seq_of d \<Longrightarrow>
       the (config_generation c) < the (config_generation d)"
    "sp_Primaries (rk_Spec cluster) \<noteq> 0 \<Longrightarrow>
       st_ObservedGeneration (rk_Status cluster) = om_Generation (rk_Meta cluster) \<Longrightarrow>
       \<exists>c \<in> cluster_configs st cluster. snapshot_of cluster c"
  using assms unfolding generations_ok_def by blast+

lemma snapshot_of_set_status [simp]: "snapshot_of (set_status cluster rv stt) c = snapshot_of cluster c"
  by (simp add: snapshot_of_def build_config_def Let_def)

lemma generation_bounded_set_status [simp]:
  "generation_bounded (set_status cluster rv stt) c = generation_bounded cluster c"
  by (simp add: generation_bounded_def)

lemma fresh_config_snapshot:
  assumes "fresh_config cluster n c" "in_int64 (om_Generation (rk_Meta cluster))"
  shows "snapshot_of cluster c"
proof -
  have "cf_Spec c = cf_Spec (build_config cluster n)" using assms(1) unfolding fresh_config_def by (elim conjE)
  then show ?thesis
    unfolding snapshot_of_def using fresh_config_generation [OF assms] fresh_config_sel(1) [OF assms(1)] by simp
qed

lemma generation_of_last:
  assumes "generations_ok st cluster" "set cfs = cluster_configs st cluster" "sorted (map seq_of cfs)"
    "inj_on seq_of (cluster_configs st cluster)" "c \<in> set cfs"
  shows "the (config_generation c) \<le> the (config_generation (last cfs))"
proof (cases "c = last cfs")
  case False
  have "last cfs \<in> set cfs" using assms(5) by (cases cfs) auto
  with False assms sorted_last_max [OF assms(3,5)] have "seq_of c < seq_of (last cfs)"
    by (metis inj_onD order_less_le)
  with generations_ok_D(4) [OF assms(1)] assms(2,5) \<open>last cfs \<in> set cfs\<close> show ?thesis by fastforce
qed simp

lemma generations_ok_shrink:
  assumes ok: "generations_ok st cluster" and sub: "cluster_configs st' cluster \<subseteq> cluster_configs st cluster"
    and obs: "st_ObservedGeneration stt \<le> om_Generation (rk_Meta cluster)"
    and snap: "sp_Primaries (rk_Spec cluster) \<noteq> 0 \<Longrightarrow> \<exists>c \<in> cluster_configs st' cluster. snapshot_of cluster c"
  shows "generations_ok st' (set_status cluster rv stt)"
proof -
  note D = generations_ok_D [OF ok]
  show ?thesis
    unfolding generations_ok_def set_status_configs snapshot_of_set_status generation_bounded_set_status set_status_sel
    using D(1) obs snap
    by (intro conjI ballI impI) (auto intro: D(3) D(4) dest: subsetD [OF sub])
qed

lemma generations_ok_extend:
  assumes ok: "generations_ok st cluster" and cfs: "set cfs = cluster_configs st cluster" "sorted (map seq_of cfs)"
    and inj: "inj_on seq_of (cluster_configs st cluster)" and wf: "configs_wf st cluster"
    and new: "fresh_config cluster (next_seq (highest cfs)) c"
    and older: "cfs \<noteq> [] \<Longrightarrow> the (config_generation (last cfs)) < om_Generation (rk_Meta cluster)"
    and sub: "cluster_configs st' cluster \<subseteq> insert c (set cfs)" "c \<in> cluster_configs st' cluster"
    and obs: "st_ObservedGeneration stt \<le> om_Generation (rk_Meta cluster)"
  shows "generations_ok st' (set_status cluster rv stt)"
proof -
  note D = generations_ok_D [OF ok]
  have c: "snapshot_of cluster c" by (rule fresh_config_snapshot [OF new D(1)])
  then have gc: "the (config_generation c) = om_Generation (rk_Meta cluster)" by (simp add: snapshot_of_def)
  have small: "the (config_generation d) < om_Generation (rk_Meta cluster)" if "d \<in> set cfs" for d
    using generation_of_last [OF ok cfs inj that] older that by fastforce
  have seq: "seq_of d < seq_of c" if "d \<in> set cfs" for d
    using next_seq_bounds(2) [OF wf cfs] that fresh_config_sel(1) [OF new] by simp
  have mono: "the (config_generation a) < the (config_generation b)"
    if "a \<in> insert c (set cfs)" "b \<in> insert c (set cfs)" "seq_of a < seq_of b" for a b
    using that seq [of b] small [of a] gc D(4) [of a b] unfolding cfs(1) by auto
  have bound: "generation_bounded cluster d" if "d \<in> insert c (set cfs)" for d
    using that D(3) [of d] c unfolding cfs(1) by (auto simp: generation_bounded_def snapshot_of_def)
  have snap: "\<exists>d \<in> cluster_configs st' cluster. snapshot_of cluster d" using c sub(2) by (rule bexI)
  show ?thesis
    unfolding generations_ok_def set_status_configs snapshot_of_set_status generation_bounded_set_status set_status_sel
    by (intro conjI ballI impI mono bound D(1) obs snap; (assumption | erule subsetD [OF sub(1)]))
qed

lemma bounded_generation:
  "generation_bounded cluster c \<Longrightarrow> the (config_generation c) \<le> om_Generation (rk_Meta cluster)"
  by (auto simp: generation_bounded_def snapshot_of_def)

lemma needs_config_older:
  assumes "generations_ok st cluster" "set cfs = cluster_configs st cluster" "needs_config cluster cfs" "cfs \<noteq> []"
  shows "the (config_generation (last cfs)) < om_Generation (rk_Meta cluster)"
proof -
  have "generation_bounded cluster (last cfs)"
    using generations_ok_D(3) [OF assms(1)] assms(2,4) last_in_set by blast
  moreover have "needsNewConfig cluster (Some (last cfs))" using assms(3,4) by (simp add: needs_config_def highest_def)
  ultimately show ?thesis by (auto simp: generation_bounded_def needsNewConfig_iff)
qed

lemma zero_request_older:
  assumes "generations_ok st cluster" "set cfs = cluster_configs st cluster" "cfs \<noteq> []"
    "sp_Primaries (rk_Spec cluster) = 0" "cs_Primaries (cf_Spec (last cfs)) \<noteq> 0"
  shows "the (config_generation (last cfs)) < om_Generation (rk_Meta cluster)"
proof -
  have "generation_bounded cluster (last cfs)"
    using generations_ok_D(3) [OF assms(1)] assms(2,3) last_in_set by blast
  moreover have "\<not> snapshot_of cluster (last cfs)"
  proof
    assume "snapshot_of cluster (last cfs)"
    then have "cf_Spec (last cfs) = cf_Spec (build_config cluster (seq_of (last cfs)))"
      by (simp add: snapshot_of_def)
    then have "cs_Primaries (cf_Spec (last cfs)) = sp_Primaries (rk_Spec cluster)"
      by (metis build_config_sel(2))
    with assms(4,5) show False by simp
  qed
  ultimately show ?thesis by (auto simp: generation_bounded_def)
qed

lemma settled_last_snapshot:
  assumes ok: "generations_ok st cluster" and cfs: "set cfs = cluster_configs st cluster" "sorted (map seq_of cfs)"
    and inj: "inj_on seq_of (cluster_configs st cluster)" and p: "sp_Primaries (rk_Spec cluster) \<noteq> 0"
    and settled: "\<not> needs_config cluster cfs"
  shows "snapshot_of cluster (last cfs)"
proof -
  have ne: "cfs \<noteq> []" and nn: "\<not> needsNewConfig cluster (Some (last cfs))"
    using settled by (auto simp: needs_config_def highest_def split: if_splits)
  then have bound: "generation_bounded cluster (last cfs)"
    using generations_ok_D(3) [OF ok] cfs(1) last_in_set by blast
  have "\<not> the (config_generation (last cfs)) < om_Generation (rk_Meta cluster)"
  proof (cases "st_ObservedGeneration (rk_Status cluster) < om_Generation (rk_Meta cluster)")
    case True
    with nn obtain g where "config_generation (last cfs) = Some g" "\<not> g < om_Generation (rk_Meta cluster)"
      by (auto simp: needsNewConfig_iff)
    then show ?thesis by simp
  next
    case False
    with generations_ok_D(2,5) [OF ok] p obtain c where "c \<in> cluster_configs st cluster" "snapshot_of cluster c"
      by force
    with generation_of_last [OF ok cfs inj, of c] cfs(1) show ?thesis by (simp add: snapshot_of_def)
  qed
  with bound show ?thesis by (auto simp: generation_bounded_def)
qed

lemma mirrored_kept: "mirrored e a g cluster stt \<Longrightarrow> topology_kept (rk_Status cluster) stt"
  by (auto simp: mirrored_def topology_kept_def split: if_splits)

lemma zero_status_kept: "zero_status e cluster stt \<Longrightarrow> topology_kept (rk_Status cluster) stt"
  by (simp add: zero_status_def topology_kept_def)

lemma set_status_self: "set_status cluster (om_ResourceVersion (rk_Meta cluster)) (rk_Status cluster) = cluster"
  by (simp add: set_status_def)

lemma configs_wf_insert:
  assumes wf: "configs_wf st cluster" and c: "fresh_config cluster n c" "1 \<le> n" "n < 2 ^ 63 - 1"
    and st': "\<And>k. st' (KConfig, k) = (if k = config_key c then Some (OConfig c) else st (KConfig, k))"
    and cc: "cluster_configs st' cluster = insert c (cluster_configs st cluster)"
  shows "configs_wf st' cluster"
proof -
  have "om_Name (cf_Meta d) = config_name (om_Name (rk_Meta cluster)) (seq_of d) \<and> 1 \<le> seq_of d \<and> seq_of d < 2 ^ 63 - 1"
    if "d \<in> cluster_configs st' cluster" for d
    using that configs_wf_D [OF wf, of d] fresh_config_sel(1,4) [OF c(1)] c(2,3) unfolding cc by auto
  moreover have "d \<in> cluster_configs st' cluster"
    if "1 \<le> m" "st' (KConfig, \<lparr>nn_Namespace = om_Namespace (rk_Meta cluster),
        nn_Name = config_name (om_Name (rk_Meta cluster)) m\<rparr>) = Some (OConfig d)" for m d
    using that wf [unfolded configs_wf_def] unfolding cc st' by (auto split: if_splits)
  ultimately show ?thesis unfolding configs_wf_def by blast
qed

context kube_objects
begin

lemma torn_down_wf:
  assumes "configs_wf (look w) cluster"
  shows "configs_wf ((torn_down (look w) cluster)(redkey_okey cluster \<mapsto> ob)) cluster"
proof -
  let ?q = "\<lambda>n. (KConfig, \<lparr>nn_Namespace = om_Namespace (rk_Meta cluster),
      nn_Name = config_name (om_Name (rk_Meta cluster)) n\<rparr>)"
  have "((torn_down (look w) cluster)(redkey_okey cluster \<mapsto> ob)) (?q n) \<noteq> Some (OConfig c)" if "1 \<le> n" for n c
  proof
    assume some: "((torn_down (look w) cluster)(redkey_okey cluster \<mapsto> ob)) (?q n) = Some (OConfig c)"
    then have st: "look w (?q n) = Some (OConfig c)" and out: "?q n \<notin> config_keys (look w) cluster"
      by (auto simp: torn_down_def redkey_okey_def split: if_splits)
    from st that assms have "c \<in> cluster_configs (look w) cluster" unfolding configs_wf_def by blast
    moreover have "?q n = (KConfig, config_key c)" using cf.stored [OF st] by auto
    ultimately show False using out unfolding config_keys_def by blast
  qed
  then show ?thesis unfolding configs_wf_def torn_down_configs by blast
qed

end

context kube_api
begin

lemma operator_normal:
  assumes inv: "cluster_inv (look (world s)) cluster" and room: "sequence_room (look (world s)) cluster"
    and p: "sp_Primaries (rk_Spec cluster) \<noteq> 0"
  obtains s' stt rv c where
    "Reconcile e r (redkey_NamespacedName cluster) s = (Inr \<lparr>res_RequeueAfter = rec_ResyncInterval r\<rparr>, s')"
    "look (world s') (redkey_okey cluster) = Some (ORedkey (set_status cluster rv stt))"
    "cluster_inv (look (world s')) (set_status cluster rv stt)" "topology_kept (rk_Status cluster) stt"
    "c \<in> cluster_configs (look (world s')) cluster" "snapshot_of cluster c"
    "\<forall>d \<in> cluster_configs (look (world s')) cluster. seq_of d \<le> seq_of c"
proof -
  from inv have rec: "reconcilable (look (world s)) cluster" and wf: "configs_wf (look (world s)) cluster"
    and ok: "generations_ok (look (world s)) cluster" by (simp_all add: cluster_inv_def)
  obtain cfs s' cfs' a stt rv where run:
    "listConfigs e cluster (world s) = (Inr cfs, world s)" "sorted (map seq_of cfs)"
    "set cfs = cluster_configs (look (world s)) cluster"
    "Reconcile e r (redkey_NamespacedName cluster) s = (Inr \<lparr>res_RequeueAfter = rec_ResyncInterval r\<rparr>, s')"
    "extended cluster cfs cfs'" "reconciled e cluster (look (world s)) cfs' a stt rv (look (world s'))"
    "sorted (map seq_of cfs')" "distinct (map config_key cfs')"
    by (rule reconcile_run [OF rec wf p])
  note rd = run(6) [unfolded reconciled_def]
  have inj: "inj_on seq_of (cluster_configs (look (world s)) cluster)" by (rule cluster_configs_unique [OF wf])
  have wf': "configs_wf (look (world s')) cluster"
    by (rule reconciled_wf [OF wf run(3,2,5,6) next_seq_room [OF wf run(3) room]])
  have cc: "cluster_configs (look (world s')) cluster = set (keep_configs cfs')" using rd by blast
  have ne: "cfs' \<noteq> []" by (rule extended_nonempty [OF run(5)])
  have last: "last cfs' \<in> set (keep_configs cfs')"
    using last_keep_configs [OF ne] last_in_set [OF keep_configs_nonempty [OF ne]] by simp
  have st: "mirrored e a (om_Generation (rk_Meta cluster)) cluster stt" using rd by blast
  have obs: "st_ObservedGeneration stt \<le> om_Generation (rk_Meta cluster)" using st by (simp add: mirrored_def)
  have both: "generations_ok (look (world s')) (set_status cluster rv stt) \<and> snapshot_of cluster (last cfs')"
  proof (cases "needs_config cluster cfs")
    case True
    with run(5) obtain c where c: "fresh_config cluster (next_seq (highest cfs)) c" "cfs' = cfs @ [c]"
      by (auto simp: extended_def)
    have "generations_ok (look (world s')) (set_status cluster rv stt)"
      using needs_config_older [OF ok run(3) True] set_keep_configs [of cfs'] last c(2) obs
      by (intro generations_ok_extend [OF ok run(3,2) inj wf c(1)]) (simp_all add: cc)
    with fresh_config_snapshot [OF c(1) generations_ok_D(1) [OF ok]] c(2) show ?thesis by simp
  next
    case False
    then have cfs': "cfs' = cfs" using run(5) by (simp add: extended_def)
    have snap: "snapshot_of cluster (last cfs)" by (rule settled_last_snapshot [OF ok run(3,2) inj p False])
    have "generations_ok (look (world s')) (set_status cluster rv stt)"
      using set_keep_configs [of cfs'] run(3) snap last obs unfolding cfs'
      by (intro generations_ok_shrink [OF ok]) (auto simp: cc cfs')
    with snap cfs' show ?thesis by simp
  qed
  have rec': "reconcilable (look (world s')) (set_status cluster rv stt)"
    using rec by (intro reconciled_after [OF run(6)]) (simp add: reconcilable_def)
  have high: "\<forall>d \<in> cluster_configs (look (world s')) cluster. seq_of d \<le> seq_of (last cfs')"
    using sorted_last_max [OF run(7)] set_keep_configs [of cfs'] unfolding cc by blast
  show thesis
    using that [OF run(4), of rv stt "last cfs'"] rd both rec' wf' high last mirrored_kept [OF st]
    by (simp add: cluster_inv_def cc)
qed

text \<open>The three outcomes of a reconcile at zero primaries that matter to the invariant.\<close>

lemma zero_request_inv:
  assumes inv: "cluster_inv (look (world s)) cluster" and room: "sequence_room (look (world s)) cluster"
    and p: "sp_Primaries (rk_Spec cluster) = 0"
    and l: "listConfigs e cluster (world s) = (Inr cfs, world s)" "cfs \<noteq> []"
    and last: "cs_Primaries (cf_Spec (last cfs)) \<noteq> 0"
  shows "\<exists>s' c. Reconcile e r (redkey_NamespacedName cluster) s = (Inr \<lparr>res_RequeueAfter = rec_ResyncInterval r\<rparr>, s') \<and>
    look (world s') (redkey_okey cluster) = Some (ORedkey cluster) \<and> cluster_inv (look (world s')) cluster \<and>
    fresh_config cluster (next_seq (highest cfs)) c \<and> cluster_configs (look (world s')) cluster = insert c (set cfs)"
proof -
  from inv have rec: "reconcilable (look (world s)) cluster" and wf: "configs_wf (look (world s)) cluster"
    and ok: "generations_ok (look (world s)) cluster" by (simp_all add: cluster_inv_def)
  note d = listConfigs_D [OF l(1)]
  have h: "highest cfs = Some (last cfs)" using l(2) by (simp add: highest_def)
  have red: "look (world s) (redkey_okey cluster) = Some (ORedkey cluster)" using rec by (simp add: reconcilable_def)
  have free: "look (world s) (KConfig, new_config_key cluster (Some (last cfs))) = None"
    using new_config_free [OF wf d(3,2)] h by simp
  obtain s1 c where run: "reconcileScaleToZero e r cluster s =
        (Inr (\<lparr>res_RequeueAfter = rec_ResyncInterval r\<rparr>, cluster), s1)"
      "deployment_selector_ok (look (world s1)) cluster" "fresh_config cluster (next_seq (highest cfs)) c"
      "look (world s1) (KConfig, new_config_key cluster (highest cfs)) = Some (OConfig c)"
      "\<forall>q. q \<notin> insert (KConfig, new_config_key cluster (highest cfs)) (robin_keys cluster) \<longrightarrow>
         look (world s1) q = look (world s) q"
    using scale_zero_request [OF rec l last free, of r] unfolding h by blast
  obtain s' where s': "Reconcile e r (redkey_NamespacedName cluster) s =
        (Inr \<lparr>res_RequeueAfter = rec_ResyncInterval r\<rparr>, s')" "look (world s') = look (world s1)"
    using Reconcile_zero [OF red p run(1)] by blast
  have key: "config_key c = new_config_key cluster (highest cfs)" by (rule fresh_config_key [OF run(3)])
  have look': "look (world s1) (KConfig, k) = (if k = config_key c then Some (OConfig c) else look (world s) (KConfig, k))" for k
    using run(4) run(5) [rule_format, of "(KConfig, k)"] okey_kinds(3) [of k cluster] unfolding key by auto
  have cc: "cluster_configs (look (world s1)) cluster = insert c (set cfs)"
    using list_after_create(2) [OF wf d(3,2) _ run(3), of "world s1"] d(4) look' unfolding key
    by (simp add: distinct_map)
  have "configs_wf (look (world s1)) cluster"
    using next_seq_bounds(1) [OF wf d(3,2)] next_seq_room [OF wf d(3) room] look'
    by (intro configs_wf_insert [OF wf run(3)]) (simp_all add: cc d(3))
  moreover have "generations_ok (look (world s1)) (set_status cluster (om_ResourceVersion (rk_Meta cluster)) (rk_Status cluster))"
    using zero_request_older [OF ok d(3) l(2) p last] generations_ok_D(2) [OF ok]
    by (intro generations_ok_extend [OF ok d(3,2) cluster_configs_unique [OF wf] wf run(3)]) (simp_all add: cc)
  moreover have red': "look (world s1) (redkey_okey cluster) = Some (ORedkey cluster)"
    using run(5) [rule_format, of "redkey_okey cluster"] red okey_kinds(1) [of cluster] by (simp add: redkey_okey_def)
  ultimately show ?thesis
    using s' run(2,3) rec cc
    by (intro exI [of _ s'] exI [of _ c]) (simp add: cluster_inv_def reconcilable_def set_status_self)
qed

lemma zero_waiting_inv:
  assumes inv: "cluster_inv (look (world s)) cluster" and p: "sp_Primaries (rk_Spec cluster) = 0"
    and l: "listConfigs e cluster (world s) = (Inr cfs, world s)" "cfs \<noteq> []"
    and last: "cs_Primaries (cf_Spec (last cfs)) = 0" "phase_of (last cfs) \<noteq> ConfigPhaseApplied"
  shows "\<exists>s' stt rv. Reconcile e r (redkey_NamespacedName cluster) s =
      (Inr \<lparr>res_RequeueAfter = rec_ResyncInterval r\<rparr>, s') \<and>
    look (world s') (redkey_okey cluster) = Some (ORedkey (set_status cluster rv stt)) \<and>
    cluster_inv (look (world s')) (set_status cluster rv stt) \<and> topology_kept (rk_Status cluster) stt"
proof -
  from inv have rec: "reconcilable (look (world s)) cluster" and wf: "configs_wf (look (world s)) cluster"
    and ok: "generations_ok (look (world s)) cluster" by (simp_all add: cluster_inv_def)
  obtain a where a: "selectActiveConfig cfs = Some a" using selectActiveConfig_total [OF l(2)] by blast
  obtain s' stt rv where run: "Reconcile e r (redkey_NamespacedName cluster) s =
      (Inr \<lparr>res_RequeueAfter = rec_ResyncInterval r\<rparr>, s')"
    "deployment_selector_ok (look (world s')) cluster" "mirrored e a (om_Generation (rk_Meta cluster)) cluster stt"
    "look (world s') (redkey_okey cluster) = Some (ORedkey (set_status cluster rv stt))"
    "\<forall>q. q \<notin> insert (redkey_okey cluster) (robin_keys cluster) \<longrightarrow> look (world s') q = look (world s) q"
    using zero_waiting [OF rec p l last a, of r] by blast
  have same: "look (world s') (KConfig, k) = look (world s) (KConfig, k)" for k
    using run(5) [rule_format, of "(KConfig, k)"] okey_kinds(3) [of k cluster] by (simp add: redkey_okey_def)
  have "configs_wf (look (world s')) cluster" using wf configs_wf_cong [of "look (world s')" "look (world s)", OF same] by simp
  moreover have "generations_ok (look (world s')) (set_status cluster rv stt)"
    using run(3) p cluster_configs_cong [of "look (world s')" "look (world s)" cluster, OF same]
    by (intro generations_ok_shrink [OF ok]) (simp_all add: mirrored_def)
  ultimately show ?thesis
    using run(1,2,4) mirrored_kept [OF run(3)] rec
    by (intro exI [of _ s'] exI [of _ stt] exI [of _ rv]) (simp add: cluster_inv_def reconcilable_def)
qed

lemma zero_settled_inv:
  assumes inv: "cluster_inv (look (world s)) cluster" and p: "sp_Primaries (rk_Spec cluster) = 0"
    and st: "zero_status e cluster stt"
    and look': "look (world s') = st'(redkey_okey cluster \<mapsto> ORedkey (set_status cluster rv stt))"
      "st' = look (world s) \<or> st' = torn_down (look (world s)) cluster"
  shows "cluster_inv (look (world s')) (set_status cluster rv stt)"
proof -
  from inv have rec: "reconcilable (look (world s)) cluster" and wf: "configs_wf (look (world s)) cluster"
    and ok: "generations_ok (look (world s)) cluster" by (simp_all add: cluster_inv_def)
  have "configs_wf (look (world s')) cluster"
    using look'(2)
  proof
    assume "st' = look (world s)"
    then show ?thesis using wf configs_wf_cong [of "look (world s')" "look (world s)" cluster]
      by (simp add: look'(1) redkey_okey_def)
  next
    assume "st' = torn_down (look (world s)) cluster"
    then show ?thesis using torn_down_wf [OF wf] by (simp add: look'(1))
  qed
  moreover have "cluster_configs (look (world s')) cluster \<subseteq> cluster_configs (look (world s)) cluster"
    using look'(2) torn_down_configs [of "look (world s)" cluster] by (auto simp: look'(1))
  then have "generations_ok (look (world s')) (set_status cluster rv stt)"
    using st p by (intro generations_ok_shrink [OF ok]) (simp_all add: zero_status_def)
  moreover have "deployment_selector_ok (look (world s')) cluster"
    using look'(2) rec
    by (auto simp: look'(1) deployment_selector_ok_def reconcilable_def torn_down_def robin_keys_def redkey_okey_def)
  ultimately show ?thesis using rec by (simp add: cluster_inv_def reconcilable_def look'(1))
qed

lemma operator_zero:
  assumes inv: "cluster_inv (look (world s)) cluster" and room: "sequence_room (look (world s)) cluster"
    and p: "sp_Primaries (rk_Spec cluster) = 0"
  shows "\<exists>s' stt rv. Reconcile e r (redkey_NamespacedName cluster) s =
      (Inr \<lparr>res_RequeueAfter = rec_ResyncInterval r\<rparr>, s') \<and>
    look (world s') (redkey_okey cluster) = Some (ORedkey (set_status cluster rv stt)) \<and>
    cluster_inv (look (world s')) (set_status cluster rv stt) \<and> topology_kept (rk_Status cluster) stt"
proof -
  have red: "look (world s) (redkey_okey cluster) = Some (ORedkey cluster)"
    using inv by (simp add: cluster_inv_def reconcilable_def)
  obtain cfs where l: "listConfigs e cluster (world s) = (Inr cfs, world s)" "set cfs = cluster_configs (look (world s)) cluster"
    by (rule listConfigs_ok)
  consider "cfs = []" | "cfs \<noteq> []" "cs_Primaries (cf_Spec (last cfs)) \<noteq> 0"
    | "cfs \<noteq> []" "cs_Primaries (cf_Spec (last cfs)) = 0" "phase_of (last cfs) \<noteq> ConfigPhaseApplied"
    | "cfs \<noteq> []" "cs_Primaries (cf_Spec (last cfs)) = 0" "phase_of (last cfs) = ConfigPhaseApplied"
    by blast
  then show ?thesis
  proof cases
    case 1
    with l(2) have none: "cluster_configs (look (world s)) cluster = {}" by simp
    from zero_settled [OF red p none, of r] obtain s' stt rv where run:
      "Reconcile e r (redkey_NamespacedName cluster) s = (Inr \<lparr>res_RequeueAfter = rec_ResyncInterval r\<rparr>, s')"
      "zero_status e cluster stt"
      "look (world s') = (look (world s))(redkey_okey cluster \<mapsto> ORedkey (set_status cluster rv stt))" by blast
    with zero_settled_inv [OF inv p run(2,3)] zero_status_kept [OF run(2)] show ?thesis by auto
  next
    case 2
    from zero_request_inv [OF inv room p l(1) 2, of r] set_status_self [of cluster] show ?thesis
      by (metis topology_kept_def)
  next
    case 3
    from zero_waiting_inv [OF inv p l(1) 3] show ?thesis .
  next
    case 4
    from zero_completed [OF red p l(1) 4, of r] obtain s' stt rv where run:
      "Reconcile e r (redkey_NamespacedName cluster) s = (Inr \<lparr>res_RequeueAfter = rec_ResyncInterval r\<rparr>, s')"
      "zero_status e cluster stt"
      "look (world s') = (torn_down (look (world s)) cluster)(redkey_okey cluster \<mapsto> ORedkey (set_status cluster rv stt))" by blast
    with zero_settled_inv [OF inv p run(2,3)] zero_status_kept [OF run(2)] show ?thesis by auto
  qed
qed

end

section \<open>Every step preserves the invariant\<close>

lemma robin_report_sel:
  assumes "robin_report c c'"
  shows "cf_Spec c' = cf_Spec c" "config_key c' = config_key c" "om_Namespace (cf_Meta c') = om_Namespace (cf_Meta c)"
    "om_Name (cf_Meta c') = om_Name (cf_Meta c)"
    "mget (om_Labels (cf_Meta c')) l = mget (om_Labels (cf_Meta c)) l"
    "config_generation c' = config_generation c"
  using assms by (simp_all add: robin_report_def meta_agrees_def meta_key_def config_generation_def)

lemma generations_ok_image:
  assumes ok: "generations_ok st cluster" and cc: "cluster_configs st' cluster = f ` cluster_configs st cluster"
    and f: "\<And>c. cf_Spec (f c) = cf_Spec c" "\<And>c. config_generation (f c) = config_generation c"
  shows "generations_ok st' cluster"
proof -
  note D = generations_ok_D [OF ok]
  have snap: "snapshot_of cluster (f c) = snapshot_of cluster c" for c by (simp add: snapshot_of_def f)
  have bound: "generation_bounded cluster (f c) = generation_bounded cluster c" for c
    by (simp add: generation_bounded_def f snap)
  show ?thesis
    unfolding generations_ok_def cc using D(1,2,3,5)
    by (auto simp: snap bound f intro: D(4))
qed

lemma generations_ok_edit:
  assumes ok: "generations_ok st old" and edit: "user_edit old new"
  shows "generations_ok st new"
proof -
  note D = generations_ok_D [OF ok]
  have same: "redkey_NamespacedName new = redkey_NamespacedName old" "rk_Status new = rk_Status old"
    using edit by (simp_all add: user_edit_def)
  note cc = cluster_configs_same [OF same(1), of st]
  show ?thesis
  proof (cases "rk_Spec new = rk_Spec old")
    case True
    with edit have gen: "om_Generation (rk_Meta new) = om_Generation (rk_Meta old)" by (simp add: user_edit_def)
    have "build_config new n = build_config old n" for n
      by (simp add: build_config_def True gen same_name [OF same(1)])
    then have snap: "snapshot_of new c = snapshot_of old c" for c by (simp add: snapshot_of_def gen)
    then have "generation_bounded new c = generation_bounded old c" for c by (simp add: generation_bounded_def gen)
    with ok snap show ?thesis by (simp add: generations_ok_def gen cc same(2) True)
  next
    case False
    with edit have gen: "om_Generation (rk_Meta new) = om_Generation (rk_Meta old) + 1"
      "om_Generation (rk_Meta new) < 2 ^ 63" by (simp_all add: user_edit_def)
    then have "in_int64 (om_Generation (rk_Meta new))" using D(1) by (simp add: in_int64_def)
    moreover have "generation_bounded new c" if "c \<in> cluster_configs st old" for c
      using D(3) [OF that] by (auto simp: generation_bounded_def snapshot_of_def gen)
    ultimately show ?thesis
      using D(2) by (auto simp: generations_ok_def gen cc same(2) intro: D(4))
  qed
qed

context kube_api
begin

lemma robin_configs:
  assumes c: "look w (KConfig, q) = Some (OConfig c)" "robin_report c c'"
    and w': "look w' = (look w)((KConfig, q) \<mapsto> OConfig c')"
  shows "cluster_configs (look w') cluster = (\<lambda>d. if d = c then c' else d) ` cluster_configs (look w) cluster"
    and "configs_wf (look w) cluster \<Longrightarrow> configs_wf (look w') cluster"
proof -
  let ?f = "\<lambda>d. if d = c then c' else d"
  note R = robin_report_sel [OF c(2)]
  have q: "config_key c = q" using cf.stored [OF c(1)] by auto
  have other: "d = c \<or> config_key d \<noteq> q" if "look w (KConfig, config_key d) = Some (OConfig d)" for d
    using that c(1) by auto
  show img: "cluster_configs (look w') cluster = ?f ` cluster_configs (look w) cluster"
  proof (intro equalityI subsetI)
    fix d assume d: "d \<in> cluster_configs (look w') cluster"
    show "d \<in> ?f ` cluster_configs (look w) cluster"
    proof (cases "config_key d = q")
      case True
      with d w' have "d = c'" by (simp add: cluster_configs_def)
      moreover from this d R c(1) q have "c \<in> cluster_configs (look w) cluster" by (simp add: cluster_configs_def)
      ultimately show ?thesis by force
    next
      case False
      with d w' q have "d \<in> cluster_configs (look w) cluster" "d \<noteq> c" by (auto simp: cluster_configs_def)
      then show ?thesis by force
    qed
  next
    fix x assume "x \<in> ?f ` cluster_configs (look w) cluster"
    then obtain d where d: "d \<in> cluster_configs (look w) cluster" "x = ?f d" by blast
    show "x \<in> cluster_configs (look w') cluster"
      using d other [OF cluster_configs_D(1) [OF d(1)]] R q
      by (auto simp: cluster_configs_def w' split: if_splits)
  qed
  assume wf: "configs_wf (look w) cluster"
  have "om_Name (cf_Meta d) = config_name (om_Name (rk_Meta cluster)) (seq_of d) \<and> 1 \<le> seq_of d \<and> seq_of d < 2 ^ 63 - 1"
    if "d \<in> cluster_configs (look w') cluster" for d
    using that configs_wf_D [OF wf] R unfolding img by (auto split: if_splits)
  moreover have "d \<in> cluster_configs (look w') cluster"
    if n: "1 \<le> n" and d: "look w' (KConfig, \<lparr>nn_Namespace = om_Namespace (rk_Meta cluster),
        nn_Name = config_name (om_Name (rk_Meta cluster)) n\<rparr>) = Some (OConfig d)" for n d
  proof -
    let ?k = "\<lparr>nn_Namespace = om_Namespace (rk_Meta cluster), nn_Name = config_name (om_Name (rk_Meta cluster)) n\<rparr>"
    have "\<exists>d0. look w (KConfig, ?k) = Some (OConfig d0) \<and> d = ?f d0"
    proof (cases "?k = q")
      case True
      with d c(1) w' show ?thesis by simp
    next
      case False
      with d w' have "look w (KConfig, ?k) = Some (OConfig d)" by simp
      moreover from cf.stored [OF this] False q have "d \<noteq> c" by auto
      ultimately show ?thesis by simp
    qed
    then obtain d0 where d0: "look w (KConfig, ?k) = Some (OConfig d0)" "d = ?f d0" by blast
    then have "d0 \<in> cluster_configs (look w) cluster" using wf n unfolding configs_wf_def by blast
    then show ?thesis unfolding img d0(2) by (rule imageI)
  qed
  ultimately show "configs_wf (look w') cluster" unfolding configs_wf_def by blast
qed

lemma redkey_name: "look w (KRedkey, k) = Some (ORedkey cluster) \<Longrightarrow> redkey_NamespacedName cluster = k"
  using redkey_stored by blast

lemma operator_inv:
  assumes inv: "cluster_inv (look (world s)) cluster" and room: "sequence_room (look (world s)) cluster"
  shows "\<exists>s' stt rv. Reconcile e r (redkey_NamespacedName cluster) s =
      (Inr \<lparr>res_RequeueAfter = rec_ResyncInterval r\<rparr>, s') \<and>
    look (world s') (redkey_okey cluster) = Some (ORedkey (set_status cluster rv stt)) \<and>
    cluster_inv (look (world s')) (set_status cluster rv stt) \<and> topology_kept (rk_Status cluster) stt"
proof (cases "sp_Primaries (rk_Spec cluster) = 0")
  case True
  then show ?thesis by (rule operator_zero [OF inv room])
next
  case False
  from operator_normal [OF inv room False, of r] show ?thesis by metis
qed

lemma robin_inv:
  assumes inv: "cluster_inv (look w) cluster" and c: "look w (KConfig, q) = Some (OConfig c)" "robin_report c c'"
    and w': "look w' = (look w)((KConfig, q) \<mapsto> OConfig c')"
  shows "cluster_inv (look w') cluster"
proof -
  note cfgs = robin_configs [OF c w', of cluster]
  have "generations_ok (look w') cluster"
    using inv robin_report_sel [OF c(2)]
    by (intro generations_ok_image [OF _ cfgs(1)]) (simp_all add: cluster_inv_def)
  moreover have "reconcilable (look w') cluster"
    using inv by (simp add: cluster_inv_def reconcilable_def deployment_selector_ok_def w' redkey_okey_def)
  ultimately show ?thesis using inv cfgs(2) by (simp add: cluster_inv_def)
qed

lemma user_inv:
  assumes inv: "cluster_inv (look w) old" and edit: "user_edit old new"
    and w': "look w' = (look w)(redkey_okey old \<mapsto> ORedkey new)"
  shows "cluster_inv (look w') new"
proof -
  have same: "redkey_NamespacedName new = redkey_NamespacedName old" using edit by (simp add: user_edit_def)
  have cfg: "look w' (KConfig, k) = look w (KConfig, k)" for k by (simp add: w' redkey_okey_def)
  have "configs_wf (look w') new"
    using inv configs_wf_same [OF same, of "look w'"] configs_wf_cong [of "look w'" "look w" old, OF cfg]
    by (simp add: cluster_inv_def)
  moreover have "generations_ok (look w) new" using inv generations_ok_edit [OF _ edit] by (simp add: cluster_inv_def)
  then have "generations_ok (look w') new"
    using cluster_configs_cong [of "look w'" "look w" new, OF cfg] by (simp add: generations_ok_def)
  moreover have "deployment_selector_ok (look w') old"
    using inv by (simp add: cluster_inv_def reconcilable_def deployment_selector_ok_def w' redkey_okey_def)
  then have "deployment_selector_ok (look w') new" by (simp add: deployment_selector_same [OF same])
  ultimately show ?thesis
    using edit same by (simp add: cluster_inv_def reconcilable_def user_edit_def w' redkey_okey_def)
qed

lemma others_inv:
  assumes inv: "cluster_inv st cluster" and other: "elsewhere cluster st st'"
  shows "cluster_inv st' cluster"
proof -
  have cc: "cluster_configs st' cluster = cluster_configs st cluster" using other by (simp add: elsewhere_def)
  have "configs_wf st' cluster"
    using inv other unfolding cluster_inv_def configs_wf_def cc elsewhere_def Let_def by auto
  moreover have "generations_ok st' cluster" using inv by (simp add: cluster_inv_def generations_ok_def cc)
  ultimately show ?thesis
    using inv other by (simp add: cluster_inv_def reconcilable_def elsewhere_def)
qed

lemma step_inv:
  assumes "system_step e look r k s s'" "system_inv look k s"
  shows "system_inv look k s' \<and>
    (\<forall>cluster cluster'. look (world s) (KRedkey, k) = Some (ORedkey cluster) \<longrightarrow>
       look (world s') (KRedkey, k) = Some (ORedkey cluster') \<longrightarrow> topology_kept (rk_Status cluster) (rk_Status cluster'))"
proof -
  from assms(2) obtain cluster where cl: "look (world s) (KRedkey, k) = Some (ORedkey cluster)"
      "redkey_NamespacedName cluster = k" "cluster_inv (look (world s)) cluster"
    by (auto simp: system_inv_def)
  have ok: "redkey_okey cluster = (KRedkey, k)" by (simp add: redkey_okey_def cl(2))
  from assms(1) show ?thesis
  proof (cases rule: system_step.cases)
    case (operator cl' res)
    with cl obtain stt rv where "look (world s') (KRedkey, k) = Some (ORedkey (set_status cluster rv stt))"
        "cluster_inv (look (world s')) (set_status cluster rv stt)" "topology_kept (rk_Status cluster) stt"
      using operator_inv [OF cl(3), of r] ok by auto
    with cl show ?thesis by (auto simp: system_inv_def)
  next
    case (robin q c c' w')
    with cl robin_inv [OF cl(3) robin(2,3,4)] show ?thesis by (auto simp: system_inv_def topology_kept_def)
  next
    case (user old new w')
    with cl have "user_edit cluster new" "look w' = (look (world s))(redkey_okey cluster \<mapsto> ORedkey new)"
      by (simp_all add: ok)
    with user cl user_inv [OF cl(3) this] show ?thesis
      by (auto simp: system_inv_def topology_kept_def user_edit_def)
  next
    case (others cl' w')
    with cl have ew: "elsewhere cluster (look (world s)) (look w')" by simp
    then have "look w' (KRedkey, k) = Some (ORedkey cluster)" using cl(1) by (simp add: elsewhere_def ok)
    with others(1) cl others_inv [OF cl(3) ew] show ?thesis by (auto simp: system_inv_def topology_kept_def)
  qed
qed

lemma created_inv: "created look k s \<Longrightarrow> system_inv look k s"
  by (auto simp: created_def system_inv_def cluster_inv_def generations_ok_def in_int64_def)

lemma reachable_inv: "(system_step e look r k)\<^sup>*\<^sup>* s0 s \<Longrightarrow> system_inv look k s0 \<Longrightarrow> system_inv look k s"
  by (induction rule: rtranclp_induct) (auto dest: step_inv)

lemma reachable_kept:
  assumes "(system_step e look r k)\<^sup>*\<^sup>* s s'" "system_inv look k s"
    and "look (world s) (KRedkey, k) = Some (ORedkey cluster)"
    and "look (world s') (KRedkey, k) = Some (ORedkey cluster')"
  shows "topology_kept (rk_Status cluster) (rk_Status cluster')"
  using assms
proof (induction arbitrary: cluster' rule: rtranclp_induct)
  case base
  then show ?case by (simp add: topology_kept_def)
next
  case (step t t')
  have "system_inv look k t" by (rule reachable_inv [OF step.hyps(1) step.prems(1)])
  then obtain mid where mid: "look (world t) (KRedkey, k) = Some (ORedkey mid)" by (auto simp: system_inv_def)
  with step_inv [OF step.hyps(2) \<open>system_inv look k t\<close>] step.prems(3) step.IH [OF step.prems(1,2) mid]
  show ?case by (simp add: topology_kept_def)
qed

end

end
