(* ===== verification/System_Properties.thy ===== *)
theory System_Properties
  imports Demo_Objects Operator_System
begin

text \<open>
  Properties of the operator in its environment: what holds in every state reachable from the
  creation of a cluster by reconciles, reports of Robin, edits of the user and changes by others.
\<close>

section \<open>A concrete run\<close>

abbreviation demo_key_name :: NamespacedName where
  "demo_key_name \<equiv> \<lparr>nn_Namespace = ''ns'', nn_Name = ''demo''\<rparr>"

abbreviation demo_step :: "mem opstate \<Rightarrow> mem opstate \<Rightarrow> bool" where
  "demo_step \<equiv> system_step mem_env mem_look demo_reconciler demo_key_name"

lemma demo_name [simp]: "redkey_NamespacedName (demo g p obs) = demo_key_name"
  by (simp add: redkey_NamespacedName_def)

lemma demo_created: "created mem_look demo_key_name (demo_state (demo_store 1 3 0 []))"
  using demo_reconcilable demo_wf [of "[]" 1 3 0]
  by (simp add: created_def demo_look demo_no_config)

lemma demo_edit: "demo_step (demo_state (demo_store 1 3 0 [])) (demo_state (demo_store 2 5 0 []))"
proof -
  have look: "mem_look (demo_store 2 5 0 []) = (mem_look (demo_store 1 3 0 []))((KRedkey, demo_key_name) \<mapsto> ORedkey (demo 2 5 0))"
    by (rule ext) (simp add: demo_look)
  have spec: "demo_spec 5 \<noteq> demo_spec 3" by (simp add: demo_spec_def)
  have edit: "user_edit (demo 1 3 0) (demo 2 5 0)"
    using spec by (simp add: user_edit_def admit_update_def spec_rules_def spec_transition_rules_def
        scale_from_zero_primaries_rule_def scale_from_zero_replicas_rule_def)
      (simp add: demo_spec_def constant_defs)
  have "demo_step (demo_state (demo_store 1 3 0 [])) ((demo_state (demo_store 1 3 0 []))\<lparr>world := demo_store 2 5 0 []\<rparr>)"
    by (rule system_step.user [OF _ edit]) (simp_all add: look demo_look)
  then show ?thesis by (simp add: demo_state_def)
qed




section \<open>Properties\<close>

text \<open>C3. In every state reachable from the creation of a cluster, its configs are named after their
  sequence numbers and no foreign object takes their names, each config was built for a generation the
  cluster has reached and in the order of the generations, the config of the current generation is a
  snapshot of the current specification, and the status claims the current generation of a cluster
  with primaries only if that config exists.\<close>

theorem reachable_configs_consistent:
  assumes "kube_api e look" and "created look k s0" and "(system_step e look r k)\<^sup>*\<^sup>* s0 s"
  shows "\<exists>cluster. look (world s) (KRedkey, k) = Some (ORedkey cluster) \<and>
    configs_wf (look (world s)) cluster \<and> generations_ok (look (world s)) cluster"
  using kube_api.reachable_inv [OF assms(1,3) kube_api.created_inv [OF assms(1,2)]]
  by (auto simp: system_inv_def cluster_inv_def)

theorem reachable_configs_consistent_witness:
  "\<exists>cluster. mem_look (demo_store 2 5 0 []) (KRedkey, demo_key_name) = Some (ORedkey cluster) \<and>
     generations_ok (mem_look (demo_store 2 5 0 [])) cluster"
  using reachable_configs_consistent [OF mem.kube_api_axioms demo_created r_into_rtranclp, OF demo_edit] by auto

text \<open>C2. No update is lost: from every reachable state of a cluster with primaries, whatever edits and
  reports came before, one reconcile leaves the config with the highest sequence number a snapshot of
  the current specification.\<close>

theorem no_update_lost:
  assumes "kube_api e look" and "created look k s0" and "(system_step e look r k)\<^sup>*\<^sup>* s0 s"
    and "look (world s) (KRedkey, k) = Some (ORedkey cluster)"
    and "sp_Primaries (rk_Spec cluster) \<noteq> 0" and "sequence_room (look (world s)) cluster"
  shows "\<exists>s' c. Reconcile e r k s = (Inr \<lparr>res_RequeueAfter = rec_ResyncInterval r\<rparr>, s') \<and>
    c \<in> cluster_configs (look (world s')) cluster \<and> snapshot_of cluster c \<and>
    (\<forall>d \<in> cluster_configs (look (world s')) cluster. seq_of d \<le> seq_of c)"
proof -
  have "system_inv look k s" by (rule kube_api.reachable_inv [OF assms(1,3) kube_api.created_inv [OF assms(1,2)]])
  with assms(4) have inv: "cluster_inv (look (world s)) cluster" and k: "redkey_NamespacedName cluster = k"
    by (simp_all add: system_inv_def)
  obtain s' stt rv c where
    "Reconcile e r (redkey_NamespacedName cluster) s = (Inr \<lparr>res_RequeueAfter = rec_ResyncInterval r\<rparr>, s')"
    "look (world s') (redkey_okey cluster) = Some (ORedkey (set_status cluster rv stt))"
    "cluster_inv (look (world s')) (set_status cluster rv stt)" "topology_kept (rk_Status cluster) stt"
    "c \<in> cluster_configs (look (world s')) cluster" "snapshot_of cluster c"
    "\<forall>d \<in> cluster_configs (look (world s')) cluster. seq_of d \<le> seq_of c"
    by (rule kube_api.operator_normal [OF assms(1) inv assms(6,5)])
  then show ?thesis unfolding k by blast
qed

theorem no_update_lost_witness:
  "\<exists>s' c. Reconcile mem_env demo_reconciler demo_key_name (demo_state (demo_store 2 5 0 [])) =
      (Inr \<lparr>res_RequeueAfter = rec_ResyncInterval demo_reconciler\<rparr>, s') \<and>
    c \<in> cluster_configs (mem_look (world s')) (demo 2 5 0) \<and> snapshot_of (demo 2 5 0) c"
proof -
  have look: "mem_look (world (demo_state (demo_store 2 5 0 []))) (KRedkey, demo_key_name) = Some (ORedkey (demo 2 5 0))"
    by (simp add: demo_look)
  have room: "sequence_room (mem_look (world (demo_state (demo_store 2 5 0 [])))) (demo 2 5 0)"
    by (simp add: sequence_room_def demo_no_config)
  have p: "sp_Primaries (rk_Spec (demo 2 5 0)) \<noteq> 0" by simp
  show ?thesis
    using no_update_lost [OF mem.kube_api_axioms demo_created r_into_rtranclp look p room, OF demo_edit] by blast
qed



end
