(* ===== verification/Rollout.thy ===== *)
theory Rollout
  imports Operator_System
begin

text \<open>
  Roll-outs: what the operator and Robin do together while nobody edits the Redkey. Robin moves a
  config forward (pending, in progress, applied or superseded); the operator creates a config when one is
  due and removes old ones. Every change of the configs strictly decreases the natural number
  \<open>work\<close>, so that only finitely many changes happen.
\<close>

section \<open>Steps and their measure\<close>

definition phase_rank :: "string \<Rightarrow> nat" where
  "phase_rank ph = (if isTerminalConfigPhase ph then 0 else if ph = ConfigPhaseInProgress then 1 else 2)"

definition robin_progress :: "RedkeyConfig \<Rightarrow> RedkeyConfig \<Rightarrow> bool" where
  "robin_progress c c' \<longleftrightarrow> robin_report c c' \<and> phase_rank (phase_of c') < phase_rank (phase_of c)"

inductive rollout_step ::
    "'w env \<Rightarrow> ('w \<Rightarrow> okey \<Rightarrow> Object option) \<Rightarrow> RedkeyReconciler \<Rightarrow> NamespacedName \<Rightarrow>
     'w opstate \<Rightarrow> 'w opstate \<Rightarrow> bool"
  for e look r k where
  reconcile: "look (world s) (KRedkey, k) = Some (ORedkey cluster) \<Longrightarrow> sequence_room (look (world s)) cluster \<Longrightarrow>
    Reconcile e r k s = (res, s') \<Longrightarrow> rollout_step e look r k s s'"
| progress: "look (world s) (KRedkey, k) = Some (ORedkey cluster) \<Longrightarrow> c \<in> cluster_configs (look (world s)) cluster \<Longrightarrow>
    robin_progress c c' \<Longrightarrow> look w' = (look (world s))((KConfig, config_key c) \<mapsto> OConfig c') \<Longrightarrow>
    rollout_step e look r k s (s\<lparr>world := w'\<rparr>)"

text \<open>Whether the next reconcile creates a config.\<close>

definition due :: "Redkey \<Rightarrow> RedkeyConfig list \<Rightarrow> bool" where
  "due cluster cfs =
     (if sp_Primaries (rk_Spec cluster) = 0 then cfs \<noteq> [] \<and> cs_Primaries (cf_Spec (last cfs)) \<noteq> 0
      else needs_config cluster cfs)"

definition load_of :: "RedkeyConfig list \<Rightarrow> nat" where
  "load_of cfs = sum_list (map (\<lambda>c. Suc (phase_rank (phase_of c))) cfs)"

definition work :: "Redkey \<Rightarrow> RedkeyConfig list \<Rightarrow> nat" where
  "work cluster cfs = (if due cluster cfs then 4 else 0) + load_of cfs"

definition work_at :: "'w env \<Rightarrow> ('w \<Rightarrow> okey \<Rightarrow> Object option) \<Rightarrow> NamespacedName \<Rightarrow> 'w opstate \<Rightarrow> nat" where
  "work_at e look k s =
     (case look (world s) (KRedkey, k) of
        Some (ORedkey cluster) \<Rightarrow>
          (case listConfigs e cluster (world s) of (Inr cfs, _) \<Rightarrow> work cluster cfs | _ \<Rightarrow> 0)
      | _ \<Rightarrow> 0)"

definition configs_at :: "('w \<Rightarrow> okey \<Rightarrow> Object option) \<Rightarrow> NamespacedName \<Rightarrow> 'w opstate \<Rightarrow> RedkeyConfig set" where
  "configs_at look k s =
     (case look (world s) (KRedkey, k) of
        Some (ORedkey cluster) \<Rightarrow> cluster_configs (look (world s)) cluster | _ \<Rightarrow> {})"

section \<open>Lemmas\<close>

lemma load_of_simps [simp]:
  "load_of [] = 0" "load_of (c # cs) = Suc (phase_rank (phase_of c)) + load_of cs"
  "load_of (cs @ ds) = load_of cs + load_of ds"
  by (simp_all add: load_of_def)

lemma length_load_of: "length cs \<le> load_of cs"
  by (induction cs) simp_all

lemma load_of_new: "fresh_config cluster n c \<Longrightarrow> load_of [c] = 3"
  by (simp add: fresh_config_sel phase_rank_def isTerminalConfigPhase_def constant_defs)

lemma load_of_keep: "load_of (keep_configs cs) < load_of cs \<or> keep_configs cs = cs"
proof (cases "drop_configs cs = []")
  case True
  with drop_keep_configs [of cs] show ?thesis by simp
next
  case False
  then have "0 < load_of (drop_configs cs)" using length_load_of [of "drop_configs cs"] by (cases "drop_configs cs") simp_all
  moreover have "load_of cs = load_of (drop_configs cs) + load_of (keep_configs cs)"
    using load_of_simps(3) [of "drop_configs cs" "keep_configs cs"] by (simp add: drop_keep_configs)
  ultimately show ?thesis by simp
qed

lemma load_of_replace:
  assumes "distinct cs" "c \<in> set cs" "phase_rank (phase_of c') < phase_rank (phase_of c)"
  shows "load_of (map (\<lambda>d. if d = c then c' else d) cs) < load_of cs"
  using assms
proof (induction cs)
  case (Cons d cs)
  show ?case
  proof (cases "d = c")
    case True
    with Cons.prems have "map (\<lambda>d. if d = c then c' else d) cs = cs" by (intro map_idI) auto
    with True Cons.prems(3) show ?thesis by simp
  next
    case False
    with Cons.prems have "c \<in> set cs" "distinct cs" by auto
    with Cons.IH Cons.prems(3) False show ?thesis by simp
  qed
qed simp

lemma due_report:
  assumes "\<And>d. cf_Spec (f d) = cf_Spec d" "\<And>d. config_generation (f d) = config_generation d"
  shows "due cluster (map f cs) = due cluster cs"
  using assms by (cases "cs = []") (auto simp: due_def needs_config_def highest_def needsNewConfig_iff last_map)

text \<open>A sequence of natural numbers that never grows falls at most as often as its start says.\<close>

lemma falls_bounded:
  fixes g :: "nat \<Rightarrow> nat"
  assumes "\<And>i. g (Suc i) \<le> g i"
  shows "finite {i. g (Suc i) < g i} \<and> card {i. g (Suc i) < g i} \<le> g 0"
proof -
  have bound: "card {i. i < n \<and> g (Suc i) < g i} + g n \<le> g 0" for n
  proof (induction n)
    case (Suc n)
    have "{i. i < Suc n \<and> g (Suc i) < g i} = {i. i < n \<and> g (Suc i) < g i} \<union> (if g (Suc n) < g n then {n} else {})"
      by (auto simp: less_Suc_eq)
    then have "card {i. i < Suc n \<and> g (Suc i) < g i} \<le>
        card {i. i < n \<and> g (Suc i) < g i} + (if g (Suc n) < g n then 1 else 0)"
      using card_Un_le [of "{i. i < n \<and> g (Suc i) < g i}" "if g (Suc n) < g n then {n} else {}"] by (simp split: if_splits)
    with Suc assms [of n] show ?case by (simp split: if_splits)
  qed simp
  show ?thesis
  proof (rule finite_if_finite_subsets_card_bdd)
    fix G assume G: "G \<subseteq> {i. g (Suc i) < g i}" "finite G"
    define n where "n = Suc (Max (insert 0 G))"
    have "i < n" if "i \<in> G" for i
      unfolding n_def less_Suc_eq_le using that G(2) by (intro Max_ge) simp_all
    with G(1) have "G \<subseteq> {i. i < n \<and> g (Suc i) < g i}" by auto
    then have "card G \<le> card {i. i < n \<and> g (Suc i) < g i}" by (intro card_mono) simp_all
    with bound [of n] show "card G \<le> g 0" by simp
  qed
qed

context kube_api
begin

lemma work_normal:
  assumes inv: "cluster_inv (look (world s)) cluster" and room: "sequence_room (look (world s)) cluster"
    and p: "sp_Primaries (rk_Spec cluster) \<noteq> 0" and l: "listConfigs e cluster (world s) = (Inr cfs, world s)"
  shows "\<exists>res s' cluster' cfs'. Reconcile e r (redkey_NamespacedName cluster) s = (res, s') \<and>
    look (world s') (redkey_okey cluster) = Some (ORedkey cluster') \<and>
    redkey_NamespacedName cluster' = redkey_NamespacedName cluster \<and>
    listConfigs e cluster' (world s') = (Inr cfs', world s') \<and>
    (work cluster' cfs' < work cluster cfs \<or> cfs' = cfs \<and> work cluster' cfs' = work cluster cfs)"
proof -
  from inv have rec: "reconcilable (look (world s)) cluster" and wf: "configs_wf (look (world s)) cluster"
    by (simp_all add: cluster_inv_def)
  obtain cfs0 s' cfs' a stt rv where run:
    "listConfigs e cluster (world s) = (Inr cfs0, world s)" "sorted (map seq_of cfs0)"
    "set cfs0 = cluster_configs (look (world s)) cluster"
    "Reconcile e r (redkey_NamespacedName cluster) s = (Inr \<lparr>res_RequeueAfter = rec_ResyncInterval r\<rparr>, s')"
    "extended cluster cfs0 cfs'" "reconciled e cluster (look (world s)) cfs' a stt rv (look (world s'))"
    "sorted (map seq_of cfs')" "distinct (map config_key cfs')"
    by (rule reconcile_run [OF rec wf p])
  from l run(1) have cfs0: "cfs0 = cfs" by simp
  note rd = run(6) [unfolded reconciled_def]
  have wf': "configs_wf (look (world s')) cluster"
    by (rule reconciled_wf [OF wf run(3,2,5,6) next_seq_room [OF wf run(3) room]])
  let ?c' = "set_status cluster rv stt"
  have l': "listConfigs e ?c' (world s') = (Inr (keep_configs cfs'), world s')"
    using rd distinct_keep_configs [OF run(8)] sorted_keep_configs [OF run(7)] cluster_configs_unique [OF wf']
    by (intro listConfigs_unique) (simp_all add: distinct_map)
  have ne: "keep_configs cfs' \<noteq> []" by (rule keep_configs_nonempty [OF extended_nonempty [OF run(5)]])
  have "mirrored e a (om_Generation (rk_Meta cluster)) cluster stt" using rd by blast
  from not_needed_after [OF this ne] p have "\<not> due ?c' (keep_configs cfs')" by (simp add: due_def)
  then have w': "work ?c' (keep_configs cfs') = load_of (keep_configs cfs')" by (simp add: work_def)
  have less: "work ?c' (keep_configs cfs') < work cluster cfs \<or>
      keep_configs cfs' = cfs \<and> work ?c' (keep_configs cfs') = work cluster cfs"
  proof (cases "needs_config cluster cfs")
    case True
    with run(5) obtain c where c: "fresh_config cluster (next_seq (highest cfs)) c" "cfs' = cfs @ [c]"
      by (auto simp: extended_def cfs0)
    have "load_of (keep_configs cfs') \<le> load_of cfs'" using load_of_keep [of cfs'] by auto
    also have "\<dots> = load_of cfs + 3" using load_of_new [OF c(1)] by (simp add: c(2))
    finally show ?thesis using True p unfolding w' by (simp add: work_def due_def)
  next
    case False
    then have "cfs' = cfs" using run(5) by (simp add: extended_def cfs0)
    with load_of_keep [of cfs] False p show ?thesis unfolding w' by (auto simp: work_def due_def)
  qed
  show ?thesis
    using run(4) rd l' less
    by (intro exI [of _ "Inr \<lparr>res_RequeueAfter = rec_ResyncInterval r\<rparr>"] exI [of _ s'] exI [of _ ?c']
        exI [of _ "keep_configs cfs'"]) simp
qed

text \<open>The same for a cluster that is to be scaled to zero.\<close>

lemma zero_configs:
  assumes inv: "cluster_inv (look (world s)) cluster" and room: "sequence_room (look (world s)) cluster"
    and p: "sp_Primaries (rk_Spec cluster) = 0" and l: "listConfigs e cluster (world s) = (Inr cfs, world s)"
  shows "\<exists>res s'. Reconcile e r (redkey_NamespacedName cluster) s = (res, s') \<and>
    (cluster_configs (look (world s')) cluster = set cfs \<and> \<not> due cluster cfs \<or>
     cluster_configs (look (world s')) cluster = {} \<and> cfs \<noteq> [] \<or>
     (\<exists>c. cluster_configs (look (world s')) cluster = insert c (set cfs) \<and>
        fresh_config cluster (next_seq (highest cfs)) c \<and> due cluster cfs))"
proof -
  from inv have rec: "reconcilable (look (world s)) cluster" by (simp add: cluster_inv_def)
  then have red: "look (world s) (redkey_okey cluster) = Some (ORedkey cluster)" by (simp add: reconcilable_def)
  note d = listConfigs_D [OF l]
  consider "cfs = []" | "cfs \<noteq> []" "cs_Primaries (cf_Spec (last cfs)) \<noteq> 0"
    | "cfs \<noteq> []" "cs_Primaries (cf_Spec (last cfs)) = 0" "phase_of (last cfs) \<noteq> ConfigPhaseApplied"
    | "cfs \<noteq> []" "cs_Primaries (cf_Spec (last cfs)) = 0" "phase_of (last cfs) = ConfigPhaseApplied"
    by blast
  then show ?thesis
  proof cases
    case 1
    with d(3) have none: "cluster_configs (look (world s)) cluster = {}" by simp
    from zero_settled [OF red p none, of r] obtain s' stt rv where
      "Reconcile e r (redkey_NamespacedName cluster) s = (Inr \<lparr>res_RequeueAfter = rec_ResyncInterval r\<rparr>, s')"
      "look (world s') = (look (world s))(redkey_okey cluster \<mapsto> ORedkey (set_status cluster rv stt))" by blast
    with none 1 p show ?thesis by (simp add: due_def)
  next
    case 2
    from zero_request_inv [OF inv room p l 2, of r] 2 p show ?thesis by (auto simp: due_def)
  next
    case 3
    obtain a where a: "selectActiveConfig cfs = Some a" using selectActiveConfig_total [OF 3(1)] by blast
    obtain s' where run: "Reconcile e r (redkey_NamespacedName cluster) s =
        (Inr \<lparr>res_RequeueAfter = rec_ResyncInterval r\<rparr>, s')"
      "\<forall>q. q \<notin> insert (redkey_okey cluster) (robin_keys cluster) \<longrightarrow> look (world s') q = look (world s) q"
      using zero_waiting [OF rec p l 3 a, of r] by blast
    have "look (world s') (KConfig, k) = look (world s) (KConfig, k)" for k
      using run(2) [rule_format, of "(KConfig, k)"] okey_kinds(3) [of k cluster] by (simp add: redkey_okey_def)
    from cluster_configs_cong [of "look (world s')" "look (world s)" cluster, OF this] run(1) d(3) 3 p
    show ?thesis by (simp add: due_def)
  next
    case 4
    from zero_completed [OF red p l 4, of r] obtain s' stt rv where
      "Reconcile e r (redkey_NamespacedName cluster) s = (Inr \<lparr>res_RequeueAfter = rec_ResyncInterval r\<rparr>, s')"
      "look (world s') = (torn_down (look (world s)) cluster)(redkey_okey cluster \<mapsto> ORedkey (set_status cluster rv stt))" by blast
    with torn_down_configs [of "look (world s)" cluster] 4(1) show ?thesis by simp
  qed
qed

lemma work_zero:
  assumes inv: "cluster_inv (look (world s)) cluster" and room: "sequence_room (look (world s)) cluster"
    and p: "sp_Primaries (rk_Spec cluster) = 0" and l: "listConfigs e cluster (world s) = (Inr cfs, world s)"
  shows "\<exists>res s' cluster' cfs'. Reconcile e r (redkey_NamespacedName cluster) s = (res, s') \<and>
    look (world s') (redkey_okey cluster) = Some (ORedkey cluster') \<and>
    redkey_NamespacedName cluster' = redkey_NamespacedName cluster \<and>
    listConfigs e cluster' (world s') = (Inr cfs', world s') \<and>
    (work cluster' cfs' < work cluster cfs \<or> cfs' = cfs \<and> work cluster' cfs' = work cluster cfs)"
proof -
  obtain s' stt rv where run: "Reconcile e r (redkey_NamespacedName cluster) s =
      (Inr \<lparr>res_RequeueAfter = rec_ResyncInterval r\<rparr>, s')"
    "look (world s') (redkey_okey cluster) = Some (ORedkey (set_status cluster rv stt))"
    "cluster_inv (look (world s')) (set_status cluster rv stt)"
    using operator_zero [OF inv room p, of r] by blast
  let ?c' = "set_status cluster rv stt"
  from inv have wf: "configs_wf (look (world s)) cluster" by (simp add: cluster_inv_def)
  have inj: "inj_on seq_of (cluster_configs (look (world s')) ?c')"
    using cluster_configs_unique [of "look (world s')" ?c'] run(3) by (simp add: cluster_inv_def)
  note d = listConfigs_D [OF l]
  have dist: "distinct cfs" using d(4) by (simp add: distinct_map)
  from zero_configs [OF inv room p l, of r] run(1) consider
      "cluster_configs (look (world s')) cluster = set cfs" "\<not> due cluster cfs"
    | "cluster_configs (look (world s')) cluster = {}" "cfs \<noteq> []"
    | c where "cluster_configs (look (world s')) cluster = insert c (set cfs)"
        "fresh_config cluster (next_seq (highest cfs)) c" "due cluster cfs"
    by auto
  then have "\<exists>cfs'. listConfigs e ?c' (world s') = (Inr cfs', world s') \<and>
      (work ?c' cfs' < work cluster cfs \<or> cfs' = cfs \<and> work ?c' cfs' = work cluster cfs)"
  proof cases
    case 1
    have "listConfigs e ?c' (world s') = (Inr cfs, world s')"
      by (rule listConfigs_unique [OF _ d(2) dist inj]) (simp add: 1)
    with 1(2) p show ?thesis by (intro exI [of _ cfs]) (simp add: work_def due_def)
  next
    case 2
    have "listConfigs e ?c' (world s') = (Inr [], world s')"
      by (rule listConfigs_unique [OF _ _ _ inj]) (simp_all add: 2)
    moreover have "0 < load_of cfs" using length_load_of [of cfs] 2(2) by (cases cfs) simp_all
    ultimately show ?thesis using p by (intro exI [of _ "[]"]) (simp add: work_def due_def)
  next
    case 3
    note new = next_seq_bounds(2) [OF wf d(3,2)] fresh_config_sel(1,2) [OF 3(2)]
    have "listConfigs e ?c' (world s') = (Inr (cfs @ [c]), world s')"
      using new d(2,3) dist by (intro listConfigs_unique [OF _ _ _ inj]) (auto simp: 3 sorted_append less_imp_le)
    with 3(3) load_of_new [OF 3(2)] new(3) p show ?thesis
      by (intro exI [of _ "cfs @ [c]"]) (simp add: work_def due_def)
  qed
  with run(1,2) show ?thesis by auto
qed

lemma work_progress:
  assumes inv: "cluster_inv (look w) cluster" and c: "c \<in> cluster_configs (look w) cluster" "robin_progress c c'"
    and w': "look w' = (look w)((KConfig, config_key c) \<mapsto> OConfig c')"
    and l: "listConfigs e cluster w = (Inr cfs, w)"
  shows "\<exists>cfs'. listConfigs e cluster w' = (Inr cfs', w') \<and> work cluster cfs' < work cluster cfs"
proof -
  define f where "f d = (if d = c then c' else d)" for d
  have rep: "robin_report c c'" and rank: "phase_rank (phase_of c') < phase_rank (phase_of c)"
    using c(2) by (simp_all add: robin_progress_def)
  note sel = robin_report_sel [OF rep]
  have same: "cf_Spec (f d) = cf_Spec d" "config_generation (f d) = config_generation d" for d
    using sel by (simp_all add: f_def)
  note d = listConfigs_D [OF l]
  from inv have wf: "configs_wf (look w) cluster" by (simp add: cluster_inv_def)
  have inj: "inj_on seq_of (set cfs)" using cluster_configs_unique [OF wf] d(3) by simp
  have dist: "distinct cfs" using d(4) by (simp add: distinct_map)
  have seqs: "map seq_of (map f cfs) = map seq_of cfs" by (simp add: same)
  have "distinct (map seq_of (map f cfs))" unfolding seqs using inj dist by (simp add: distinct_map)
  then have dist': "distinct (map f cfs)" by (simp only: distinct_map)
  have stored: "look w (KConfig, config_key c) = Some (OConfig c)" by (rule cluster_configs_D [OF c(1)])
  have cc: "cluster_configs (look w') cluster = f ` set cfs"
    using robin_configs(1) [OF stored rep w'] unfolding f_def d(3) .
  have inj': "inj_on seq_of (cluster_configs (look w') cluster)"
    by (rule cluster_configs_unique [OF robin_configs(2) [OF stored rep w' wf]])
  have "listConfigs e cluster w' = (Inr (map f cfs), w')"
    using d(2) by (intro listConfigs_unique [OF _ _ dist' inj']) (simp_all add: cc same o_def)
  moreover have "load_of (map f cfs) < load_of cfs"
    using load_of_replace [OF dist _ rank] c(1) d(3) unfolding f_def by simp
  ultimately show ?thesis by (auto simp: work_def due_report [of f, OF same])
qed

lemma rollout_system: "rollout_step e look r k s s' \<Longrightarrow> system_step e look r k s s'"
  by (induction rule: rollout_step.induct)
    (auto simp: robin_progress_def intro: system_step.intros dest: cluster_configs_D)

lemma rollout_work:
  assumes step: "rollout_step e look r k s s'" and inv: "system_inv look k s"
  shows "work_at e look k s' < work_at e look k s \<or>
    configs_at look k s' = configs_at look k s \<and> work_at e look k s' = work_at e look k s"
  using step
proof cases
  case (reconcile cluster res)
  from inv reconcile(1) have ci: "redkey_NamespacedName cluster = k" "cluster_inv (look (world s)) cluster"
    by (auto simp: system_inv_def)
  obtain cfs where l: "listConfigs e cluster (world s) = (Inr cfs, world s)" by (rule listConfigs_ok)
  obtain cluster' cfs' where after: "look (world s') (KRedkey, k) = Some (ORedkey cluster')"
      "redkey_NamespacedName cluster' = k" "listConfigs e cluster' (world s') = (Inr cfs', world s')"
      "work cluster' cfs' < work cluster cfs \<or> cfs' = cfs \<and> work cluster' cfs' = work cluster cfs"
    using work_normal [OF ci(2) reconcile(2) _ l, of r] work_zero [OF ci(2) reconcile(2) _ l, of r] reconcile(3) ci(1)
    by (cases "sp_Primaries (rk_Spec cluster) = 0") (auto simp: redkey_okey_def)
  have "work_at e look k s = work cluster cfs" "work_at e look k s' = work cluster' cfs'"
    by (simp_all add: work_at_def reconcile(1) l after)
  moreover have "configs_at look k s = set cfs" "configs_at look k s' = set cfs'"
    using listConfigs_D(3) [OF l] listConfigs_D(3) [OF after(3)] by (simp_all add: configs_at_def reconcile(1) after(1))
  ultimately show ?thesis using after(4) by auto
next
  case (progress cluster c c' w')
  from inv progress(2) have ci: "cluster_inv (look (world s)) cluster" by (auto simp: system_inv_def)
  obtain cfs where l: "listConfigs e cluster (world s) = (Inr cfs, world s)" by (rule listConfigs_ok)
  obtain cfs' where "listConfigs e cluster w' = (Inr cfs', w')" "work cluster cfs' < work cluster cfs"
    using work_progress [OF ci progress(3,4,5) l] by blast
  moreover have "look w' (KRedkey, k) = Some (ORedkey cluster)" using progress(2,5) by simp
  ultimately show ?thesis by (simp add: work_at_def progress(1,2) l)
qed

text \<open>Along a run without edits the configs change at most as often as the work at its start says.\<close>

lemma rollout_bounded:
  assumes steps: "\<And>i. f (Suc i) = f i \<or> rollout_step e look r k (f i) (f (Suc i))"
    and inv: "system_inv look k (f 0)"
  shows "finite {i. configs_at look k (f (Suc i)) \<noteq> configs_at look k (f i)}"
    and "card {i. configs_at look k (f (Suc i)) \<noteq> configs_at look k (f i)} \<le> work_at e look k (f 0)"
proof -
  let ?g = "\<lambda>i. work_at e look k (f i)"
  have inv_i: "system_inv look k (f i)" for i
  proof (induction i)
    case (Suc i)
    from steps [of i] step_inv [OF rollout_system Suc] Suc show ?case by metis
  qed (rule inv)
  have fall: "?g (Suc i) < ?g i \<or>
      configs_at look k (f (Suc i)) = configs_at look k (f i) \<and> ?g (Suc i) = ?g i" for i
    using steps [of i] rollout_work [OF _ inv_i] by metis
  have falls: "finite {i. ?g (Suc i) < ?g i} \<and> card {i. ?g (Suc i) < ?g i} \<le> ?g 0"
    by (rule falls_bounded) (use fall in \<open>fastforce intro: less_imp_le\<close>)
  have sub: "{i. configs_at look k (f (Suc i)) \<noteq> configs_at look k (f i)} \<subseteq> {i. ?g (Suc i) < ?g i}"
    using fall by blast
  show "finite {i. configs_at look k (f (Suc i)) \<noteq> configs_at look k (f i)}"
    using sub falls by (meson finite_subset)
  show "card {i. configs_at look k (f (Suc i)) \<noteq> configs_at look k (f i)} \<le> ?g 0"
    using card_mono [OF _ sub] falls by linarith
qed

text \<open>Once Robin has applied the newest config, one reconcile makes it the only one and reports it.\<close>

lemma keep_last_applied: "cs \<noteq> [] \<Longrightarrow> phase_of (last cs) = ConfigPhaseApplied \<Longrightarrow> keep_configs cs = [last cs]"
proof (induction cs rule: keep_configs.induct)
  case (2 c cs)
  show ?case
  proof (cases "cs = []")
    case False
    then have "list_ex (\<lambda>d. phase_of d = ConfigPhaseApplied) cs"
      using 2(3) last_in_set [of cs] by (auto simp: list_ex_iff)
    with 2 False show ?thesis by simp
  qed simp
qed simp

lemma applied_reported:
  assumes inv: "cluster_inv (look (world s)) cluster" and p: "sp_Primaries (rk_Spec cluster) \<noteq> 0"
    and c: "c \<in> cluster_configs (look (world s)) cluster" "\<forall>d \<in> cluster_configs (look (world s)) cluster. seq_of d \<le> seq_of c"
      "phase_of c = ConfigPhaseApplied" "\<not> needs_config cluster [c]"
  shows "\<exists>s' rv stt. Reconcile e r (redkey_NamespacedName cluster) s =
      (Inr \<lparr>res_RequeueAfter = rec_ResyncInterval r\<rparr>, s') \<and>
    look (world s') (redkey_okey cluster) = Some (ORedkey (set_status cluster rv stt)) \<and>
    cluster_configs (look (world s')) cluster = {c} \<and>
    mirrored e c (om_Generation (rk_Meta cluster)) cluster stt"
proof -
  from inv have rec: "reconcilable (look (world s)) cluster" and wf: "configs_wf (look (world s)) cluster"
    by (simp_all add: cluster_inv_def)
  obtain cfs s' cfs' a stt rv where run:
    "listConfigs e cluster (world s) = (Inr cfs, world s)" "sorted (map seq_of cfs)"
    "set cfs = cluster_configs (look (world s)) cluster"
    "Reconcile e r (redkey_NamespacedName cluster) s = (Inr \<lparr>res_RequeueAfter = rec_ResyncInterval r\<rparr>, s')"
    "extended cluster cfs cfs'" "reconciled e cluster (look (world s)) cfs' a stt rv (look (world s'))"
    by (rule reconcile_run [OF rec wf p])
  have ne: "cfs \<noteq> []" using c(1) run(3) by auto
  have "last cfs \<in> set cfs" using ne by simp
  then have "seq_of (last cfs) = seq_of c"
    using sorted_last_max [OF run(2), of c] c(1,2) run(3) by (intro antisym) simp_all
  then have last: "last cfs = c"
    using cluster_configs_unique [OF wf] c(1) \<open>last cfs \<in> set cfs\<close> run(3) by (auto dest: inj_onD)
  have "\<not> needs_config cluster cfs" using c(4) ne last by (simp add: needs_config_def highest_def)
  with run(5) have "cfs' = cfs" by (simp add: extended_def)
  then have keep: "keep_configs cfs' = [c]" using keep_last_applied [OF ne] c(3) last by simp
  have "a = c" using run(6) by (simp add: reconciled_def keep selectActiveConfig_def)
  with run(4,6) show ?thesis by (auto simp: reconciled_def keep)
qed

text \<open>A reconcile, Robin's report that it has applied the newest config, and a second reconcile.\<close>

lemma reported_ready:
  assumes inv: "cluster_inv (look (world s)) cluster" and p: "sp_Primaries (rk_Spec cluster) \<noteq> 0"
    and c: "c \<in> cluster_configs (look (world s)) cluster" "\<forall>d \<in> cluster_configs (look (world s)) cluster. seq_of d \<le> seq_of c"
      "config_generation c = Some (om_Generation (rk_Meta cluster))"
    and rep: "robin_report c c'" "phase_of c' = ConfigPhaseApplied" "ct_Status (cf_Status c') \<noteq> ClusterPhaseError"
    and w: "look w = (look (world s))((KConfig, config_key c) \<mapsto> OConfig c')"
  shows "\<exists>s' rv stt. Reconcile e r (redkey_NamespacedName cluster) (s\<lparr>world := w\<rparr>) =
      (Inr \<lparr>res_RequeueAfter = rec_ResyncInterval r\<rparr>, s') \<and>
    look (world s') (redkey_okey cluster) = Some (ORedkey (set_status cluster rv stt)) \<and>
    cluster_configs (look (world s')) cluster = {c'} \<and>
    st_Phase stt = PhaseReady \<and> st_ObservedGeneration stt = om_Generation (rk_Meta cluster)"
proof -
  have stored: "look (world s) (KConfig, config_key c) = Some (OConfig c)" by (rule cluster_configs_D [OF c(1)])
  note sel = robin_report_sel [OF rep(1)] and cc = robin_configs(1) [OF stored rep(1) w, of cluster]
  have inv': "cluster_inv (look w) cluster" by (rule robin_inv [OF inv stored rep(1) w])
  have c': "c' \<in> cluster_configs (look w) cluster" "\<forall>d \<in> cluster_configs (look w) cluster. seq_of d \<le> seq_of c'"
    using c(1,2) sel(1) by (auto simp: cc)
  have "\<not> needs_config cluster [c']" using c(3) sel(6) by (simp add: needs_config_def highest_def needsNewConfig_iff)
  with applied_reported [of "s\<lparr>world := w\<rparr>" cluster c' r] inv' p c' rep(2)
  obtain s' rv stt where run: "Reconcile e r (redkey_NamespacedName cluster) (s\<lparr>world := w\<rparr>) =
      (Inr \<lparr>res_RequeueAfter = rec_ResyncInterval r\<rparr>, s')"
    "look (world s') (redkey_okey cluster) = Some (ORedkey (set_status cluster rv stt))"
    "cluster_configs (look (world s')) cluster = {c'}" "mirrored e c' (om_Generation (rk_Meta cluster)) cluster stt"
    by auto
  then have "st_Phase stt = PhaseReady" "st_ObservedGeneration stt = om_Generation (rk_Meta cluster)"
    using rep(2,3) by (simp_all add: mirrored_def phase_of_config_def isTerminalConfigPhase_def)
  with run(1,2,3) show ?thesis by blast
qed

end

end
