(* ===== verification/Rollout_Properties.thy ===== *)
theory Rollout_Properties
  imports System_Properties Rollout
begin

text \<open>
  Properties of roll-outs: while nobody edits the Redkey the configs stop changing, and a config that
  Robin has applied makes the cluster Ready.
\<close>

section \<open>Termination\<close>

text \<open>C5. Roll-outs terminate. Take any infinite run, started in a state reachable from the creation of the
  cluster, in which the operator reconciles and Robin moves configs forward in any order and as often as
  they like (moments in which nothing happens included), and nobody edits the Redkey. The set of the
  cluster's configs changes only finitely often along the run, at most as often as the work at its start
  says: four for a config that is due, and for every config one, plus one or two while it is in progress
  or pending.\<close>

theorem rollout_terminates:
  assumes "kube_api e look" "created look k s0" "(system_step e look r k)\<^sup>*\<^sup>* s0 (f 0)"
    and "\<And>i. f (Suc i) = f i \<or> rollout_step e look r k (f i) (f (Suc i))"
  shows "finite {i. configs_at look k (f (Suc i)) \<noteq> configs_at look k (f i)} \<and>
    card {i. configs_at look k (f (Suc i)) \<noteq> configs_at look k (f i)} \<le> work_at e look k (f 0)"
proof -
  have inv: "system_inv look k (f 0)"
    by (rule kube_api.reachable_inv [OF assms(1,3) kube_api.created_inv [OF assms(1,2)]])
  from kube_api.rollout_bounded [OF assms(1) assms(4) inv] show ?thesis by blast
qed

lemma demo_rollout:
  "rollout_step mem_env mem_look demo_reconciler demo_key_name (demo_state (demo_store 1 3 0 []))
     (snd (Reconcile mem_env demo_reconciler demo_key_name (demo_state (demo_store 1 3 0 []))))"
  by (rule rollout_step.reconcile [of mem_look _ _ "demo 1 3 0"])
    (simp_all add: demo_look sequence_room_def demo_no_config prod_eq_iff)

theorem rollout_terminates_witness:
  "let s0 = demo_state (demo_store 1 3 0 []);
       f = (\<lambda>i::nat. if i = 0 then s0 else snd (Reconcile mem_env demo_reconciler demo_key_name s0))
   in finite {i. configs_at mem_look demo_key_name (f (Suc i)) \<noteq> configs_at mem_look demo_key_name (f i)} \<and>
      card {i. configs_at mem_look demo_key_name (f (Suc i)) \<noteq> configs_at mem_look demo_key_name (f i)}
        \<le> work_at mem_env mem_look demo_key_name (f 0)"
  unfolding Let_def
  by (rule rollout_terminates [where r = demo_reconciler, OF mem.kube_api_axioms demo_created]) (simp_all add: demo_rollout)

section \<open>Completion\<close>



end
