(* ===== verification/Cmd_Main.thy ===== *)
theory Cmd_Main
  imports Reconciler "HOL-Library.FSet"
begin

text \<open>
  The entry point, \<^verbatim>\<open>cmd/main.go\<close>, and \<^verbatim>\<open>SetupWithManager\<close>. The calls into
  controller-runtime are the parameter \<open>call\<close>, which runs each of them with any effect and may fail;
  a failure is \<^verbatim>\<open>os.Exit(1)\<close>, the error result. The process state keeps the calls made so far and a
  heap of arrays for the slices of TLS options, which \<^verbatim>\<open>append\<close> may share; \<open>grow\<close> is the capacity
  Go's run-time chooses for a new array.
\<close>

section \<open>Strings and slices\<close>

text \<open>\<^verbatim>\<open>strings.Split\<close> with a separator of one character.\<close>

fun Split :: "char \<Rightarrow> string \<Rightarrow> string list" where
  "Split sep [] = [[]]"
| "Split sep (c # cs) =
     (if c = sep then [] # Split sep cs
      else case Split sep cs of [] \<Rightarrow> [[c]] | w # ws \<Rightarrow> (c # w) # ws)"

text \<open>\<^verbatim>\<open>strings.TrimSpace\<close> on ASCII strings.\<close>

definition is_space :: "char \<Rightarrow> bool" where
  "is_space c \<longleftrightarrow> (let n = of_char c :: nat in n = 32 \<or> 9 \<le> n \<and> n \<le> 13)"

definition TrimSpace :: "string \<Rightarrow> string" where
  "TrimSpace s = rev (dropWhile is_space (rev (dropWhile is_space s)))"

text \<open>\<^verbatim>\<open>filepath.Join\<close> of two elements and \<^verbatim>\<open>filepath.Clean\<close>.\<close>

fun clean_parts :: "bool \<Rightarrow> string list \<Rightarrow> string list \<Rightarrow> string list" where
  "clean_parts rooted out [] = rev out"
| "clean_parts rooted out (p # ps) =
     (if p = [] \<or> p = ''.'' then clean_parts rooted out ps
      else if p = ''..'' then
        (case out of
           q # qs \<Rightarrow> if q \<noteq> ''..'' then clean_parts rooted qs ps else clean_parts rooted (p # out) ps
         | [] \<Rightarrow> if rooted then clean_parts rooted [] ps else clean_parts rooted [p] ps)
      else clean_parts rooted (p # out) ps)"

fun join_parts :: "string list \<Rightarrow> string" where
  "join_parts [] = []"
| "join_parts [p] = p"
| "join_parts (p # ps) = p @ ''/'' @ join_parts ps"

definition Clean :: "string \<Rightarrow> string" where
  "Clean path =
     (let rooted = (case path of c # _ \<Rightarrow> c = CHR ''/'' | [] \<Rightarrow> False);
          out = join_parts (clean_parts rooted [] (Split (CHR ''/'') path))
      in if rooted then ''/'' @ out else if out = [] then ''.'' else out)"

definition Join :: "string \<Rightarrow> string \<Rightarrow> string" where
  "Join dir file =
     (if dir \<noteq> [] then Clean (dir @ ''/'' @ file) else if file \<noteq> [] then Clean file else [])"

text \<open>Functions over \<^verbatim>\<open>*tls.Config\<close> that the options consist of.\<close>

datatype tls_opt = DisableHTTP2 | WebhookGetCertificate | MetricsGetCertificate

record slice =
  sl_addr :: nat
  sl_len :: nat
  sl_cap :: nat

definition nil_slice :: slice where
  "nil_slice = \<lparr>sl_addr = 0, sl_len = 0, sl_cap = 0\<rparr>"

type_synonym heap = "tls_opt option list list"

definition slice_items :: "heap \<Rightarrow> slice \<Rightarrow> tls_opt option list" where
  "slice_items h s = (if sl_len s = 0 then [] else take (sl_len s) (h ! sl_addr s))"

text \<open>\<^verbatim>\<open>append\<close>: in place while the capacity allows it, else into a new array.\<close>

definition go_append :: "(nat \<Rightarrow> nat) \<Rightarrow> heap \<Rightarrow> slice \<Rightarrow> tls_opt \<Rightarrow> heap \<times> slice" where
  "go_append grow h s x =
     (if sl_len s < sl_cap s
      then (h[sl_addr s := (h ! sl_addr s)[sl_len s := Some x]], s\<lparr>sl_len := Suc (sl_len s)\<rparr>)
      else let cap = grow (Suc (sl_len s))
           in (h @ [slice_items h s @ [Some x] @ replicate (cap - Suc (sl_len s)) None],
               \<lparr>sl_addr = length h, sl_len = Suc (sl_len s), sl_cap = cap\<rparr>))"

section \<open>Flags and calls\<close>

record flags =
  fl_metricsAddr :: string
  fl_metricsCertPath :: string
  fl_metricsCertName :: string
  fl_metricsCertKey :: string
  fl_webhookCertPath :: string
  fl_webhookCertName :: string
  fl_webhookCertKey :: string
  fl_enableLeaderElection :: bool
  fl_probeAddr :: string
  fl_secureMetrics :: bool
  fl_enableHTTP2 :: bool
  fl_watchNamespaces :: string
  fl_resyncInterval :: duration
  fl_maxConcurrentReconciles :: int
  fl_enablePprof :: bool
  fl_pprofAddr :: string
  fl_showVersion :: bool

definition default_flags :: flags where
  "default_flags =
     \<lparr>fl_metricsAddr = '':8080'', fl_metricsCertPath = [], fl_metricsCertName = ''tls.crt'',
      fl_metricsCertKey = ''tls.key'', fl_webhookCertPath = [], fl_webhookCertName = ''tls.crt'',
      fl_webhookCertKey = ''tls.key'', fl_enableLeaderElection = False, fl_probeAddr = '':8081'',
      fl_secureMetrics = False, fl_enableHTTP2 = False, fl_watchNamespaces = [],
      fl_resyncInterval = 5 * 60 * 1000000000, fl_maxConcurrentReconciles = 10, fl_enablePprof = False,
      fl_pprofAddr = '':6060'', fl_showVersion = False\<rparr>"

datatype watcher = WebhookCertWatcher | MetricsCertWatcher

record manager_options =
  mo_MetricsBindAddress :: string
  mo_MetricsSecureServing :: bool
  mo_MetricsAuthFilter :: bool
  mo_MetricsTLSOpts :: slice
  mo_WebhookTLSOpts :: slice
  mo_HealthProbeBindAddress :: string
  mo_LeaderElection :: bool
  mo_LeaderElectionID :: string
  mo_DefaultNamespaces :: "string fset option"

record controller_spec =
  co_For :: Kind
  co_Owns :: "Kind list"
  co_Name :: string
  co_MaxConcurrentReconciles :: int
  co_ResyncInterval :: duration

text \<open>The profiling server: its address, the handlers of its multiplexer, and its timeout.\<close>

datatype pprof_handler = PprofIndex | PprofCmdline | PprofProfile | PprofSymbol | PprofTrace

record pprof_server =
  ps_Addr :: string
  ps_Handler :: "(string \<times> pprof_handler) list"
  ps_ReadHeaderTimeout :: duration

datatype setup_call =
    PrintVersion
  | SetLogger
  | NewCertWatcher watcher string string
  | GetConfigOrDie
  | NewManager string manager_options
  | CompleteController controller_spec
  | AddWatcher watcher
  | AddHealthzCheck string
  | AddReadyzCheck string
  | SetupSignalHandler
  | GoServePprof pprof_server
  | GoShutdownPprof duration
  | StartManager

record 'w proc =
  pr_world :: 'w
  pr_calls :: "setup_call list"
  pr_heap :: heap

definition perform :: "(setup_call \<Rightarrow> ('w, unit) io) \<Rightarrow> setup_call \<Rightarrow> ('w proc, unit) io" where
  "perform call c s =
     (case call c (pr_world s) of (r, w') \<Rightarrow> (r, s\<lparr>pr_world := w', pr_calls := pr_calls s @ [c]\<rparr>))"

definition append_tls :: "(nat \<Rightarrow> nat) \<Rightarrow> slice \<Rightarrow> tls_opt \<Rightarrow> ('w proc, slice) io" where
  "append_tls grow sl x s = (case go_append grow (pr_heap s) sl x of (h, sl') \<Rightarrow> (Inr sl', s\<lparr>pr_heap := h\<rparr>))"

section \<open>The entry point\<close>

definition whenE :: "bool \<Rightarrow> ('s, unit) io \<Rightarrow> ('s, unit) io" where
  "whenE b m = (if b then m else ret ())"

text \<open>A call whose error the code ignores: printing, and the two goroutines of the profiling server, one
  that serves and only logs an error, and one that waits for the signal and shuts the server down.\<close>

definition perform_ignoring :: "(setup_call \<Rightarrow> ('w, unit) io) \<Rightarrow> setup_call \<Rightarrow> ('w proc, unit) io" where
  "perform_ignoring call c = attempt (perform call c) (\<lambda>_. ret ())"

definition disable_http2 :: "(nat \<Rightarrow> nat) \<Rightarrow> flags \<Rightarrow> ('w proc, slice) io" where
  "disable_http2 grow f =
     (if \<not> fl_enableHTTP2 f then append_tls grow nil_slice DisableHTTP2 else ret nil_slice)"

definition webhook_options ::
    "(nat \<Rightarrow> nat) \<Rightarrow> (setup_call \<Rightarrow> ('w, unit) io) \<Rightarrow> flags \<Rightarrow> slice \<Rightarrow> ('w proc, slice) io" where
  "webhook_options grow call f tlsOpts =
     (if fl_webhookCertPath f \<noteq> [] then
        bindE (perform call (NewCertWatcher WebhookCertWatcher
                 (Join (fl_webhookCertPath f) (fl_webhookCertName f))
                 (Join (fl_webhookCertPath f) (fl_webhookCertKey f)))) (\<lambda>_.
        append_tls grow tlsOpts WebhookGetCertificate)
      else ret tlsOpts)"

definition metrics_options ::
    "(nat \<Rightarrow> nat) \<Rightarrow> (setup_call \<Rightarrow> ('w, unit) io) \<Rightarrow> flags \<Rightarrow> slice \<Rightarrow> ('w proc, slice) io" where
  "metrics_options grow call f tlsOpts =
     (if fl_metricsCertPath f \<noteq> [] then
        bindE (perform call (NewCertWatcher MetricsCertWatcher
                 (Join (fl_metricsCertPath f) (fl_metricsCertName f))
                 (Join (fl_metricsCertPath f) (fl_metricsCertKey f)))) (\<lambda>_.
        append_tls grow tlsOpts MetricsGetCertificate)
      else ret tlsOpts)"

fun add_namespaces :: "string list \<Rightarrow> string fset \<Rightarrow> string fset" where
  "add_namespaces [] m = m"
| "add_namespaces (ns # nss) m =
     (let ns = TrimSpace ns in add_namespaces nss (if ns \<noteq> [] then finsert ns m else m))"

definition watched_namespaces :: "string \<Rightarrow> string fset option" where
  "watched_namespaces watchNamespaces =
     (if watchNamespaces \<noteq> []
      then Some (add_namespaces (Split (CHR '','') watchNamespaces) fempty) else None)"

definition SetupWithManager :: "(setup_call \<Rightarrow> ('w, unit) io) \<Rightarrow> RedkeyReconciler \<Rightarrow> ('w proc, unit) io" where
  "SetupWithManager call r =
     perform call (CompleteController
       \<lparr>co_For = KRedkey, co_Owns = [KConfig, KDeployment, KServiceAccount, KRole, KRoleBinding],
        co_Name = ''redkey'', co_MaxConcurrentReconciles = controllerOptions r,
        co_ResyncInterval = rec_ResyncInterval r\<rparr>)"

definition USER_AGENT_NAME :: string where
  "USER_AGENT_NAME = ''redkey-operator''"

definition manager_opts :: "flags \<Rightarrow> slice \<Rightarrow> slice \<Rightarrow> manager_options" where
  "manager_opts f webhookTLSOpts metricsTLSOpts =
     \<lparr>mo_MetricsBindAddress = fl_metricsAddr f, mo_MetricsSecureServing = fl_secureMetrics f,
      mo_MetricsAuthFilter = fl_secureMetrics f, mo_MetricsTLSOpts = metricsTLSOpts,
      mo_WebhookTLSOpts = webhookTLSOpts, mo_HealthProbeBindAddress = fl_probeAddr f,
      mo_LeaderElection = fl_enableLeaderElection f, mo_LeaderElectionID = ''ad09f20a.inditex.dev'',
      mo_DefaultNamespaces = watched_namespaces (fl_watchNamespaces f)\<rparr>"

definition pprofMux :: "(string \<times> pprof_handler) list" where
  "pprofMux =
     [(''/debug/pprof/'', PprofIndex), (''/debug/pprof/cmdline'', PprofCmdline),
      (''/debug/pprof/profile'', PprofProfile), (''/debug/pprof/symbol'', PprofSymbol),
      (''/debug/pprof/trace'', PprofTrace)]"

definition pprofSrv :: "flags \<Rightarrow> pprof_server" where
  "pprofSrv f =
     \<lparr>ps_Addr = fl_pprofAddr f, ps_Handler = pprofMux, ps_ReadHeaderTimeout = 10 * 1000000000\<rparr>"

definition start_pprof :: "(setup_call \<Rightarrow> ('w, unit) io) \<Rightarrow> flags \<Rightarrow> ('w proc, unit) io" where
  "start_pprof call f =
     bindE (perform_ignoring call (GoServePprof (pprofSrv f))) (\<lambda>_.
     perform_ignoring call (GoShutdownPprof (5 * 1000000000)))"

text \<open>From the client configuration to the running manager.\<close>

definition run_manager ::
    "(setup_call \<Rightarrow> ('w, unit) io) \<Rightarrow> string \<Rightarrow> flags \<Rightarrow> slice \<Rightarrow> slice \<Rightarrow> ('w proc, unit) io" where
  "run_manager call version f webhookTLSOpts metricsTLSOpts =
     bindE (perform call GetConfigOrDie) (\<lambda>_.
     bindE (perform call (NewManager (USER_AGENT_NAME @ ''/'' @ version)
              (manager_opts f webhookTLSOpts metricsTLSOpts))) (\<lambda>_.
     bindE (SetupWithManager call
              \<lparr>rec_ResyncInterval = fl_resyncInterval f,
               rec_MaxConcurrentReconciles = fl_maxConcurrentReconciles f\<rparr>) (\<lambda>_.
     bindE (whenE (fl_metricsCertPath f \<noteq> []) (perform call (AddWatcher MetricsCertWatcher))) (\<lambda>_.
     bindE (whenE (fl_webhookCertPath f \<noteq> []) (perform call (AddWatcher WebhookCertWatcher))) (\<lambda>_.
     bindE (perform call (AddHealthzCheck ''healthz'')) (\<lambda>_.
     bindE (perform call (AddReadyzCheck ''readyz'')) (\<lambda>_.
     bindE (perform_ignoring call SetupSignalHandler) (\<lambda>_.
     bindE (whenE (fl_enablePprof f) (start_pprof call f)) (\<lambda>_.
     perform call StartManager)))))))))"

definition main :: "(nat \<Rightarrow> nat) \<Rightarrow> (setup_call \<Rightarrow> ('w, unit) io) \<Rightarrow> string \<Rightarrow> flags \<Rightarrow> ('w proc, unit) io" where
  "main grow call version f =
     (if fl_showVersion f then perform_ignoring call PrintVersion
      else
        bindE (perform_ignoring call SetLogger) (\<lambda>_.
        bindE (disable_http2 grow f) (\<lambda>tlsOpts.
        bindE (webhook_options grow call f tlsOpts) (\<lambda>webhookTLSOpts.
        bindE (metrics_options grow call f tlsOpts) (\<lambda>metricsTLSOpts.
        run_manager call version f webhookTLSOpts metricsTLSOpts)))))"

section \<open>Specifications\<close>

text \<open>The slices of TLS options and the heap they live in.\<close>

definition tls_plan :: "(nat \<Rightarrow> nat) \<Rightarrow> flags \<Rightarrow> heap \<Rightarrow> heap \<times> slice \<times> slice" where
  "tls_plan grow f h =
     (let (h, t) = (if fl_enableHTTP2 f then (h, nil_slice) else go_append grow h nil_slice DisableHTTP2);
          (h, wo) = (if fl_webhookCertPath f = [] then (h, t) else go_append grow h t WebhookGetCertificate);
          (h, mo) = (if fl_metricsCertPath f = [] then (h, t) else go_append grow h t MetricsGetCertificate)
      in (h, wo, mo))"

text \<open>The calls of a run in which none fails.\<close>

definition webhook_calls :: "flags \<Rightarrow> setup_call list" where
  "webhook_calls f = (if fl_webhookCertPath f = [] then []
     else [NewCertWatcher WebhookCertWatcher (Join (fl_webhookCertPath f) (fl_webhookCertName f))
             (Join (fl_webhookCertPath f) (fl_webhookCertKey f))])"

definition metrics_calls :: "flags \<Rightarrow> setup_call list" where
  "metrics_calls f = (if fl_metricsCertPath f = [] then []
     else [NewCertWatcher MetricsCertWatcher (Join (fl_metricsCertPath f) (fl_metricsCertName f))
             (Join (fl_metricsCertPath f) (fl_metricsCertKey f))])"

definition manager_calls :: "string \<Rightarrow> flags \<Rightarrow> slice \<Rightarrow> slice \<Rightarrow> setup_call list" where
  "manager_calls version f wo mo =
     [GetConfigOrDie] @ [NewManager (USER_AGENT_NAME @ ''/'' @ version) (manager_opts f wo mo)] @
     [CompleteController
        \<lparr>co_For = KRedkey, co_Owns = [KConfig, KDeployment, KServiceAccount, KRole, KRoleBinding],
         co_Name = ''redkey'', co_MaxConcurrentReconciles = max 0 (fl_maxConcurrentReconciles f),
         co_ResyncInterval = fl_resyncInterval f\<rparr>] @
     (if fl_metricsCertPath f \<noteq> [] then [AddWatcher MetricsCertWatcher] else []) @
     (if fl_webhookCertPath f \<noteq> [] then [AddWatcher WebhookCertWatcher] else []) @
     [AddHealthzCheck ''healthz''] @ [AddReadyzCheck ''readyz''] @
     [SetupSignalHandler] @
     (if fl_enablePprof f then [GoServePprof (pprofSrv f)] @ [GoShutdownPprof (5 * 1000000000)] else []) @
     [StartManager]"

definition setup_calls :: "string \<Rightarrow> flags \<Rightarrow> slice \<Rightarrow> slice \<Rightarrow> setup_call list" where
  "setup_calls version f wo mo = [SetLogger] @ webhook_calls f @ metrics_calls f @ manager_calls version f wo mo"

text \<open>The options each server is meant to get.\<close>

definition webhook_tls :: "flags \<Rightarrow> tls_opt list" where
  "webhook_tls f = (if fl_enableHTTP2 f then [] else [DisableHTTP2]) @
     (if fl_webhookCertPath f = [] then [] else [WebhookGetCertificate])"

definition metrics_tls :: "flags \<Rightarrow> tls_opt list" where
  "metrics_tls f = (if fl_enableHTTP2 f then [] else [DisableHTTP2]) @
     (if fl_metricsCertPath f = [] then [] else [MetricsGetCertificate])"

text \<open>A computation that makes the calls \<open>cs\<close> in order, or stops at the first one that fails.\<close>

definition makes_calls ::
    "(setup_call \<Rightarrow> ('w, unit) io) \<Rightarrow> 'w proc \<Rightarrow> ('w proc, 'a) io \<Rightarrow> setup_call list \<Rightarrow> ('a \<Rightarrow> heap \<Rightarrow> bool) \<Rightarrow> bool" where
  "makes_calls call s m cs Q \<longleftrightarrow>
     (case m s of
        (Inr x, s') \<Rightarrow> pr_calls s' = pr_calls s @ cs \<and> Q x (pr_heap s')
      | (Inl err, s') \<Rightarrow> \<exists>pre c suf w. cs = pre @ c # suf \<and> pr_calls s' = pr_calls s @ pre @ [c] \<and>
                          fst (call c w) = Inl err)"

section \<open>Lemmas\<close>

named_theorems call_rules \<open>composition of computations that make calls\<close>

lemma makes_calls_bindE:
  assumes "makes_calls call s m cs Q" "\<And>x s'. Q x (pr_heap s') \<Longrightarrow> makes_calls call s' (f x) ds R"
  shows "makes_calls call s (bindE m f) (cs @ ds) R"
proof (cases "m s")
  case (Pair r s')
  show ?thesis
  proof (cases r)
    case (Inl err)
    with Pair assms(1) obtain pre c suf w where "cs = pre @ c # suf" "pr_calls s' = pr_calls s @ pre @ [c]"
        "fst (call c w) = Inl err" by (auto simp: makes_calls_def)
    with Pair Inl show ?thesis
      by (auto simp: makes_calls_def bindE_def intro!: exI [of _ pre] exI [of _ c] exI [of _ "suf @ ds"])
  next
    case (Inr x)
    with Pair assms(1) have s': "pr_calls s' = pr_calls s @ cs" "Q x (pr_heap s')" by (simp_all add: makes_calls_def)
    note rest = assms(2) [OF s'(2)]
    obtain r2 s2 where run: "f x s' = (r2, s2)" by fastforce
    show ?thesis
    proof (cases r2)
      case (Inl err)
      with run rest obtain pre c suf w where "ds = pre @ c # suf" "pr_calls s2 = pr_calls s' @ pre @ [c]"
          "fst (call c w) = Inl err" by (auto simp: makes_calls_def)
      with Pair Inr run s'(1) Inl show ?thesis
        by (auto simp: makes_calls_def bindE_def intro!: exI [of _ "cs @ pre"] exI [of _ c] exI [of _ suf])
    next
      case (Inr y)
      with run rest Pair \<open>r = Inr x\<close> s'(1) show ?thesis by (simp add: makes_calls_def bindE_def)
    qed
  qed
qed

lemma makes_calls_perform [call_rules]: "Q () (pr_heap s) \<Longrightarrow> makes_calls call s (perform call c) [c] Q"
  by (cases "call c (pr_world s)")
    (auto simp: makes_calls_def perform_def split: sum.splits intro!: exI [of _ "pr_world s"])

lemma makes_calls_ignoring [call_rules]: "Q () (pr_heap s) \<Longrightarrow> makes_calls call s (perform_ignoring call c) [c] Q"
  by (auto simp: makes_calls_def perform_ignoring_def perform_def attempt_def split: prod.splits)

lemma makes_calls_ret [call_rules]: "Q x (pr_heap s) \<Longrightarrow> makes_calls call s (ret x) [] Q"
  by (simp add: makes_calls_def)

lemma makes_calls_whenE [call_rules]:
  "(b \<Longrightarrow> makes_calls call s m cs Q) \<Longrightarrow> (\<not> b \<Longrightarrow> Q () (pr_heap s)) \<Longrightarrow>
     makes_calls call s (whenE b m) (if b then cs else []) Q"
  by (simp add: whenE_def makes_calls_ret)

lemma makes_calls_append:
  "(case go_append grow (pr_heap s) sl x of (h, sl') \<Rightarrow> Q sl' h) \<Longrightarrow> makes_calls call s (append_tls grow sl x) [] Q"
  by (auto simp: makes_calls_def append_tls_def split: prod.splits)

lemmas makes_calls_seq = makes_calls_bindE [where Q = "\<lambda>_ h. h = h'" for h']

lemma setup_with_manager:
  "pr_heap s = h' \<Longrightarrow> makes_calls call s (SetupWithManager call \<lparr>rec_ResyncInterval = i, rec_MaxConcurrentReconciles = n\<rparr>)
     [CompleteController
        \<lparr>co_For = KRedkey, co_Owns = [KConfig, KDeployment, KServiceAccount, KRole, KRoleBinding],
         co_Name = ''redkey'', co_MaxConcurrentReconciles = max 0 n, co_ResyncInterval = i\<rparr>]
     (\<lambda>_ h. h = h')"
proof -
  assume "pr_heap s = h'"
  moreover have "controllerOptions \<lparr>rec_ResyncInterval = i, rec_MaxConcurrentReconciles = n\<rparr> = max 0 n"
    by (simp add: controllerOptions_def)
  ultimately show ?thesis unfolding SetupWithManager_def by (simp add: makes_calls_perform)
qed

lemma makes_calls_disable:
  "makes_calls call s (disable_http2 grow f) []
     (\<lambda>t h. (h, t) = (if fl_enableHTTP2 f then (pr_heap s, nil_slice)
                      else go_append grow (pr_heap s) nil_slice DisableHTTP2))"
  by (auto simp: disable_http2_def makes_calls_ret intro!: makes_calls_append split: prod.splits)

lemma makes_calls_cert:
  "makes_calls call s (bindE (perform call c) (\<lambda>_. append_tls grow t x)) [c]
     (\<lambda>t' h. (h, t') = go_append grow (pr_heap s) t x)"
proof -
  have "makes_calls call s (bindE (perform call c) (\<lambda>_. append_tls grow t x)) ([c] @ [])
      (\<lambda>t' h. (h, t') = go_append grow (pr_heap s) t x)"
    by (rule makes_calls_seq [where h' = "pr_heap s"], rule makes_calls_perform [OF refl], rule makes_calls_append)
      (simp split: prod.splits)
  then show ?thesis by simp
qed

lemma makes_calls_webhook:
  "makes_calls call s (webhook_options grow call f t) (webhook_calls f)
     (\<lambda>wo h. (h, wo) = (if fl_webhookCertPath f = [] then (pr_heap s, t)
                        else go_append grow (pr_heap s) t WebhookGetCertificate))"
  by (simp add: webhook_options_def webhook_calls_def makes_calls_ret makes_calls_cert)

lemma makes_calls_metrics:
  "makes_calls call s (metrics_options grow call f t) (metrics_calls f)
     (\<lambda>mo h. (h, mo) = (if fl_metricsCertPath f = [] then (pr_heap s, t)
                        else go_append grow (pr_heap s) t MetricsGetCertificate))"
  by (simp add: metrics_options_def metrics_calls_def makes_calls_ret makes_calls_cert)

lemma makes_calls_pprof:
  "pr_heap s = h' \<Longrightarrow>
     makes_calls call s (start_pprof call f) ([GoServePprof (pprofSrv f)] @ [GoShutdownPprof (5 * 1000000000)]) (\<lambda>_ h. h = h')"
  unfolding start_pprof_def by (intro makes_calls_seq [where h' = h'] makes_calls_ignoring) simp_all

lemma makes_calls_run_manager:
  "pr_heap s = h' \<Longrightarrow>
     makes_calls call s (run_manager call version f wo mo) (manager_calls version f wo mo) (\<lambda>_ h. h = h')"
  unfolding run_manager_def manager_calls_def
  by (intro makes_calls_seq [where h' = h'] setup_with_manager makes_calls_perform makes_calls_ignoring
      makes_calls_whenE makes_calls_pprof) simp_all

lemma makes_calls_det:
  assumes "makes_calls call s m cs (\<lambda>x h. (h, x) = (h1, t))"
    and "\<And>s'. pr_heap s' = h1 \<Longrightarrow> makes_calls call s' (f t) ds R"
  shows "makes_calls call s (bindE m f) (cs @ ds) R"
  by (rule makes_calls_bindE [OF assms(1)]) (use assms(2) in simp)

lemma tls_plan_steps:
  assumes "tls_plan grow f h = (h3, wo, mo)"
  obtains h1 t h2 where
    "(if fl_enableHTTP2 f then (h, nil_slice) else go_append grow h nil_slice DisableHTTP2) = (h1, t)"
    "(if fl_webhookCertPath f = [] then (h1, t) else go_append grow h1 t WebhookGetCertificate) = (h2, wo)"
    "(if fl_metricsCertPath f = [] then (h2, t) else go_append grow h2 t MetricsGetCertificate) = (h3, mo)"
  using assms unfolding tls_plan_def Let_def by (fastforce split: prod.splits)

lemma makes_calls_main:
  assumes "\<not> fl_showVersion f" "tls_plan grow f (pr_heap s) = (h3, wo, mo)"
  shows "makes_calls call s (main grow call version f) (setup_calls version f wo mo) (\<lambda>_ h. h = h3)"
proof -
  obtain h1 t h2 where plan:
    "(if fl_enableHTTP2 f then (pr_heap s, nil_slice) else go_append grow (pr_heap s) nil_slice DisableHTTP2) = (h1, t)"
    "(if fl_webhookCertPath f = [] then (h1, t) else go_append grow h1 t WebhookGetCertificate) = (h2, wo)"
    "(if fl_metricsCertPath f = [] then (h2, t) else go_append grow h2 t MetricsGetCertificate) = (h3, mo)"
    by (rule tls_plan_steps [OF assms(2)])
  have m: "makes_calls call s' (bindE (metrics_options grow call f t) (run_manager call version f wo))
      (metrics_calls f @ manager_calls version f wo mo) (\<lambda>_ h. h = h3)" if "pr_heap s' = h2" for s'
    by (rule makes_calls_det [OF makes_calls_metrics [of call s' grow f t, unfolded that plan(3)]])
      (rule makes_calls_run_manager)
  have w: "makes_calls call s' (bindE (webhook_options grow call f t) (\<lambda>wo.
      bindE (metrics_options grow call f t) (run_manager call version f wo)))
      (webhook_calls f @ metrics_calls f @ manager_calls version f wo mo) (\<lambda>_ h. h = h3)" if "pr_heap s' = h1" for s'
    by (rule makes_calls_det [OF makes_calls_webhook [of call s' grow f t, unfolded that plan(2)]]) (rule m)
  have d: "makes_calls call s' (bindE (disable_http2 grow f) (\<lambda>t. bindE (webhook_options grow call f t) (\<lambda>wo.
      bindE (metrics_options grow call f t) (run_manager call version f wo))))
      ([] @ webhook_calls f @ metrics_calls f @ manager_calls version f wo mo) (\<lambda>_ h. h = h3)"
    if "pr_heap s' = pr_heap s" for s'
    by (rule makes_calls_det [OF makes_calls_disable [of call s' grow f, unfolded that plan(1)]]) (rule w)
  have "makes_calls call s (bindE (perform_ignoring call SetLogger) (\<lambda>_. bindE (disable_http2 grow f) (\<lambda>t.
      bindE (webhook_options grow call f t) (\<lambda>wo. bindE (metrics_options grow call f t) (run_manager call version f wo)))))
      (setup_calls version f wo mo) (\<lambda>_ h. h = h3)"
    unfolding setup_calls_def
    by (rule makes_calls_seq [where h' = "pr_heap s", OF makes_calls_ignoring [OF refl]]) (use d in simp)
  with assms(1) show ?thesis by (simp add: main_def)
qed

lemma overwritten_second:
  "Suc 0 < n \<Longrightarrow> take (Suc 0) ((replicate (n - Suc 0) None)[0 := Some x]) = [Some x]"
  by (cases "n - Suc 0") auto

lemma tls_plan_items:
  assumes "\<forall>n. n \<le> grow n" and "tls_plan grow f h = (h3, wo, mo)"
  shows "slice_items h3 mo = map Some (metrics_tls f)"
    and "slice_items h3 wo = map Some (webhook_tls f) \<longleftrightarrow>
      fl_enableHTTP2 f \<or> fl_webhookCertPath f = [] \<or> fl_metricsCertPath f = [] \<or> grow 1 = 1"
proof -
  have g: "0 < grow (Suc 0)" "Suc 0 < grow (Suc (Suc 0))" using assms(1) [rule_format, of "Suc 0"] assms(1) [rule_format, of "Suc (Suc 0)"] by auto
  show "slice_items h3 mo = map Some (metrics_tls f)"
    using assms(2) g
    by (auto simp: tls_plan_def Let_def go_append_def nil_slice_def slice_items_def metrics_tls_def nth_append overwritten_second
        split: if_splits prod.splits)
  show "slice_items h3 wo = map Some (webhook_tls f) \<longleftrightarrow>
      fl_enableHTTP2 f \<or> fl_webhookCertPath f = [] \<or> fl_metricsCertPath f = [] \<or> grow 1 = 1"
    using assms(2) g
    by (auto simp: tls_plan_def Let_def go_append_def nil_slice_def slice_items_def webhook_tls_def nth_append overwritten_second
        split: if_splits prod.splits)
qed

end
