(* ===== verification/Main_Properties.thy ===== *)
theory Main_Properties
  imports Cmd_Main
begin

text \<open>
  Properties of the entry point: the order of the set-up calls and what happens when one fails, the TLS
  options of the two servers, and the namespaces to watch.
\<close>

section \<open>Reference definitions\<close>

fun join_commas :: "string list \<Rightarrow> string" where
  "join_commas [] = []"
| "join_commas [n] = n"
| "join_commas (n # ns) = n @ '','' @ join_commas ns"

text \<open>A name as Kubernetes allows it, in so far as it matters here: not empty, no comma, no space.\<close>

definition plain_name :: "string \<Rightarrow> bool" where
  "plain_name n \<longleftrightarrow> n \<noteq> [] \<and> list_all (\<lambda>c. \<not> is_space c \<and> c \<noteq> CHR '','') n"

section \<open>Lemmas\<close>

lemma Split_none: "sep \<notin> set w \<Longrightarrow> Split sep w = [w]"
  by (induction w) auto

lemma Split_first: "sep \<notin> set w \<Longrightarrow> Split sep (w @ sep # rest) = w # Split sep rest"
  by (induction w) auto

lemma plain_name_no_comma: "plain_name n \<Longrightarrow> CHR '','' \<notin> set n"
  by (auto simp: plain_name_def list_all_iff)

lemma Split_join_commas: "ns \<noteq> [] \<Longrightarrow> list_all plain_name ns \<Longrightarrow> Split (CHR '','') (join_commas ns) = ns"
  by (induction ns rule: join_commas.induct) (auto simp: Split_none Split_first plain_name_no_comma)

lemma dropWhile_none: "list_all (\<lambda>c. \<not> P c) xs \<Longrightarrow> dropWhile P xs = xs"
  by (cases xs) auto

lemma TrimSpace_plain: "plain_name n \<Longrightarrow> TrimSpace n = n"
proof -
  assume "plain_name n"
  then have "list_all (\<lambda>c. \<not> is_space c) n" by (simp add: plain_name_def list_all_iff)
  then have "dropWhile is_space n = n" "dropWhile is_space (rev n) = rev n" by (simp_all add: dropWhile_none)
  then show ?thesis by (simp add: TrimSpace_def)
qed

lemma fset_add_namespaces:
  "fset (add_namespaces nss m) = fset m \<union> {n. n \<noteq> [] \<and> n \<in> TrimSpace ` set nss}"
  by (induction nss arbitrary: m) (auto simp: Let_def)

lemma watched_namespaces_fset:
  "s \<noteq> [] \<Longrightarrow> map_option fset (watched_namespaces s) =
     Some {n. n \<noteq> [] \<and> n \<in> TrimSpace ` set (Split (CHR '','') s)}"
  by (simp add: watched_namespaces_def fset_add_namespaces)

lemma join_commas_nonempty: "ns \<noteq> [] \<Longrightarrow> list_all plain_name ns \<Longrightarrow> join_commas ns \<noteq> []"
  by (induction ns rule: join_commas.induct) (auto simp: plain_name_def)

section \<open>Properties\<close>




text \<open>C39. The list of namespaces to watch is read back from the flag as it was written, in any order and with
  duplicates removed; without the flag all namespaces are watched, and a flag of separators only gives
  an empty set of namespaces.\<close>

theorem watch_flag_roundtrip:
  assumes "ns \<noteq> []" "list_all plain_name ns"
  shows "watched_namespaces (join_commas ns) = Some (fset_of_list ns) \<and>
    watched_namespaces [] = None \<and> watched_namespaces '' , '' = Some fempty"
proof -
  have "TrimSpace ` set ns = set ns" "[] \<notin> set ns"
    using assms(2) by (auto simp: list_all_iff TrimSpace_plain plain_name_def image_iff)
  then have "map_option fset (watched_namespaces (join_commas ns)) = Some (fset (fset_of_list ns))"
    using assms by (auto simp: watched_namespaces_fset join_commas_nonempty Split_join_commas fset_of_list.rep_eq)
  then have "watched_namespaces (join_commas ns) = Some (fset_of_list ns)"
    by (auto simp: fset_inject)
  moreover have "watched_namespaces [] = None" by (simp add: watched_namespaces_def)
  moreover have "watched_namespaces '' , '' = Some fempty"
    by (simp add: watched_namespaces_def TrimSpace_def is_space_def Let_def)
  ultimately show ?thesis by blast
qed

theorem watch_flag_roundtrip_witness:
  "watched_namespaces (join_commas [''team-a'', ''team-b'']) = Some (fset_of_list [''team-a'', ''team-b''])"
  using watch_flag_roundtrip [of "[''team-a'', ''team-b'']"] by (simp add: plain_name_def is_space_def)

end
