(* ===== verification/Process_Init.thy ===== *)
theory Process_Init
  imports Reconciler "HOL-Library.Sublist"
begin

text \<open>
  What runs before \<^verbatim>\<open>main\<close>: the collectors that \<^verbatim>\<open>internal/controller/metrics.go\<close> declares, the
  registration of the API types (\<^verbatim>\<open>api/v1beta1/groupversion_info.go\<close> and the \<^verbatim>\<open>init\<close> functions of
  its two type files), and the \<^verbatim>\<open>init\<close> functions of the controller and of \<^verbatim>\<open>cmd/main.go\<close>. The scheme,
  its builder and the Prometheus registry are libraries: \<open>init_env\<close> has the calls made to them, and the
  locale \<open>init_libraries\<close> what they promise.
\<close>

section \<open>Collectors\<close>

datatype collector_kind = GaugeKind | CounterKind | HistogramKind

record collector =
  mc_Kind :: collector_kind
  mc_Name :: string
  mc_Buckets :: "int list"
  mc_Labels :: "string list"
  mc_ConstLabels :: "(string \<times> string) list"

definition NewGaugeVec :: "string \<Rightarrow> string list \<Rightarrow> collector" where
  "NewGaugeVec name ls =
     \<lparr>mc_Kind = GaugeKind, mc_Name = name, mc_Buckets = [], mc_Labels = ls, mc_ConstLabels = []\<rparr>"

definition NewCounterVec :: "string \<Rightarrow> string list \<Rightarrow> collector" where
  "NewCounterVec name ls =
     \<lparr>mc_Kind = CounterKind, mc_Name = name, mc_Buckets = [], mc_Labels = ls, mc_ConstLabels = []\<rparr>"

definition NewHistogramVec :: "string \<Rightarrow> int list \<Rightarrow> string list \<Rightarrow> collector" where
  "NewHistogramVec name buckets ls =
     \<lparr>mc_Kind = HistogramKind, mc_Name = name, mc_Buckets = buckets, mc_Labels = ls, mc_ConstLabels = []\<rparr>"

definition redkeyPhase :: collector where
  "redkeyPhase = NewGaugeVec ''redkey_phase'' [''namespace'', ''name'', ''phase'']"

definition redkeyConfigPhase :: collector where
  "redkeyConfigPhase = NewGaugeVec ''redkey_config_phase'' [''namespace'', ''name'', ''config_phase'']"

definition redkeyOperationDuration :: collector where
  "redkeyOperationDuration =
     NewHistogramVec ''redkey_operation_duration_seconds'' [5, 15, 30, 60, 120, 300, 600, 1200, 1800, 3600]
       [''operation'']"

definition redkeyOperationTotal :: collector where
  "redkeyOperationTotal = NewCounterVec ''redkey_operation_total'' [''operation'', ''result'']"

definition redkeyOperationInProgress :: collector where
  "redkeyOperationInProgress =
     NewGaugeVec ''redkey_operation_in_progress'' [''namespace'', ''name'', ''operation'']"

definition redkeyReconcileStageErrors :: collector where
  "redkeyReconcileStageErrors = NewCounterVec ''redkey_reconcile_stage_errors_total'' [''stage'']"

definition redkeyConfigCreations :: collector where
  "redkeyConfigCreations = NewCounterVec ''redkey_config_creations_total'' [''reason'']"

definition redkeyCleanupDeletedConfigs :: collector where
  "redkeyCleanupDeletedConfigs = NewCounterVec ''redkey_cleanup_deleted_configs_total'' []"

definition redkeyRobinDeploymentChanges :: collector where
  "redkeyRobinDeploymentChanges = NewCounterVec ''redkey_robin_deployment_changes_total'' [''action'']"

definition redkeyTimeToReady :: collector where
  "redkeyTimeToReady =
     NewHistogramVec ''redkey_time_to_ready_seconds'' [5, 10, 20, 30, 60, 120, 300, 600, 900, 1800] []"

definition buildInfo :: "string \<Rightarrow> string \<Rightarrow> collector" where
  "buildInfo version goVersion =
     (NewGaugeVec ''redkey_operator_build_info'' [])
       \<lparr>mc_ConstLabels := [(''version'', version), (''go_version'', goVersion)]\<rparr>"

section \<open>Initialisation\<close>

record group_version =
  gv_Group :: string
  gv_Version :: string

definition GroupVersion :: group_version where
  "GroupVersion = \<lparr>gv_Group = ''redkey.inditex.dev'', gv_Version = ''v1beta1''\<rparr>"

datatype GoType = T_Redkey | T_RedkeyList | T_RedkeyConfig | T_RedkeyConfigList

record 'p init_env =
  ie_Register :: "group_version \<Rightarrow> GoType list \<Rightarrow> ('p, unit) io"
  ie_AddToScheme :: "group_version \<Rightarrow> ('p, unit) io"
  ie_clientgo_AddToScheme :: "('p, unit) io"
  ie_Must :: "GoErr + unit \<Rightarrow> ('p, unit) io"
  ie_SetGauge :: "collector \<Rightarrow> int \<Rightarrow> ('p, unit) io"
  ie_MustRegister :: "collector list \<Rightarrow> ('p, unit) io"
  ie_goVersion :: string

definition redkey_types_init :: "'p init_env \<Rightarrow> ('p, unit) io" where
  "redkey_types_init e = ie_Register e GroupVersion [T_Redkey, T_RedkeyList]"

definition redkeyconfig_types_init :: "'p init_env \<Rightarrow> ('p, unit) io" where
  "redkeyconfig_types_init e = ie_Register e GroupVersion [T_RedkeyConfig, T_RedkeyConfigList]"

definition operator_collectors :: "collector list" where
  "operator_collectors =
     [redkeyPhase, redkeyConfigPhase, redkeyOperationDuration, redkeyOperationTotal, redkeyOperationInProgress,
      redkeyReconcileStageErrors, redkeyConfigCreations, redkeyCleanupDeletedConfigs,
      redkeyRobinDeploymentChanges, redkeyTimeToReady]"

definition metrics_init :: "'p init_env \<Rightarrow> ('p, unit) io" where
  "metrics_init e = ie_MustRegister e operator_collectors"

definition registerBuildInfo :: "'p init_env \<Rightarrow> string \<Rightarrow> ('p, unit) io" where
  "registerBuildInfo e version =
     (let info = buildInfo version (ie_goVersion e) in
      bindE (ie_SetGauge e info 1) (\<lambda>_. ie_MustRegister e [info]))"

definition main_init :: "'p init_env \<Rightarrow> string \<Rightarrow> ('p, unit) io" where
  "main_init e version =
     bindE (attempt (ie_clientgo_AddToScheme e) (ie_Must e)) (\<lambda>_.
     bindE (attempt (ie_AddToScheme e GroupVersion) (ie_Must e)) (\<lambda>_.
     registerBuildInfo e version))"

text \<open>Go initialises imported packages first, and the files of a package in the order of their names.\<close>

definition process_init :: "'p init_env \<Rightarrow> string \<Rightarrow> ('p, unit) io" where
  "process_init e version =
     bindE (redkey_types_init e) (\<lambda>_.
     bindE (redkeyconfig_types_init e) (\<lambda>_.
     bindE (metrics_init e) (\<lambda>_.
     main_init e version)))"

section \<open>Specifications\<close>

text \<open>A call that the vectors accept: \<^verbatim>\<open>WithLabelValues\<close> panics unless it is given one value for
  each label, and a partial match needs labels of the vector.\<close>

definition accepts :: "collector_kind \<Rightarrow> string \<Rightarrow> nat \<Rightarrow> collector \<Rightarrow> bool" where
  "accepts kd v n c \<longleftrightarrow> mc_Kind c = kd \<and> mc_Name c = v \<and> length (mc_Labels c) = n"

fun declared :: "collector list \<Rightarrow> metric_call \<Rightarrow> bool" where
  "declared cs (GaugeSet v ls x) = list_ex (accepts GaugeKind v (length ls)) cs"
| "declared cs (CounterInc v ls) = list_ex (accepts CounterKind v (length ls)) cs"
| "declared cs (HistogramObserve v ls d) = list_ex (accepts HistogramKind v (length ls)) cs"
| "declared cs (GaugeDeletePartialMatch v ps) =
     list_ex (\<lambda>c. mc_Kind c = GaugeKind \<and> mc_Name c = v \<and> list_all (\<lambda>(l, _). l \<in> set (mc_Labels c)) ps) cs"

lemmas collector_defs = operator_collectors_def redkeyPhase_def redkeyConfigPhase_def redkeyOperationDuration_def
  redkeyOperationTotal_def redkeyOperationInProgress_def redkeyReconcileStageErrors_def redkeyConfigCreations_def
  redkeyCleanupDeletedConfigs_def redkeyRobinDeploymentChanges_def redkeyTimeToReady_def buildInfo_def
  NewGaugeVec_def NewCounterVec_def NewHistogramVec_def

section \<open>Every metric call is on a declared collector\<close>

interpretation typed_calls: metric_calls "declared operator_collectors"
  by unfold_locales (auto simp: collector_defs accepts_def cr_labels_def)

lemma logs_stage [log_intros]:
  "logs_only (declared operator_collectors) m \<Longrightarrow> logs_only (declared operator_collectors) (stage name m)"
  unfolding stage_def by (intro log_intros logs_emit) (simp_all add: collector_defs accepts_def)

lemma logs_Reconcile: "logs_only (declared operator_collectors) (Reconcile e r req)"
proof -
  have "logs_only (declared operator_collectors) (refresh_configs e cluster configs)"
    "logs_only (declared operator_collectors) (publish_status e cluster configs)"
    "logs_only (declared operator_collectors) (active_config configs)" for cluster configs
    unfolding refresh_configs_def publish_status_def active_config_def Let_def by (intro log_intros)+
  then have "logs_only (declared operator_collectors) (reconcile_cluster e r cluster)" for cluster
    unfolding reconcile_cluster_def by (intro log_intros)
  then show ?thesis unfolding Reconcile_def by (intro log_intros)
qed

section \<open>Initialisation succeeds\<close>

text \<open>What the libraries promise. \<open>pending\<close> are the types handed to the scheme builder, \<open>kinds\<close> the
  types of this API in the scheme, \<open>registered\<close> the collectors in the registry. \<^verbatim>\<open>MustRegister\<close> fails only
  for a name that is taken.\<close>

locale init_libraries =
  fixes e :: "'p init_env" and pending :: "'p \<Rightarrow> (group_version \<times> GoType) list"
    and kinds :: "'p \<Rightarrow> (group_version \<times> GoType) set" and registered :: "'p \<Rightarrow> collector list"
  assumes Register: "\<exists>p'. ie_Register e gv ts p = (Inr (), p') \<and> pending p' = pending p @ map (Pair gv) ts \<and>
      kinds p' = kinds p \<and> registered p' = registered p"
    and AddToScheme: "\<exists>p'. ie_AddToScheme e gv p = (Inr (), p') \<and>
      kinds p' = kinds p \<union> {x \<in> set (pending p). fst x = gv} \<and> registered p' = registered p"
    and clientgo: "\<exists>p'. ie_clientgo_AddToScheme e p = (Inr (), p') \<and> pending p' = pending p \<and> kinds p' = kinds p \<and>
      registered p' = registered p"
    and Must: "ie_Must e (Inr ()) p = (Inr (), p)"
    and SetGauge: "\<exists>p'. ie_SetGauge e c x p = (Inr (), p') \<and> pending p' = pending p \<and> kinds p' = kinds p \<and>
      registered p' = registered p"
    and MustRegister: "distinct (map mc_Name (registered p @ cs)) \<Longrightarrow>
      \<exists>p'. ie_MustRegister e cs p = (Inr (), p') \<and> pending p' = pending p \<and> kinds p' = kinds p \<and>
        registered p' = registered p @ cs"
begin

lemma types_run:
  "\<exists>p'. bindE (redkey_types_init e) (\<lambda>_. redkeyconfig_types_init e) p = (Inr (), p') \<and>
     pending p' = pending p @ map (Pair GroupVersion) [T_Redkey, T_RedkeyList, T_RedkeyConfig, T_RedkeyConfigList] \<and>
     kinds p' = kinds p \<and> registered p' = registered p"
proof -
  obtain p1 where p1: "redkey_types_init e p = (Inr (), p1)"
    "pending p1 = pending p @ map (Pair GroupVersion) [T_Redkey, T_RedkeyList]" "kinds p1 = kinds p"
    "registered p1 = registered p"
    unfolding redkey_types_init_def using Register by blast
  obtain p2 where "redkeyconfig_types_init e p1 = (Inr (), p2)"
    "pending p2 = pending p1 @ map (Pair GroupVersion) [T_RedkeyConfig, T_RedkeyConfigList]" "kinds p2 = kinds p1"
    "registered p2 = registered p1"
    unfolding redkeyconfig_types_init_def using Register by blast
  with p1 show ?thesis by (simp add: bindE_def)
qed

lemma main_init_run:
  assumes "distinct (map mc_Name (registered p @ [buildInfo version (ie_goVersion e)]))"
  shows "\<exists>p'. main_init e version p = (Inr (), p') \<and>
    kinds p' = kinds p \<union> {x \<in> set (pending p). fst x = GroupVersion} \<and>
    registered p' = registered p @ [buildInfo version (ie_goVersion e)]"
proof -
  let ?info = "buildInfo version (ie_goVersion e)"
  obtain p1 where p1: "ie_clientgo_AddToScheme e p = (Inr (), p1)" "pending p1 = pending p" "kinds p1 = kinds p"
    "registered p1 = registered p" using clientgo by blast
  obtain p2 where p2: "ie_AddToScheme e GroupVersion p1 = (Inr (), p2)"
    "kinds p2 = kinds p1 \<union> {x \<in> set (pending p1). fst x = GroupVersion}" "registered p2 = registered p1"
    using AddToScheme by blast
  obtain p3 where p3: "ie_SetGauge e ?info 1 p2 = (Inr (), p3)" "kinds p3 = kinds p2" "registered p3 = registered p2"
    using SetGauge by blast
  have "distinct (map mc_Name (registered p3 @ [?info]))" using assms p1(4) p2(3) p3(3) by simp
  from MustRegister [OF this] obtain p4 where p4: "ie_MustRegister e [?info] p3 = (Inr (), p4)" "kinds p4 = kinds p3"
    "registered p4 = registered p3 @ [?info]" by blast
  show ?thesis
    using p1 p2 p3 p4 by (simp add: main_init_def registerBuildInfo_def Let_def bindE_def attempt_def Must)
qed

lemma process_init_run:
  assumes "distinct (map mc_Name (registered p @ operator_collectors @ [buildInfo version (ie_goVersion e)]))"
  shows "\<exists>p'. process_init e version p = (Inr (), p') \<and>
    {GroupVersion} \<times> {T_Redkey, T_RedkeyList, T_RedkeyConfig, T_RedkeyConfigList} \<subseteq> kinds p' \<and>
    registered p' = registered p @ operator_collectors @ [buildInfo version (ie_goVersion e)]"
proof -
  obtain p1 where p1: "bindE (redkey_types_init e) (\<lambda>_. redkeyconfig_types_init e) p = (Inr (), p1)"
    "pending p1 = pending p @ map (Pair GroupVersion) [T_Redkey, T_RedkeyList, T_RedkeyConfig, T_RedkeyConfigList]"
    "registered p1 = registered p"
    using types_run [of p] by blast
  have "distinct (map mc_Name (registered p1 @ operator_collectors))" using assms p1(3) by simp
  from MustRegister [OF this] obtain p2 where p2: "metrics_init e p1 = (Inr (), p2)" "pending p2 = pending p1"
    "registered p2 = registered p1 @ operator_collectors" unfolding metrics_init_def by blast
  have "distinct (map mc_Name (registered p2 @ [buildInfo version (ie_goVersion e)]))" using assms p1(3) p2(3) by simp
  from main_init_run [OF this] obtain p3 where p3: "main_init e version p2 = (Inr (), p3)"
    "kinds p3 = kinds p2 \<union> {x \<in> set (pending p2). fst x = GroupVersion}"
    "registered p3 = registered p2 @ [buildInfo version (ie_goVersion e)]" by blast
  have "process_init e version p = bindE (bindE (redkey_types_init e) (\<lambda>_. redkeyconfig_types_init e))
      (\<lambda>_. bindE (metrics_init e) (\<lambda>_. main_init e version)) p"
    by (auto simp: process_init_def bindE_def split: prod.splits sum.splits)
  also have "\<dots> = (Inr (), p3)" unfolding bindE_def [of "bindE _ _"] p1(1) using p2(1) p3(1) by (simp add: bindE_def)
  finally show ?thesis using p1(2,3) p2(2,3) p3(2,3) by auto
qed

end

end
