(* ===== verification/Init_Properties.thy ===== *)
theory Init_Properties
  imports Process_Init
begin

text \<open>
  Properties of the initialisation of the process, and of the metric calls of a reconcile with respect to
  the collectors it registers.
\<close>

section \<open>Concrete libraries\<close>

record process =
  dp_pending :: "(group_version \<times> GoType) list"
  dp_kinds :: "(group_version \<times> GoType) list"
  dp_registered :: "collector list"

definition demo_libraries :: "process init_env" where
  "demo_libraries =
     \<lparr>ie_Register = (\<lambda>gv ts p. (Inr (), p\<lparr>dp_pending := dp_pending p @ map (Pair gv) ts\<rparr>)),
      ie_AddToScheme = (\<lambda>gv p. (Inr (), p\<lparr>dp_kinds := dp_kinds p @ filter (\<lambda>x. fst x = gv) (dp_pending p)\<rparr>)),
      ie_clientgo_AddToScheme = (\<lambda>p. (Inr (), p)),
      ie_Must = (\<lambda>r p. case r of Inl err \<Rightarrow> (Inl (Panic ''Must''), p) | Inr _ \<Rightarrow> (Inr (), p)),
      ie_SetGauge = (\<lambda>c x p. (Inr (), p)),
      ie_MustRegister = (\<lambda>cs p.
        if distinct (map mc_Name (dp_registered p @ cs)) then (Inr (), p\<lparr>dp_registered := dp_registered p @ cs\<rparr>)
        else (Inl (Panic ''duplicate metrics collector registration attempted''), p)),
      ie_goVersion = ''go1.25''\<rparr>"

text \<open>The registry of controller-runtime before the operator adds its own collectors.\<close>

definition demo_process :: process where
  "demo_process =
     \<lparr>dp_pending = [], dp_kinds = [],
      dp_registered = [NewCounterVec ''controller_runtime_reconcile_total'' [''controller'', ''result''],
                       NewGaugeVec ''workqueue_depth'' [''name'']]\<rparr>"

interpretation libs: init_libraries demo_libraries dp_pending "\<lambda>p. set (dp_kinds p)" dp_registered
  by unfold_locales (auto simp: demo_libraries_def)

section \<open>Lemmas\<close>

lemma operator_names:
  "distinct (map mc_Name (operator_collectors @ [buildInfo version goVersion]))"
  "list_all (\<lambda>c. prefix ''redkey_'' (mc_Name c)) (operator_collectors @ [buildInfo version goVersion])"
  by (simp_all add: collector_defs)

text \<open>The labels by which series are selected are those of the registered gauges.\<close>

lemma vector_labels_declared:
  "list_all (\<lambda>c. vector_labels (mc_Name c) = mc_Labels c) (filter (\<lambda>c. mc_Kind c = GaugeKind) operator_collectors)"
  by (simp add: collector_defs vector_labels_def)

lemma declared_mono: "set cs \<subseteq> set ds \<Longrightarrow> declared cs c \<Longrightarrow> declared ds c"
  by (cases c) (auto simp: list_ex_iff)

section \<open>Properties\<close>

text \<open>C34. Before \<^verbatim>\<open>main\<close> starts, the initialisation of the packages does not panic: with a registry in which no
  collector has a name of this operator, all eleven collectors are registered under names that differ
  from each other and from all others, and the scheme knows \<^verbatim>\<open>Redkey\<close>, \<^verbatim>\<open>RedkeyConfig\<close> and their lists
  under the group version \<^verbatim>\<open>redkey.inditex.dev/v1beta1\<close>.\<close>

theorem process_init_succeeds:
  assumes "init_libraries e pending kinds registered" "distinct (map mc_Name (registered p))"
    and "list_all (\<lambda>c. \<not> prefix ''redkey_'' (mc_Name c)) (registered p)"
  shows "\<exists>p'. process_init e version p = (Inr (), p') \<and>
    {GroupVersion} \<times> {T_Redkey, T_RedkeyList, T_RedkeyConfig, T_RedkeyConfigList} \<subseteq> kinds p' \<and>
    registered p' = registered p @ operator_collectors @ [buildInfo version (ie_goVersion e)] \<and>
    distinct (map mc_Name (registered p'))"
proof -
  define own where "own = operator_collectors @ [buildInfo version (ie_goVersion e)]"
  have own: "distinct (map mc_Name own)" "list_all (\<lambda>c. prefix ''redkey_'' (mc_Name c)) own"
    unfolding own_def by (rule operator_names)+
  have "mc_Name c \<noteq> mc_Name d" if "c \<in> set (registered p)" "d \<in> set own" for c d
  proof -
    have "\<not> prefix ''redkey_'' (mc_Name c)" "prefix ''redkey_'' (mc_Name d)"
      using that own(2) assms(3) unfolding list_all_iff by auto
    then show ?thesis by metis
  qed
  then have names: "distinct (map mc_Name (registered p @ own))"
    using assms(2) own(1) by (auto simp del: distinct_map)
  from init_libraries.process_init_run [OF assms(1) names [unfolded own_def]] obtain p' where
    "process_init e version p = (Inr (), p')"
    "{GroupVersion} \<times> {T_Redkey, T_RedkeyList, T_RedkeyConfig, T_RedkeyConfigList} \<subseteq> kinds p'"
    "registered p' = registered p @ own"
    unfolding own_def by blast
  with names show ?thesis unfolding own_def [symmetric] by (intro exI [of _ p'] conjI) simp_all
qed

theorem process_init_succeeds_witness:
  "\<exists>p'. process_init demo_libraries ''dev'' demo_process = (Inr (), p') \<and> length (dp_registered p') = 13 \<and>
     (GroupVersion, T_RedkeyConfig) \<in> set (dp_kinds p')"
  using process_init_succeeds [OF libs.init_libraries_axioms, of demo_process "''dev''"]
  by (auto simp: demo_process_def NewCounterVec_def NewGaugeVec_def operator_collectors_def)

text \<open>C16. Every metric call of a reconcile, whatever the server answers and however the run ends, is on a
  collector the operator has registered, of the right kind, with one value for every label (a call of
  \<^verbatim>\<open>WithLabelValues\<close> with another number of values would panic), and every removal of series
  selects by labels the gauge has.\<close>

theorem metric_calls_declared:
  "\<exists>l. metric_log (snd (Reconcile e r req s)) = metric_log s @ l \<and>
     list_all (declared (operator_collectors @ [buildInfo version goVersion])) l"
proof -
  obtain l where l: "metric_log (snd (Reconcile e r req s)) = metric_log s @ l" "list_all (declared operator_collectors) l"
    using logs_Reconcile [of e r req] unfolding logs_only_def by blast
  from l(2) have "list_all (declared (operator_collectors @ [buildInfo version goVersion])) l"
    by (rule list.pred_mono_strong) (rule declared_mono, auto)
  with l(1) show ?thesis by blast
qed

end
