(* ===== verification/Go_Memory.thy ===== *)
theory Go_Memory
  imports Go_Prelude "HOL-Library.AList"
begin

text \<open>
  Go's memory, as far as copying objects needs it: cells at addresses, \<^verbatim>\<open>new\<close> and \<^verbatim>\<open>make\<close>,
  loads and stores, and one function for each way in which generated code copies a field: a pointer, a
  slice, a map, a struct in place. A load through a dangling pointer is a panic.

  The interface is the locale \<open>copier\<close>: the value that an object in memory stands for (\<open>view\<close>), the
  addresses it consists of (\<open>foot\<close>), and a copy that yields an equal value at new addresses and
  changes no old cell. Each field copy has a rule that derives its contract from the contract of its
  parts, collected in \<open>copier_intros\<close>.
\<close>

section \<open>Memory\<close>

type_synonym addr = nat

record 'c gomem =
  gm_next :: addr
  gm_cell :: "addr \<Rightarrow> 'c option"

text \<open>\<^verbatim>\<open>new\<close> and \<^verbatim>\<open>make\<close> reserve an address; the cell is empty until it is written.\<close>

definition new_addr :: "('c gomem, addr) io" where
  "new_addr m = (Inr (gm_next m), m\<lparr>gm_next := Suc (gm_next m)\<rparr>)"

definition store :: "addr \<Rightarrow> 'c \<Rightarrow> ('c gomem, unit) io" where
  "store a c m = (Inr (), m\<lparr>gm_cell := (gm_cell m)(a \<mapsto> c)\<rparr>)"

definition cell_at :: "('c \<Rightarrow> 'm option) \<Rightarrow> 'c gomem \<Rightarrow> addr \<Rightarrow> 'm option" where
  "cell_at prj m a = Option.bind (gm_cell m a) prj"

definition load :: "('c \<Rightarrow> 'm option) \<Rightarrow> addr \<Rightarrow> ('c gomem, 'm) io" where
  "load prj a m =
     (case cell_at prj m a of
        None \<Rightarrow> (Inl (Panic ''invalid memory address or nil pointer dereference''), m)
      | Some v \<Rightarrow> (Inr v, m))"

text \<open>A slice that is not nil: an array, an offset and a length.\<close>

record gslice =
  gs_addr :: addr
  gs_off :: nat
  gs_len :: nat

definition window :: "gslice \<Rightarrow> 'a list \<Rightarrow> 'a list" where
  "window s xs = take (gs_len s) (drop (gs_off s) xs)"

section \<open>Copying\<close>

text \<open>\<^verbatim>\<open>if in != nil { *out = new(T); (*in).DeepCopyInto(*out) }\<close>, with \<open>ret\<close> for the copy of the
  target also \<^verbatim>\<open>**out = **in\<close>.\<close>

definition ptr_copy ::
    "('m \<Rightarrow> 'c) \<Rightarrow> ('c \<Rightarrow> 'm option) \<Rightarrow> ('m \<Rightarrow> ('c gomem, 'm) io) \<Rightarrow> addr option \<Rightarrow> ('c gomem, addr option) io" where
  "ptr_copy mk prj C p =
     (case p of
        None \<Rightarrow> ret None
      | Some a \<Rightarrow>
          bindE new_addr (\<lambda>b.
          bindE (load prj a) (\<lambda>v.
          bindE (C v) (\<lambda>v'.
          bindE (store b (mk v')) (\<lambda>_.
          ret (Some b))))))"

text \<open>\<^verbatim>\<open>for i := range *in { (*in)[i].DeepCopyInto(&(*out)[i]) }\<close>, with \<open>ret\<close> also
  \<^verbatim>\<open>copy(*out, *in)\<close>.\<close>

fun copy_elems :: "('m \<Rightarrow> ('s, 'm) io) \<Rightarrow> 'm list \<Rightarrow> ('s, 'm list) io" where
  "copy_elems C [] = ret []"
| "copy_elems C (x # xs) = bindE (C x) (\<lambda>y. bindE (copy_elems C xs) (\<lambda>ys. ret (y # ys)))"

definition slice_copy ::
    "('m list \<Rightarrow> 'c) \<Rightarrow> ('c \<Rightarrow> 'm list option) \<Rightarrow> ('m \<Rightarrow> ('c gomem, 'm) io) \<Rightarrow> gslice option \<Rightarrow>
     ('c gomem, gslice option) io" where
  "slice_copy mk prj C s =
     (case s of
        None \<Rightarrow> ret None
      | Some sl \<Rightarrow>
          bindE new_addr (\<lambda>b.
          bindE (load prj (gs_addr sl)) (\<lambda>xs.
          bindE (copy_elems C (window sl xs)) (\<lambda>ys.
          bindE (store b (mk ys)) (\<lambda>_.
          ret (Some \<lparr>gs_addr = b, gs_off = 0, gs_len = gs_len sl\<rparr>))))))"

text \<open>The content of a map is its entries in the order in which \<^verbatim>\<open>range\<close> visits them.\<close>

fun copy_entries ::
    "('m \<Rightarrow> ('s, 'm) io) \<Rightarrow> (string \<times> 'm) list \<Rightarrow> (string \<times> 'm) list \<Rightarrow> ('s, (string \<times> 'm) list) io" where
  "copy_entries C out [] = ret out"
| "copy_entries C out ((k, v) # es) = bindE (C v) (\<lambda>v'. copy_entries C (AList.update k v' out) es)"

definition map_copy ::
    "((string \<times> 'm) list \<Rightarrow> 'c) \<Rightarrow> ('c \<Rightarrow> (string \<times> 'm) list option) \<Rightarrow> ('m \<Rightarrow> ('c gomem, 'm) io) \<Rightarrow>
     addr option \<Rightarrow> ('c gomem, addr option) io" where
  "map_copy mk prj C = ptr_copy mk prj (copy_entries C [])"

section \<open>Views and footprints\<close>

definition ptr_view :: "('c \<Rightarrow> 'm option) \<Rightarrow> ('c gomem \<Rightarrow> 'm \<Rightarrow> 'v option) \<Rightarrow> 'c gomem \<Rightarrow> addr option \<Rightarrow> 'v option option" where
  "ptr_view prj V m p =
     (case p of None \<Rightarrow> Some None | Some a \<Rightarrow> Option.bind (cell_at prj m a) (\<lambda>v. map_option Some (V m v)))"

definition ptr_foot :: "('c \<Rightarrow> 'm option) \<Rightarrow> ('c gomem \<Rightarrow> 'm \<Rightarrow> addr set) \<Rightarrow> 'c gomem \<Rightarrow> addr option \<Rightarrow> addr set" where
  "ptr_foot prj F m p =
     (case p of None \<Rightarrow> {} | Some a \<Rightarrow> insert a (case cell_at prj m a of None \<Rightarrow> {} | Some v \<Rightarrow> F m v))"

definition elems_view :: "('c gomem \<Rightarrow> 'm \<Rightarrow> 'v option) \<Rightarrow> 'c gomem \<Rightarrow> 'm list \<Rightarrow> 'v list option" where
  "elems_view V m xs = those (map (V m) xs)"

definition elems_foot :: "('c gomem \<Rightarrow> 'm \<Rightarrow> addr set) \<Rightarrow> 'c gomem \<Rightarrow> 'm list \<Rightarrow> addr set" where
  "elems_foot F m xs = \<Union> (F m ` set xs)"

definition slice_view ::
    "('c \<Rightarrow> 'm list option) \<Rightarrow> ('c gomem \<Rightarrow> 'm \<Rightarrow> 'v option) \<Rightarrow> 'c gomem \<Rightarrow> gslice option \<Rightarrow> 'v list option" where
  "slice_view prj V m s =
     (case s of
        None \<Rightarrow> Some []
      | Some sl \<Rightarrow> Option.bind (cell_at prj m (gs_addr sl)) (\<lambda>xs.
          if gs_off sl + gs_len sl \<le> length xs then elems_view V m (window sl xs) else None))"

definition slice_foot ::
    "('c \<Rightarrow> 'm list option) \<Rightarrow> ('c gomem \<Rightarrow> 'm \<Rightarrow> addr set) \<Rightarrow> 'c gomem \<Rightarrow> gslice option \<Rightarrow> addr set" where
  "slice_foot prj F m s =
     (case s of
        None \<Rightarrow> {}
      | Some sl \<Rightarrow> insert (gs_addr sl)
          (case cell_at prj m (gs_addr sl) of None \<Rightarrow> {} | Some xs \<Rightarrow> elems_foot F m (window sl xs)))"

definition entries_view ::
    "('c gomem \<Rightarrow> 'm \<Rightarrow> 'v option) \<Rightarrow> 'c gomem \<Rightarrow> (string \<times> 'm) list \<Rightarrow> (string, 'v) fmap option" where
  "entries_view V m es =
     (if distinct (map fst es)
      then map_option (\<lambda>vs. fmap_of_list (zip (map fst es) vs)) (elems_view V m (map snd es)) else None)"

definition entries_foot :: "('c gomem \<Rightarrow> 'm \<Rightarrow> addr set) \<Rightarrow> 'c gomem \<Rightarrow> (string \<times> 'm) list \<Rightarrow> addr set" where
  "entries_foot F m es = elems_foot F m (map snd es)"

definition map_view ::
    "('c \<Rightarrow> (string \<times> 'm) list option) \<Rightarrow> ('c gomem \<Rightarrow> 'm \<Rightarrow> 'v option) \<Rightarrow> 'c gomem \<Rightarrow> addr option \<Rightarrow>
     (string, 'v) fmap option option" where
  "map_view prj V = ptr_view prj (entries_view V)"

definition map_foot ::
    "('c \<Rightarrow> (string \<times> 'm) list option) \<Rightarrow> ('c gomem \<Rightarrow> 'm \<Rightarrow> addr set) \<Rightarrow> 'c gomem \<Rightarrow> addr option \<Rightarrow> addr set" where
  "map_foot prj F = ptr_foot prj (entries_foot F)"

definition flat_view :: "'c gomem \<Rightarrow> 'm \<Rightarrow> 'm option" where
  "flat_view m v = Some v"

definition flat_foot :: "'c gomem \<Rightarrow> 'm \<Rightarrow> addr set" where
  "flat_foot m v = {}"

text \<open>Two fields copied one after the other, and a struct given by those of its fields that need more
  than the assignment \<^verbatim>\<open>*out = *in\<close>.\<close>

definition pair_view ::
    "('c gomem \<Rightarrow> 'a \<Rightarrow> 'x option) \<Rightarrow> ('c gomem \<Rightarrow> 'b \<Rightarrow> 'y option) \<Rightarrow> 'c gomem \<Rightarrow> 'a \<times> 'b \<Rightarrow> ('x \<times> 'y) option" where
  "pair_view V W m p = Option.bind (V m (fst p)) (\<lambda>x. map_option (Pair x) (W m (snd p)))"

definition pair_foot ::
    "('c gomem \<Rightarrow> 'a \<Rightarrow> addr set) \<Rightarrow> ('c gomem \<Rightarrow> 'b \<Rightarrow> addr set) \<Rightarrow> 'c gomem \<Rightarrow> 'a \<times> 'b \<Rightarrow> addr set" where
  "pair_foot F G m p = F m (fst p) \<union> G m (snd p)"

definition pair_copy ::
    "('a \<Rightarrow> ('s, 'a) io) \<Rightarrow> ('b \<Rightarrow> ('s, 'b) io) \<Rightarrow> 'a \<times> 'b \<Rightarrow> ('s, 'a \<times> 'b) io" where
  "pair_copy C D p = bindE (C (fst p)) (\<lambda>a. bindE (D (snd p)) (\<lambda>b. ret (a, b)))"

definition struct_view ::
    "('m \<Rightarrow> 'p) \<Rightarrow> ('m \<Rightarrow> 'q \<Rightarrow> 'v) \<Rightarrow> ('c gomem \<Rightarrow> 'p \<Rightarrow> 'q option) \<Rightarrow> 'c gomem \<Rightarrow> 'm \<Rightarrow> 'v option" where
  "struct_view parts val V m s = map_option (val s) (V m (parts s))"

definition struct_foot :: "('m \<Rightarrow> 'p) \<Rightarrow> ('c gomem \<Rightarrow> 'p \<Rightarrow> addr set) \<Rightarrow> 'c gomem \<Rightarrow> 'm \<Rightarrow> addr set" where
  "struct_foot parts F m s = F m (parts s)"

definition struct_copy :: "('m \<Rightarrow> 'p) \<Rightarrow> ('p \<Rightarrow> 'm \<Rightarrow> 'm) \<Rightarrow> ('p \<Rightarrow> ('s, 'p) io) \<Rightarrow> 'm \<Rightarrow> ('s, 'm) io" where
  "struct_copy parts put C s = bindE (C (parts s)) (\<lambda>p. ret (put p s))"

section \<open>The contract of a copy\<close>

definition mem_wf :: "'c gomem \<Rightarrow> bool" where
  "mem_wf m \<longleftrightarrow> (\<forall>a \<ge> gm_next m. gm_cell m a = None)"

definition grows :: "'c gomem \<Rightarrow> 'c gomem \<Rightarrow> bool" where
  "grows m m' \<longleftrightarrow> gm_next m \<le> gm_next m' \<and> mem_wf m' \<and> (\<forall>a < gm_next m. gm_cell m' a = gm_cell m a)"

definition same_on :: "addr set \<Rightarrow> 'c gomem \<Rightarrow> 'c gomem \<Rightarrow> bool" where
  "same_on A m m' \<longleftrightarrow> (\<forall>a \<in> A. gm_cell m' a = gm_cell m a)"

locale copier =
  fixes view :: "'c gomem \<Rightarrow> 'm \<Rightarrow> 'v option"
    and foot :: "'c gomem \<Rightarrow> 'm \<Rightarrow> addr set"
    and copy :: "'m \<Rightarrow> ('c gomem, 'm) io"
  assumes frame: "view m v = Some x \<Longrightarrow> same_on (foot m v) m m' \<Longrightarrow> view m' v = Some x \<and> foot m' v = foot m v"
    and allocated: "view m v = Some x \<Longrightarrow> foot m v \<subseteq> dom (gm_cell m)"
    and copied: "mem_wf m \<Longrightarrow> view m v = Some x \<Longrightarrow>
      \<exists>v' m'. copy v m = (Inr v', m') \<and> grows m m' \<and> view m' v' = Some x \<and> foot m' v' \<subseteq> {gm_next m..}"

section \<open>Lemmas\<close>

named_theorems seq_simps \<open>normal form of sequences of copies\<close>

lemma bindE_assoc [seq_simps]: "bindE (bindE m f) g = bindE m (\<lambda>x. bindE (f x) g)"
  by (auto simp: bindE_def fun_eq_iff split: prod.splits sum.splits)

lemma bindE_ret [seq_simps]: "bindE (ret x) f = f x"
  by (simp add: bindE_def fun_eq_iff)

lemma bindE_ret2 [seq_simps]: "bindE m ret = m"
  by (auto simp: bindE_def fun_eq_iff split: prod.splits sum.splits)

lemma grows_refl: "mem_wf m \<Longrightarrow> grows m m"
  by (simp add: grows_def)

lemma grows_trans: "grows m m' \<Longrightarrow> grows m' m'' \<Longrightarrow> grows m m''"
  by (auto simp: grows_def)

lemma grows_wf: "grows m m' \<Longrightarrow> mem_wf m'"
  by (simp add: grows_def)

lemma grows_next: "grows m m' \<Longrightarrow> gm_next m \<le> gm_next m'"
  by (simp add: grows_def)

lemma grows_same_on: "grows m m' \<Longrightarrow> A \<subseteq> {..<gm_next m} \<Longrightarrow> same_on A m m'"
  by (auto simp: grows_def same_on_def)

lemma same_on_mono: "same_on A m m' \<Longrightarrow> B \<subseteq> A \<Longrightarrow> same_on B m m'"
  by (auto simp: same_on_def)

lemma mem_wf_dom: "mem_wf m \<Longrightarrow> dom (gm_cell m) \<subseteq> {..<gm_next m}"
  by (force simp: mem_wf_def not_le [symmetric])

lemma cell_at_same: "same_on A m m' \<Longrightarrow> a \<in> A \<Longrightarrow> cell_at prj m' a = cell_at prj m a"
  by (simp add: same_on_def cell_at_def)

lemma cell_at_dom: "cell_at prj m a = Some v \<Longrightarrow> a \<in> dom (gm_cell m)"
  by (auto simp: cell_at_def split: Option.bind_splits)

lemma those_eq_Some: "those ys = Some zs \<longleftrightarrow> ys = map Some zs"
  by (induction ys arbitrary: zs) (auto split: option.splits)

lemma elems_view_Nil [simp]: "elems_view V m [] = Some []"
  by (simp add: elems_view_def)

lemma elems_view_Cons:
  "elems_view V m (y # ys) = Some zs \<longleftrightarrow> (\<exists>x xs. zs = x # xs \<and> V m y = Some x \<and> elems_view V m ys = Some xs)"
  by (auto simp: elems_view_def those_eq_Some split: option.splits)

lemma elems_view_length: "elems_view V m ys = Some zs \<Longrightarrow> length zs = length ys"
  by (auto simp: elems_view_def those_eq_Some dest: map_eq_imp_length_eq)

lemma elems_foot_simps [simp]:
  "elems_foot F m [] = {}" "elems_foot F m (y # ys) = F m y \<union> elems_foot F m ys"
  by (simp_all add: elems_foot_def)

text \<open>The allocation that every reference copy starts with, and the store it ends with.\<close>

lemma new_addr_grows:
  assumes "mem_wf m"
  shows "new_addr m = (Inr (gm_next m), m\<lparr>gm_next := Suc (gm_next m)\<rparr>)" "grows m (m\<lparr>gm_next := Suc (gm_next m)\<rparr>)"
  using assms by (auto simp: new_addr_def grows_def mem_wf_def)

lemma store_new_grows:
  assumes "grows (m\<lparr>gm_next := Suc (gm_next m)\<rparr>) m'"
  shows "grows m (m'\<lparr>gm_cell := (gm_cell m')(gm_next m \<mapsto> c)\<rparr>)"
  using assms by (auto simp: grows_def mem_wf_def)

lemma store_new_same_on:
  assumes "A \<subseteq> {Suc a..}"
  shows "same_on A m (m\<lparr>gm_cell := (gm_cell m)(a \<mapsto> c)\<rparr>)"
  using assms by (auto simp: same_on_def)

context copier
begin

lemma foot_bound: "mem_wf m \<Longrightarrow> view m v = Some x \<Longrightarrow> foot m v \<subseteq> {..<gm_next m}"
  using allocated mem_wf_dom by blast

lemma grows_frame:
  assumes "mem_wf m" "grows m m'" "view m v = Some x"
  shows "view m' v = Some x" "foot m' v = foot m v"
  using frame [OF assms(3) grows_same_on [OF assms(2) foot_bound [OF assms(1, 3)]]] by simp_all

text \<open>Neither the copy nor later writes through it show in the original, and conversely.\<close>

lemma independent:
  assumes "mem_wf m" "view m v = Some x"
  shows "\<exists>v' m'. copy v m = (Inr v', m') \<and> grows m m' \<and> view m' v = Some x \<and> view m' v' = Some x \<and>
    foot m' v \<inter> foot m' v' = {} \<and>
    (\<forall>m''. same_on (- foot m' v') m' m'' \<longrightarrow> view m'' v = Some x) \<and>
    (\<forall>m''. same_on (- foot m' v) m' m'' \<longrightarrow> view m'' v' = Some x)"
proof -
  obtain v' m' where c: "copy v m = (Inr v', m')" "grows m m'" "view m' v' = Some x" "foot m' v' \<subseteq> {gm_next m..}"
    using copied [OF assms] by blast
  note old = grows_frame [OF assms(1) c(2) assms(2)]
  have "foot m' v \<inter> foot m' v' = {}"
    using foot_bound [OF assms] c(4) unfolding old(2) by fastforce
  then have apart: "foot m' v \<subseteq> - foot m' v'" "foot m' v' \<subseteq> - foot m' v" by blast+
  have "view m'' v = Some x" if "same_on (- foot m' v') m' m''" for m''
    using frame [OF old(1) same_on_mono [OF that apart(1)]] by simp
  moreover have "view m'' v' = Some x" if "same_on (- foot m' v) m' m''" for m''
    using frame [OF c(3) same_on_mono [OF that apart(2)]] by simp
  moreover have "foot m' v \<inter> foot m' v' = {}" using apart(1) by blast
  ultimately show ?thesis using c(1-3) old(1) by (intro exI [of _ v'] exI [of _ m']) simp
qed

end

named_theorems copier_intros \<open>contracts of copies from the contracts of their parts\<close>

lemma copier_flat [copier_intros]: "copier flat_view flat_foot ret"
  by unfold_locales (auto simp: flat_view_def flat_foot_def grows_refl)

lemma bind_eq_SomeE:
  assumes "Option.bind a f = Some x"
  obtains y where "a = Some y" "f y = Some x"
  using assms by (cases a) simp_all

lemma copier_prj:
  assumes "copier V F C"
  shows "copier (\<lambda>m v. Option.bind (V m v) prj) F C"
proof
  fix m v x m' assume v: "Option.bind (V m v) prj = Some x" and s: "same_on (F m v) m m'"
  from v obtain y where y: "V m v = Some y" "prj y = Some x" by (rule bind_eq_SomeE)
  from copier.frame [OF assms y(1) s] y(2) show "Option.bind (V m' v) prj = Some x \<and> F m' v = F m v" by simp
next
  fix m v x assume "Option.bind (V m v) prj = Some x"
  then obtain y where "V m v = Some y" by (rule bind_eq_SomeE)
  then show "F m v \<subseteq> dom (gm_cell m)" by (rule copier.allocated [OF assms])
next
  fix m v x assume wf: "mem_wf m" and v: "Option.bind (V m v) prj = Some x"
  from v obtain y where y: "V m v = Some y" "prj y = Some x" by (rule bind_eq_SomeE)
  from copier.copied [OF assms wf y(1)] obtain v' m' where
    "C v m = (Inr v', m')" "grows m m'" "V m' v' = Some y" "F m' v' \<subseteq> {gm_next m..}" by blast
  with y(2) show "\<exists>v' m'. C v m = (Inr v', m') \<and> grows m m' \<and> Option.bind (V m' v') prj = Some x \<and> F m' v' \<subseteq> {gm_next m..}"
    by (intro exI [of _ v'] exI [of _ m']) simp
qed

lemma copier_pair [copier_intros]:
  assumes "copier V F C" "copier W G D"
  shows "copier (pair_view V W) (pair_foot F G) (pair_copy C D)"
proof -
  have split: "\<exists>y z. V m (fst p) = Some y \<and> W m (snd p) = Some z \<and> x = (y, z)"
    if "pair_view V W m p = Some x" for m p x
    using that by (auto simp: pair_view_def elim: bind_eq_SomeE)
  show ?thesis
  proof
    fix m p x m' assume v: "pair_view V W m p = Some x" and s: "same_on (pair_foot F G m p) m m'"
    from split [OF v] obtain y z where yz: "V m (fst p) = Some y" "W m (snd p) = Some z" "x = (y, z)" by blast
    from s have "same_on (F m (fst p)) m m'" "same_on (G m (snd p)) m m'"
      by (auto simp: pair_foot_def same_on_def)
    from copier.frame [OF assms(1) yz(1) this(1)] copier.frame [OF assms(2) yz(2) this(2)] yz(3)
    show "pair_view V W m' p = Some x \<and> pair_foot F G m' p = pair_foot F G m p"
      by (simp add: pair_view_def pair_foot_def)
  next
    fix m p x assume "pair_view V W m p = Some x"
    from split [OF this] obtain y z where "V m (fst p) = Some y" "W m (snd p) = Some z" by blast
    from copier.allocated [OF assms(1) this(1)] copier.allocated [OF assms(2) this(2)]
    show "pair_foot F G m p \<subseteq> dom (gm_cell m)" unfolding pair_foot_def by (rule Un_least)
  next
    fix m p x assume wf: "mem_wf m" and v: "pair_view V W m p = Some x"
    from split [OF v] obtain y z where yz: "V m (fst p) = Some y" "W m (snd p) = Some z" "x = (y, z)" by blast
    obtain a m1 where a: "C (fst p) m = (Inr a, m1)" "grows m m1" "V m1 a = Some y" "F m1 a \<subseteq> {gm_next m..}"
      using copier.copied [OF assms(1) wf yz(1)] by blast
    note wf1 = grows_wf [OF a(2)]
    obtain b m2 where b: "D (snd p) m1 = (Inr b, m2)" "grows m1 m2" "W m2 b = Some z" "G m2 b \<subseteq> {gm_next m1..}"
      using copier.copied [OF assms(2) wf1 copier.grows_frame(1) [OF assms(2) wf a(2) yz(2)]] by blast
    note a2 = copier.grows_frame [OF assms(1) wf1 b(2) a(3)]
    show "\<exists>p' m'. pair_copy C D p m = (Inr p', m') \<and> grows m m' \<and> pair_view V W m' p' = Some x \<and>
        pair_foot F G m' p' \<subseteq> {gm_next m..}"
    proof (intro exI conjI)
      show "pair_copy C D p m = (Inr (a, b), m2)" by (simp add: pair_copy_def bindE_def a b)
      show "grows m m2" using a(2) b(2) by (rule grows_trans)
      show "pair_view V W m2 (a, b) = Some x" by (simp add: pair_view_def a2 b yz)
      show "pair_foot F G m2 (a, b) \<subseteq> {gm_next m..}"
        using a(4) b(4) grows_next [OF a(2)] by (auto simp: pair_foot_def a2)
    qed
  qed
qed

lemma copier_struct:
  assumes "copier V F C" "\<And>p s. parts (put p s) = p" "\<And>p s. val (put p s) = val s"
  shows "copier (struct_view parts val V) (struct_foot parts F) (struct_copy parts put C)"
proof
  fix m s x m' assume v: "struct_view parts val V m s = Some x" and f: "same_on (struct_foot parts F m s) m m'"
  from v obtain y where y: "V m (parts s) = Some y" "x = val s y" by (auto simp: struct_view_def)
  from copier.frame [OF assms(1) y(1) f [unfolded struct_foot_def]] y(2)
  show "struct_view parts val V m' s = Some x \<and> struct_foot parts F m' s = struct_foot parts F m s"
    by (simp add: struct_view_def struct_foot_def)
next
  fix m s x assume "struct_view parts val V m s = Some x"
  then obtain y where "V m (parts s) = Some y" by (auto simp: struct_view_def)
  from copier.allocated [OF assms(1) this] show "struct_foot parts F m s \<subseteq> dom (gm_cell m)"
    unfolding struct_foot_def .
next
  fix m s x assume wf: "mem_wf m" and v: "struct_view parts val V m s = Some x"
  from v obtain y where y: "V m (parts s) = Some y" "x = val s y" by (auto simp: struct_view_def)
  obtain p' m' where p: "C (parts s) m = (Inr p', m')" "grows m m'" "V m' p' = Some y" "F m' p' \<subseteq> {gm_next m..}"
    using copier.copied [OF assms(1) wf y(1)] by blast
  show "\<exists>s' m'. struct_copy parts put C s m = (Inr s', m') \<and> grows m m' \<and>
      struct_view parts val V m' s' = Some x \<and> struct_foot parts F m' s' \<subseteq> {gm_next m..}"
    using p y(2) by (intro exI [of _ "put p' s"] exI [of _ m'])
      (simp add: struct_copy_def struct_view_def struct_foot_def bindE_def assms(2, 3))
qed

lemma elems_frame:
  assumes "copier V F C" "elems_view V m ys = Some zs" "same_on (elems_foot F m ys) m m'"
  shows "elems_view V m' ys = Some zs \<and> elems_foot F m' ys = elems_foot F m ys"
  using assms(2, 3)
proof (induction ys arbitrary: zs)
  case (Cons y ys)
  from Cons.prems(1) obtain x xs where x: "zs = x # xs" "V m y = Some x" "elems_view V m ys = Some xs"
    by (auto simp: elems_view_Cons)
  from Cons.prems(2) have s: "same_on (F m y) m m'" "same_on (elems_foot F m ys) m m'"
    by (auto simp: same_on_def)
  from Cons.IH [OF x(3) s(2)] copier.frame [OF assms(1) x(2) s(1)] x(1) show ?case
    by (simp add: elems_view_Cons)
qed simp

lemma elems_allocated:
  assumes "copier V F C" "elems_view V m ys = Some zs"
  shows "elems_foot F m ys \<subseteq> dom (gm_cell m)"
  using assms(2)
proof (induction ys arbitrary: zs)
  case (Cons y ys)
  from Cons.prems obtain x xs where x: "V m y = Some x" "elems_view V m ys = Some xs"
    by (auto simp: elems_view_Cons)
  from Cons.IH [OF x(2)] copier.allocated [OF assms(1) x(1)] show ?case by simp
qed simp

lemma elems_copied:
  assumes "copier V F C" "mem_wf m" "elems_view V m ys = Some zs"
  shows "\<exists>ys' m'. copy_elems C ys m = (Inr ys', m') \<and> grows m m' \<and> elems_view V m' ys' = Some zs \<and>
      elems_foot F m' ys' \<subseteq> {gm_next m..}"
  using assms(2, 3)
proof (induction ys arbitrary: m zs)
  case Nil
  then show ?case by (auto simp: grows_refl)
next
  case (Cons y ys)
  from Cons.prems(2) obtain x xs where x: "zs = x # xs" "V m y = Some x" "elems_view V m ys = Some xs"
    by (auto simp: elems_view_Cons)
  obtain y' m1 where y': "C y m = (Inr y', m1)" "grows m m1" "V m1 y' = Some x" "F m1 y' \<subseteq> {gm_next m..}"
    using copier.copied [OF assms(1) Cons.prems(1) x(2)] by blast
  note wf1 = grows_wf [OF y'(2)]
  have "elems_foot F m ys \<subseteq> {..<gm_next m}"
    using elems_allocated [OF assms(1) x(3)] mem_wf_dom [OF Cons.prems(1)] by (rule subset_trans)
  from elems_frame [OF assms(1) x(3) grows_same_on [OF y'(2) this]] have "elems_view V m1 ys = Some xs" by simp
  from Cons.IH [OF wf1 this] obtain ys' m2 where ys': "copy_elems C ys m1 = (Inr ys', m2)" "grows m1 m2"
    "elems_view V m2 ys' = Some xs" "elems_foot F m2 ys' \<subseteq> {gm_next m1..}" by blast
  note y2 = copier.grows_frame [OF assms(1) wf1 ys'(2) y'(3)]
  show ?case
  proof (intro exI conjI)
    show "copy_elems C (y # ys) m = (Inr (y' # ys'), m2)" by (simp add: bindE_def y' ys')
    show "grows m m2" using y'(2) ys'(2) by (rule grows_trans)
    show "elems_view V m2 (y' # ys') = Some zs" by (simp add: elems_view_Cons x(1) y2 ys'(3))
    show "elems_foot F m2 (y' # ys') \<subseteq> {gm_next m..}"
      using y'(4) ys'(4) grows_next [OF y'(2)] by (auto simp: y2)
  qed
qed

lemma copier_elems [copier_intros]:
  assumes "copier V F C"
  shows "copier (elems_view V) (elems_foot F) (copy_elems C)"
  by (unfold_locales) (rule elems_frame [OF assms] elems_allocated [OF assms] elems_copied [OF assms]; assumption)+

text \<open>With distinct keys the entries come out as they went in.\<close>

lemma update_new: "k \<notin> fst ` set al \<Longrightarrow> AList.update k v al = al @ [(k, v)]"
  by (induction al) auto

lemma copy_entries_eq:
  assumes "distinct (map fst (out @ es))"
  shows "copy_entries C out es = bindE (copy_elems C (map snd es)) (\<lambda>vs. ret (out @ zip (map fst es) vs))"
  using assms
proof (induction es arbitrary: out)
  case Nil
  show ?case by (simp add: seq_simps del: ret_eq)
next
  case (Cons e es)
  obtain k v where e: "e = (k, v)" by fastforce
  have k: "k \<notin> fst ` set out" using Cons.prems by (auto simp: e)
  have d: "distinct (map fst ((out @ [(k, v')]) @ es))" for v' using Cons.prems by (auto simp: e)
  have "copy_entries C (AList.update k v' out) es =
      bindE (copy_elems C (map snd es)) (\<lambda>vs. ret ((out @ [(k, v')]) @ zip (map fst es) vs))" for v'
    unfolding update_new [OF k] by (rule Cons.IH [OF d])
  then show ?case by (simp add: e seq_simps del: ret_eq)
qed

lemma copier_entries [copier_intros]:
  assumes "copier V F C"
  shows "copier (entries_view V) (entries_foot F) (copy_entries C [])"
proof
  fix m es x m' assume v: "entries_view V m es = Some x" and s: "same_on (entries_foot F m es) m m'"
  from v obtain vs where vs: "elems_view V m (map snd es) = Some vs" by (auto simp: entries_view_def split: if_splits)
  from elems_frame [OF assms vs s [unfolded entries_foot_def]] v vs
  show "entries_view V m' es = Some x \<and> entries_foot F m' es = entries_foot F m es"
    by (simp add: entries_view_def entries_foot_def split: if_splits)
next
  fix m es x assume "entries_view V m es = Some x"
  then obtain vs where "elems_view V m (map snd es) = Some vs" by (auto simp: entries_view_def split: if_splits)
  from elems_allocated [OF assms this] show "entries_foot F m es \<subseteq> dom (gm_cell m)" unfolding entries_foot_def .
next
  fix m es x assume wf: "mem_wf m" and v: "entries_view V m es = Some x"
  from v obtain vs where vs: "distinct (map fst es)" "elems_view V m (map snd es) = Some vs"
      "x = fmap_of_list (zip (map fst es) vs)" by (auto simp: entries_view_def split: if_splits)
  obtain ys m' where ys: "copy_elems C (map snd es) m = (Inr ys, m')" "grows m m'" "elems_view V m' ys = Some vs"
      "elems_foot F m' ys \<subseteq> {gm_next m..}" using elems_copied [OF assms wf vs(2)] by blast
  have len: "length ys = length es"
    using elems_view_length [OF ys(3)] elems_view_length [OF vs(2)] by simp
  show "\<exists>es' m'. copy_entries C [] es m = (Inr es', m') \<and> grows m m' \<and> entries_view V m' es' = Some x \<and>
      entries_foot F m' es' \<subseteq> {gm_next m..}"
    using vs ys len by (intro exI [of _ "zip (map fst es) ys"] exI [of _ m'])
      (simp add: copy_entries_eq bindE_def entries_view_def entries_foot_def)
qed

text \<open>The common part of the copies through a reference: the target is copied into a new cell.\<close>

lemma copy_into_new:
  assumes "copier V F C" "mem_wf m" "cell_at prj m a = Some u" "V m (sel u) = Some x" "\<And>v. prj (mk v) = Some v"
  shows "\<exists>v' m'. bindE new_addr (\<lambda>b. bindE (load prj a) (\<lambda>u. bindE (C (sel u)) (\<lambda>v'.
        bindE (store b (mk v')) (\<lambda>_. ret (k b))))) m = (Inr (k (gm_next m)), m') \<and> grows m m' \<and>
      cell_at prj m' (gm_next m) = Some v' \<and> V m' v' = Some x \<and> F m' v' \<subseteq> {gm_next m..}"
proof -
  define m1 where "m1 = m\<lparr>gm_next := Suc (gm_next m)\<rparr>"
  note new = new_addr_grows [OF assms(2), folded m1_def]
  have u: "cell_at prj m1 a = Some u" using assms(3) by (simp add: cell_at_def m1_def)
  obtain v' m2 where v': "C (sel u) m1 = (Inr v', m2)" "grows m1 m2" "V m2 v' = Some x" "F m2 v' \<subseteq> {gm_next m1..}"
    using copier.copied [OF assms(1) grows_wf [OF new(2)] copier.grows_frame(1) [OF assms(1, 2) new(2) assms(4)]] by blast
  define m3 where "m3 = m2\<lparr>gm_cell := (gm_cell m2)(gm_next m \<mapsto> mk v')\<rparr>"
  have fr: "F m2 v' \<subseteq> {Suc (gm_next m)..}" using v'(4) by (simp add: m1_def)
  note same = copier.frame [OF assms(1) v'(3) store_new_same_on [OF fr, of m2 "mk v'", folded m3_def]]
  show ?thesis
  proof (intro exI conjI)
    show "bindE new_addr (\<lambda>b. bindE (load prj a) (\<lambda>u. bindE (C (sel u)) (\<lambda>v'.
        bindE (store b (mk v')) (\<lambda>_. ret (k b))))) m = (Inr (k (gm_next m)), m3)"
      by (simp add: bindE_def new load_def u v' store_def m3_def)
    show "grows m m3" unfolding m3_def by (rule store_new_grows [OF v'(2) [unfolded m1_def]])
    show "cell_at prj m3 (gm_next m) = Some v'" by (simp add: cell_at_def m3_def assms(5))
    show "V m3 v' = Some x" using same by simp
    show "F m3 v' \<subseteq> {gm_next m..}" using same fr by auto
  qed
qed

lemma copier_ptr:
  assumes "copier V F C" "\<And>v. prj (mk v) = Some v"
  shows "copier (ptr_view prj V) (ptr_foot prj F) (ptr_copy mk prj C)"
proof -
  have target: "\<exists>u y. cell_at prj m a = Some u \<and> V m u = Some y \<and> x = Some y"
    if "ptr_view prj V m (Some a) = Some x" for m a x
    using that by (auto simp: ptr_view_def elim: bind_eq_SomeE)
  show ?thesis
  proof
    fix m p x m' assume v: "ptr_view prj V m p = Some x" and s: "same_on (ptr_foot prj F m p) m m'"
    show "ptr_view prj V m' p = Some x \<and> ptr_foot prj F m' p = ptr_foot prj F m p"
    proof (cases p)
      case (Some a)
      from target [OF v [unfolded Some]] obtain u y where u: "cell_at prj m a = Some u" "V m u = Some y" "x = Some y" by blast
      have "same_on (insert a (F m u)) m m'" using s by (simp add: Some ptr_foot_def u)
      from cell_at_same [OF this, of a prj] same_on_mono [OF this] u(1)
      have "cell_at prj m' a = Some u" "same_on (F m u) m m'" by auto
      with copier.frame [OF assms(1) u(2)] u Some show ?thesis by (simp add: ptr_view_def ptr_foot_def)
    qed (use v in \<open>simp add: ptr_view_def ptr_foot_def\<close>)
  next
    fix m p x assume v: "ptr_view prj V m p = Some x"
    show "ptr_foot prj F m p \<subseteq> dom (gm_cell m)"
    proof (cases p)
      case (Some a)
      from target [OF v [unfolded Some]] obtain u y where u: "cell_at prj m a = Some u" "V m u = Some y" by blast
      from copier.allocated [OF assms(1) u(2)] cell_at_dom [OF u(1)] show ?thesis by (simp add: Some ptr_foot_def u)
    qed (simp add: ptr_foot_def)
  next
    fix m p x assume wf: "mem_wf m" and v: "ptr_view prj V m p = Some x"
    show "\<exists>p' m'. ptr_copy mk prj C p m = (Inr p', m') \<and> grows m m' \<and> ptr_view prj V m' p' = Some x \<and>
        ptr_foot prj F m' p' \<subseteq> {gm_next m..}"
    proof (cases p)
      case None
      with v wf show ?thesis by (auto simp: ptr_view_def ptr_copy_def ptr_foot_def grows_refl)
    next
      case (Some a)
      from target [OF v [unfolded Some]] obtain u y where u: "cell_at prj m a = Some u" "V m u = Some y" "x = Some y" by blast
      from copy_into_new [where sel = "\<lambda>u. u" and k = Some and mk = mk, OF assms(1) wf u(1, 2) assms(2)] u(3)
      show ?thesis by (fastforce simp: Some ptr_copy_def ptr_view_def ptr_foot_def)
    qed
  qed
qed

lemma copier_map:
  "copier V F C \<Longrightarrow> (\<And>v. prj (mk v) = Some v) \<Longrightarrow> copier (map_view prj V) (map_foot prj F) (map_copy mk prj C)"
  unfolding map_view_def map_foot_def map_copy_def by (intro copier_ptr copier_entries)

lemma window_whole: "window \<lparr>gs_addr = b, gs_off = 0, gs_len = length ys\<rparr> ys = ys"
  by (simp add: window_def)

lemma copier_slice:
  assumes "copier V F C" "\<And>v. prj (mk v) = Some v"
  shows "copier (slice_view prj V) (slice_foot prj F) (slice_copy mk prj C)"
proof -
  have target: "\<exists>u. cell_at prj m (gs_addr a) = Some u \<and> gs_off a + gs_len a \<le> length u \<and> elems_view V m (window a u) = Some x"
    if "slice_view prj V m (Some a) = Some x" for m a x
    using that by (auto simp: slice_view_def elim!: bind_eq_SomeE split: if_splits)
  show ?thesis
  proof
    fix m p x m' assume v: "slice_view prj V m p = Some x" and s: "same_on (slice_foot prj F m p) m m'"
    show "slice_view prj V m' p = Some x \<and> slice_foot prj F m' p = slice_foot prj F m p"
    proof (cases p)
      case (Some a)
      from target [OF v [unfolded Some]] obtain u where u: "cell_at prj m (gs_addr a) = Some u"
        "gs_off a + gs_len a \<le> length u" "elems_view V m (window a u) = Some x" by blast
      have "same_on (insert (gs_addr a) (elems_foot F m (window a u))) m m'" using s by (simp add: Some slice_foot_def u)
      from cell_at_same [OF this, of "gs_addr a" prj] same_on_mono [OF this] u(1)
      have "cell_at prj m' (gs_addr a) = Some u" "same_on (elems_foot F m (window a u)) m m'" by auto
      with elems_frame [OF assms(1) u(3)] u Some show ?thesis by (simp add: slice_view_def slice_foot_def)
    qed (use v in \<open>simp add: slice_view_def slice_foot_def\<close>)
  next
    fix m p x assume v: "slice_view prj V m p = Some x"
    show "slice_foot prj F m p \<subseteq> dom (gm_cell m)"
    proof (cases p)
      case (Some a)
      from target [OF v [unfolded Some]] obtain u where u: "cell_at prj m (gs_addr a) = Some u"
        "elems_view V m (window a u) = Some x" by blast
      from elems_allocated [OF assms(1) u(2)] cell_at_dom [OF u(1)] show ?thesis by (simp add: Some slice_foot_def u)
    qed (simp add: slice_foot_def)
  next
    fix m p x assume wf: "mem_wf m" and v: "slice_view prj V m p = Some x"
    show "\<exists>p' m'. slice_copy mk prj C p m = (Inr p', m') \<and> grows m m' \<and> slice_view prj V m' p' = Some x \<and>
        slice_foot prj F m' p' \<subseteq> {gm_next m..}"
    proof (cases p)
      case None
      with v wf show ?thesis by (auto simp: slice_view_def slice_copy_def slice_foot_def grows_refl)
    next
      case (Some a)
      from target [OF v [unfolded Some]] obtain u where u: "cell_at prj m (gs_addr a) = Some u"
        "gs_off a + gs_len a \<le> length u" "elems_view V m (window a u) = Some x" by blast
      obtain ys m' where ys: "slice_copy mk prj C p m =
            (Inr (Some \<lparr>gs_addr = gm_next m, gs_off = 0, gs_len = gs_len a\<rparr>), m')" "grows m m'"
          "cell_at prj m' (gm_next m) = Some ys" "elems_view V m' ys = Some x" "elems_foot F m' ys \<subseteq> {gm_next m..}"
        using copy_into_new [where sel = "window a" and mk = mk and
            k = "\<lambda>b. Some \<lparr>gs_addr = b, gs_off = 0, gs_len = gs_len a\<rparr>",
            OF copier_elems [OF assms(1)] wf u(1, 3) assms(2)]
        by (auto simp: Some slice_copy_def)
      have "gs_len a = length ys"
        using elems_view_length [OF ys(4)] elems_view_length [OF u(3)] u(2) by (simp add: window_def)
      with ys show ?thesis
        by (intro exI conjI) (assumption, assumption, simp_all add: slice_view_def slice_foot_def window_whole)
    qed
  qed
qed

end
