(* ===== verification/Deep_Memory.thy ===== *)
theory Deep_Memory
  imports Go_Memory Api_Types
begin

text \<open>
  The resources of \<^verbatim>\<open>api/v1beta1\<close> as they lie in memory: one record per struct of
  \<^verbatim>\<open>redkey_types.go\<close> and \<^verbatim>\<open>redkeyconfig_types.go\<close> that has a
      reference in it, with
  addresses where the Go struct has pointers, maps and slices, and the cells such addresses lead to.
  Structs of the Kubernetes libraries are values of a type \<open>'x\<close>, which the model leaves open.
\<close>

section \<open>Structs\<close>

record TypeMeta =
  tm_Kind :: string
  tm_APIVersion :: string

record RobinConfigReconciler_m =
  m_rcr_IntervalSeconds :: "addr option"
  m_rcr_IntervalOnErrorSeconds :: "addr option"
  m_rcr_IntervalOnWaitSeconds :: "addr option"

record RobinConfigCluster_m =
  m_rcc_ConnectionMaxRetries :: "addr option"
  m_rcc_ConnectionBackOffSeconds :: "addr option"
  m_rcc_ClusterCommandTimeoutSeconds :: "addr option"
  m_rcc_ClusterMeetWaitSeconds :: "addr option"
  m_rcc_RebalanceTimeoutSeconds :: "addr option"

record RobinConfigMetrics_m =
  m_rcm_CollectionIntervalSeconds :: "addr option"
  m_rcm_RedisInfoKeys :: "gslice option"
  m_rcm_MetricsLabels :: "addr option"

record RobinConfigProfiling_m =
  m_rcp_Enabled :: "addr option"

record RobinConfig_m =
  m_rc_Reconciler :: "addr option"
  m_rc_Cluster :: "addr option"
  m_rc_Metrics :: "addr option"
  m_rc_Profiling :: "addr option"

record PartialPodSpec_m =
  m_pp_Containers :: "gslice option"
  m_pp_InitContainers :: "gslice option"
  m_pp_EphemeralContainers :: "gslice option"
  m_pp_RestartPolicy :: string
  m_pp_TerminationGracePeriodSeconds :: "addr option"
  m_pp_DNSPolicy :: string
  m_pp_NodeSelector :: "addr option"
  m_pp_ServiceAccountName :: string
  m_pp_SecurityContext :: "addr option"
  m_pp_ImagePullSecrets :: "gslice option"
  m_pp_Affinity :: "addr option"
  m_pp_Tolerations :: "gslice option"
  m_pp_PriorityClassName :: string
  m_pp_TopologySpreadConstraints :: "gslice option"
  m_pp_Volumes :: "gslice option"

record 'x PartialPodTemplateSpec_m =
  m_ppt_Metadata :: 'x
  m_ppt_Spec :: PartialPodSpec_m

record PartialServiceSpec_m =
  m_psv_Ports :: "gslice option"
  m_psv_Selector :: "addr option"
  m_psv_ClusterIP :: string
  m_psv_Type :: string
  m_psv_PublishNotReadyAddresses :: bool

record 'x PartialService_m =
  m_psr_APIVersion :: string
  m_psr_Kind :: string
  m_psr_Metadata :: 'x
  m_psr_Spec :: "addr option"

record PartialStatefulSetSpec_m =
  m_pss_MinReadySeconds :: "addr option"
  m_pss_Replicas :: "addr option"
  m_pss_Selector :: "addr option"
  m_pss_ServiceName :: string
  m_pss_Template :: "addr option"
  m_pss_UpdateStrategy :: "addr option"
  m_pss_RevisionHistoryLimit :: "addr option"
  m_pss_PodManagementPolicy :: string
  m_pss_VolumeClaimTemplates :: "gslice option"
  m_pss_PersistentVolumeClaimRetentionPolicy :: "addr option"
  m_pss_Ordinals :: "addr option"

record 'x PartialStatefulSet_m =
  m_pst_APIVersion :: string
  m_pst_Kind :: string
  m_pst_Metadata :: 'x
  m_pst_Spec :: "addr option"

record RedkeyOverrideSpec_m =
  m_ov_StatefulSet :: "addr option"
  m_ov_Service :: "addr option"

record RobinSpec_m =
  m_rs_Image :: string
  m_rs_Resources :: "addr option"
  m_rs_Template :: "addr option"
  m_rs_Config :: "addr option"

record RedkeySpec_m =
  m_sp_Auth :: RedisAuth
  m_sp_Version :: string
  m_sp_Mode :: string
  m_sp_Primaries :: int
  m_sp_ReplicasPerPrimary :: int
  m_sp_Image :: string
  m_sp_DeletePVC :: "addr option"
  m_sp_Backup :: bool
  m_sp_Robin :: RobinSpec_m
  m_sp_SkipIfSuperseded :: bool
  m_sp_PurgeKeysOnRebalance :: "addr option"
  m_sp_Config :: string
  m_sp_Resources :: "addr option"
  m_sp_Labels :: "addr option"
  m_sp_Annotations :: "addr option"
  m_sp_Pdb :: Pdb
  m_sp_Override :: "addr option"
  m_sp_Ephemeral :: bool
  m_sp_Storage :: string
  m_sp_StorageClassName :: string
  m_sp_AccessModes :: "gslice option"

record RedkeyStatus_m =
  m_st_Replicas :: int
  m_st_Phase :: string
  m_st_Status :: string
  m_st_Substatus :: RedkeySubstatus
  m_st_Nodes :: "addr option"
  m_st_Conditions :: "gslice option"
  m_st_LastUpdatedAt :: "addr option"
  m_st_ObservedGeneration :: int
  m_st_LastAppliedPrimaries :: int
  m_st_LastAppliedReplicasPerPrimary :: int

record 'x Redkey_m =
  m_rk_TypeMeta :: TypeMeta
  m_rk_Meta :: 'x
  m_rk_Spec :: RedkeySpec_m
  m_rk_Status :: RedkeyStatus_m

record RedkeyConfigSpec_m =
  m_cs_Sequence :: int
  m_cs_SkipIfSuperseded :: bool
  m_cs_Mode :: string
  m_cs_Primaries :: int
  m_cs_ReplicasPerPrimary :: int
  m_cs_Ephemeral :: bool
  m_cs_Storage :: string
  m_cs_StorageClassName :: string
  m_cs_Image :: string
  m_cs_Version :: string
  m_cs_RedisConfig :: string
  m_cs_Resources :: "addr option"
  m_cs_Auth :: RedisAuth
  m_cs_Labels :: "addr option"
  m_cs_Annotations :: "addr option"
  m_cs_DeletePVC :: "addr option"
  m_cs_PurgeKeysOnRebalance :: "addr option"
  m_cs_Override :: "addr option"
  m_cs_Pdb :: Pdb
  m_cs_RobinConfig :: "addr option"

record RedkeyConfigStatus_m =
  m_ct_ConfigPhase :: string
  m_ct_Status :: string
  m_ct_Substatus :: RedkeySubstatus
  m_ct_Nodes :: "addr option"
  m_ct_Conditions :: "gslice option"
  m_ct_LastUpdatedAt :: "addr option"
  m_ct_ObservedGeneration :: int

record 'x RedkeyConfig_m =
  m_cf_TypeMeta :: TypeMeta
  m_cf_Meta :: 'x
  m_cf_Spec :: RedkeyConfigSpec_m
  m_cf_Status :: RedkeyConfigStatus_m

record 'x RedkeyList_m =
  m_rl_TypeMeta :: TypeMeta
  m_rl_ListMeta :: 'x
  m_rl_Items :: "gslice option"

record 'x RedkeyConfigList_m =
  m_cl_TypeMeta :: TypeMeta
  m_cl_ListMeta :: 'x
  m_cl_Items :: "gslice option"

section \<open>Cells\<close>

datatype 'x cell =
    CBool bool
  | CInt int
  | CStrings "string list"
  | CStrMap "(string \<times> string) list"
  | CMapRef "addr option"
  | CNodes "(string \<times> addr option) list"
  | CTime time
  | CK8s k8s
  | CK8sArray "k8s list"
  | CExt 'x
  | CExtArray "'x list"
  | CPdb Pdb
  | CRedisAuth RedisAuth
  | CRedisNode RedisNode
  | CRedkeySubstatus RedkeySubstatus
  | CRobinConfigReconciler RobinConfigReconciler_m
  | CRobinConfigCluster RobinConfigCluster_m
  | CRobinConfigMetrics RobinConfigMetrics_m
  | CRobinConfigProfiling RobinConfigProfiling_m
  | CRobinConfig RobinConfig_m
  | CPartialPodSpec PartialPodSpec_m
  | CPartialPodTemplateSpec "'x PartialPodTemplateSpec_m"
  | CPartialServiceSpec PartialServiceSpec_m
  | CPartialService "'x PartialService_m"
  | CPartialStatefulSetSpec PartialStatefulSetSpec_m
  | CPartialStatefulSet "'x PartialStatefulSet_m"
  | CRedkeyOverrideSpec RedkeyOverrideSpec_m
  | CRobinSpec RobinSpec_m
  | CRedkeySpec RedkeySpec_m
  | CRedkeyStatus RedkeyStatus_m
  | CRedkey "'x Redkey_m"
  | CRedkeyConfigSpec RedkeyConfigSpec_m
  | CRedkeyConfigStatus RedkeyConfigStatus_m
  | CRedkeyConfig "'x RedkeyConfig_m"
  | CRedkeyList "'x RedkeyList_m"
  | CRedkeyConfigList "'x RedkeyConfigList_m"
  | CRedkeyArray "'x Redkey_m list"
  | CRedkeyConfigArray "'x RedkeyConfig_m list"

type_synonym 'x memory = "'x cell gomem"

text \<open>Reading a cell at a type.\<close>

definition un_CBool :: "'x cell \<Rightarrow> bool option" where
  "un_CBool c = (case c of CBool v \<Rightarrow> Some v | _ \<Rightarrow> None)"

definition un_CInt :: "'x cell \<Rightarrow> int option" where
  "un_CInt c = (case c of CInt v \<Rightarrow> Some v | _ \<Rightarrow> None)"

definition un_CStrings :: "'x cell \<Rightarrow> (string list) option" where
  "un_CStrings c = (case c of CStrings v \<Rightarrow> Some v | _ \<Rightarrow> None)"

definition un_CStrMap :: "'x cell \<Rightarrow> ((string \<times> string) list) option" where
  "un_CStrMap c = (case c of CStrMap v \<Rightarrow> Some v | _ \<Rightarrow> None)"

definition un_CMapRef :: "'x cell \<Rightarrow> (addr option) option" where
  "un_CMapRef c = (case c of CMapRef v \<Rightarrow> Some v | _ \<Rightarrow> None)"

definition un_CNodes :: "'x cell \<Rightarrow> ((string \<times> addr option) list) option" where
  "un_CNodes c = (case c of CNodes v \<Rightarrow> Some v | _ \<Rightarrow> None)"

definition un_CTime :: "'x cell \<Rightarrow> time option" where
  "un_CTime c = (case c of CTime v \<Rightarrow> Some v | _ \<Rightarrow> None)"

definition un_CK8s :: "'x cell \<Rightarrow> k8s option" where
  "un_CK8s c = (case c of CK8s v \<Rightarrow> Some v | _ \<Rightarrow> None)"

definition un_CK8sArray :: "'x cell \<Rightarrow> (k8s list) option" where
  "un_CK8sArray c = (case c of CK8sArray v \<Rightarrow> Some v | _ \<Rightarrow> None)"

definition un_CExt :: "'x cell \<Rightarrow> 'x option" where
  "un_CExt c = (case c of CExt v \<Rightarrow> Some v | _ \<Rightarrow> None)"

definition un_CExtArray :: "'x cell \<Rightarrow> ('x list) option" where
  "un_CExtArray c = (case c of CExtArray v \<Rightarrow> Some v | _ \<Rightarrow> None)"

definition un_CPdb :: "'x cell \<Rightarrow> Pdb option" where
  "un_CPdb c = (case c of CPdb v \<Rightarrow> Some v | _ \<Rightarrow> None)"

definition un_CRedisAuth :: "'x cell \<Rightarrow> RedisAuth option" where
  "un_CRedisAuth c = (case c of CRedisAuth v \<Rightarrow> Some v | _ \<Rightarrow> None)"

definition un_CRedisNode :: "'x cell \<Rightarrow> RedisNode option" where
  "un_CRedisNode c = (case c of CRedisNode v \<Rightarrow> Some v | _ \<Rightarrow> None)"

definition un_CRedkeySubstatus :: "'x cell \<Rightarrow> RedkeySubstatus option" where
  "un_CRedkeySubstatus c = (case c of CRedkeySubstatus v \<Rightarrow> Some v | _ \<Rightarrow> None)"

definition un_CRobinConfigReconciler :: "'x cell \<Rightarrow> RobinConfigReconciler_m option" where
  "un_CRobinConfigReconciler c = (case c of CRobinConfigReconciler v \<Rightarrow> Some v | _ \<Rightarrow> None)"

definition un_CRobinConfigCluster :: "'x cell \<Rightarrow> RobinConfigCluster_m option" where
  "un_CRobinConfigCluster c = (case c of CRobinConfigCluster v \<Rightarrow> Some v | _ \<Rightarrow> None)"

definition un_CRobinConfigMetrics :: "'x cell \<Rightarrow> RobinConfigMetrics_m option" where
  "un_CRobinConfigMetrics c = (case c of CRobinConfigMetrics v \<Rightarrow> Some v | _ \<Rightarrow> None)"

definition un_CRobinConfigProfiling :: "'x cell \<Rightarrow> RobinConfigProfiling_m option" where
  "un_CRobinConfigProfiling c = (case c of CRobinConfigProfiling v \<Rightarrow> Some v | _ \<Rightarrow> None)"

definition un_CRobinConfig :: "'x cell \<Rightarrow> RobinConfig_m option" where
  "un_CRobinConfig c = (case c of CRobinConfig v \<Rightarrow> Some v | _ \<Rightarrow> None)"

definition un_CPartialPodSpec :: "'x cell \<Rightarrow> PartialPodSpec_m option" where
  "un_CPartialPodSpec c = (case c of CPartialPodSpec v \<Rightarrow> Some v | _ \<Rightarrow> None)"

definition un_CPartialPodTemplateSpec :: "'x cell \<Rightarrow> ('x PartialPodTemplateSpec_m) option" where
  "un_CPartialPodTemplateSpec c = (case c of CPartialPodTemplateSpec v \<Rightarrow> Some v | _ \<Rightarrow> None)"

definition un_CPartialServiceSpec :: "'x cell \<Rightarrow> PartialServiceSpec_m option" where
  "un_CPartialServiceSpec c = (case c of CPartialServiceSpec v \<Rightarrow> Some v | _ \<Rightarrow> None)"

definition un_CPartialService :: "'x cell \<Rightarrow> ('x PartialService_m) option" where
  "un_CPartialService c = (case c of CPartialService v \<Rightarrow> Some v | _ \<Rightarrow> None)"

definition un_CPartialStatefulSetSpec :: "'x cell \<Rightarrow> PartialStatefulSetSpec_m option" where
  "un_CPartialStatefulSetSpec c = (case c of CPartialStatefulSetSpec v \<Rightarrow> Some v | _ \<Rightarrow> None)"

definition un_CPartialStatefulSet :: "'x cell \<Rightarrow> ('x PartialStatefulSet_m) option" where
  "un_CPartialStatefulSet c = (case c of CPartialStatefulSet v \<Rightarrow> Some v | _ \<Rightarrow> None)"

definition un_CRedkeyOverrideSpec :: "'x cell \<Rightarrow> RedkeyOverrideSpec_m option" where
  "un_CRedkeyOverrideSpec c = (case c of CRedkeyOverrideSpec v \<Rightarrow> Some v | _ \<Rightarrow> None)"

definition un_CRobinSpec :: "'x cell \<Rightarrow> RobinSpec_m option" where
  "un_CRobinSpec c = (case c of CRobinSpec v \<Rightarrow> Some v | _ \<Rightarrow> None)"

definition un_CRedkeySpec :: "'x cell \<Rightarrow> RedkeySpec_m option" where
  "un_CRedkeySpec c = (case c of CRedkeySpec v \<Rightarrow> Some v | _ \<Rightarrow> None)"

definition un_CRedkeyStatus :: "'x cell \<Rightarrow> RedkeyStatus_m option" where
  "un_CRedkeyStatus c = (case c of CRedkeyStatus v \<Rightarrow> Some v | _ \<Rightarrow> None)"

definition un_CRedkey :: "'x cell \<Rightarrow> ('x Redkey_m) option" where
  "un_CRedkey c = (case c of CRedkey v \<Rightarrow> Some v | _ \<Rightarrow> None)"

definition un_CRedkeyConfigSpec :: "'x cell \<Rightarrow> RedkeyConfigSpec_m option" where
  "un_CRedkeyConfigSpec c = (case c of CRedkeyConfigSpec v \<Rightarrow> Some v | _ \<Rightarrow> None)"

definition un_CRedkeyConfigStatus :: "'x cell \<Rightarrow> RedkeyConfigStatus_m option" where
  "un_CRedkeyConfigStatus c = (case c of CRedkeyConfigStatus v \<Rightarrow> Some v | _ \<Rightarrow> None)"

definition un_CRedkeyConfig :: "'x cell \<Rightarrow> ('x RedkeyConfig_m) option" where
  "un_CRedkeyConfig c = (case c of CRedkeyConfig v \<Rightarrow> Some v | _ \<Rightarrow> None)"

definition un_CRedkeyList :: "'x cell \<Rightarrow> ('x RedkeyList_m) option" where
  "un_CRedkeyList c = (case c of CRedkeyList v \<Rightarrow> Some v | _ \<Rightarrow> None)"

definition un_CRedkeyConfigList :: "'x cell \<Rightarrow> ('x RedkeyConfigList_m) option" where
  "un_CRedkeyConfigList c = (case c of CRedkeyConfigList v \<Rightarrow> Some v | _ \<Rightarrow> None)"

definition un_CRedkeyArray :: "'x cell \<Rightarrow> ('x Redkey_m list) option" where
  "un_CRedkeyArray c = (case c of CRedkeyArray v \<Rightarrow> Some v | _ \<Rightarrow> None)"

definition un_CRedkeyConfigArray :: "'x cell \<Rightarrow> ('x RedkeyConfig_m list) option" where
  "un_CRedkeyConfigArray c = (case c of CRedkeyConfigArray v \<Rightarrow> Some v | _ \<Rightarrow> None)"

section \<open>Library structs\<close>

text \<open>What a library struct stands for.\<close>

datatype ext_value =
    XContainer Container
  | XResources ResourceRequirements
  | XMeta ObjectMeta
  | XCondition Condition
  | XOther k8s

definition un_XContainer :: "ext_value \<Rightarrow> Container option" where
  "un_XContainer e = (case e of XContainer v \<Rightarrow> Some v | _ \<Rightarrow> None)"

definition un_XResources :: "ext_value \<Rightarrow> ResourceRequirements option" where
  "un_XResources e = (case e of XResources v \<Rightarrow> Some v | _ \<Rightarrow> None)"

definition un_XMeta :: "ext_value \<Rightarrow> ObjectMeta option" where
  "un_XMeta e = (case e of XMeta v \<Rightarrow> Some v | _ \<Rightarrow> None)"

definition un_XCondition :: "ext_value \<Rightarrow> Condition option" where
  "un_XCondition e = (case e of XCondition v \<Rightarrow> Some v | _ \<Rightarrow> None)"

definition un_XOther :: "ext_value \<Rightarrow> k8s option" where
  "un_XOther e = (case e of XOther v \<Rightarrow> Some v | _ \<Rightarrow> None)"

text \<open>The library's own copies: \<^verbatim>\<open>DeepCopyInto\<close> of its structs, and
      \<^verbatim>\<open>DeepCopy\<close> of
  \<^verbatim>\<open>metav1.Time\<close>.\<close>

record 'x extern =
  x_DeepCopyInto :: "'x \<Rightarrow> ('x memory, 'x) io"
  x_TimeDeepCopy :: "addr \<Rightarrow> ('x memory, addr) io"

section \<open>Lemmas\<close>

lemma un_cells [simp]:
  "un_CBool (CBool v0) = Some v0"
  "un_CInt (CInt v1) = Some v1"
  "un_CStrings (CStrings v2) = Some v2"
  "un_CStrMap (CStrMap v3) = Some v3"
  "un_CMapRef (CMapRef v4) = Some v4"
  "un_CNodes (CNodes v5) = Some v5"
  "un_CTime (CTime v6) = Some v6"
  "un_CK8s (CK8s v7) = Some v7"
  "un_CK8sArray (CK8sArray v8) = Some v8"
  "un_CExt (CExt v9) = Some v9"
  "un_CExtArray (CExtArray v10) = Some v10"
  "un_CPdb (CPdb v11) = Some v11"
  "un_CRedisAuth (CRedisAuth v12) = Some v12"
  "un_CRedisNode (CRedisNode v13) = Some v13"
  "un_CRedkeySubstatus (CRedkeySubstatus v14) = Some v14"
  "un_CRobinConfigReconciler (CRobinConfigReconciler v15) = Some v15"
  "un_CRobinConfigCluster (CRobinConfigCluster v16) = Some v16"
  "un_CRobinConfigMetrics (CRobinConfigMetrics v17) = Some v17"
  "un_CRobinConfigProfiling (CRobinConfigProfiling v18) = Some v18"
  "un_CRobinConfig (CRobinConfig v19) = Some v19"
  "un_CPartialPodSpec (CPartialPodSpec v20) = Some v20"
  "un_CPartialPodTemplateSpec (CPartialPodTemplateSpec v21) = Some v21"
  "un_CPartialServiceSpec (CPartialServiceSpec v22) = Some v22"
  "un_CPartialService (CPartialService v23) = Some v23"
  "un_CPartialStatefulSetSpec (CPartialStatefulSetSpec v24) = Some v24"
  "un_CPartialStatefulSet (CPartialStatefulSet v25) = Some v25"
  "un_CRedkeyOverrideSpec (CRedkeyOverrideSpec v26) = Some v26"
  "un_CRobinSpec (CRobinSpec v27) = Some v27"
  "un_CRedkeySpec (CRedkeySpec v28) = Some v28"
  "un_CRedkeyStatus (CRedkeyStatus v29) = Some v29"
  "un_CRedkey (CRedkey v30) = Some v30"
  "un_CRedkeyConfigSpec (CRedkeyConfigSpec v31) = Some v31"
  "un_CRedkeyConfigStatus (CRedkeyConfigStatus v32) = Some v32"
  "un_CRedkeyConfig (CRedkeyConfig v33) = Some v33"
  "un_CRedkeyList (CRedkeyList v34) = Some v34"
  "un_CRedkeyConfigList (CRedkeyConfigList v35) = Some v35"
  "un_CRedkeyArray (CRedkeyArray v36) = Some v36"
  "un_CRedkeyConfigArray (CRedkeyConfigArray v37) = Some v37"
  by (simp_all add: un_CBool_def un_CInt_def un_CStrings_def un_CStrMap_def un_CMapRef_def un_CNodes_def
      un_CTime_def un_CK8s_def un_CK8sArray_def un_CExt_def un_CExtArray_def un_CPdb_def un_CRedisAuth_def
      un_CRedisNode_def un_CRedkeySubstatus_def un_CRobinConfigReconciler_def un_CRobinConfigCluster_def
      un_CRobinConfigMetrics_def un_CRobinConfigProfiling_def un_CRobinConfig_def un_CPartialPodSpec_def
      un_CPartialPodTemplateSpec_def un_CPartialServiceSpec_def un_CPartialService_def
      un_CPartialStatefulSetSpec_def un_CPartialStatefulSet_def un_CRedkeyOverrideSpec_def un_CRobinSpec_def
      un_CRedkeySpec_def un_CRedkeyStatus_def un_CRedkey_def un_CRedkeyConfigSpec_def un_CRedkeyConfigStatus_def
      un_CRedkeyConfig_def un_CRedkeyList_def un_CRedkeyConfigList_def un_CRedkeyArray_def un_CRedkeyConfigArray_def)

end
