(* ===== verification/Deep_Copy.thy ===== *)
theory Deep_Copy
  imports Deep_Memory
begin

text \<open>
  \<^verbatim>\<open>zz_generated.deepcopy.go\<close>: for every type of the API,
      \<^verbatim>\<open>DeepCopyInto\<close>, which assigns
  the struct and then copies its references one by one, \<^verbatim>\<open>DeepCopy\<close>, which allocates the
      target,
  and for the resources \<^verbatim>\<open>DeepCopyObject\<close>. A function returns the struct that it leaves in
  \<^verbatim>\<open>*out\<close>. The copies of library structs are fields of the argument \<open>x\<close>.
\<close>

section \<open>DeepCopyInto\<close>

text \<open>\<^verbatim>\<open>if in.LastUpdatedAt != nil { *out = (*in).DeepCopy() }\<close>.\<close>

definition time_copy :: "'x extern \<Rightarrow> addr option \<Rightarrow> ('x memory, addr option) io" where
  "time_copy x p =
     (case p of None \<Rightarrow> ret None | Some a \<Rightarrow> bindE (x_TimeDeepCopy x a) (\<lambda>b. ret (Some b)))"

definition Pdb_DeepCopyInto :: "Pdb \<Rightarrow> ('x memory, Pdb) io" where
  "Pdb_DeepCopyInto inp =
     ret (inp\<lparr>pd_PdbSizeUnavailable := pd_PdbSizeUnavailable inp, pd_PdbSizeAvailable :=
      pd_PdbSizeAvailable inp\<rparr>)"

definition RedisAuth_DeepCopyInto :: "RedisAuth \<Rightarrow> ('x memory, RedisAuth) io" where
  "RedisAuth_DeepCopyInto inp = ret inp"

definition RedisNode_DeepCopyInto :: "RedisNode \<Rightarrow> ('x memory, RedisNode) io" where
  "RedisNode_DeepCopyInto inp = ret inp"

definition RedkeySubstatus_DeepCopyInto :: "RedkeySubstatus \<Rightarrow> ('x memory, RedkeySubstatus) io" where
  "RedkeySubstatus_DeepCopyInto inp = ret inp"

definition RobinConfigReconciler_DeepCopyInto ::
    "RobinConfigReconciler_m \<Rightarrow> ('x memory, RobinConfigReconciler_m) io" where
  "RobinConfigReconciler_DeepCopyInto inp =
     bindE (ptr_copy CInt un_CInt ret (m_rcr_IntervalSeconds inp)) (\<lambda>intervalSeconds'.
     bindE (ptr_copy CInt un_CInt ret (m_rcr_IntervalOnErrorSeconds inp)) (\<lambda>intervalOnErrorSeconds'.
     bindE (ptr_copy CInt un_CInt ret (m_rcr_IntervalOnWaitSeconds inp)) (\<lambda>intervalOnWaitSeconds'.
     ret (inp\<lparr>m_rcr_IntervalSeconds := intervalSeconds',
       m_rcr_IntervalOnErrorSeconds := intervalOnErrorSeconds',
       m_rcr_IntervalOnWaitSeconds := intervalOnWaitSeconds'\<rparr>))))"

definition RobinConfigCluster_DeepCopyInto ::
    "RobinConfigCluster_m \<Rightarrow> ('x memory, RobinConfigCluster_m) io" where
  "RobinConfigCluster_DeepCopyInto inp =
     bindE (ptr_copy CInt un_CInt ret (m_rcc_ConnectionMaxRetries inp)) (\<lambda>connectionMaxRetries'.
     bindE (ptr_copy CInt un_CInt ret (m_rcc_ConnectionBackOffSeconds inp)) (\<lambda>connectionBackOffSeconds'.
     bindE (ptr_copy CInt un_CInt ret (m_rcc_ClusterCommandTimeoutSeconds inp))
       (\<lambda>clusterCommandTimeoutSeconds'.
     bindE (ptr_copy CInt un_CInt ret (m_rcc_ClusterMeetWaitSeconds inp)) (\<lambda>clusterMeetWaitSeconds'.
     bindE (ptr_copy CInt un_CInt ret (m_rcc_RebalanceTimeoutSeconds inp)) (\<lambda>rebalanceTimeoutSeconds'.
     ret (inp\<lparr>m_rcc_ConnectionMaxRetries := connectionMaxRetries',
       m_rcc_ConnectionBackOffSeconds := connectionBackOffSeconds',
       m_rcc_ClusterCommandTimeoutSeconds := clusterCommandTimeoutSeconds',
       m_rcc_ClusterMeetWaitSeconds := clusterMeetWaitSeconds',
       m_rcc_RebalanceTimeoutSeconds := rebalanceTimeoutSeconds'\<rparr>))))))"

definition RobinConfigMetrics_DeepCopyInto ::
    "RobinConfigMetrics_m \<Rightarrow> ('x memory, RobinConfigMetrics_m) io" where
  "RobinConfigMetrics_DeepCopyInto inp =
     bindE (ptr_copy CInt un_CInt ret (m_rcm_CollectionIntervalSeconds inp))
       (\<lambda>collectionIntervalSeconds'.
     bindE (slice_copy CStrings un_CStrings ret (m_rcm_RedisInfoKeys inp)) (\<lambda>redisInfoKeys'.
     bindE (map_copy CStrMap un_CStrMap ret (m_rcm_MetricsLabels inp)) (\<lambda>metricsLabels'.
     ret (inp\<lparr>m_rcm_CollectionIntervalSeconds := collectionIntervalSeconds',
       m_rcm_RedisInfoKeys := redisInfoKeys', m_rcm_MetricsLabels := metricsLabels'\<rparr>))))"

definition RobinConfigProfiling_DeepCopyInto ::
    "RobinConfigProfiling_m \<Rightarrow> ('x memory, RobinConfigProfiling_m) io" where
  "RobinConfigProfiling_DeepCopyInto inp =
     bindE (ptr_copy CBool un_CBool ret (m_rcp_Enabled inp)) (\<lambda>enabled'.
     ret (inp\<lparr>m_rcp_Enabled := enabled'\<rparr>))"

definition RobinConfig_DeepCopyInto :: "RobinConfig_m \<Rightarrow> ('x memory, RobinConfig_m) io" where
  "RobinConfig_DeepCopyInto inp =
     bindE (ptr_copy CRobinConfigReconciler un_CRobinConfigReconciler RobinConfigReconciler_DeepCopyInto
      (m_rc_Reconciler inp))
       (\<lambda>reconciler'.
     bindE (ptr_copy CRobinConfigCluster un_CRobinConfigCluster RobinConfigCluster_DeepCopyInto (m_rc_Cluster inp))
       (\<lambda>cluster'.
     bindE (ptr_copy CRobinConfigMetrics un_CRobinConfigMetrics RobinConfigMetrics_DeepCopyInto (m_rc_Metrics inp))
       (\<lambda>metrics'.
     bindE (ptr_copy CRobinConfigProfiling un_CRobinConfigProfiling RobinConfigProfiling_DeepCopyInto
      (m_rc_Profiling inp))
       (\<lambda>profiling'.
     ret (inp\<lparr>m_rc_Reconciler := reconciler', m_rc_Cluster := cluster', m_rc_Metrics := metrics',
       m_rc_Profiling := profiling'\<rparr>)))))"

definition PartialPodSpec_DeepCopyInto ::
    "'x extern \<Rightarrow> PartialPodSpec_m \<Rightarrow> ('x memory, PartialPodSpec_m) io" where
  "PartialPodSpec_DeepCopyInto x inp =
     bindE (slice_copy CExtArray un_CExtArray (x_DeepCopyInto x) (m_pp_Containers inp)) (\<lambda>containers'.
     bindE (slice_copy CExtArray un_CExtArray (x_DeepCopyInto x) (m_pp_InitContainers inp))
       (\<lambda>initContainers'.
     bindE (slice_copy CExtArray un_CExtArray (x_DeepCopyInto x) (m_pp_EphemeralContainers inp))
       (\<lambda>ephemeralContainers'.
     bindE (ptr_copy CInt un_CInt ret (m_pp_TerminationGracePeriodSeconds inp))
       (\<lambda>terminationGracePeriodSeconds'.
     bindE (map_copy CStrMap un_CStrMap ret (m_pp_NodeSelector inp)) (\<lambda>nodeSelector'.
     bindE (ptr_copy CExt un_CExt (x_DeepCopyInto x) (m_pp_SecurityContext inp)) (\<lambda>securityContext'.
     bindE (slice_copy CK8sArray un_CK8sArray ret (m_pp_ImagePullSecrets inp)) (\<lambda>imagePullSecrets'.
     bindE (ptr_copy CExt un_CExt (x_DeepCopyInto x) (m_pp_Affinity inp)) (\<lambda>affinity'.
     bindE (slice_copy CExtArray un_CExtArray (x_DeepCopyInto x) (m_pp_Tolerations inp)) (\<lambda>tolerations'.
     bindE (slice_copy CExtArray un_CExtArray (x_DeepCopyInto x) (m_pp_TopologySpreadConstraints inp))
       (\<lambda>topologySpreadConstraints'.
     bindE (slice_copy CExtArray un_CExtArray (x_DeepCopyInto x) (m_pp_Volumes inp)) (\<lambda>volumes'.
     ret (inp\<lparr>m_pp_Containers := containers', m_pp_InitContainers := initContainers',
       m_pp_EphemeralContainers := ephemeralContainers',
       m_pp_TerminationGracePeriodSeconds := terminationGracePeriodSeconds',
       m_pp_NodeSelector := nodeSelector', m_pp_SecurityContext := securityContext',
       m_pp_ImagePullSecrets := imagePullSecrets', m_pp_Affinity := affinity',
       m_pp_Tolerations := tolerations', m_pp_TopologySpreadConstraints := topologySpreadConstraints',
       m_pp_Volumes := volumes'\<rparr>))))))))))))"

definition PartialPodTemplateSpec_DeepCopyInto ::
    "'x extern \<Rightarrow> 'x PartialPodTemplateSpec_m \<Rightarrow> ('x memory,
       'x PartialPodTemplateSpec_m) io" where
  "PartialPodTemplateSpec_DeepCopyInto x inp =
     bindE (x_DeepCopyInto x (m_ppt_Metadata inp)) (\<lambda>metadata'.
     bindE (PartialPodSpec_DeepCopyInto x (m_ppt_Spec inp)) (\<lambda>spec'.
     ret (inp\<lparr>m_ppt_Metadata := metadata', m_ppt_Spec := spec'\<rparr>)))"

definition PartialServiceSpec_DeepCopyInto ::
    "'x extern \<Rightarrow> PartialServiceSpec_m \<Rightarrow> ('x memory, PartialServiceSpec_m) io" where
  "PartialServiceSpec_DeepCopyInto x inp =
     bindE (slice_copy CExtArray un_CExtArray (x_DeepCopyInto x) (m_psv_Ports inp)) (\<lambda>ports'.
     bindE (map_copy CStrMap un_CStrMap ret (m_psv_Selector inp)) (\<lambda>selector'.
     ret (inp\<lparr>m_psv_Ports := ports', m_psv_Selector := selector'\<rparr>)))"

definition PartialService_DeepCopyInto ::
    "'x extern \<Rightarrow> 'x PartialService_m \<Rightarrow> ('x memory, 'x PartialService_m) io" where
  "PartialService_DeepCopyInto x inp =
     bindE (x_DeepCopyInto x (m_psr_Metadata inp)) (\<lambda>metadata'.
     bindE (ptr_copy CPartialServiceSpec un_CPartialServiceSpec (PartialServiceSpec_DeepCopyInto x) (m_psr_Spec inp))
       (\<lambda>spec'.
     ret (inp\<lparr>m_psr_Metadata := metadata', m_psr_Spec := spec'\<rparr>)))"

definition PartialStatefulSetSpec_DeepCopyInto ::
    "'x extern \<Rightarrow> PartialStatefulSetSpec_m \<Rightarrow> ('x memory, PartialStatefulSetSpec_m) io" where
  "PartialStatefulSetSpec_DeepCopyInto x inp =
     bindE (ptr_copy CInt un_CInt ret (m_pss_MinReadySeconds inp)) (\<lambda>minReadySeconds'.
     bindE (ptr_copy CInt un_CInt ret (m_pss_Replicas inp)) (\<lambda>replicas'.
     bindE (ptr_copy CExt un_CExt (x_DeepCopyInto x) (m_pss_Selector inp)) (\<lambda>selector'.
     bindE (ptr_copy CPartialPodTemplateSpec un_CPartialPodTemplateSpec (PartialPodTemplateSpec_DeepCopyInto x)
      (m_pss_Template inp))
       (\<lambda>template'.
     bindE (ptr_copy CExt un_CExt (x_DeepCopyInto x) (m_pss_UpdateStrategy inp)) (\<lambda>updateStrategy'.
     bindE (ptr_copy CInt un_CInt ret (m_pss_RevisionHistoryLimit inp)) (\<lambda>revisionHistoryLimit'.
     bindE (slice_copy CExtArray un_CExtArray (x_DeepCopyInto x) (m_pss_VolumeClaimTemplates inp))
       (\<lambda>volumeClaimTemplates'.
     bindE (ptr_copy CK8s un_CK8s ret (m_pss_PersistentVolumeClaimRetentionPolicy inp))
       (\<lambda>persistentVolumeClaimRetentionPolicy'.
     bindE (ptr_copy CK8s un_CK8s ret (m_pss_Ordinals inp)) (\<lambda>ordinals'.
     ret (inp\<lparr>m_pss_MinReadySeconds := minReadySeconds', m_pss_Replicas := replicas',
       m_pss_Selector := selector', m_pss_Template := template', m_pss_UpdateStrategy := updateStrategy',
       m_pss_RevisionHistoryLimit := revisionHistoryLimit',
       m_pss_VolumeClaimTemplates := volumeClaimTemplates',
       m_pss_PersistentVolumeClaimRetentionPolicy := persistentVolumeClaimRetentionPolicy',
       m_pss_Ordinals := ordinals'\<rparr>))))))))))"

definition PartialStatefulSet_DeepCopyInto ::
    "'x extern \<Rightarrow> 'x PartialStatefulSet_m \<Rightarrow> ('x memory, 'x PartialStatefulSet_m) io" where
  "PartialStatefulSet_DeepCopyInto x inp =
     bindE (x_DeepCopyInto x (m_pst_Metadata inp)) (\<lambda>metadata'.
     bindE (ptr_copy CPartialStatefulSetSpec un_CPartialStatefulSetSpec (PartialStatefulSetSpec_DeepCopyInto x)
      (m_pst_Spec inp))
       (\<lambda>spec'.
     ret (inp\<lparr>m_pst_Metadata := metadata', m_pst_Spec := spec'\<rparr>)))"

definition RedkeyOverrideSpec_DeepCopyInto ::
    "'x extern \<Rightarrow> RedkeyOverrideSpec_m \<Rightarrow> ('x memory, RedkeyOverrideSpec_m) io" where
  "RedkeyOverrideSpec_DeepCopyInto x inp =
     bindE (ptr_copy CPartialStatefulSet un_CPartialStatefulSet (PartialStatefulSet_DeepCopyInto x)
      (m_ov_StatefulSet inp))
       (\<lambda>statefulSet'.
     bindE (ptr_copy CPartialService un_CPartialService (PartialService_DeepCopyInto x) (m_ov_Service inp))
       (\<lambda>service'.
     ret (inp\<lparr>m_ov_StatefulSet := statefulSet', m_ov_Service := service'\<rparr>)))"

definition RobinSpec_DeepCopyInto ::
    "'x extern \<Rightarrow> RobinSpec_m \<Rightarrow> ('x memory, RobinSpec_m) io" where
  "RobinSpec_DeepCopyInto x inp =
     bindE (ptr_copy CExt un_CExt (x_DeepCopyInto x) (m_rs_Resources inp)) (\<lambda>resources'.
     bindE (ptr_copy CPartialPodTemplateSpec un_CPartialPodTemplateSpec (PartialPodTemplateSpec_DeepCopyInto x)
      (m_rs_Template inp))
       (\<lambda>template'.
     bindE (ptr_copy CRobinConfig un_CRobinConfig RobinConfig_DeepCopyInto (m_rs_Config inp)) (\<lambda>config'.
     ret (inp\<lparr>m_rs_Resources := resources', m_rs_Template := template', m_rs_Config := config'\<rparr>))))"

definition RedkeySpec_DeepCopyInto ::
    "'x extern \<Rightarrow> RedkeySpec_m \<Rightarrow> ('x memory, RedkeySpec_m) io" where
  "RedkeySpec_DeepCopyInto x inp =
     bindE (ptr_copy CBool un_CBool ret (m_sp_DeletePVC inp)) (\<lambda>deletePVC'.
     bindE (RobinSpec_DeepCopyInto x (m_sp_Robin inp)) (\<lambda>robin'.
     bindE (ptr_copy CBool un_CBool ret (m_sp_PurgeKeysOnRebalance inp)) (\<lambda>purgeKeysOnRebalance'.
     bindE (ptr_copy CExt un_CExt (x_DeepCopyInto x) (m_sp_Resources inp)) (\<lambda>resources'.
     bindE (ptr_copy CMapRef un_CMapRef (map_copy CStrMap un_CStrMap ret) (m_sp_Labels inp)) (\<lambda>labels'.
     bindE (ptr_copy CMapRef un_CMapRef (map_copy CStrMap un_CStrMap ret) (m_sp_Annotations inp))
       (\<lambda>annotations'.
     bindE (ptr_copy CRedkeyOverrideSpec un_CRedkeyOverrideSpec (RedkeyOverrideSpec_DeepCopyInto x)
      (m_sp_Override inp))
       (\<lambda>override'.
     bindE (slice_copy CStrings un_CStrings ret (m_sp_AccessModes inp)) (\<lambda>accessModes'.
     ret (inp\<lparr>m_sp_DeletePVC := deletePVC', m_sp_Robin := robin',
       m_sp_PurgeKeysOnRebalance := purgeKeysOnRebalance', m_sp_Resources := resources',
       m_sp_Labels := labels', m_sp_Annotations := annotations', m_sp_Override := override',
       m_sp_AccessModes := accessModes'\<rparr>)))))))))"

definition RedkeyStatus_DeepCopyInto ::
    "'x extern \<Rightarrow> RedkeyStatus_m \<Rightarrow> ('x memory, RedkeyStatus_m) io" where
  "RedkeyStatus_DeepCopyInto x inp =
     bindE (map_copy CNodes un_CNodes (ptr_copy CRedisNode un_CRedisNode ret) (m_st_Nodes inp))
       (\<lambda>nodes'.
     bindE (slice_copy CExtArray un_CExtArray (x_DeepCopyInto x) (m_st_Conditions inp)) (\<lambda>conditions'.
     bindE (time_copy x (m_st_LastUpdatedAt inp)) (\<lambda>lastUpdatedAt'.
     ret (inp\<lparr>m_st_Nodes := nodes', m_st_Conditions := conditions',
       m_st_LastUpdatedAt := lastUpdatedAt'\<rparr>))))"

definition Redkey_DeepCopyInto ::
    "'x extern \<Rightarrow> 'x Redkey_m \<Rightarrow> ('x memory, 'x Redkey_m) io" where
  "Redkey_DeepCopyInto x inp =
     bindE (x_DeepCopyInto x (m_rk_Meta inp)) (\<lambda>meta'.
     bindE (RedkeySpec_DeepCopyInto x (m_rk_Spec inp)) (\<lambda>spec'.
     bindE (RedkeyStatus_DeepCopyInto x (m_rk_Status inp)) (\<lambda>status'.
     ret (inp\<lparr>m_rk_Meta := meta', m_rk_Spec := spec', m_rk_Status := status'\<rparr>))))"

definition RedkeyConfigSpec_DeepCopyInto ::
    "'x extern \<Rightarrow> RedkeyConfigSpec_m \<Rightarrow> ('x memory, RedkeyConfigSpec_m) io" where
  "RedkeyConfigSpec_DeepCopyInto x inp =
     bindE (ptr_copy CExt un_CExt (x_DeepCopyInto x) (m_cs_Resources inp)) (\<lambda>resources'.
     bindE (ptr_copy CMapRef un_CMapRef (map_copy CStrMap un_CStrMap ret) (m_cs_Labels inp)) (\<lambda>labels'.
     bindE (ptr_copy CMapRef un_CMapRef (map_copy CStrMap un_CStrMap ret) (m_cs_Annotations inp))
       (\<lambda>annotations'.
     bindE (ptr_copy CBool un_CBool ret (m_cs_DeletePVC inp)) (\<lambda>deletePVC'.
     bindE (ptr_copy CBool un_CBool ret (m_cs_PurgeKeysOnRebalance inp)) (\<lambda>purgeKeysOnRebalance'.
     bindE (ptr_copy CRedkeyOverrideSpec un_CRedkeyOverrideSpec (RedkeyOverrideSpec_DeepCopyInto x)
      (m_cs_Override inp))
       (\<lambda>override'.
     bindE (ptr_copy CRobinConfig un_CRobinConfig RobinConfig_DeepCopyInto (m_cs_RobinConfig inp))
       (\<lambda>robinConfig'.
     ret (inp\<lparr>m_cs_Resources := resources', m_cs_Labels := labels', m_cs_Annotations := annotations',
       m_cs_DeletePVC := deletePVC', m_cs_PurgeKeysOnRebalance := purgeKeysOnRebalance',
       m_cs_Override := override', m_cs_RobinConfig := robinConfig'\<rparr>))))))))"

definition RedkeyConfigStatus_DeepCopyInto ::
    "'x extern \<Rightarrow> RedkeyConfigStatus_m \<Rightarrow> ('x memory, RedkeyConfigStatus_m) io" where
  "RedkeyConfigStatus_DeepCopyInto x inp =
     bindE (map_copy CNodes un_CNodes (ptr_copy CRedisNode un_CRedisNode ret) (m_ct_Nodes inp))
       (\<lambda>nodes'.
     bindE (slice_copy CExtArray un_CExtArray (x_DeepCopyInto x) (m_ct_Conditions inp)) (\<lambda>conditions'.
     bindE (time_copy x (m_ct_LastUpdatedAt inp)) (\<lambda>lastUpdatedAt'.
     ret (inp\<lparr>m_ct_Nodes := nodes', m_ct_Conditions := conditions',
       m_ct_LastUpdatedAt := lastUpdatedAt'\<rparr>))))"

definition RedkeyConfig_DeepCopyInto ::
    "'x extern \<Rightarrow> 'x RedkeyConfig_m \<Rightarrow> ('x memory, 'x RedkeyConfig_m) io" where
  "RedkeyConfig_DeepCopyInto x inp =
     bindE (x_DeepCopyInto x (m_cf_Meta inp)) (\<lambda>meta'.
     bindE (RedkeyConfigSpec_DeepCopyInto x (m_cf_Spec inp)) (\<lambda>spec'.
     bindE (RedkeyConfigStatus_DeepCopyInto x (m_cf_Status inp)) (\<lambda>status'.
     ret (inp\<lparr>m_cf_Meta := meta', m_cf_Spec := spec', m_cf_Status := status'\<rparr>))))"

definition RedkeyList_DeepCopyInto ::
    "'x extern \<Rightarrow> 'x RedkeyList_m \<Rightarrow> ('x memory, 'x RedkeyList_m) io" where
  "RedkeyList_DeepCopyInto x inp =
     bindE (x_DeepCopyInto x (m_rl_ListMeta inp)) (\<lambda>listMeta'.
     bindE (slice_copy CRedkeyArray un_CRedkeyArray (Redkey_DeepCopyInto x) (m_rl_Items inp)) (\<lambda>items'.
     ret (inp\<lparr>m_rl_ListMeta := listMeta', m_rl_Items := items'\<rparr>)))"

definition RedkeyConfigList_DeepCopyInto ::
    "'x extern \<Rightarrow> 'x RedkeyConfigList_m \<Rightarrow> ('x memory, 'x RedkeyConfigList_m) io" where
  "RedkeyConfigList_DeepCopyInto x inp =
     bindE (x_DeepCopyInto x (m_cl_ListMeta inp)) (\<lambda>listMeta'.
     bindE (slice_copy CRedkeyConfigArray un_CRedkeyConfigArray (RedkeyConfig_DeepCopyInto x) (m_cl_Items inp))
       (\<lambda>items'.
     ret (inp\<lparr>m_cl_ListMeta := listMeta', m_cl_Items := items'\<rparr>)))"

section \<open>DeepCopy and DeepCopyObject\<close>

definition PartialPodSpec_DeepCopy :: "'x extern \<Rightarrow> addr option \<Rightarrow> ('x memory, addr option)
      io" where
  "PartialPodSpec_DeepCopy x = ptr_copy CPartialPodSpec un_CPartialPodSpec (PartialPodSpec_DeepCopyInto x)"

definition PartialPodTemplateSpec_DeepCopy :: "'x extern \<Rightarrow> addr option \<Rightarrow> ('x memory, addr
      option) io" where
  "PartialPodTemplateSpec_DeepCopy x = ptr_copy CPartialPodTemplateSpec un_CPartialPodTemplateSpec
      (PartialPodTemplateSpec_DeepCopyInto x)"

definition PartialService_DeepCopy :: "'x extern \<Rightarrow> addr option \<Rightarrow> ('x memory, addr option)
      io" where
  "PartialService_DeepCopy x = ptr_copy CPartialService un_CPartialService (PartialService_DeepCopyInto x)"

definition PartialServiceSpec_DeepCopy :: "'x extern \<Rightarrow> addr option \<Rightarrow> ('x memory, addr
      option) io" where
  "PartialServiceSpec_DeepCopy x = ptr_copy CPartialServiceSpec un_CPartialServiceSpec
      (PartialServiceSpec_DeepCopyInto x)"

definition PartialStatefulSet_DeepCopy :: "'x extern \<Rightarrow> addr option \<Rightarrow> ('x memory, addr
      option) io" where
  "PartialStatefulSet_DeepCopy x = ptr_copy CPartialStatefulSet un_CPartialStatefulSet
      (PartialStatefulSet_DeepCopyInto x)"

definition PartialStatefulSetSpec_DeepCopy :: "'x extern \<Rightarrow> addr option \<Rightarrow> ('x memory, addr
      option) io" where
  "PartialStatefulSetSpec_DeepCopy x = ptr_copy CPartialStatefulSetSpec un_CPartialStatefulSetSpec
      (PartialStatefulSetSpec_DeepCopyInto x)"

definition Pdb_DeepCopy :: "addr option \<Rightarrow> ('x memory, addr option) io" where
  "Pdb_DeepCopy = ptr_copy CPdb un_CPdb Pdb_DeepCopyInto"

definition RedisAuth_DeepCopy :: "addr option \<Rightarrow> ('x memory, addr option) io" where
  "RedisAuth_DeepCopy = ptr_copy CRedisAuth un_CRedisAuth RedisAuth_DeepCopyInto"

definition RedisNode_DeepCopy :: "addr option \<Rightarrow> ('x memory, addr option) io" where
  "RedisNode_DeepCopy = ptr_copy CRedisNode un_CRedisNode RedisNode_DeepCopyInto"

definition Redkey_DeepCopy :: "'x extern \<Rightarrow> addr option \<Rightarrow> ('x memory, addr option) io" where
  "Redkey_DeepCopy x = ptr_copy CRedkey un_CRedkey (Redkey_DeepCopyInto x)"

definition RedkeyConfig_DeepCopy :: "'x extern \<Rightarrow> addr option \<Rightarrow> ('x memory, addr option)
      io" where
  "RedkeyConfig_DeepCopy x = ptr_copy CRedkeyConfig un_CRedkeyConfig (RedkeyConfig_DeepCopyInto x)"

definition RedkeyConfigList_DeepCopy :: "'x extern \<Rightarrow> addr option \<Rightarrow> ('x memory, addr
      option) io" where
  "RedkeyConfigList_DeepCopy x = ptr_copy CRedkeyConfigList un_CRedkeyConfigList (RedkeyConfigList_DeepCopyInto x)"

definition RedkeyConfigSpec_DeepCopy :: "'x extern \<Rightarrow> addr option \<Rightarrow> ('x memory, addr
      option) io" where
  "RedkeyConfigSpec_DeepCopy x = ptr_copy CRedkeyConfigSpec un_CRedkeyConfigSpec (RedkeyConfigSpec_DeepCopyInto x)"

definition RedkeyConfigStatus_DeepCopy :: "'x extern \<Rightarrow> addr option \<Rightarrow> ('x memory, addr
      option) io" where
  "RedkeyConfigStatus_DeepCopy x = ptr_copy CRedkeyConfigStatus un_CRedkeyConfigStatus
      (RedkeyConfigStatus_DeepCopyInto x)"

definition RedkeyList_DeepCopy :: "'x extern \<Rightarrow> addr option \<Rightarrow> ('x memory, addr option) io"
      where
  "RedkeyList_DeepCopy x = ptr_copy CRedkeyList un_CRedkeyList (RedkeyList_DeepCopyInto x)"

definition RedkeyOverrideSpec_DeepCopy :: "'x extern \<Rightarrow> addr option \<Rightarrow> ('x memory, addr
      option) io" where
  "RedkeyOverrideSpec_DeepCopy x = ptr_copy CRedkeyOverrideSpec un_CRedkeyOverrideSpec
      (RedkeyOverrideSpec_DeepCopyInto x)"

definition RedkeySpec_DeepCopy :: "'x extern \<Rightarrow> addr option \<Rightarrow> ('x memory, addr option) io"
      where
  "RedkeySpec_DeepCopy x = ptr_copy CRedkeySpec un_CRedkeySpec (RedkeySpec_DeepCopyInto x)"

definition RedkeyStatus_DeepCopy :: "'x extern \<Rightarrow> addr option \<Rightarrow> ('x memory, addr option)
      io" where
  "RedkeyStatus_DeepCopy x = ptr_copy CRedkeyStatus un_CRedkeyStatus (RedkeyStatus_DeepCopyInto x)"

definition RedkeySubstatus_DeepCopy :: "addr option \<Rightarrow> ('x memory, addr option) io" where
  "RedkeySubstatus_DeepCopy = ptr_copy CRedkeySubstatus un_CRedkeySubstatus RedkeySubstatus_DeepCopyInto"

definition RobinConfig_DeepCopy :: "addr option \<Rightarrow> ('x memory, addr option) io" where
  "RobinConfig_DeepCopy = ptr_copy CRobinConfig un_CRobinConfig RobinConfig_DeepCopyInto"

definition RobinConfigCluster_DeepCopy :: "addr option \<Rightarrow> ('x memory, addr option) io" where
  "RobinConfigCluster_DeepCopy = ptr_copy CRobinConfigCluster un_CRobinConfigCluster RobinConfigCluster_DeepCopyInto"

definition RobinConfigMetrics_DeepCopy :: "addr option \<Rightarrow> ('x memory, addr option) io" where
  "RobinConfigMetrics_DeepCopy = ptr_copy CRobinConfigMetrics un_CRobinConfigMetrics RobinConfigMetrics_DeepCopyInto"

definition RobinConfigProfiling_DeepCopy :: "addr option \<Rightarrow> ('x memory, addr option) io" where
  "RobinConfigProfiling_DeepCopy = ptr_copy CRobinConfigProfiling un_CRobinConfigProfiling
      RobinConfigProfiling_DeepCopyInto"

definition RobinConfigReconciler_DeepCopy :: "addr option \<Rightarrow> ('x memory, addr option) io" where
  "RobinConfigReconciler_DeepCopy = ptr_copy CRobinConfigReconciler un_CRobinConfigReconciler
      RobinConfigReconciler_DeepCopyInto"

definition RobinSpec_DeepCopy :: "'x extern \<Rightarrow> addr option \<Rightarrow> ('x memory, addr option) io" where
  "RobinSpec_DeepCopy x = ptr_copy CRobinSpec un_CRobinSpec (RobinSpec_DeepCopyInto x)"

text \<open>A value of the interface \<^verbatim>\<open>runtime.Object\<close> that is not nil: a type and a
      pointer. A pointer
  that is nil makes an interface that is not.\<close>

datatype RuntimeObject =
    RedkeyObject "addr option"
  | RedkeyConfigObject "addr option"
  | RedkeyListObject "addr option"
  | RedkeyConfigListObject "addr option"

definition Redkey_DeepCopyObject :: "'x extern \<Rightarrow> addr option \<Rightarrow> ('x memory, RuntimeObject
      option) io" where
  "Redkey_DeepCopyObject x p =
     bindE (Redkey_DeepCopy x p) (\<lambda>c. if c \<noteq> None then ret (Some (RedkeyObject c)) else ret None)"

definition RedkeyConfig_DeepCopyObject :: "'x extern \<Rightarrow> addr option \<Rightarrow> ('x memory,
      RuntimeObject option) io" where
  "RedkeyConfig_DeepCopyObject x p =
     bindE (RedkeyConfig_DeepCopy x p) (\<lambda>c. if c \<noteq> None then ret (Some (RedkeyConfigObject c))
      else ret None)"

definition RedkeyConfigList_DeepCopyObject :: "'x extern \<Rightarrow> addr option \<Rightarrow> ('x memory,
      RuntimeObject option) io" where
  "RedkeyConfigList_DeepCopyObject x p =
     bindE (RedkeyConfigList_DeepCopy x p) (\<lambda>c. if c \<noteq> None then ret (Some (RedkeyConfigListObject
      c)) else ret None)"

definition RedkeyList_DeepCopyObject :: "'x extern \<Rightarrow> addr option \<Rightarrow> ('x memory,
      RuntimeObject option) io" where
  "RedkeyList_DeepCopyObject x p =
     bindE (RedkeyList_DeepCopy x p) (\<lambda>c. if c \<noteq> None then ret (Some (RedkeyListObject c)) else
      ret None)"

end
