(* ===== verification/Deep_Copy_Contracts.thy ===== *)
theory Deep_Copy_Contracts
  imports Deep_Copy
begin

text \<open>
  That the generated functions are deep copies. Each type has its \<open>view\<close>, which is the value of
  \<open>Api_Types\<close> that the struct in memory stands for, and its \<open>foot\<close>, and the rule that its
  \<^verbatim>\<open>DeepCopyInto\<close> meets the contract \<open>copier\<close>. The locale
      \<open>api_machinery\<close> assumes the
  contract of the copies of library structs.
\<close>

section \<open>Views and footprints\<close>

definition ext_view :: "('x memory \<Rightarrow> 'x \<Rightarrow> ext_value option) \<Rightarrow> (ext_value
      \<Rightarrow> 'v option) \<Rightarrow> 'x memory \<Rightarrow> 'x \<Rightarrow> 'v option" where
  "ext_view xv prj m v = Option.bind (xv m v) prj"

abbreviation RobinConfigReconciler_parts where
  "RobinConfigReconciler_parts s \<equiv> (m_rcr_IntervalSeconds s, m_rcr_IntervalOnErrorSeconds s,
       m_rcr_IntervalOnWaitSeconds s)"

definition RobinConfigReconciler_view ::
    "'x memory \<Rightarrow> RobinConfigReconciler_m \<Rightarrow> (RobinConfigReconciler) option" where
  "RobinConfigReconciler_view = struct_view RobinConfigReconciler_parts
     (\<lambda>s (intervalSeconds', intervalOnErrorSeconds',
       intervalOnWaitSeconds'). \<lparr>rcr_IntervalSeconds = intervalSeconds',
       rcr_IntervalOnErrorSeconds = intervalOnErrorSeconds',
       rcr_IntervalOnWaitSeconds = intervalOnWaitSeconds'\<rparr>)
     (pair_view (ptr_view un_CInt flat_view)
     (pair_view (ptr_view un_CInt flat_view)
     (ptr_view un_CInt flat_view)))"

definition RobinConfigReconciler_foot ::
    "'x memory \<Rightarrow> RobinConfigReconciler_m \<Rightarrow> addr set" where
  "RobinConfigReconciler_foot = struct_foot RobinConfigReconciler_parts
     (pair_foot (ptr_foot un_CInt flat_foot)
     (pair_foot (ptr_foot un_CInt flat_foot)
     (ptr_foot un_CInt flat_foot)))"

abbreviation RobinConfigCluster_parts where
  "RobinConfigCluster_parts s \<equiv> (m_rcc_ConnectionMaxRetries s, m_rcc_ConnectionBackOffSeconds s,
       m_rcc_ClusterCommandTimeoutSeconds s, m_rcc_ClusterMeetWaitSeconds s, m_rcc_RebalanceTimeoutSeconds s)"

definition RobinConfigCluster_view ::
    "'x memory \<Rightarrow> RobinConfigCluster_m \<Rightarrow> (RobinConfigCluster) option" where
  "RobinConfigCluster_view = struct_view RobinConfigCluster_parts
     (\<lambda>s (connectionMaxRetries', connectionBackOffSeconds', clusterCommandTimeoutSeconds',
       clusterMeetWaitSeconds',
       rebalanceTimeoutSeconds'). \<lparr>rcc_ConnectionMaxRetries = connectionMaxRetries',
       rcc_ConnectionBackOffSeconds = connectionBackOffSeconds',
       rcc_ClusterCommandTimeoutSeconds = clusterCommandTimeoutSeconds',
       rcc_ClusterMeetWaitSeconds = clusterMeetWaitSeconds',
       rcc_RebalanceTimeoutSeconds = rebalanceTimeoutSeconds'\<rparr>)
     (pair_view (ptr_view un_CInt flat_view)
     (pair_view (ptr_view un_CInt flat_view)
     (pair_view (ptr_view un_CInt flat_view)
     (pair_view (ptr_view un_CInt flat_view)
     (ptr_view un_CInt flat_view)))))"

definition RobinConfigCluster_foot ::
    "'x memory \<Rightarrow> RobinConfigCluster_m \<Rightarrow> addr set" where
  "RobinConfigCluster_foot = struct_foot RobinConfigCluster_parts
     (pair_foot (ptr_foot un_CInt flat_foot)
     (pair_foot (ptr_foot un_CInt flat_foot)
     (pair_foot (ptr_foot un_CInt flat_foot)
     (pair_foot (ptr_foot un_CInt flat_foot)
     (ptr_foot un_CInt flat_foot)))))"

abbreviation RobinConfigMetrics_parts where
  "RobinConfigMetrics_parts s \<equiv> (m_rcm_CollectionIntervalSeconds s, m_rcm_RedisInfoKeys s,
       m_rcm_MetricsLabels s)"

definition RobinConfigMetrics_view ::
    "'x memory \<Rightarrow> RobinConfigMetrics_m \<Rightarrow> (RobinConfigMetrics) option" where
  "RobinConfigMetrics_view = struct_view RobinConfigMetrics_parts
     (\<lambda>s (collectionIntervalSeconds', redisInfoKeys',
       metricsLabels'). \<lparr>rcm_CollectionIntervalSeconds = collectionIntervalSeconds',
       rcm_RedisInfoKeys = redisInfoKeys', rcm_MetricsLabels = metricsLabels'\<rparr>)
     (pair_view (ptr_view un_CInt flat_view)
     (pair_view (slice_view un_CStrings flat_view)
     (map_view un_CStrMap flat_view)))"

definition RobinConfigMetrics_foot ::
    "'x memory \<Rightarrow> RobinConfigMetrics_m \<Rightarrow> addr set" where
  "RobinConfigMetrics_foot = struct_foot RobinConfigMetrics_parts
     (pair_foot (ptr_foot un_CInt flat_foot)
     (pair_foot (slice_foot un_CStrings flat_foot)
     (map_foot un_CStrMap flat_foot)))"

abbreviation RobinConfigProfiling_parts where
  "RobinConfigProfiling_parts s \<equiv> m_rcp_Enabled s"

definition RobinConfigProfiling_view ::
    "'x memory \<Rightarrow> RobinConfigProfiling_m \<Rightarrow> (RobinConfigProfiling) option" where
  "RobinConfigProfiling_view = struct_view RobinConfigProfiling_parts
     (\<lambda>s enabled'. \<lparr>rcp_Enabled = enabled'\<rparr>)
     (ptr_view un_CBool flat_view)"

definition RobinConfigProfiling_foot ::
    "'x memory \<Rightarrow> RobinConfigProfiling_m \<Rightarrow> addr set" where
  "RobinConfigProfiling_foot = struct_foot RobinConfigProfiling_parts
     (ptr_foot un_CBool flat_foot)"

abbreviation RobinConfig_parts where
  "RobinConfig_parts s \<equiv> (m_rc_Reconciler s, m_rc_Cluster s, m_rc_Metrics s, m_rc_Profiling s)"

definition RobinConfig_view :: "'x memory \<Rightarrow> RobinConfig_m \<Rightarrow> (RobinConfig) option" where
  "RobinConfig_view = struct_view RobinConfig_parts
     (\<lambda>s (reconciler', cluster', metrics', profiling'). \<lparr>rc_Reconciler = reconciler',
       rc_Cluster = cluster', rc_Metrics = metrics', rc_Profiling = profiling'\<rparr>)
     (pair_view (ptr_view un_CRobinConfigReconciler RobinConfigReconciler_view)
     (pair_view (ptr_view un_CRobinConfigCluster RobinConfigCluster_view)
     (pair_view (ptr_view un_CRobinConfigMetrics RobinConfigMetrics_view)
     (ptr_view un_CRobinConfigProfiling RobinConfigProfiling_view))))"

definition RobinConfig_foot :: "'x memory \<Rightarrow> RobinConfig_m \<Rightarrow> addr set" where
  "RobinConfig_foot = struct_foot RobinConfig_parts
     (pair_foot (ptr_foot un_CRobinConfigReconciler RobinConfigReconciler_foot)
     (pair_foot (ptr_foot un_CRobinConfigCluster RobinConfigCluster_foot)
     (pair_foot (ptr_foot un_CRobinConfigMetrics RobinConfigMetrics_foot)
     (ptr_foot un_CRobinConfigProfiling RobinConfigProfiling_foot))))"

abbreviation PartialPodSpec_parts where
  "PartialPodSpec_parts s \<equiv> (m_pp_Containers s, m_pp_InitContainers s, m_pp_EphemeralContainers s,
       m_pp_TerminationGracePeriodSeconds s, m_pp_NodeSelector s, m_pp_SecurityContext s,
       m_pp_ImagePullSecrets s, m_pp_Affinity s, m_pp_Tolerations s, m_pp_TopologySpreadConstraints s,
       m_pp_Volumes s)"

definition PartialPodSpec_view ::
    "('x memory \<Rightarrow> 'x \<Rightarrow> ext_value option) \<Rightarrow> 'x memory \<Rightarrow>
      PartialPodSpec_m \<Rightarrow> (PartialPodSpec) option" where
  "PartialPodSpec_view xv = struct_view PartialPodSpec_parts
     (\<lambda>s (containers', initContainers', ephemeralContainers', terminationGracePeriodSeconds',
       nodeSelector', securityContext', imagePullSecrets', affinity', tolerations', topologySpreadConstraints',
       volumes'). \<lparr>pp_Containers = containers', pp_InitContainers = initContainers',
       pp_EphemeralContainers = ephemeralContainers', pp_RestartPolicy = m_pp_RestartPolicy s,
       pp_TerminationGracePeriodSeconds = terminationGracePeriodSeconds', pp_DNSPolicy = m_pp_DNSPolicy s,
       pp_NodeSelector = nodeSelector', pp_ServiceAccountName = m_pp_ServiceAccountName s,
       pp_SecurityContext = securityContext', pp_ImagePullSecrets = imagePullSecrets', pp_Affinity = affinity',
       pp_Tolerations = tolerations', pp_PriorityClassName = m_pp_PriorityClassName s,
       pp_TopologySpreadConstraints = topologySpreadConstraints', pp_Volumes = volumes'\<rparr>)
     (pair_view (slice_view un_CExtArray (ext_view xv un_XContainer))
     (pair_view (slice_view un_CExtArray (ext_view xv un_XOther))
     (pair_view (slice_view un_CExtArray (ext_view xv un_XOther))
     (pair_view (ptr_view un_CInt flat_view)
     (pair_view (map_view un_CStrMap flat_view)
     (pair_view (ptr_view un_CExt (ext_view xv un_XOther))
     (pair_view (slice_view un_CK8sArray flat_view)
     (pair_view (ptr_view un_CExt (ext_view xv un_XOther))
     (pair_view (slice_view un_CExtArray (ext_view xv un_XOther))
     (pair_view (slice_view un_CExtArray (ext_view xv un_XOther))
     (slice_view un_CExtArray (ext_view xv un_XOther))))))))))))"

definition PartialPodSpec_foot ::
    "('x memory \<Rightarrow> 'x \<Rightarrow> addr set) \<Rightarrow> 'x memory \<Rightarrow> PartialPodSpec_m
      \<Rightarrow> addr set" where
  "PartialPodSpec_foot xf = struct_foot PartialPodSpec_parts
     (pair_foot (slice_foot un_CExtArray xf)
     (pair_foot (slice_foot un_CExtArray xf)
     (pair_foot (slice_foot un_CExtArray xf)
     (pair_foot (ptr_foot un_CInt flat_foot)
     (pair_foot (map_foot un_CStrMap flat_foot)
     (pair_foot (ptr_foot un_CExt xf)
     (pair_foot (slice_foot un_CK8sArray flat_foot)
     (pair_foot (ptr_foot un_CExt xf)
     (pair_foot (slice_foot un_CExtArray xf)
     (pair_foot (slice_foot un_CExtArray xf)
     (slice_foot un_CExtArray xf)))))))))))"

abbreviation PartialPodTemplateSpec_parts where
  "PartialPodTemplateSpec_parts s \<equiv> (m_ppt_Metadata s, m_ppt_Spec s)"

definition PartialPodTemplateSpec_view ::
    "('x memory \<Rightarrow> 'x \<Rightarrow> ext_value option) \<Rightarrow> 'x memory \<Rightarrow> 'x
      PartialPodTemplateSpec_m \<Rightarrow> (PartialPodTemplateSpec) option" where
  "PartialPodTemplateSpec_view xv = struct_view PartialPodTemplateSpec_parts
     (\<lambda>s (metadata', spec'). \<lparr>ppt_Metadata = metadata', ppt_Spec = spec'\<rparr>)
     (pair_view (ext_view xv un_XMeta)
     (PartialPodSpec_view xv))"

definition PartialPodTemplateSpec_foot ::
    "('x memory \<Rightarrow> 'x \<Rightarrow> addr set) \<Rightarrow> 'x memory \<Rightarrow> 'x
      PartialPodTemplateSpec_m \<Rightarrow> addr set" where
  "PartialPodTemplateSpec_foot xf = struct_foot PartialPodTemplateSpec_parts
     (pair_foot xf
     (PartialPodSpec_foot xf))"

abbreviation PartialServiceSpec_parts where
  "PartialServiceSpec_parts s \<equiv> (m_psv_Ports s, m_psv_Selector s)"

definition PartialServiceSpec_view ::
    "('x memory \<Rightarrow> 'x \<Rightarrow> ext_value option) \<Rightarrow> 'x memory \<Rightarrow>
      PartialServiceSpec_m \<Rightarrow> (PartialServiceSpec) option" where
  "PartialServiceSpec_view xv = struct_view PartialServiceSpec_parts
     (\<lambda>s (ports', selector'). \<lparr>psv_Ports = ports', psv_Selector = selector',
       psv_ClusterIP = m_psv_ClusterIP s, psv_Type = m_psv_Type s,
       psv_PublishNotReadyAddresses = m_psv_PublishNotReadyAddresses s\<rparr>)
     (pair_view (slice_view un_CExtArray (ext_view xv un_XOther))
     (map_view un_CStrMap flat_view))"

definition PartialServiceSpec_foot ::
    "('x memory \<Rightarrow> 'x \<Rightarrow> addr set) \<Rightarrow> 'x memory \<Rightarrow>
      PartialServiceSpec_m \<Rightarrow> addr set" where
  "PartialServiceSpec_foot xf = struct_foot PartialServiceSpec_parts
     (pair_foot (slice_foot un_CExtArray xf)
     (map_foot un_CStrMap flat_foot))"

abbreviation PartialService_parts where
  "PartialService_parts s \<equiv> (m_psr_Metadata s, m_psr_Spec s)"

definition PartialService_view ::
    "('x memory \<Rightarrow> 'x \<Rightarrow> ext_value option) \<Rightarrow> 'x memory \<Rightarrow> 'x
      PartialService_m \<Rightarrow> (PartialService) option" where
  "PartialService_view xv = struct_view PartialService_parts
     (\<lambda>s (metadata', spec'). \<lparr>psr_APIVersion = m_psr_APIVersion s, psr_Kind = m_psr_Kind s,
       psr_Metadata = metadata', psr_Spec = spec'\<rparr>)
     (pair_view (ext_view xv un_XMeta)
     (ptr_view un_CPartialServiceSpec (PartialServiceSpec_view xv)))"

definition PartialService_foot ::
    "('x memory \<Rightarrow> 'x \<Rightarrow> addr set) \<Rightarrow> 'x memory \<Rightarrow> 'x
      PartialService_m \<Rightarrow> addr set" where
  "PartialService_foot xf = struct_foot PartialService_parts
     (pair_foot xf
     (ptr_foot un_CPartialServiceSpec (PartialServiceSpec_foot xf)))"

abbreviation PartialStatefulSetSpec_parts where
  "PartialStatefulSetSpec_parts s \<equiv> (m_pss_MinReadySeconds s, m_pss_Replicas s, m_pss_Selector s,
       m_pss_Template s, m_pss_UpdateStrategy s, m_pss_RevisionHistoryLimit s, m_pss_VolumeClaimTemplates s,
       m_pss_PersistentVolumeClaimRetentionPolicy s, m_pss_Ordinals s)"

definition PartialStatefulSetSpec_view ::
    "('x memory \<Rightarrow> 'x \<Rightarrow> ext_value option) \<Rightarrow> 'x memory \<Rightarrow>
      PartialStatefulSetSpec_m \<Rightarrow> (PartialStatefulSetSpec) option" where
  "PartialStatefulSetSpec_view xv = struct_view PartialStatefulSetSpec_parts
     (\<lambda>s (minReadySeconds', replicas', selector', template', updateStrategy', revisionHistoryLimit',
       volumeClaimTemplates', persistentVolumeClaimRetentionPolicy',
       ordinals'). \<lparr>pss_MinReadySeconds = minReadySeconds', pss_Replicas = replicas',
       pss_Selector = selector', pss_ServiceName = m_pss_ServiceName s, pss_Template = template',
       pss_UpdateStrategy = updateStrategy', pss_RevisionHistoryLimit = revisionHistoryLimit',
       pss_PodManagementPolicy = m_pss_PodManagementPolicy s, pss_VolumeClaimTemplates = volumeClaimTemplates',
       pss_PersistentVolumeClaimRetentionPolicy = persistentVolumeClaimRetentionPolicy',
       pss_Ordinals = ordinals'\<rparr>)
     (pair_view (ptr_view un_CInt flat_view)
     (pair_view (ptr_view un_CInt flat_view)
     (pair_view (ptr_view un_CExt (ext_view xv un_XOther))
     (pair_view (ptr_view un_CPartialPodTemplateSpec (PartialPodTemplateSpec_view xv))
     (pair_view (ptr_view un_CExt (ext_view xv un_XOther))
     (pair_view (ptr_view un_CInt flat_view)
     (pair_view (slice_view un_CExtArray (ext_view xv un_XOther))
     (pair_view (ptr_view un_CK8s flat_view)
     (ptr_view un_CK8s flat_view)))))))))"

definition PartialStatefulSetSpec_foot ::
    "('x memory \<Rightarrow> 'x \<Rightarrow> addr set) \<Rightarrow> 'x memory \<Rightarrow>
      PartialStatefulSetSpec_m \<Rightarrow> addr set" where
  "PartialStatefulSetSpec_foot xf = struct_foot PartialStatefulSetSpec_parts
     (pair_foot (ptr_foot un_CInt flat_foot)
     (pair_foot (ptr_foot un_CInt flat_foot)
     (pair_foot (ptr_foot un_CExt xf)
     (pair_foot (ptr_foot un_CPartialPodTemplateSpec (PartialPodTemplateSpec_foot xf))
     (pair_foot (ptr_foot un_CExt xf)
     (pair_foot (ptr_foot un_CInt flat_foot)
     (pair_foot (slice_foot un_CExtArray xf)
     (pair_foot (ptr_foot un_CK8s flat_foot)
     (ptr_foot un_CK8s flat_foot)))))))))"

abbreviation PartialStatefulSet_parts where
  "PartialStatefulSet_parts s \<equiv> (m_pst_Metadata s, m_pst_Spec s)"

definition PartialStatefulSet_view ::
    "('x memory \<Rightarrow> 'x \<Rightarrow> ext_value option) \<Rightarrow> 'x memory \<Rightarrow> 'x
      PartialStatefulSet_m \<Rightarrow> (PartialStatefulSet) option" where
  "PartialStatefulSet_view xv = struct_view PartialStatefulSet_parts
     (\<lambda>s (metadata', spec'). \<lparr>pst_APIVersion = m_pst_APIVersion s, pst_Kind = m_pst_Kind s,
       pst_Metadata = metadata', pst_Spec = spec'\<rparr>)
     (pair_view (ext_view xv un_XMeta)
     (ptr_view un_CPartialStatefulSetSpec (PartialStatefulSetSpec_view xv)))"

definition PartialStatefulSet_foot ::
    "('x memory \<Rightarrow> 'x \<Rightarrow> addr set) \<Rightarrow> 'x memory \<Rightarrow> 'x
      PartialStatefulSet_m \<Rightarrow> addr set" where
  "PartialStatefulSet_foot xf = struct_foot PartialStatefulSet_parts
     (pair_foot xf
     (ptr_foot un_CPartialStatefulSetSpec (PartialStatefulSetSpec_foot xf)))"

abbreviation RedkeyOverrideSpec_parts where
  "RedkeyOverrideSpec_parts s \<equiv> (m_ov_StatefulSet s, m_ov_Service s)"

definition RedkeyOverrideSpec_view ::
    "('x memory \<Rightarrow> 'x \<Rightarrow> ext_value option) \<Rightarrow> 'x memory \<Rightarrow>
      RedkeyOverrideSpec_m \<Rightarrow> (RedkeyOverrideSpec) option" where
  "RedkeyOverrideSpec_view xv = struct_view RedkeyOverrideSpec_parts
     (\<lambda>s (statefulSet', service'). \<lparr>ov_StatefulSet = statefulSet', ov_Service = service'\<rparr>)
     (pair_view (ptr_view un_CPartialStatefulSet (PartialStatefulSet_view xv))
     (ptr_view un_CPartialService (PartialService_view xv)))"

definition RedkeyOverrideSpec_foot ::
    "('x memory \<Rightarrow> 'x \<Rightarrow> addr set) \<Rightarrow> 'x memory \<Rightarrow>
      RedkeyOverrideSpec_m \<Rightarrow> addr set" where
  "RedkeyOverrideSpec_foot xf = struct_foot RedkeyOverrideSpec_parts
     (pair_foot (ptr_foot un_CPartialStatefulSet (PartialStatefulSet_foot xf))
     (ptr_foot un_CPartialService (PartialService_foot xf)))"

abbreviation RobinSpec_parts where
  "RobinSpec_parts s \<equiv> (m_rs_Resources s, m_rs_Template s, m_rs_Config s)"

definition RobinSpec_view ::
    "('x memory \<Rightarrow> 'x \<Rightarrow> ext_value option) \<Rightarrow> 'x memory \<Rightarrow>
      RobinSpec_m \<Rightarrow> (RobinSpec) option" where
  "RobinSpec_view xv = struct_view RobinSpec_parts
     (\<lambda>s (resources', template', config'). \<lparr>rs_Image = m_rs_Image s, rs_Resources = resources',
       rs_Template = template', rs_Config = config'\<rparr>)
     (pair_view (ptr_view un_CExt (ext_view xv un_XResources))
     (pair_view (ptr_view un_CPartialPodTemplateSpec (PartialPodTemplateSpec_view xv))
     (ptr_view un_CRobinConfig RobinConfig_view)))"

definition RobinSpec_foot ::
    "('x memory \<Rightarrow> 'x \<Rightarrow> addr set) \<Rightarrow> 'x memory \<Rightarrow> RobinSpec_m
      \<Rightarrow> addr set" where
  "RobinSpec_foot xf = struct_foot RobinSpec_parts
     (pair_foot (ptr_foot un_CExt xf)
     (pair_foot (ptr_foot un_CPartialPodTemplateSpec (PartialPodTemplateSpec_foot xf))
     (ptr_foot un_CRobinConfig RobinConfig_foot)))"

abbreviation RedkeySpec_parts where
  "RedkeySpec_parts s \<equiv> (m_sp_DeletePVC s, m_sp_Robin s, m_sp_PurgeKeysOnRebalance s, m_sp_Resources s,
       m_sp_Labels s, m_sp_Annotations s, m_sp_Override s, m_sp_AccessModes s)"

definition RedkeySpec_view ::
    "('x memory \<Rightarrow> 'x \<Rightarrow> ext_value option) \<Rightarrow> 'x memory \<Rightarrow>
      RedkeySpec_m \<Rightarrow> (RedkeySpec) option" where
  "RedkeySpec_view xv = struct_view RedkeySpec_parts
     (\<lambda>s (deletePVC', robin', purgeKeysOnRebalance', resources', labels', annotations', override',
       accessModes'). \<lparr>sp_Auth = m_sp_Auth s, sp_Version = m_sp_Version s, sp_Mode = m_sp_Mode s,
       sp_Primaries = m_sp_Primaries s, sp_ReplicasPerPrimary = m_sp_ReplicasPerPrimary s,
       sp_Image = m_sp_Image s, sp_DeletePVC = deletePVC', sp_Backup = m_sp_Backup s, sp_Robin = robin',
       sp_SkipIfSuperseded = m_sp_SkipIfSuperseded s, sp_PurgeKeysOnRebalance = purgeKeysOnRebalance',
       sp_Config = m_sp_Config s, sp_Resources = resources', sp_Labels = labels',
       sp_Annotations = annotations', sp_Pdb = m_sp_Pdb s, sp_Override = override',
       sp_Ephemeral = m_sp_Ephemeral s, sp_Storage = m_sp_Storage s,
       sp_StorageClassName = m_sp_StorageClassName s, sp_AccessModes = accessModes'\<rparr>)
     (pair_view (ptr_view un_CBool flat_view)
     (pair_view (RobinSpec_view xv)
     (pair_view (ptr_view un_CBool flat_view)
     (pair_view (ptr_view un_CExt (ext_view xv un_XResources))
     (pair_view (ptr_view un_CMapRef (map_view un_CStrMap flat_view))
     (pair_view (ptr_view un_CMapRef (map_view un_CStrMap flat_view))
     (pair_view (ptr_view un_CRedkeyOverrideSpec (RedkeyOverrideSpec_view xv))
     (slice_view un_CStrings flat_view))))))))"

definition RedkeySpec_foot ::
    "('x memory \<Rightarrow> 'x \<Rightarrow> addr set) \<Rightarrow> 'x memory \<Rightarrow> RedkeySpec_m
      \<Rightarrow> addr set" where
  "RedkeySpec_foot xf = struct_foot RedkeySpec_parts
     (pair_foot (ptr_foot un_CBool flat_foot)
     (pair_foot (RobinSpec_foot xf)
     (pair_foot (ptr_foot un_CBool flat_foot)
     (pair_foot (ptr_foot un_CExt xf)
     (pair_foot (ptr_foot un_CMapRef (map_foot un_CStrMap flat_foot))
     (pair_foot (ptr_foot un_CMapRef (map_foot un_CStrMap flat_foot))
     (pair_foot (ptr_foot un_CRedkeyOverrideSpec (RedkeyOverrideSpec_foot xf))
     (slice_foot un_CStrings flat_foot))))))))"

abbreviation RedkeyStatus_parts where
  "RedkeyStatus_parts s \<equiv> (m_st_Nodes s, m_st_Conditions s, m_st_LastUpdatedAt s)"

definition RedkeyStatus_view ::
    "('x memory \<Rightarrow> 'x \<Rightarrow> ext_value option) \<Rightarrow> 'x memory \<Rightarrow>
      RedkeyStatus_m \<Rightarrow> (RedkeyStatus) option" where
  "RedkeyStatus_view xv = struct_view RedkeyStatus_parts
     (\<lambda>s (nodes', conditions', lastUpdatedAt'). \<lparr>st_Replicas = m_st_Replicas s,
       st_Phase = m_st_Phase s, st_Status = m_st_Status s, st_Substatus = m_st_Substatus s, st_Nodes = nodes',
       st_Conditions = conditions', st_LastUpdatedAt = lastUpdatedAt',
       st_ObservedGeneration = m_st_ObservedGeneration s,
       st_LastAppliedPrimaries = m_st_LastAppliedPrimaries s,
       st_LastAppliedReplicasPerPrimary = m_st_LastAppliedReplicasPerPrimary s\<rparr>)
     (pair_view (map_view un_CNodes (ptr_view un_CRedisNode flat_view))
     (pair_view (slice_view un_CExtArray (ext_view xv un_XCondition))
     (ptr_view un_CTime flat_view)))"

definition RedkeyStatus_foot ::
    "('x memory \<Rightarrow> 'x \<Rightarrow> addr set) \<Rightarrow> 'x memory \<Rightarrow> RedkeyStatus_m
      \<Rightarrow> addr set" where
  "RedkeyStatus_foot xf = struct_foot RedkeyStatus_parts
     (pair_foot (map_foot un_CNodes (ptr_foot un_CRedisNode flat_foot))
     (pair_foot (slice_foot un_CExtArray xf)
     (ptr_foot un_CTime flat_foot)))"

abbreviation Redkey_parts where
  "Redkey_parts s \<equiv> (m_rk_Meta s, m_rk_Spec s, m_rk_Status s)"

definition Redkey_view ::
    "('x memory \<Rightarrow> 'x \<Rightarrow> ext_value option) \<Rightarrow> 'x memory \<Rightarrow> 'x
      Redkey_m \<Rightarrow> (TypeMeta \<times> Redkey) option" where
  "Redkey_view xv = struct_view Redkey_parts
     (\<lambda>s (meta', spec', status'). (m_rk_TypeMeta s, \<lparr>rk_Meta = meta', rk_Spec = spec',
       rk_Status = status'\<rparr>))
     (pair_view (ext_view xv un_XMeta)
     (pair_view (RedkeySpec_view xv)
     (RedkeyStatus_view xv)))"

definition Redkey_foot ::
    "('x memory \<Rightarrow> 'x \<Rightarrow> addr set) \<Rightarrow> 'x memory \<Rightarrow> 'x Redkey_m
      \<Rightarrow> addr set" where
  "Redkey_foot xf = struct_foot Redkey_parts
     (pair_foot xf
     (pair_foot (RedkeySpec_foot xf)
     (RedkeyStatus_foot xf)))"

abbreviation RedkeyConfigSpec_parts where
  "RedkeyConfigSpec_parts s \<equiv> (m_cs_Resources s, m_cs_Labels s, m_cs_Annotations s, m_cs_DeletePVC s,
       m_cs_PurgeKeysOnRebalance s, m_cs_Override s, m_cs_RobinConfig s)"

definition RedkeyConfigSpec_view ::
    "('x memory \<Rightarrow> 'x \<Rightarrow> ext_value option) \<Rightarrow> 'x memory \<Rightarrow>
      RedkeyConfigSpec_m \<Rightarrow> (RedkeyConfigSpec) option" where
  "RedkeyConfigSpec_view xv = struct_view RedkeyConfigSpec_parts
     (\<lambda>s (resources', labels', annotations', deletePVC', purgeKeysOnRebalance', override',
       robinConfig'). \<lparr>cs_Sequence = m_cs_Sequence s, cs_SkipIfSuperseded = m_cs_SkipIfSuperseded s,
       cs_Mode = m_cs_Mode s, cs_Primaries = m_cs_Primaries s,
       cs_ReplicasPerPrimary = m_cs_ReplicasPerPrimary s, cs_Ephemeral = m_cs_Ephemeral s,
       cs_Storage = m_cs_Storage s, cs_StorageClassName = m_cs_StorageClassName s, cs_Image = m_cs_Image s,
       cs_Version = m_cs_Version s, cs_RedisConfig = m_cs_RedisConfig s, cs_Resources = resources',
       cs_Auth = m_cs_Auth s, cs_Labels = labels', cs_Annotations = annotations', cs_DeletePVC = deletePVC',
       cs_PurgeKeysOnRebalance = purgeKeysOnRebalance', cs_Override = override', cs_Pdb = m_cs_Pdb s,
       cs_RobinConfig = robinConfig'\<rparr>)
     (pair_view (ptr_view un_CExt (ext_view xv un_XResources))
     (pair_view (ptr_view un_CMapRef (map_view un_CStrMap flat_view))
     (pair_view (ptr_view un_CMapRef (map_view un_CStrMap flat_view))
     (pair_view (ptr_view un_CBool flat_view)
     (pair_view (ptr_view un_CBool flat_view)
     (pair_view (ptr_view un_CRedkeyOverrideSpec (RedkeyOverrideSpec_view xv))
     (ptr_view un_CRobinConfig RobinConfig_view)))))))"

definition RedkeyConfigSpec_foot ::
    "('x memory \<Rightarrow> 'x \<Rightarrow> addr set) \<Rightarrow> 'x memory \<Rightarrow> RedkeyConfigSpec_m
      \<Rightarrow> addr set" where
  "RedkeyConfigSpec_foot xf = struct_foot RedkeyConfigSpec_parts
     (pair_foot (ptr_foot un_CExt xf)
     (pair_foot (ptr_foot un_CMapRef (map_foot un_CStrMap flat_foot))
     (pair_foot (ptr_foot un_CMapRef (map_foot un_CStrMap flat_foot))
     (pair_foot (ptr_foot un_CBool flat_foot)
     (pair_foot (ptr_foot un_CBool flat_foot)
     (pair_foot (ptr_foot un_CRedkeyOverrideSpec (RedkeyOverrideSpec_foot xf))
     (ptr_foot un_CRobinConfig RobinConfig_foot)))))))"

abbreviation RedkeyConfigStatus_parts where
  "RedkeyConfigStatus_parts s \<equiv> (m_ct_Nodes s, m_ct_Conditions s, m_ct_LastUpdatedAt s)"

definition RedkeyConfigStatus_view ::
    "('x memory \<Rightarrow> 'x \<Rightarrow> ext_value option) \<Rightarrow> 'x memory \<Rightarrow>
      RedkeyConfigStatus_m \<Rightarrow> (RedkeyConfigStatus) option" where
  "RedkeyConfigStatus_view xv = struct_view RedkeyConfigStatus_parts
     (\<lambda>s (nodes', conditions', lastUpdatedAt'). \<lparr>ct_ConfigPhase = m_ct_ConfigPhase s,
       ct_Status = m_ct_Status s, ct_Substatus = m_ct_Substatus s, ct_Nodes = nodes',
       ct_Conditions = conditions', ct_LastUpdatedAt = lastUpdatedAt',
       ct_ObservedGeneration = m_ct_ObservedGeneration s\<rparr>)
     (pair_view (map_view un_CNodes (ptr_view un_CRedisNode flat_view))
     (pair_view (slice_view un_CExtArray (ext_view xv un_XCondition))
     (ptr_view un_CTime flat_view)))"

definition RedkeyConfigStatus_foot ::
    "('x memory \<Rightarrow> 'x \<Rightarrow> addr set) \<Rightarrow> 'x memory \<Rightarrow>
      RedkeyConfigStatus_m \<Rightarrow> addr set" where
  "RedkeyConfigStatus_foot xf = struct_foot RedkeyConfigStatus_parts
     (pair_foot (map_foot un_CNodes (ptr_foot un_CRedisNode flat_foot))
     (pair_foot (slice_foot un_CExtArray xf)
     (ptr_foot un_CTime flat_foot)))"

abbreviation RedkeyConfig_parts where
  "RedkeyConfig_parts s \<equiv> (m_cf_Meta s, m_cf_Spec s, m_cf_Status s)"

definition RedkeyConfig_view ::
    "('x memory \<Rightarrow> 'x \<Rightarrow> ext_value option) \<Rightarrow> 'x memory \<Rightarrow> 'x
      RedkeyConfig_m \<Rightarrow> (TypeMeta \<times> RedkeyConfig) option" where
  "RedkeyConfig_view xv = struct_view RedkeyConfig_parts
     (\<lambda>s (meta', spec', status'). (m_cf_TypeMeta s, \<lparr>cf_Meta = meta', cf_Spec = spec',
       cf_Status = status'\<rparr>))
     (pair_view (ext_view xv un_XMeta)
     (pair_view (RedkeyConfigSpec_view xv)
     (RedkeyConfigStatus_view xv)))"

definition RedkeyConfig_foot ::
    "('x memory \<Rightarrow> 'x \<Rightarrow> addr set) \<Rightarrow> 'x memory \<Rightarrow> 'x RedkeyConfig_m
      \<Rightarrow> addr set" where
  "RedkeyConfig_foot xf = struct_foot RedkeyConfig_parts
     (pair_foot xf
     (pair_foot (RedkeyConfigSpec_foot xf)
     (RedkeyConfigStatus_foot xf)))"

abbreviation RedkeyList_parts where
  "RedkeyList_parts s \<equiv> (m_rl_ListMeta s, m_rl_Items s)"

definition RedkeyList_view ::
    "('x memory \<Rightarrow> 'x \<Rightarrow> ext_value option) \<Rightarrow> 'x memory \<Rightarrow> 'x
      RedkeyList_m \<Rightarrow> (TypeMeta \<times> k8s \<times> (TypeMeta \<times> Redkey) list) option" where
  "RedkeyList_view xv = struct_view RedkeyList_parts
     (\<lambda>s (listMeta', items'). (m_rl_TypeMeta s, listMeta', items'))
     (pair_view (ext_view xv un_XOther)
     (slice_view un_CRedkeyArray (Redkey_view xv)))"

definition RedkeyList_foot ::
    "('x memory \<Rightarrow> 'x \<Rightarrow> addr set) \<Rightarrow> 'x memory \<Rightarrow> 'x RedkeyList_m
      \<Rightarrow> addr set" where
  "RedkeyList_foot xf = struct_foot RedkeyList_parts
     (pair_foot xf
     (slice_foot un_CRedkeyArray (Redkey_foot xf)))"

abbreviation RedkeyConfigList_parts where
  "RedkeyConfigList_parts s \<equiv> (m_cl_ListMeta s, m_cl_Items s)"

definition RedkeyConfigList_view ::
    "('x memory \<Rightarrow> 'x \<Rightarrow> ext_value option) \<Rightarrow> 'x memory \<Rightarrow> 'x
      RedkeyConfigList_m \<Rightarrow> (TypeMeta \<times> k8s \<times> (TypeMeta \<times> RedkeyConfig) list)
      option" where
  "RedkeyConfigList_view xv = struct_view RedkeyConfigList_parts
     (\<lambda>s (listMeta', items'). (m_cl_TypeMeta s, listMeta', items'))
     (pair_view (ext_view xv un_XOther)
     (slice_view un_CRedkeyConfigArray (RedkeyConfig_view xv)))"

definition RedkeyConfigList_foot ::
    "('x memory \<Rightarrow> 'x \<Rightarrow> addr set) \<Rightarrow> 'x memory \<Rightarrow> 'x
      RedkeyConfigList_m \<Rightarrow> addr set" where
  "RedkeyConfigList_foot xf = struct_foot RedkeyConfigList_parts
     (pair_foot xf
     (slice_foot un_CRedkeyConfigArray (RedkeyConfig_foot xf)))"

text \<open>Pointers to the resources and to their lists.\<close>

abbreviation Redkey_ptr_view where
  "Redkey_ptr_view xv \<equiv> ptr_view un_CRedkey (Redkey_view xv)"

abbreviation Redkey_ptr_foot where
  "Redkey_ptr_foot xf \<equiv> ptr_foot un_CRedkey (Redkey_foot xf)"

abbreviation RedkeyConfig_ptr_view where
  "RedkeyConfig_ptr_view xv \<equiv> ptr_view un_CRedkeyConfig (RedkeyConfig_view xv)"

abbreviation RedkeyConfig_ptr_foot where
  "RedkeyConfig_ptr_foot xf \<equiv> ptr_foot un_CRedkeyConfig (RedkeyConfig_foot xf)"

abbreviation RedkeyList_ptr_view where
  "RedkeyList_ptr_view xv \<equiv> ptr_view un_CRedkeyList (RedkeyList_view xv)"

abbreviation RedkeyList_ptr_foot where
  "RedkeyList_ptr_foot xf \<equiv> ptr_foot un_CRedkeyList (RedkeyList_foot xf)"

abbreviation RedkeyConfigList_ptr_view where
  "RedkeyConfigList_ptr_view xv \<equiv> ptr_view un_CRedkeyConfigList (RedkeyConfigList_view xv)"

abbreviation RedkeyConfigList_ptr_foot where
  "RedkeyConfigList_ptr_foot xf \<equiv> ptr_foot un_CRedkeyConfigList (RedkeyConfigList_foot xf)"

section \<open>Structs without library parts\<close>

lemma RobinConfigReconciler_DeepCopyInto_eq: "RobinConfigReconciler_DeepCopyInto = struct_copy
      RobinConfigReconciler_parts
    (\<lambda>(intervalSeconds', intervalOnErrorSeconds',
       intervalOnWaitSeconds') s. s\<lparr>m_rcr_IntervalSeconds := intervalSeconds',
       m_rcr_IntervalOnErrorSeconds := intervalOnErrorSeconds',
       m_rcr_IntervalOnWaitSeconds := intervalOnWaitSeconds'\<rparr>)
    (pair_copy (ptr_copy CInt un_CInt ret)
    (pair_copy (ptr_copy CInt un_CInt ret)
    (ptr_copy CInt un_CInt ret)))"
  by (rule ext) (simp add: RobinConfigReconciler_DeepCopyInto_def struct_copy_def pair_copy_def seq_simps del: ret_eq)

lemma copier_RobinConfigReconciler [copier_intros]:
  "copier (RobinConfigReconciler_view) (RobinConfigReconciler_foot) (RobinConfigReconciler_DeepCopyInto)"
  unfolding RobinConfigReconciler_DeepCopyInto_eq RobinConfigReconciler_view_def RobinConfigReconciler_foot_def
  by (rule copier_struct,
       (intro copier_intros copier_ptr copier_map copier_slice; simp)) (simp_all add: split_paired_all)

lemma RobinConfigCluster_DeepCopyInto_eq: "RobinConfigCluster_DeepCopyInto = struct_copy RobinConfigCluster_parts
    (\<lambda>(connectionMaxRetries', connectionBackOffSeconds', clusterCommandTimeoutSeconds',
       clusterMeetWaitSeconds',
       rebalanceTimeoutSeconds') s. s\<lparr>m_rcc_ConnectionMaxRetries := connectionMaxRetries',
       m_rcc_ConnectionBackOffSeconds := connectionBackOffSeconds',
       m_rcc_ClusterCommandTimeoutSeconds := clusterCommandTimeoutSeconds',
       m_rcc_ClusterMeetWaitSeconds := clusterMeetWaitSeconds',
       m_rcc_RebalanceTimeoutSeconds := rebalanceTimeoutSeconds'\<rparr>)
    (pair_copy (ptr_copy CInt un_CInt ret)
    (pair_copy (ptr_copy CInt un_CInt ret)
    (pair_copy (ptr_copy CInt un_CInt ret)
    (pair_copy (ptr_copy CInt un_CInt ret)
    (ptr_copy CInt un_CInt ret)))))"
  by (rule ext) (simp add: RobinConfigCluster_DeepCopyInto_def struct_copy_def pair_copy_def seq_simps del: ret_eq)

lemma copier_RobinConfigCluster [copier_intros]:
  "copier (RobinConfigCluster_view) (RobinConfigCluster_foot) (RobinConfigCluster_DeepCopyInto)"
  unfolding RobinConfigCluster_DeepCopyInto_eq RobinConfigCluster_view_def RobinConfigCluster_foot_def
  by (rule copier_struct,
       (intro copier_intros copier_ptr copier_map copier_slice; simp)) (simp_all add: split_paired_all)

lemma RobinConfigMetrics_DeepCopyInto_eq: "RobinConfigMetrics_DeepCopyInto = struct_copy RobinConfigMetrics_parts
    (\<lambda>(collectionIntervalSeconds', redisInfoKeys',
       metricsLabels') s. s\<lparr>m_rcm_CollectionIntervalSeconds := collectionIntervalSeconds',
       m_rcm_RedisInfoKeys := redisInfoKeys', m_rcm_MetricsLabels := metricsLabels'\<rparr>)
    (pair_copy (ptr_copy CInt un_CInt ret)
    (pair_copy (slice_copy CStrings un_CStrings ret)
    (map_copy CStrMap un_CStrMap ret)))"
  by (rule ext) (simp add: RobinConfigMetrics_DeepCopyInto_def struct_copy_def pair_copy_def seq_simps del: ret_eq)

lemma copier_RobinConfigMetrics [copier_intros]:
  "copier (RobinConfigMetrics_view) (RobinConfigMetrics_foot) (RobinConfigMetrics_DeepCopyInto)"
  unfolding RobinConfigMetrics_DeepCopyInto_eq RobinConfigMetrics_view_def RobinConfigMetrics_foot_def
  by (rule copier_struct,
       (intro copier_intros copier_ptr copier_map copier_slice; simp)) (simp_all add: split_paired_all)

lemma RobinConfigProfiling_DeepCopyInto_eq: "RobinConfigProfiling_DeepCopyInto = struct_copy
      RobinConfigProfiling_parts
    (\<lambda>enabled' s. s\<lparr>m_rcp_Enabled := enabled'\<rparr>)
    (ptr_copy CBool un_CBool ret)"
  by (rule ext) (simp add: RobinConfigProfiling_DeepCopyInto_def struct_copy_def pair_copy_def seq_simps del: ret_eq)

lemma copier_RobinConfigProfiling [copier_intros]:
  "copier (RobinConfigProfiling_view) (RobinConfigProfiling_foot) (RobinConfigProfiling_DeepCopyInto)"
  unfolding RobinConfigProfiling_DeepCopyInto_eq RobinConfigProfiling_view_def RobinConfigProfiling_foot_def
  by (rule copier_struct,
       (intro copier_intros copier_ptr copier_map copier_slice; simp)) (simp_all add: split_paired_all)

lemma RobinConfig_DeepCopyInto_eq: "RobinConfig_DeepCopyInto = struct_copy RobinConfig_parts
    (\<lambda>(reconciler', cluster', metrics', profiling') s. s\<lparr>m_rc_Reconciler := reconciler',
       m_rc_Cluster := cluster', m_rc_Metrics := metrics', m_rc_Profiling := profiling'\<rparr>)
    (pair_copy (ptr_copy CRobinConfigReconciler un_CRobinConfigReconciler RobinConfigReconciler_DeepCopyInto)
    (pair_copy (ptr_copy CRobinConfigCluster un_CRobinConfigCluster RobinConfigCluster_DeepCopyInto)
    (pair_copy (ptr_copy CRobinConfigMetrics un_CRobinConfigMetrics RobinConfigMetrics_DeepCopyInto)
    (ptr_copy CRobinConfigProfiling un_CRobinConfigProfiling RobinConfigProfiling_DeepCopyInto))))"
  by (rule ext) (simp add: RobinConfig_DeepCopyInto_def struct_copy_def pair_copy_def seq_simps del: ret_eq)

lemma copier_RobinConfig [copier_intros]:
  "copier (RobinConfig_view) (RobinConfig_foot) (RobinConfig_DeepCopyInto)"
  unfolding RobinConfig_DeepCopyInto_eq RobinConfig_view_def RobinConfig_foot_def
  by (rule copier_struct,
       (intro copier_intros copier_ptr copier_map copier_slice; simp)) (simp_all add: split_paired_all)

section \<open>Structs with library parts\<close>

lemma PartialPodSpec_DeepCopyInto_eq: "PartialPodSpec_DeepCopyInto x = struct_copy PartialPodSpec_parts
    (\<lambda>(containers', initContainers', ephemeralContainers', terminationGracePeriodSeconds',
       nodeSelector', securityContext', imagePullSecrets', affinity', tolerations', topologySpreadConstraints',
       volumes') s. s\<lparr>m_pp_Containers := containers', m_pp_InitContainers := initContainers',
       m_pp_EphemeralContainers := ephemeralContainers',
       m_pp_TerminationGracePeriodSeconds := terminationGracePeriodSeconds',
       m_pp_NodeSelector := nodeSelector', m_pp_SecurityContext := securityContext',
       m_pp_ImagePullSecrets := imagePullSecrets', m_pp_Affinity := affinity',
       m_pp_Tolerations := tolerations', m_pp_TopologySpreadConstraints := topologySpreadConstraints',
       m_pp_Volumes := volumes'\<rparr>)
    (pair_copy (slice_copy CExtArray un_CExtArray (x_DeepCopyInto x))
    (pair_copy (slice_copy CExtArray un_CExtArray (x_DeepCopyInto x))
    (pair_copy (slice_copy CExtArray un_CExtArray (x_DeepCopyInto x))
    (pair_copy (ptr_copy CInt un_CInt ret)
    (pair_copy (map_copy CStrMap un_CStrMap ret)
    (pair_copy (ptr_copy CExt un_CExt (x_DeepCopyInto x))
    (pair_copy (slice_copy CK8sArray un_CK8sArray ret)
    (pair_copy (ptr_copy CExt un_CExt (x_DeepCopyInto x))
    (pair_copy (slice_copy CExtArray un_CExtArray (x_DeepCopyInto x))
    (pair_copy (slice_copy CExtArray un_CExtArray (x_DeepCopyInto x))
    (slice_copy CExtArray un_CExtArray (x_DeepCopyInto x))))))))))))"
  by (rule ext) (simp add: PartialPodSpec_DeepCopyInto_def struct_copy_def pair_copy_def seq_simps del: ret_eq)

lemma PartialPodTemplateSpec_DeepCopyInto_eq: "PartialPodTemplateSpec_DeepCopyInto x = struct_copy
      PartialPodTemplateSpec_parts
    (\<lambda>(metadata', spec') s. s\<lparr>m_ppt_Metadata := metadata', m_ppt_Spec := spec'\<rparr>)
    (pair_copy (x_DeepCopyInto x)
    (PartialPodSpec_DeepCopyInto x))"
  by (rule ext) (simp add: PartialPodTemplateSpec_DeepCopyInto_def struct_copy_def pair_copy_def seq_simps del:
      ret_eq)

lemma PartialServiceSpec_DeepCopyInto_eq: "PartialServiceSpec_DeepCopyInto x = struct_copy PartialServiceSpec_parts
    (\<lambda>(ports', selector') s. s\<lparr>m_psv_Ports := ports', m_psv_Selector := selector'\<rparr>)
    (pair_copy (slice_copy CExtArray un_CExtArray (x_DeepCopyInto x))
    (map_copy CStrMap un_CStrMap ret))"
  by (rule ext) (simp add: PartialServiceSpec_DeepCopyInto_def struct_copy_def pair_copy_def seq_simps del: ret_eq)

lemma PartialService_DeepCopyInto_eq: "PartialService_DeepCopyInto x = struct_copy PartialService_parts
    (\<lambda>(metadata', spec') s. s\<lparr>m_psr_Metadata := metadata', m_psr_Spec := spec'\<rparr>)
    (pair_copy (x_DeepCopyInto x)
    (ptr_copy CPartialServiceSpec un_CPartialServiceSpec (PartialServiceSpec_DeepCopyInto x)))"
  by (rule ext) (simp add: PartialService_DeepCopyInto_def struct_copy_def pair_copy_def seq_simps del: ret_eq)

lemma PartialStatefulSetSpec_DeepCopyInto_eq: "PartialStatefulSetSpec_DeepCopyInto x = struct_copy
      PartialStatefulSetSpec_parts
    (\<lambda>(minReadySeconds', replicas', selector', template', updateStrategy', revisionHistoryLimit',
       volumeClaimTemplates', persistentVolumeClaimRetentionPolicy',
       ordinals') s. s\<lparr>m_pss_MinReadySeconds := minReadySeconds', m_pss_Replicas := replicas',
       m_pss_Selector := selector', m_pss_Template := template', m_pss_UpdateStrategy := updateStrategy',
       m_pss_RevisionHistoryLimit := revisionHistoryLimit',
       m_pss_VolumeClaimTemplates := volumeClaimTemplates',
       m_pss_PersistentVolumeClaimRetentionPolicy := persistentVolumeClaimRetentionPolicy',
       m_pss_Ordinals := ordinals'\<rparr>)
    (pair_copy (ptr_copy CInt un_CInt ret)
    (pair_copy (ptr_copy CInt un_CInt ret)
    (pair_copy (ptr_copy CExt un_CExt (x_DeepCopyInto x))
    (pair_copy (ptr_copy CPartialPodTemplateSpec un_CPartialPodTemplateSpec (PartialPodTemplateSpec_DeepCopyInto x))
    (pair_copy (ptr_copy CExt un_CExt (x_DeepCopyInto x))
    (pair_copy (ptr_copy CInt un_CInt ret)
    (pair_copy (slice_copy CExtArray un_CExtArray (x_DeepCopyInto x))
    (pair_copy (ptr_copy CK8s un_CK8s ret)
    (ptr_copy CK8s un_CK8s ret)))))))))"
  by (rule ext) (simp add: PartialStatefulSetSpec_DeepCopyInto_def struct_copy_def pair_copy_def seq_simps del:
      ret_eq)

lemma PartialStatefulSet_DeepCopyInto_eq: "PartialStatefulSet_DeepCopyInto x = struct_copy PartialStatefulSet_parts
    (\<lambda>(metadata', spec') s. s\<lparr>m_pst_Metadata := metadata', m_pst_Spec := spec'\<rparr>)
    (pair_copy (x_DeepCopyInto x)
    (ptr_copy CPartialStatefulSetSpec un_CPartialStatefulSetSpec (PartialStatefulSetSpec_DeepCopyInto x)))"
  by (rule ext) (simp add: PartialStatefulSet_DeepCopyInto_def struct_copy_def pair_copy_def seq_simps del: ret_eq)

lemma RedkeyOverrideSpec_DeepCopyInto_eq: "RedkeyOverrideSpec_DeepCopyInto x = struct_copy RedkeyOverrideSpec_parts
    (\<lambda>(statefulSet', service') s. s\<lparr>m_ov_StatefulSet := statefulSet', m_ov_Service := service'\<rparr>)
    (pair_copy (ptr_copy CPartialStatefulSet un_CPartialStatefulSet (PartialStatefulSet_DeepCopyInto x))
    (ptr_copy CPartialService un_CPartialService (PartialService_DeepCopyInto x)))"
  by (rule ext) (simp add: RedkeyOverrideSpec_DeepCopyInto_def struct_copy_def pair_copy_def seq_simps del: ret_eq)

lemma RobinSpec_DeepCopyInto_eq: "RobinSpec_DeepCopyInto x = struct_copy RobinSpec_parts
    (\<lambda>(resources', template', config') s. s\<lparr>m_rs_Resources := resources',
       m_rs_Template := template', m_rs_Config := config'\<rparr>)
    (pair_copy (ptr_copy CExt un_CExt (x_DeepCopyInto x))
    (pair_copy (ptr_copy CPartialPodTemplateSpec un_CPartialPodTemplateSpec (PartialPodTemplateSpec_DeepCopyInto x))
    (ptr_copy CRobinConfig un_CRobinConfig RobinConfig_DeepCopyInto)))"
  by (rule ext) (simp add: RobinSpec_DeepCopyInto_def struct_copy_def pair_copy_def seq_simps del: ret_eq)

lemma RedkeySpec_DeepCopyInto_eq: "RedkeySpec_DeepCopyInto x = struct_copy RedkeySpec_parts
    (\<lambda>(deletePVC', robin', purgeKeysOnRebalance', resources', labels', annotations', override',
       accessModes') s. s\<lparr>m_sp_DeletePVC := deletePVC', m_sp_Robin := robin',
       m_sp_PurgeKeysOnRebalance := purgeKeysOnRebalance', m_sp_Resources := resources',
       m_sp_Labels := labels', m_sp_Annotations := annotations', m_sp_Override := override',
       m_sp_AccessModes := accessModes'\<rparr>)
    (pair_copy (ptr_copy CBool un_CBool ret)
    (pair_copy (RobinSpec_DeepCopyInto x)
    (pair_copy (ptr_copy CBool un_CBool ret)
    (pair_copy (ptr_copy CExt un_CExt (x_DeepCopyInto x))
    (pair_copy (ptr_copy CMapRef un_CMapRef (map_copy CStrMap un_CStrMap ret))
    (pair_copy (ptr_copy CMapRef un_CMapRef (map_copy CStrMap un_CStrMap ret))
    (pair_copy (ptr_copy CRedkeyOverrideSpec un_CRedkeyOverrideSpec (RedkeyOverrideSpec_DeepCopyInto x))
    (slice_copy CStrings un_CStrings ret))))))))"
  by (rule ext) (simp add: RedkeySpec_DeepCopyInto_def struct_copy_def pair_copy_def seq_simps del: ret_eq)

lemma RedkeyStatus_DeepCopyInto_eq: "RedkeyStatus_DeepCopyInto x = struct_copy RedkeyStatus_parts
    (\<lambda>(nodes', conditions', lastUpdatedAt') s. s\<lparr>m_st_Nodes := nodes',
       m_st_Conditions := conditions', m_st_LastUpdatedAt := lastUpdatedAt'\<rparr>)
    (pair_copy (map_copy CNodes un_CNodes (ptr_copy CRedisNode un_CRedisNode ret))
    (pair_copy (slice_copy CExtArray un_CExtArray (x_DeepCopyInto x))
    (time_copy x)))"
  by (rule ext) (simp add: RedkeyStatus_DeepCopyInto_def struct_copy_def pair_copy_def seq_simps del: ret_eq)

lemma Redkey_DeepCopyInto_eq: "Redkey_DeepCopyInto x = struct_copy Redkey_parts
    (\<lambda>(meta', spec', status') s. s\<lparr>m_rk_Meta := meta', m_rk_Spec := spec',
       m_rk_Status := status'\<rparr>)
    (pair_copy (x_DeepCopyInto x)
    (pair_copy (RedkeySpec_DeepCopyInto x)
    (RedkeyStatus_DeepCopyInto x)))"
  by (rule ext) (simp add: Redkey_DeepCopyInto_def struct_copy_def pair_copy_def seq_simps del: ret_eq)

lemma RedkeyConfigSpec_DeepCopyInto_eq: "RedkeyConfigSpec_DeepCopyInto x = struct_copy RedkeyConfigSpec_parts
    (\<lambda>(resources', labels', annotations', deletePVC', purgeKeysOnRebalance', override',
       robinConfig') s. s\<lparr>m_cs_Resources := resources', m_cs_Labels := labels',
       m_cs_Annotations := annotations', m_cs_DeletePVC := deletePVC',
       m_cs_PurgeKeysOnRebalance := purgeKeysOnRebalance', m_cs_Override := override',
       m_cs_RobinConfig := robinConfig'\<rparr>)
    (pair_copy (ptr_copy CExt un_CExt (x_DeepCopyInto x))
    (pair_copy (ptr_copy CMapRef un_CMapRef (map_copy CStrMap un_CStrMap ret))
    (pair_copy (ptr_copy CMapRef un_CMapRef (map_copy CStrMap un_CStrMap ret))
    (pair_copy (ptr_copy CBool un_CBool ret)
    (pair_copy (ptr_copy CBool un_CBool ret)
    (pair_copy (ptr_copy CRedkeyOverrideSpec un_CRedkeyOverrideSpec (RedkeyOverrideSpec_DeepCopyInto x))
    (ptr_copy CRobinConfig un_CRobinConfig RobinConfig_DeepCopyInto)))))))"
  by (rule ext) (simp add: RedkeyConfigSpec_DeepCopyInto_def struct_copy_def pair_copy_def seq_simps del: ret_eq)

lemma RedkeyConfigStatus_DeepCopyInto_eq: "RedkeyConfigStatus_DeepCopyInto x = struct_copy RedkeyConfigStatus_parts
    (\<lambda>(nodes', conditions', lastUpdatedAt') s. s\<lparr>m_ct_Nodes := nodes',
       m_ct_Conditions := conditions', m_ct_LastUpdatedAt := lastUpdatedAt'\<rparr>)
    (pair_copy (map_copy CNodes un_CNodes (ptr_copy CRedisNode un_CRedisNode ret))
    (pair_copy (slice_copy CExtArray un_CExtArray (x_DeepCopyInto x))
    (time_copy x)))"
  by (rule ext) (simp add: RedkeyConfigStatus_DeepCopyInto_def struct_copy_def pair_copy_def seq_simps del: ret_eq)

lemma RedkeyConfig_DeepCopyInto_eq: "RedkeyConfig_DeepCopyInto x = struct_copy RedkeyConfig_parts
    (\<lambda>(meta', spec', status') s. s\<lparr>m_cf_Meta := meta', m_cf_Spec := spec',
       m_cf_Status := status'\<rparr>)
    (pair_copy (x_DeepCopyInto x)
    (pair_copy (RedkeyConfigSpec_DeepCopyInto x)
    (RedkeyConfigStatus_DeepCopyInto x)))"
  by (rule ext) (simp add: RedkeyConfig_DeepCopyInto_def struct_copy_def pair_copy_def seq_simps del: ret_eq)

lemma RedkeyList_DeepCopyInto_eq: "RedkeyList_DeepCopyInto x = struct_copy RedkeyList_parts
    (\<lambda>(listMeta', items') s. s\<lparr>m_rl_ListMeta := listMeta', m_rl_Items := items'\<rparr>)
    (pair_copy (x_DeepCopyInto x)
    (slice_copy CRedkeyArray un_CRedkeyArray (Redkey_DeepCopyInto x)))"
  by (rule ext) (simp add: RedkeyList_DeepCopyInto_def struct_copy_def pair_copy_def seq_simps del: ret_eq)

lemma RedkeyConfigList_DeepCopyInto_eq: "RedkeyConfigList_DeepCopyInto x = struct_copy RedkeyConfigList_parts
    (\<lambda>(listMeta', items') s. s\<lparr>m_cl_ListMeta := listMeta', m_cl_Items := items'\<rparr>)
    (pair_copy (x_DeepCopyInto x)
    (slice_copy CRedkeyConfigArray un_CRedkeyConfigArray (RedkeyConfig_DeepCopyInto x)))"
  by (rule ext) (simp add: RedkeyConfigList_DeepCopyInto_def struct_copy_def pair_copy_def seq_simps del: ret_eq)

locale api_machinery =
  fixes x :: "'x extern"
    and xv :: "'x memory \<Rightarrow> 'x \<Rightarrow> ext_value option"
    and xf :: "'x memory \<Rightarrow> 'x \<Rightarrow> addr set"
  assumes ext_copier: "copier xv xf (x_DeepCopyInto x)"
    and time_copier [copier_intros]: "copier (ptr_view un_CTime flat_view) (ptr_foot un_CTime flat_foot)
      (time_copy x)"
begin

lemma copier_ext [copier_intros]: "copier (ext_view xv prj) xf (x_DeepCopyInto x)"
  unfolding ext_view_def by (rule copier_prj [OF ext_copier])

lemma copier_PartialPodSpec [copier_intros]:
  "copier (PartialPodSpec_view xv) (PartialPodSpec_foot xf) (PartialPodSpec_DeepCopyInto x)"
  unfolding PartialPodSpec_DeepCopyInto_eq PartialPodSpec_view_def PartialPodSpec_foot_def
  by (rule copier_struct,
       (intro copier_intros copier_ptr copier_map copier_slice; simp)) (simp_all add: split_paired_all)

lemma copier_PartialPodTemplateSpec [copier_intros]:
  "copier (PartialPodTemplateSpec_view xv) (PartialPodTemplateSpec_foot xf) (PartialPodTemplateSpec_DeepCopyInto x)"
  unfolding PartialPodTemplateSpec_DeepCopyInto_eq PartialPodTemplateSpec_view_def PartialPodTemplateSpec_foot_def
  by (rule copier_struct,
       (intro copier_intros copier_ptr copier_map copier_slice; simp)) (simp_all add: split_paired_all)

lemma copier_PartialServiceSpec [copier_intros]:
  "copier (PartialServiceSpec_view xv) (PartialServiceSpec_foot xf) (PartialServiceSpec_DeepCopyInto x)"
  unfolding PartialServiceSpec_DeepCopyInto_eq PartialServiceSpec_view_def PartialServiceSpec_foot_def
  by (rule copier_struct,
       (intro copier_intros copier_ptr copier_map copier_slice; simp)) (simp_all add: split_paired_all)

lemma copier_PartialService [copier_intros]:
  "copier (PartialService_view xv) (PartialService_foot xf) (PartialService_DeepCopyInto x)"
  unfolding PartialService_DeepCopyInto_eq PartialService_view_def PartialService_foot_def
  by (rule copier_struct,
       (intro copier_intros copier_ptr copier_map copier_slice; simp)) (simp_all add: split_paired_all)

lemma copier_PartialStatefulSetSpec [copier_intros]:
  "copier (PartialStatefulSetSpec_view xv) (PartialStatefulSetSpec_foot xf) (PartialStatefulSetSpec_DeepCopyInto x)"
  unfolding PartialStatefulSetSpec_DeepCopyInto_eq PartialStatefulSetSpec_view_def PartialStatefulSetSpec_foot_def
  by (rule copier_struct,
       (intro copier_intros copier_ptr copier_map copier_slice; simp)) (simp_all add: split_paired_all)

lemma copier_PartialStatefulSet [copier_intros]:
  "copier (PartialStatefulSet_view xv) (PartialStatefulSet_foot xf) (PartialStatefulSet_DeepCopyInto x)"
  unfolding PartialStatefulSet_DeepCopyInto_eq PartialStatefulSet_view_def PartialStatefulSet_foot_def
  by (rule copier_struct,
       (intro copier_intros copier_ptr copier_map copier_slice; simp)) (simp_all add: split_paired_all)

lemma copier_RedkeyOverrideSpec [copier_intros]:
  "copier (RedkeyOverrideSpec_view xv) (RedkeyOverrideSpec_foot xf) (RedkeyOverrideSpec_DeepCopyInto x)"
  unfolding RedkeyOverrideSpec_DeepCopyInto_eq RedkeyOverrideSpec_view_def RedkeyOverrideSpec_foot_def
  by (rule copier_struct,
       (intro copier_intros copier_ptr copier_map copier_slice; simp)) (simp_all add: split_paired_all)

lemma copier_RobinSpec [copier_intros]:
  "copier (RobinSpec_view xv) (RobinSpec_foot xf) (RobinSpec_DeepCopyInto x)"
  unfolding RobinSpec_DeepCopyInto_eq RobinSpec_view_def RobinSpec_foot_def
  by (rule copier_struct,
       (intro copier_intros copier_ptr copier_map copier_slice; simp)) (simp_all add: split_paired_all)

lemma copier_RedkeySpec [copier_intros]:
  "copier (RedkeySpec_view xv) (RedkeySpec_foot xf) (RedkeySpec_DeepCopyInto x)"
  unfolding RedkeySpec_DeepCopyInto_eq RedkeySpec_view_def RedkeySpec_foot_def
  by (rule copier_struct,
       (intro copier_intros copier_ptr copier_map copier_slice; simp)) (simp_all add: split_paired_all)

lemma copier_RedkeyStatus [copier_intros]:
  "copier (RedkeyStatus_view xv) (RedkeyStatus_foot xf) (RedkeyStatus_DeepCopyInto x)"
  unfolding RedkeyStatus_DeepCopyInto_eq RedkeyStatus_view_def RedkeyStatus_foot_def
  by (rule copier_struct,
       (intro copier_intros copier_ptr copier_map copier_slice; simp)) (simp_all add: split_paired_all)

lemma copier_Redkey [copier_intros]:
  "copier (Redkey_view xv) (Redkey_foot xf) (Redkey_DeepCopyInto x)"
  unfolding Redkey_DeepCopyInto_eq Redkey_view_def Redkey_foot_def
  by (rule copier_struct,
       (intro copier_intros copier_ptr copier_map copier_slice; simp)) (simp_all add: split_paired_all)

lemma copier_RedkeyConfigSpec [copier_intros]:
  "copier (RedkeyConfigSpec_view xv) (RedkeyConfigSpec_foot xf) (RedkeyConfigSpec_DeepCopyInto x)"
  unfolding RedkeyConfigSpec_DeepCopyInto_eq RedkeyConfigSpec_view_def RedkeyConfigSpec_foot_def
  by (rule copier_struct,
       (intro copier_intros copier_ptr copier_map copier_slice; simp)) (simp_all add: split_paired_all)

lemma copier_RedkeyConfigStatus [copier_intros]:
  "copier (RedkeyConfigStatus_view xv) (RedkeyConfigStatus_foot xf) (RedkeyConfigStatus_DeepCopyInto x)"
  unfolding RedkeyConfigStatus_DeepCopyInto_eq RedkeyConfigStatus_view_def RedkeyConfigStatus_foot_def
  by (rule copier_struct,
       (intro copier_intros copier_ptr copier_map copier_slice; simp)) (simp_all add: split_paired_all)

lemma copier_RedkeyConfig [copier_intros]:
  "copier (RedkeyConfig_view xv) (RedkeyConfig_foot xf) (RedkeyConfig_DeepCopyInto x)"
  unfolding RedkeyConfig_DeepCopyInto_eq RedkeyConfig_view_def RedkeyConfig_foot_def
  by (rule copier_struct,
       (intro copier_intros copier_ptr copier_map copier_slice; simp)) (simp_all add: split_paired_all)

lemma copier_RedkeyList [copier_intros]:
  "copier (RedkeyList_view xv) (RedkeyList_foot xf) (RedkeyList_DeepCopyInto x)"
  unfolding RedkeyList_DeepCopyInto_eq RedkeyList_view_def RedkeyList_foot_def
  by (rule copier_struct,
       (intro copier_intros copier_ptr copier_map copier_slice; simp)) (simp_all add: split_paired_all)

lemma copier_RedkeyConfigList [copier_intros]:
  "copier (RedkeyConfigList_view xv) (RedkeyConfigList_foot xf) (RedkeyConfigList_DeepCopyInto x)"
  unfolding RedkeyConfigList_DeepCopyInto_eq RedkeyConfigList_view_def RedkeyConfigList_foot_def
  by (rule copier_struct,
       (intro copier_intros copier_ptr copier_map copier_slice; simp)) (simp_all add: split_paired_all)

end

section \<open>The resources\<close>

text \<open>\<^verbatim>\<open>DeepCopy\<close> of the four types that the client hands out, as copies of pointers.\<close>

lemma Redkey_DeepCopy_copier:
  "api_machinery x xv xf \<Longrightarrow> copier (Redkey_ptr_view xv) (Redkey_ptr_foot xf) (Redkey_DeepCopy x)"
  unfolding Redkey_DeepCopy_def by (intro copier_ptr api_machinery.copier_Redkey) simp_all

sublocale api_machinery < redkey: copier "Redkey_ptr_view xv" "Redkey_ptr_foot xf" "Redkey_DeepCopy x"
  by (rule Redkey_DeepCopy_copier) unfold_locales

lemma RedkeyConfig_DeepCopy_copier:
  "api_machinery x xv xf \<Longrightarrow> copier (RedkeyConfig_ptr_view xv) (RedkeyConfig_ptr_foot xf)
      (RedkeyConfig_DeepCopy x)"
  unfolding RedkeyConfig_DeepCopy_def by (intro copier_ptr api_machinery.copier_RedkeyConfig) simp_all

sublocale api_machinery < config: copier "RedkeyConfig_ptr_view xv" "RedkeyConfig_ptr_foot xf"
      "RedkeyConfig_DeepCopy x"
  by (rule RedkeyConfig_DeepCopy_copier) unfold_locales

lemma RedkeyList_DeepCopy_copier:
  "api_machinery x xv xf \<Longrightarrow> copier (RedkeyList_ptr_view xv) (RedkeyList_ptr_foot xf)
      (RedkeyList_DeepCopy x)"
  unfolding RedkeyList_DeepCopy_def by (intro copier_ptr api_machinery.copier_RedkeyList) simp_all

sublocale api_machinery < redkeys: copier "RedkeyList_ptr_view xv" "RedkeyList_ptr_foot xf" "RedkeyList_DeepCopy x"
  by (rule RedkeyList_DeepCopy_copier) unfold_locales

lemma RedkeyConfigList_DeepCopy_copier:
  "api_machinery x xv xf \<Longrightarrow> copier (RedkeyConfigList_ptr_view xv) (RedkeyConfigList_ptr_foot xf)
      (RedkeyConfigList_DeepCopy x)"
  unfolding RedkeyConfigList_DeepCopy_def by (intro copier_ptr api_machinery.copier_RedkeyConfigList) simp_all

sublocale api_machinery < configs: copier "RedkeyConfigList_ptr_view xv" "RedkeyConfigList_ptr_foot xf"
      "RedkeyConfigList_DeepCopy x"
  by (rule RedkeyConfigList_DeepCopy_copier) unfold_locales

interpretation robin_config: copier RobinConfig_view RobinConfig_foot RobinConfig_DeepCopyInto
  by (rule copier_RobinConfig)

end
