(* ===== verification/Copy_Properties.thy ===== *)
theory Copy_Properties
  imports Deep_Copy_Contracts
begin

text \<open>
  Properties of the generated copies, and an instance of the library copies: structs that own one cell.
\<close>

section \<open>Library structs that own a cell\<close>

datatype lib = Lib ext_value "addr option"

fun lib_ref :: "lib \<Rightarrow> addr option" where
  "lib_ref (Lib v p) = p"

fun lib_value :: "lib \<Rightarrow> ext_value" where
  "lib_value (Lib v p) = v"

fun set_lib_ref :: "addr option \<Rightarrow> lib \<Rightarrow> lib" where
  "set_lib_ref p (Lib v q) = Lib v p"

definition lib_view :: "lib memory \<Rightarrow> lib \<Rightarrow> ext_value option" where
  "lib_view = struct_view lib_ref (\<lambda>l _. lib_value l) (ptr_view un_CK8s flat_view)"

definition lib_foot :: "lib memory \<Rightarrow> lib \<Rightarrow> addr set" where
  "lib_foot = struct_foot lib_ref (ptr_foot un_CK8s flat_foot)"

definition lib_extern :: "lib extern" where
  "lib_extern =
     \<lparr>x_DeepCopyInto = struct_copy lib_ref set_lib_ref (ptr_copy CK8s un_CK8s ret),
      x_TimeDeepCopy = (\<lambda>a. bindE (ptr_copy CTime un_CTime ret (Some a)) (\<lambda>p. ret (the p)))\<rparr>"

section \<open>A concrete memory\<close>

text \<open>A Redkey with labels, a node and metadata of its own, in a list and behind a pointer, an
  empty list of configs, and a config.\<close>

definition demo_type :: TypeMeta where
  "demo_type = \<lparr>tm_Kind = ''Redkey'', tm_APIVersion = ''redkey.inditex.dev/v1beta1''\<rparr>"

definition demo_meta :: lib where
  "demo_meta = Lib (XMeta (mk_meta ''demo'' ''ns'' None None)) (Some 6)"

definition demo_pdb :: Pdb where
  "demo_pdb = \<lparr>pd_Enabled = False, pd_PdbSizeUnavailable = IntVal 0, pd_PdbSizeAvailable = IntVal 0\<rparr>"

definition demo_redkey :: "lib Redkey_m" where
  "demo_redkey =
     \<lparr>m_rk_TypeMeta = demo_type, m_rk_Meta = demo_meta,
      m_rk_Spec =
        \<lparr>m_sp_Auth = \<lparr>au_SecretName = []\<rparr>, m_sp_Version = ''7.4'', m_sp_Mode = ModeCluster, m_sp_Primaries = 3,
         m_sp_ReplicasPerPrimary = 1, m_sp_Image = ''redis'', m_sp_DeletePVC = None, m_sp_Backup = False,
         m_sp_Robin = \<lparr>m_rs_Image = ''robin'', m_rs_Resources = None, m_rs_Template = None, m_rs_Config = None\<rparr>,
         m_sp_SkipIfSuperseded = False, m_sp_PurgeKeysOnRebalance = None, m_sp_Config = [], m_sp_Resources = None,
         m_sp_Labels = Some 2, m_sp_Annotations = None, m_sp_Pdb = demo_pdb, m_sp_Override = None,
         m_sp_Ephemeral = True, m_sp_Storage = [], m_sp_StorageClassName = [], m_sp_AccessModes = None\<rparr>,
      m_rk_Status =
        \<lparr>m_st_Replicas = 3, m_st_Phase = PhaseReady, m_st_Status = [], m_st_Substatus = zero_Substatus,
         m_st_Nodes = Some 4, m_st_Conditions = None, m_st_LastUpdatedAt = None, m_st_ObservedGeneration = 1,
         m_st_LastAppliedPrimaries = 3, m_st_LastAppliedReplicasPerPrimary = 1\<rparr>\<rparr>"

definition demo_configs_list :: "lib RedkeyConfigList_m" where
  "demo_configs_list =
     \<lparr>m_cl_TypeMeta = demo_type, m_cl_ListMeta = Lib (XOther (K8sValue [])) None, m_cl_Items = None\<rparr>"

definition demo_memory :: "lib memory" where
  "demo_memory =
     \<lparr>gm_next = 10,
      gm_cell = (\<lambda>_. None)
        (0 \<mapsto> CRedkeyList \<lparr>m_rl_TypeMeta = demo_type, m_rl_ListMeta = Lib (XOther (K8sValue [])) None,
                 m_rl_Items = Some \<lparr>gs_addr = 9, gs_off = 0, gs_len = 1\<rparr>\<rparr>,
         2 \<mapsto> CMapRef (Some 3),
         3 \<mapsto> CStrMap [(''team'', ''a'')],
         4 \<mapsto> CNodes [(''demo-0'', Some 5)],
         5 \<mapsto> CRedisNode \<lparr>no_Role = ''primary'', no_IP = [], no_ReplicationStatus = []\<rparr>,
         6 \<mapsto> CK8s (K8sValue []),
         7 \<mapsto> CRedkeyConfigList demo_configs_list,
         8 \<mapsto> CRedkey demo_redkey,
         9 \<mapsto> CRedkeyArray [demo_redkey])\<rparr>"

section \<open>Lemmas\<close>

lemma lib_time_copy: "time_copy lib_extern = ptr_copy CTime un_CTime ret"
proof
  fix p show "time_copy lib_extern p = ptr_copy CTime un_CTime ret p"
    by (cases p) (simp_all add: time_copy_def lib_extern_def ptr_copy_def seq_simps del: ret_eq)
qed

interpretation lib: api_machinery lib_extern lib_view lib_foot
proof (rule api_machinery.intro)
  have "set_lib_ref p l = Lib (lib_value l) p" for p l by (cases l) simp
  then show "copier lib_view lib_foot (x_DeepCopyInto lib_extern)"
    unfolding lib_view_def lib_foot_def lib_extern_def extern.simps
    by (intro copier_struct copier_ptr copier_flat) simp_all
  show "copier (ptr_view un_CTime flat_view) (ptr_foot un_CTime flat_foot) (time_copy lib_extern)"
    unfolding lib_time_copy by (intro copier_ptr copier_flat) simp
qed

lemma ptr_view_None_iff: "ptr_view prj V m p = Some v \<Longrightarrow> p = None \<longleftrightarrow> v = None"
  by (cases p) (auto simp: ptr_view_def elim: bind_eq_SomeE)

lemma object_of_copy:
  assumes "copier (ptr_view prj V) F C" "mem_wf m" "ptr_view prj V m p = Some v"
  shows "\<exists>c m'. bindE (C p) (\<lambda>c. if c \<noteq> None then ret (Some (Obj c)) else ret None) m = (Inr c, m') \<and> grows m m' \<and>
    (case v of
       None \<Rightarrow> c = None
     | Some x \<Rightarrow> \<exists>a. c = Some (Obj (Some a)) \<and> ptr_view prj V m' (Some a) = Some (Some x) \<and> F m' (Some a) \<subseteq> {gm_next m..})"
proof -
  obtain p' m' where c: "C p m = (Inr p', m')" "grows m m'" "ptr_view prj V m' p' = Some v" "F m' p' \<subseteq> {gm_next m..}"
    using copier.copied [OF assms] by blast
  show ?thesis
    using c ptr_view_None_iff [OF c(3)] by (cases p') (auto simp: bindE_def split: option.splits)
qed

lemma demo_memory_wf: "mem_wf demo_memory"
  by (simp add: mem_wf_def demo_memory_def)

lemma demo_cells:
  "cell_at prj demo_memory 2 = prj (CMapRef (Some 3))" "cell_at prj demo_memory 3 = prj (CStrMap [(''team'', ''a'')])"
  "cell_at prj demo_memory 4 = prj (CNodes [(''demo-0'', Some 5)])"
  "cell_at prj demo_memory 5 = prj (CRedisNode \<lparr>no_Role = ''primary'', no_IP = [], no_ReplicationStatus = []\<rparr>)"
  "cell_at prj demo_memory 6 = prj (CK8s (K8sValue []))"
  "cell_at prj demo_memory 9 = prj (CRedkeyArray [demo_redkey])"
  "cell_at prj demo_memory 7 = prj (CRedkeyConfigList demo_configs_list)"
  "cell_at prj demo_memory 8 = prj (CRedkey demo_redkey)"
  by (simp_all add: cell_at_def demo_memory_def)

lemma demo_redkey_view:
  "\<exists>r. Redkey_view lib_view demo_memory demo_redkey = Some (demo_type, r) \<and>
     sp_Labels (rk_Spec r) = Some (Some (fmap_of_list [(''team'', ''a'')]))"
  by (simp add: Redkey_view_def RedkeySpec_view_def RedkeyStatus_view_def RobinSpec_view_def demo_redkey_def demo_meta_def
      ptr_view_def map_view_def slice_view_def entries_view_def elems_view_def pair_view_def struct_view_def
      flat_view_def ext_view_def lib_view_def un_XMeta_def demo_cells)

lemma demo_views:
  "\<exists>r. Redkey_ptr_view lib_view demo_memory (Some 8) = Some (Some (demo_type, r)) \<and>
     RedkeyList_ptr_view lib_view demo_memory (Some 0) = Some (Some (demo_type, K8sValue [], [(demo_type, r)]))"
  "RedkeyConfigList_ptr_view lib_view demo_memory (Some 7) = Some (Some (demo_type, K8sValue [], []))"
  "RedkeyConfig_ptr_view lib_view demo_memory None = Some None"
proof -
  obtain r where r: "Redkey_view lib_view demo_memory demo_redkey = Some (demo_type, r)" using demo_redkey_view by blast
  have "cell_at un_CRedkeyList demo_memory 0 = Some \<lparr>m_rl_TypeMeta = demo_type,
      m_rl_ListMeta = Lib (XOther (K8sValue [])) None, m_rl_Items = Some \<lparr>gs_addr = 9, gs_off = 0, gs_len = 1\<rparr>\<rparr>"
    by (simp add: cell_at_def demo_memory_def)
  with r show "\<exists>r. Redkey_ptr_view lib_view demo_memory (Some 8) = Some (Some (demo_type, r)) \<and>
     RedkeyList_ptr_view lib_view demo_memory (Some 0) = Some (Some (demo_type, K8sValue [], [(demo_type, r)]))"
    by (simp add: RedkeyList_view_def ptr_view_def slice_view_def elems_view_def pair_view_def struct_view_def
        ext_view_def lib_view_def un_XOther_def window_def demo_cells)
qed (simp_all add: RedkeyConfigList_view_def demo_configs_list_def ptr_view_def slice_view_def pair_view_def struct_view_def
    ext_view_def lib_view_def un_XOther_def demo_cells)

section \<open>Properties\<close>

text \<open>C17. \<^verbatim>\<open>DeepCopyObject\<close> of the two list types implements the copy of a value. With library
  copies that are deep, from every well-formed memory it returns without a panic; the object
  returned stands for the same list of resources as the receiver, consists of new memory
  only, and no existing cell changes. For a nil receiver the result is the nil interface, never an interface that
  holds a nil pointer.\<close>

theorem deep_copy_object_refines:
  assumes "api_machinery x xv xf" "mem_wf m"
    and "RedkeyList_ptr_view xv m p = Some rs" "RedkeyConfigList_ptr_view xv m q = Some cs"
  shows "(\<exists>c m'. RedkeyList_DeepCopyObject x p m = (Inr c, m') \<and> grows m m' \<and>
      (case rs of None \<Rightarrow> c = None
       | Some r \<Rightarrow> \<exists>a. c = Some (RedkeyListObject (Some a)) \<and>
           RedkeyList_ptr_view xv m' (Some a) = Some (Some r) \<and> RedkeyList_ptr_foot xf m' (Some a) \<subseteq> {gm_next m..})) \<and>
    (\<exists>c m'. RedkeyConfigList_DeepCopyObject x q m = (Inr c, m') \<and> grows m m' \<and>
      (case cs of None \<Rightarrow> c = None
       | Some r \<Rightarrow> \<exists>a. c = Some (RedkeyConfigListObject (Some a)) \<and>
           RedkeyConfigList_ptr_view xv m' (Some a) = Some (Some r) \<and> RedkeyConfigList_ptr_foot xf m' (Some a) \<subseteq> {gm_next m..}))"
  unfolding RedkeyList_DeepCopyObject_def RedkeyConfigList_DeepCopyObject_def
  by (rule conjI;
      rule object_of_copy [OF RedkeyList_DeepCopy_copier [OF assms(1)] assms(2, 3)]
        object_of_copy [OF RedkeyConfigList_DeepCopy_copier [OF assms(1)] assms(2, 4)])

theorem deep_copy_object_refines_witness:
  "\<exists>r c m' a. RedkeyList_DeepCopyObject lib_extern (Some 0) demo_memory = (Inr c, m') \<and>
     c = Some (RedkeyListObject (Some a)) \<and> RedkeyList_ptr_foot lib_foot m' (Some a) \<subseteq> {10..} \<and>
     RedkeyList_ptr_view lib_view m' (Some a) = Some (Some (demo_type, K8sValue [], [(demo_type, r)]))"
proof -
  obtain r where "RedkeyList_ptr_view lib_view demo_memory (Some 0) = Some (Some (demo_type, K8sValue [], [(demo_type, r)]))"
    using demo_views(1) by blast
  from conjunct1 [OF deep_copy_object_refines [OF lib.api_machinery_axioms demo_memory_wf this demo_views(2)]]
  show ?thesis by (auto simp: demo_memory_def)
qed

text \<open>C18. A deep copy shares nothing with its original. After \<^verbatim>\<open>DeepCopy\<close> of a Redkey or of a
  RedkeyConfig both stand for the same value in disjoint memory, and any later writes to the memory of
  one of them leave the value of the other as it was.\<close>

theorem deep_copy_independent:
  assumes "api_machinery x xv xf" "mem_wf m"
    and "Redkey_ptr_view xv m p = Some r" "RedkeyConfig_ptr_view xv m q = Some c"
  shows "(\<exists>p' m'. Redkey_DeepCopy x p m = (Inr p', m') \<and> grows m m' \<and>
      Redkey_ptr_view xv m' p = Some r \<and> Redkey_ptr_view xv m' p' = Some r \<and>
      Redkey_ptr_foot xf m' p \<inter> Redkey_ptr_foot xf m' p' = {} \<and>
      (\<forall>m''. same_on (- Redkey_ptr_foot xf m' p') m' m'' \<longrightarrow> Redkey_ptr_view xv m'' p = Some r) \<and>
      (\<forall>m''. same_on (- Redkey_ptr_foot xf m' p) m' m'' \<longrightarrow> Redkey_ptr_view xv m'' p' = Some r)) \<and>
    (\<exists>q' m'. RedkeyConfig_DeepCopy x q m = (Inr q', m') \<and> grows m m' \<and>
      RedkeyConfig_ptr_view xv m' q = Some c \<and> RedkeyConfig_ptr_view xv m' q' = Some c \<and>
      RedkeyConfig_ptr_foot xf m' q \<inter> RedkeyConfig_ptr_foot xf m' q' = {} \<and>
      (\<forall>m''. same_on (- RedkeyConfig_ptr_foot xf m' q') m' m'' \<longrightarrow> RedkeyConfig_ptr_view xv m'' q = Some c) \<and>
      (\<forall>m''. same_on (- RedkeyConfig_ptr_foot xf m' q) m' m'' \<longrightarrow> RedkeyConfig_ptr_view xv m'' q' = Some c))"
  by (rule conjI;
      rule copier.independent [OF Redkey_DeepCopy_copier [OF assms(1)] assms(2, 3)]
        copier.independent [OF RedkeyConfig_DeepCopy_copier [OF assms(1)] assms(2, 4)])

theorem deep_copy_independent_witness:
  "\<exists>r p' m'. Redkey_DeepCopy lib_extern (Some 8) demo_memory = (Inr p', m') \<and>
     Redkey_ptr_view lib_view m' p' = Some (Some (demo_type, r)) \<and>
     Redkey_ptr_foot lib_foot m' (Some 8) \<inter> Redkey_ptr_foot lib_foot m' p' = {}"
proof -
  obtain r where "Redkey_ptr_view lib_view demo_memory (Some 8) = Some (Some (demo_type, r))"
    using demo_views(1) by blast
  from conjunct1 [OF deep_copy_independent [OF lib.api_machinery_axioms demo_memory_wf this demo_views(3)]]
  show ?thesis by blast
qed

end
