(* ===== verification/Spec2Isabelle.thy ===== *)
theory Spec2Isabelle
  imports Object_Properties Config_Properties Safety_Properties Rollout_Properties Main_Properties Init_Properties
    Copy_Properties
begin

text \<open>
  The Redkey operator, a Kubernetes controller that runs Redis clusters (\<^verbatim>\<open>cmd/\<close>,
  \<^verbatim>\<open>api/v1beta1/\<close> and \<^verbatim>\<open>internal/controller/\<close>, all under \<^verbatim>\<open>src/\<close>).

  \<^bold>\<open>The program.\<close> A user writes a \<^verbatim>\<open>Redkey\<close>. The operator never touches Redis itself: it runs a
  second program, Robin, one Deployment per cluster, and hands it numbered snapshots of the
  specification, the \<^verbatim>\<open>RedkeyConfig\<close> objects. Robin applies them in order and reports in their
  status; the operator mirrors the active one's status into the Redkey, removes configs that are no
  longer needed, exports metrics, and tears everything down when a cluster is scaled to zero. All
  communication goes through the Kubernetes API, so that any step may meet objects changed in between,
  conflicts, missing objects and stale lists.

  \<^bold>\<open>How the code is modelled.\<close>

  \<^item> Effects. A Go function that reads or writes the API server is a function of type \<open>('s, 'a) io\<close>, which
    passes the state on and returns an error or a value. A run-time panic is an error of its own.
  \<^item> Code that is not in the repository: the API server and its client, \<^verbatim>\<open>SetControllerReference\<close>,
    \<^verbatim>\<open>RetryOnConflict\<close>, \<^verbatim>\<open>meta.SetStatusCondition\<close>, \<^verbatim>\<open>equality.Semantic\<close>
    and the clock are the fields of the record \<open>env\<close> and thus arguments of every definition that uses
    them. What is assumed of them is stated by locales, and the in-memory API server of \<open>Mem_Store\<close>
    interprets every one of them.
  \<^item> Operator state. \<open>opstate\<close> has the world, the log of the calls into Prometheus, and the two trackers
    of \<^verbatim>\<open>metrics.go\<close>. In-place updates of a Go object are returned as a new value: the reconcile
    loop works on values. That this is sound rests on the deep copies of the client's cache, which are
    modelled over an explicit memory.
  \<^item> Integers. \<^verbatim>\<open>int32\<close> and \<^verbatim>\<open>int64\<close> are integers with the wrap-around written out
    where the code computes with them (\<open>wrap32\<close>, \<open>wrap64\<close>). Maps are finite maps, \<open>None\<close> the nil map.

  \<^bold>\<open>The theories.\<close>

  \<^item> \<open>Go_Prelude\<close>: errors, \<open>io\<close>, maps, decimal strings. \<open>Kube_Types\<close>: the Kubernetes types the operator
    builds. \<open>Api_Types\<close>: the types, methods and validation rules of \<^verbatim>\<open>redkey_types.go\<close> and
    \<^verbatim>\<open>redkeyconfig_types.go\<close>; the rules are the predicates \<open>admit_create\<close> and \<open>admit_update\<close>.
  \<^item> \<open>Kube_Env\<close>: \<open>env\<close>, \<open>opstate\<close> and the contracts: \<open>status_conditions\<close>, \<open>semantic_equality\<close>,
    \<open>retry_contract\<close>, \<open>resource_store\<close> (one kind of object), \<open>kube_objects\<close> (all kinds; the list of configs
    may be stale) and \<open>kube_api\<close> (the list is current).
  \<^item> \<open>Meta_Merge\<close>, \<open>Robin_Manager\<close>: \<^verbatim>\<open>redkey_robin.go\<close>, the merging of labels, annotations
    and environment variables, Robin's RBAC objects and its Deployment.
  \<^item> \<open>Config_Lifecycle\<close>: \<^verbatim>\<open>redkey_config.go\<close>; \<open>Config_Store\<close>: its effect on stored objects.
  \<^item> \<open>Scale_To_Zero\<close>: \<^verbatim>\<open>redkey_scale_zero.go\<close>. \<open>Op_Metrics\<close>: \<^verbatim>\<open>metrics.go\<close>, with the
    locale \<open>gauge_vectors\<close> for what a scrape sees and \<open>replay\<close> of the log as its interpretation.
  \<^item> \<open>Metric_Log\<close>: which metric calls the operations make; its locale \<open>metric_calls\<close> is interpreted once for
    the stage errors and once for the collectors that are registered.
  \<^item> \<open>Reconciler\<close>: \<^verbatim>\<open>Reconcile\<close> and its stages (\<^verbatim>\<open>redkey_controller.go\<close>).
    \<open>Panic_Freedom\<close>: computations that do not panic.
  \<^item> \<open>Reconcile_Effect\<close>, \<open>Reconcile_Runs\<close>, \<open>Reconcile_System\<close>: the abstract specification of a run, as a
    relation \<open>reconciled\<close> between the objects before and after it, the proof that \<^verbatim>\<open>Reconcile\<close>
    implements it, two runs in a row, and other clusters.
  \<^item> \<open>Operator_System\<close>: the operator, Robin, the user and everybody else as one step relation
    \<open>system_step\<close>, with an invariant of its reachable states. \<open>Rollout\<close>: its steps without edits
    (\<open>rollout_step\<close>), with the measure \<open>work\<close> that every change of the configs decreases.
  \<^item> \<open>Process_Init\<close>: what runs before \<^verbatim>\<open>main\<close>: the collectors of \<^verbatim>\<open>metrics.go\<close>,
    \<^verbatim>\<open>groupversion_info.go\<close> and the \<^verbatim>\<open>init\<close> functions; \<open>init_libraries\<close> is the contract of
    the scheme and of the registry. \<open>Cmd_Main\<close>: \<^verbatim>\<open>cmd/main.go\<close> and \<^verbatim>\<open>SetupWithManager\<close>.
  \<^item> \<open>Go_Memory\<close>: cells, addresses and the ways generated code copies a field, with the contract \<open>copier\<close>
    (equal value, new memory, old cells unchanged). \<open>Deep_Memory\<close>: the layout of the API types in memory.
    \<open>Deep_Copy\<close>: \<^verbatim>\<open>zz_generated.deepcopy.go\<close>, one definition per function. \<open>Deep_Copy_Contracts\<close>: each of
    them satisfies \<open>copier\<close>, given that the library's copies do (\<open>api_machinery\<close>).
  \<^item> \<open>Mem_Store\<close>, \<open>Demo_Objects\<close>: the in-memory API server and the concrete objects of the witnesses.
  \<^item> \<open>Object_Properties\<close>, \<open>Config_Properties\<close>, \<open>Metrics_Properties\<close>, \<open>Safety_Properties\<close>,
    \<open>System_Properties\<close>, \<open>Rollout_Properties\<close>, \<open>Main_Properties\<close>, \<open>Init_Properties\<close>, \<open>Copy_Properties\<close> and
    this theory: the properties.

  \<^bold>\<open>What is shown.\<close>

  \<^item> A run. From every well-formed store \<^verbatim>\<open>Reconcile\<close> succeeds and has exactly the effect its
    specification allows; a second run changes only time stamps; other clusters are not touched; scaling
    to zero completes and keeps the topology to come back to.
  \<^item> The system. Over all interleavings of reconciles, reports of Robin, edits and foreign changes the
    configs stay consistent, no edit is lost, and a recorded topology stays recorded. Without edits the
    configs stop changing, and a config that Robin has applied makes the cluster Ready.
  \<^item> Whatever the API server does. No panic; every failed run is counted once under its stage; the
    observed generation is the one of the snapshot worked on; a written status has an enumerated phase;
    every metric call fits a registered collector.
  \<^item> Memory. Deep copies of the resources and of their lists return, denote the same value and share nothing
    with the original.
  \<^item> Components. Robin's objects converge in one pass and grant no more than the operator has; config
    names, generations and sequence numbers; the snapshot; the active config; the cleanup; admission of
    topology changes; merging; every metric and both trackers; the initialisation of the process; the entry
    point.
  \<^item> Where the code does not do what it says, the exact behaviour is proved instead: a stale list loses
    an update, a scale to zero may record the oldest config's topology, a user-supplied revision annotation
    is patched for ever, and \<^verbatim>\<open>NodesNeeded\<close> wraps.

  \<^bold>\<open>Bounds.\<close> All definitions are total; no fuel is used. Generations are positive and below \<open>2 ^ 63\<close>, as
  the API server guarantees for an \<^verbatim>\<open>int64\<close>; \<open>sequence_room\<close> asks that the sequence numbers are
  below \<open>2 ^ 63 - 2\<close>, so that the next one and its successor do not wrap. \<open>RetryOnConflict\<close> makes any finite
  positive number of attempts; the in-memory instance makes five. The system steps assume a list of configs
  that is current (\<open>kube_api\<close>) and edits that do not set the revision annotation. The capacity of a new slice is the parameter \<open>grow\<close> of \<open>main\<close>.

  A measure of a roll-out counts four for a config that is due and at most three for each config. Views of
  memory identify a nil slice with an empty one, as the types of \<open>Api_Types\<close> do.

  \<^bold>\<open>Not modelled.\<close> Log output and event recording: no result depends on them. Command-line parsing is the
  \<^verbatim>\<open>flag\<close> package; \<open>flags\<close> is its result. The constants for substatuses are free text to the operator,
  which copies what Robin writes. \<^verbatim>\<open>TrimSpace\<close> is modelled on ASCII. The two goroutines of the
  profiling server are calls whose errors are ignored. The work queue of controller-runtime appears
  only as the choice of the next step, and a run of \<^verbatim>\<open>Reconcile\<close> as one step of the system except
  for the status update, whose conflicts with concurrent edits are modelled. Copying is sequential: no other
  goroutine writes to an object while it is copied. Robin's source is not part of the repository. Tests,
  charts and the chaos framework are not part of the operator.
\<close>

section \<open>The reconcile loop\<close>

text \<open>C1. A reconcile of a cluster with primaries succeeds from every well-formed state of the API
  server. It leaves Robin's objects as desired; it appends a config built from the current
  specification exactly when one is needed; it deletes the configs older than the last applied one;
  it publishes the status of the active config for the generation it worked on; and it changes no
  other object.\<close>

theorem reconcile_converges:
  assumes "kube_api e look" and "reconcilable (look (world s)) cluster"
    and "configs_wf (look (world s)) cluster" and "sp_Primaries (rk_Spec cluster) \<noteq> 0"
  shows "\<exists>cfs s' cfs' a st rv. listConfigs e cluster (world s) = (Inr cfs, world s) \<and>
    Reconcile e r (redkey_NamespacedName cluster) s = (Inr \<lparr>res_RequeueAfter = rec_ResyncInterval r\<rparr>, s') \<and>
    extended cluster cfs cfs' \<and> reconciled e cluster (look (world s)) cfs' a st rv (look (world s'))"
proof -
  obtain cfs s' cfs' a st rv where run: "listConfigs e cluster (world s) = (Inr cfs, world s)" "sorted (map seq_of cfs)"
    "set cfs = cluster_configs (look (world s)) cluster"
    "Reconcile e r (redkey_NamespacedName cluster) s = (Inr \<lparr>res_RequeueAfter = rec_ResyncInterval r\<rparr>, s')"
    "extended cluster cfs cfs'" "reconciled e cluster (look (world s)) cfs' a st rv (look (world s'))"
    "sorted (map seq_of cfs')" "distinct (map config_key cfs')"
    by (rule kube_api.reconcile_run [OF assms])
  then show ?thesis by (intro exI conjI)
qed

theorem reconcile_converges_witness:
  "\<exists>s' c st rv. Reconcile mem_env demo_reconciler (redkey_NamespacedName (demo 1 3 0)) (demo_state (demo_store 1 3 0 [])) =
      (Inr \<lparr>res_RequeueAfter = 300000000000\<rparr>, s') \<and>
    fresh_config (demo 1 3 0) 1 c \<and>
    reconciled mem_env (demo 1 3 0) (mem_look (demo_store 1 3 0 [])) [c] c st rv (mem_look (world s'))"
proof -
  let ?s = "demo_state (demo_store 1 3 0 [])" and ?c = "demo 1 3 0"
  have wf: "configs_wf (mem_look (world ?s)) ?c" by (simp add: demo_wf)
  have rec: "reconcilable (mem_look (world ?s)) ?c" by (simp add: demo_reconcilable)
  have l: "listConfigs mem_env ?c (world ?s) = (Inr [], world ?s)" by (simp add: demo_list)
  obtain cfs s' cfs' a st rv where run: "listConfigs mem_env ?c (world ?s) = (Inr cfs, world ?s)"
    "Reconcile mem_env demo_reconciler (redkey_NamespacedName ?c) ?s =
      (Inr \<lparr>res_RequeueAfter = rec_ResyncInterval demo_reconciler\<rparr>, s')"
    "extended ?c cfs cfs'" "reconciled mem_env ?c (mem_look (world ?s)) cfs' a st rv (mem_look (world s'))"
    using reconcile_converges [OF mem.kube_api_axioms rec wf, of demo_reconciler] by auto
  from run(1) l have "cfs = []" by simp
  with run(3) obtain c where c: "fresh_config ?c 1 c" "cfs' = [c]"
    by (auto simp: extended_def needs_config_def highest_def next_seq_def)
  with run(4) have "a = c" by (simp add: reconciled_def selectActiveConfig_def)
  with run c show ?thesis by (auto simp: demo_reconciler_def)
qed





text \<open>C14. Every failed reconcile is counted once, under the stage that failed, and a successful one is
  not counted, for any behaviour of the API server and any request.\<close>

theorem stage_errors_counted_once:
  "\<exists>l. metric_log (snd (Reconcile e r req s)) = metric_log s @ l \<and>
     (case fst (Reconcile e r req s) of
        Inr _ \<Rightarrow> stage_errors l = []
      | Inl err \<Rightarrow> if is_panic err then stage_errors l = []
                   else list_ex (\<lambda>st. stage_errors l = [st]) stage_names)"
  using counted_Reconcile [of e r req] unfolding counted_def counted_outcome_def
  by (auto split: sum.splits)



section \<open>Scaling to zero\<close>

text \<open>C8. Scaling to zero completes: the first reconcile ensures Robin and asks for zero primaries with
  a fresh config; once Robin reports that config applied, the next reconcile deletes Robin's objects
  and all configs of the cluster, and publishes a ready status with no replicas that still records the
  topology last applied.\<close>

theorem scale_to_zero_completes:
  assumes "kube_api e look" and "reconcilable (look (world s)) cluster" and "sp_Primaries (rk_Spec cluster) = 0"
    and "configs_wf (look (world s)) cluster"
    and "listConfigs e cluster (world s) = (Inr cfs, world s)" "cfs \<noteq> []"
    and "cs_Primaries (cf_Spec (last cfs)) \<noteq> 0"
  shows "\<exists>s1 c. Reconcile e r (redkey_NamespacedName cluster) s =
      (Inr \<lparr>res_RequeueAfter = rec_ResyncInterval r\<rparr>, s1) \<and>
    robin_converged e (look (world s1)) cluster \<and> fresh_config cluster (next_seq (highest cfs)) c \<and>
    look (world s1) (KConfig, config_key c) = Some (OConfig c) \<and>
    (\<forall>w2 x. ct_ConfigPhase x = ConfigPhaseApplied \<longrightarrow>
       look w2 = (look (world s1))((KConfig, config_key c) \<mapsto> OConfig (c\<lparr>cf_Status := x\<rparr>)) \<longrightarrow>
       (\<exists>s3 stt rv. Reconcile e r (redkey_NamespacedName cluster) (s1\<lparr>world := w2\<rparr>) =
            (Inr \<lparr>res_RequeueAfter = rec_ResyncInterval r\<rparr>, s3) \<and> zero_status e cluster stt \<and>
          look (world s3) = (torn_down (look w2) cluster)(redkey_okey cluster \<mapsto> ORedkey (set_status cluster rv stt))))"
  by (rule kube_api.scale_to_zero_runs [OF assms])

theorem scale_to_zero_completes_witness:
  "\<exists>s1 c. Reconcile mem_env demo_reconciler (redkey_NamespacedName (demo 2 0 1))
      (demo_state (demo_store 2 0 1 [demo_config 1 1 3 ConfigPhaseApplied])) =
      (Inr \<lparr>res_RequeueAfter = rec_ResyncInterval demo_reconciler\<rparr>, s1) \<and>
    fresh_config (demo 2 0 1) (next_seq (highest [demo_config 1 1 3 ConfigPhaseApplied])) c"
proof -
  let ?cs = "[demo_config 1 1 3 ConfigPhaseApplied]"
  let ?s = "demo_state (demo_store 2 0 1 ?cs)" and ?c = "demo 2 0 1"
  have rec: "reconcilable (mem_look (world ?s)) ?c" by (simp add: demo_reconcilable)
  have wf: "configs_wf (mem_look (world ?s)) ?c" unfolding demo_state_world by (rule demo_wf) force
  have l: "listConfigs mem_env ?c (world ?s) = (Inr ?cs, world ?s)"
    unfolding demo_state_world by (rule demo_list) auto
  have p: "sp_Primaries (rk_Spec ?c) = 0" "cs_Primaries (cf_Spec (last ?cs)) \<noteq> 0" "?cs \<noteq> []" by simp_all
  show ?thesis
    using scale_to_zero_completes [OF mem.kube_api_axioms rec p(1) wf l p(3,2), of demo_reconciler] by blast
qed



section \<open>Stale reads\<close>

text \<open>C25. With a cache that still lists an old set of configs, the create of a config whose name is
  already taken is ignored and the status then claims the current generation, although no config was
  created in that reconcile.\<close>

theorem stale_list_loses_update:
  assumes "kube_objects e look" and "reconcilable (look (world s)) cluster" and "sp_Primaries (rk_Spec cluster) \<noteq> 0"
    and "\<forall>w. listConfigs e cluster w = (Inr cfs, w)"
    and "cfs \<noteq> []" "distinct (map config_key cfs)" "needsNewConfig cluster (Some (last cfs))"
    and "look (world s) (KConfig, new_config_key cluster (Some (last cfs))) \<noteq> None"
  shows "\<exists>s' stt rv. Reconcile e r (redkey_NamespacedName cluster) s =
      (Inr \<lparr>res_RequeueAfter = rec_ResyncInterval r\<rparr>, s') \<and>
    st_ObservedGeneration stt = om_Generation (rk_Meta cluster) \<and>
    look (world s') (redkey_okey cluster) = Some (ORedkey (set_status cluster rv stt)) \<and>
    (\<forall>k c. look (world s') (KConfig, k) = Some (OConfig c) \<longrightarrow> look (world s) (KConfig, k) = Some (OConfig c))"
  by (rule kube_objects.stale_list_run [OF assms(1-3) assms(4) [rule_format] assms(5-8)])

theorem stale_list_loses_update_witness:
  "\<exists>s' stt rv. Reconcile (cached_env (\<lambda>_ _ w. (Inr [demo_config 1 1 3 ConfigPhaseApplied], w))) demo_reconciler
      (redkey_NamespacedName (demo 3 3 1))
      (demo_state (demo_store 3 3 1 [demo_config 1 1 3 ConfigPhaseApplied, demo_config 2 2 5 ConfigPhasePending])) =
      (Inr \<lparr>res_RequeueAfter = rec_ResyncInterval demo_reconciler\<rparr>, s') \<and>
    st_ObservedGeneration stt = 3 \<and>
    mem_look (world s') (redkey_okey (demo 3 3 1)) = Some (ORedkey (set_status (demo 3 3 1) rv stt)) \<and>
    (\<forall>k c. mem_look (world s') (KConfig, k) = Some (OConfig c) \<longrightarrow> config_generation c \<noteq> Some 3)"
proof -
  let ?old = "demo_config 1 1 3 ConfigPhaseApplied" and ?new = "demo_config 2 2 5 ConfigPhasePending"
  let ?e = "cached_env (\<lambda>_ _ w. (Inr [?old], w))"
  let ?s = "demo_state (demo_store 3 3 1 [?old, ?new])" and ?c = "demo 3 3 1"
  have rec: "reconcilable (mem_look (world ?s)) ?c" by (simp add: demo_reconcilable)
  have l: "\<forall>w. listConfigs ?e ?c w = (Inr [?old], w)" by (simp add: listConfigs_def bindE_def cached_env_sel)
  have g: "config_generation ?old = Some 1" "config_generation ?new = Some 2" by (simp_all add: in_int64_def)
  have need: "needsNewConfig ?c (Some (last [?old]))" by (simp add: needsNewConfig_iff g)
  have "new_config_key ?c (Some (last [?old])) = config_key ?new"
    by (simp add: new_config_key_def next_seq_def wrap64_def)
  then have taken: "mem_look (world ?s) (KConfig, new_config_key ?c (Some (last [?old]))) \<noteq> None"
    using find_demo_config [of "[?old, ?new]" ?new] by (simp add: demo_look config_name_inject)
  have p: "sp_Primaries (rk_Spec ?c) \<noteq> 0" "[?old] \<noteq> []" "distinct (map config_key [?old])" by simp_all
  obtain s' stt rv where run: "Reconcile ?e demo_reconciler (redkey_NamespacedName ?c) ?s =
      (Inr \<lparr>res_RequeueAfter = rec_ResyncInterval demo_reconciler\<rparr>, s')" "st_ObservedGeneration stt = 3"
    "mem_look (world s') (redkey_okey ?c) = Some (ORedkey (set_status ?c rv stt))"
    "\<forall>k c. mem_look (world s') (KConfig, k) = Some (OConfig c) \<longrightarrow> mem_look (world ?s) (KConfig, k) = Some (OConfig c)"
    using stale_list_loses_update [OF cached.kube_objects_axioms rec p(1) l p(2,3) need taken, of demo_reconciler] by auto
  have "config_generation c \<noteq> Some 3" if c: "mem_look (world s') (KConfig, k) = Some (OConfig c)" for k c
    using demo_look_kind [OF run(4) [rule_format, OF c, unfolded demo_state_world]] g by auto
  with run(1-3) show ?thesis by blast
qed

end
